(* ===== verification/Go_Prelude.thy ===== *)
theory Go_Prelude
  imports Main "HOL-Library.Sublist" "HOL-Library.Char_ord" "HOL-Library.List_Lexorder"
begin

text \<open>
  The shared layer of the development: Go's error values and the two ways the code threads
  them, the parts of the packages \<^verbatim>\<open>strings\<close>, \<^verbatim>\<open>strconv\<close> and \<^verbatim>\<open>fmt\<close> that stacker
  calls, Go maps as association lists, and the lemmas the components use about them.

  A Go \<^verbatim>\<open>string\<close> is a \<^typ>\<open>string\<close>, one \<^typ>\<open>char\<close> per byte. The functions that Go
  defines on Unicode (white space, case) are modelled on the ASCII range.
\<close>

named_theorems res_simps \<open>equations of the result monad and its loops\<close>
named_theorems str_simps \<open>equations of the string functions\<close>

section \<open>Errors and results\<close>

text \<open>
  \<open>Errorf fmt args\<close> is \<^verbatim>\<open>errors.Errorf\<close>, \<open>Wrapf e fmt args\<close> is \<^verbatim>\<open>errors.Wrapf\<close>, both with the
  format string of the source; \<open>Ext\<close> is an error value that code outside the repository
  returned; \<open>Panic\<close> is a run-time panic, which nothing in the repository recovers from;
  \<open>Unmodelled\<close> marks an input that a standard-library model does not cover.
\<close>

datatype go_error =
    Errorf string "string list"
  | Wrapf go_error string "string list"
  | Ext string
  | Panic string
  | Unmodelled string

type_synonym 'a res = "go_error + 'a"

fun rbind :: "'a res \<Rightarrow> ('a \<Rightarrow> 'b res) \<Rightarrow> 'b res" where
  "rbind (Inl e) f = Inl e"
| "rbind (Inr x) f = f x"

text \<open>\<open>for _, x := range xs { y, err := f(x); if err != nil { return err }; ys = append(ys, y) }\<close>\<close>

fun rmap :: "('a \<Rightarrow> 'b res) \<Rightarrow> 'a list \<Rightarrow> 'b list res" where
  "rmap f [] = Inr []"
| "rmap f (x # xs) = rbind (f x) (\<lambda>y. rbind (rmap f xs) (\<lambda>ys. Inr (y # ys)))"

text \<open>A loop that updates a state and leaves at the first error.\<close>

fun rfold :: "('s \<Rightarrow> 'a \<Rightarrow> 's res) \<Rightarrow> 's \<Rightarrow> 'a list \<Rightarrow> 's res" where
  "rfold f s [] = Inr s"
| "rfold f s (x # xs) = rbind (f s x) (\<lambda>s'. rfold f s' xs)"

text \<open>A loop that only checks.\<close>

definition rcheck :: "('a \<Rightarrow> unit res) \<Rightarrow> 'a list \<Rightarrow> unit res" where
  "rcheck f xs = rfold (\<lambda>_. f) () xs"

definition guard :: "bool \<Rightarrow> go_error \<Rightarrow> unit res" where
  "guard b e = (if b then Inl e else Inr ())"

fun is_ok :: "'a res \<Rightarrow> bool" where
  "is_ok (Inl _) = False"
| "is_ok (Inr _) = True"

lemma rbind_Inr_iff [res_simps]: "rbind m f = Inr y \<longleftrightarrow> (\<exists>x. m = Inr x \<and> f x = Inr y)"
  by (cases m) auto

lemma rbind_Inl_iff [res_simps]:
  "rbind m f = Inl e \<longleftrightarrow> m = Inl e \<or> (\<exists>x. m = Inr x \<and> f x = Inl e)"
  by (cases m) auto

lemma rbind_assoc: "rbind (rbind m f) g = rbind m (\<lambda>x. rbind (f x) g)"
  by (cases m) auto

lemma rbind_ret [simp]: "rbind m Inr = m"
  by (cases m) auto

lemma rbind_cong [fundef_cong]:
  "m = m' \<Longrightarrow> (\<And>x. m' = Inr x \<Longrightarrow> f x = f' x) \<Longrightarrow> rbind m f = rbind m' f'"
  by (cases m') auto

lemma rmap_cong [fundef_cong]:
  "xs = ys \<Longrightarrow> (\<And>x. x \<in> set ys \<Longrightarrow> f x = g x) \<Longrightarrow> rmap f xs = rmap g ys"
  by (induction xs arbitrary: ys) (auto intro!: rbind_cong)

lemma rfold_cong [fundef_cong]:
  "s = s' \<Longrightarrow> xs = ys \<Longrightarrow> (\<And>x t. x \<in> set ys \<Longrightarrow> f t x = g t x) \<Longrightarrow> rfold f s xs = rfold g s' ys"
proof (induction xs arbitrary: ys s s')
  case (Cons x xs)
  then show ?case by (auto intro!: rbind_cong)
qed simp

lemma is_ok_iff: "is_ok m \<longleftrightarrow> (\<exists>x. m = Inr x)"
  by (cases m) auto

lemma guard_Inr [res_simps]: "guard b e = Inr u \<longleftrightarrow> \<not> b"
  by (simp add: guard_def)

lemma guard_Inl [res_simps]: "guard b e = Inl e' \<longleftrightarrow> b \<and> e' = e"
  by (auto simp: guard_def)

lemma rmap_Inr_iff: "rmap f xs = Inr ys \<longleftrightarrow> list_all2 (\<lambda>x y. f x = Inr y) xs ys"
proof (induction xs arbitrary: ys)
  case (Cons x xs)
  then show ?case by (cases ys) (auto simp: res_simps)
qed auto

lemma rmap_length: "rmap f xs = Inr ys \<Longrightarrow> length ys = length xs"
  by (auto simp: rmap_Inr_iff dest: list_all2_lengthD)

lemma rmap_in_set: "rmap f xs = Inr ys \<Longrightarrow> y \<in> set ys \<Longrightarrow> \<exists>x \<in> set xs. f x = Inr y"
  by (fastforce simp: rmap_Inr_iff list_all2_conv_all_nth in_set_conv_nth)

lemma rmap_total: "(\<And>x. x \<in> set xs \<Longrightarrow> f x = Inr (g x)) \<Longrightarrow> rmap f xs = Inr (map g xs)"
  by (induction xs) auto

lemma rcheck_Nil [simp]: "rcheck f [] = Inr ()"
  by (simp add: rcheck_def)

lemma rcheck_Cons [simp]: "rcheck f (x # xs) = rbind (f x) (\<lambda>_. rcheck f xs)"
  by (simp add: rcheck_def)

lemma rcheck_Inr_iff [res_simps]: "rcheck f xs = Inr u \<longleftrightarrow> (\<forall>x \<in> set xs. f x = Inr ())"
  by (induction xs) (auto simp: rbind_Inr_iff)

lemma rfold_append: "rfold f s (xs @ ys) = rbind (rfold f s xs) (\<lambda>s'. rfold f s' ys)"
  by (induction xs arbitrary: s) (auto simp: rbind_assoc intro: rbind_cong)

text \<open>The Hoare-style rule for a loop: an invariant the body keeps holds at the end.\<close>

lemma rfold_invariant:
  assumes "rfold f s xs = Inr s'" and "I s"
    and "\<And>t x t'. I t \<Longrightarrow> x \<in> set xs \<Longrightarrow> f t x = Inr t' \<Longrightarrow> I t'"
  shows "I s'"
  using assms
proof (induction xs arbitrary: s)
  case (Cons x xs)
  from Cons.prems(1) obtain t where t: "f s x = Inr t" "rfold f t xs = Inr s'"
    by (auto simp: rbind_Inr_iff)
  have "I t" by (rule Cons.prems(3) [OF Cons.prems(2) _ t(1)]) simp
  then show ?case using Cons.IH t(2) Cons.prems(3) by (meson list.set_intros(2))
qed simp

section \<open>Go maps\<close>

text \<open>
  A Go map is an association list; the order of the list is the order in which a
  \<^verbatim>\<open>range\<close> loop happens to meet the keys. \<open>map_of\<close> is the lookup.
\<close>

fun map_put :: "'k \<Rightarrow> 'v \<Rightarrow> ('k \<times> 'v) list \<Rightarrow> ('k \<times> 'v) list" where
  "map_put k v [] = [(k, v)]"
| "map_put k v ((k', v') # m) = (if k' = k then (k, v) # m else (k', v') # map_put k v m)"

definition map_delete :: "'k \<Rightarrow> ('k \<times> 'v) list \<Rightarrow> ('k \<times> 'v) list" where
  "map_delete k m = filter (\<lambda>(k', _). k' \<noteq> k) m"

text \<open>\<^verbatim>\<open>reflect.DeepEqual\<close> on two maps: the same keys with the same values.\<close>

definition map_eq :: "('k \<times> 'v) list \<Rightarrow> ('k \<times> 'v) list \<Rightarrow> bool" where
  "map_eq m m' = (\<forall>k \<in> set (map fst m @ map fst m'). map_of m k = map_of m' k)"

lemma map_of_map_put [simp]: "map_of (map_put k v m) = (map_of m)(k \<mapsto> v)"
  by (induction k v m rule: map_put.induct) auto

lemma map_put_keys: "fst ` set (map_put k v m) = insert k (fst ` set m)"
  by (induction k v m rule: map_put.induct) auto

lemma map_put_distinct: "distinct (map fst m) \<Longrightarrow> distinct (map fst (map_put k v m))"
proof (induction k v m rule: map_put.induct)
  case (2 k v k' v' m)
  then show ?case using map_put_keys [of k v m] by auto
qed simp

lemma map_put_set: "set (map_put k v m) \<subseteq> insert (k, v) (set m)"
  by (induction k v m rule: map_put.induct) auto

lemma map_put_new: "k \<notin> fst ` set m \<Longrightarrow> map_put k v m = m @ [(k, v)]"
  by (induction k v m rule: map_put.induct) auto

lemma map_of_map_delete [simp]: "map_of (map_delete k m) = (map_of m)(k := None)"
  by (rule ext) (induction m, auto simp: map_delete_def)

lemma map_delete_set: "set (map_delete k m) \<subseteq> set m"
  by (auto simp: map_delete_def)

lemma map_eq_iff: "map_eq m m' \<longleftrightarrow> map_of m = map_of m'"
proof
  assume eq: "map_eq m m'"
  show "map_of m = map_of m'"
  proof
    fix k
    show "map_of m k = map_of m' k"
    proof (cases "k \<in> fst ` set m \<union> fst ` set m'")
      case True
      with eq show ?thesis by (auto simp: map_eq_def)
    next
      case False
      then have "map_of m k = None" "map_of m' k = None" by (simp_all add: map_of_eq_None_iff)
      then show ?thesis by simp
    qed
  qed
qed (simp add: map_eq_def)

section \<open>Strings\<close>

text \<open>\<open>str_cut sep s\<close> splits \<open>s\<close> around the first occurrence of \<open>sep\<close> (\<^verbatim>\<open>strings.Cut\<close>).\<close>

fun str_cut :: "string \<Rightarrow> string \<Rightarrow> (string \<times> string) option" where
  "str_cut sep [] = (if sep = [] then Some ([], []) else None)"
| "str_cut sep (c # cs) =
     (if prefix sep (c # cs) then Some ([], drop (length sep) (c # cs))
      else (case str_cut sep cs of None \<Rightarrow> None | Some (a, b) \<Rightarrow> Some (c # a, b)))"

text \<open>\<^verbatim>\<open>strings.SplitN(s, sep, n)\<close> for \<open>n \<ge> 0\<close> and a separator that is not empty.\<close>

fun strings_SplitN :: "string \<Rightarrow> string \<Rightarrow> nat \<Rightarrow> string list" where
  "strings_SplitN s sep 0 = []"
| "strings_SplitN s sep (Suc n) =
     (if n = 0 then [s]
      else (case str_cut sep s of None \<Rightarrow> [s] | Some (a, b) \<Rightarrow> a # strings_SplitN b sep n))"

text \<open>
  \<^verbatim>\<open>strings.Split\<close>: no bound on the pieces. A string of length \<open>n\<close> has at most \<open>n + 1\<close> pieces,
  so that bound is never reached.
\<close>

definition strings_Split :: "string \<Rightarrow> string \<Rightarrow> string list" where
  "strings_Split s sep = strings_SplitN s sep (Suc (length s))"

definition strings_Contains :: "string \<Rightarrow> string \<Rightarrow> bool" where
  "strings_Contains s sub = (str_cut sub s \<noteq> None)"

definition strings_HasPrefix :: "string \<Rightarrow> string \<Rightarrow> bool" where
  "strings_HasPrefix s p = prefix p s"

definition strings_HasSuffix :: "string \<Rightarrow> string \<Rightarrow> bool" where
  "strings_HasSuffix s p = suffix p s"

definition strings_TrimPrefix :: "string \<Rightarrow> string \<Rightarrow> string" where
  "strings_TrimPrefix s p = (if prefix p s then drop (length p) s else s)"

fun strings_Join :: "string list \<Rightarrow> string \<Rightarrow> string" where
  "strings_Join [] sep = []"
| "strings_Join [x] sep = x"
| "strings_Join (x # y # ys) sep = x @ sep @ strings_Join (y # ys) sep"

text \<open>Replacing every (non-overlapping) occurrence is joining the pieces between them.\<close>

definition strings_ReplaceAll :: "string \<Rightarrow> string \<Rightarrow> string \<Rightarrow> string" where
  "strings_ReplaceAll s old new = strings_Join (strings_Split s old) new"

definition strings_TrimRight :: "string \<Rightarrow> string \<Rightarrow> string" where
  "strings_TrimRight s cutset = rev (dropWhile (\<lambda>c. c \<in> set cutset) (rev s))"

definition is_space :: "char \<Rightarrow> bool" where
  "is_space c = (c \<in> {CHR 0x09, CHR 0x0A, CHR 0x0B, CHR 0x0C, CHR 0x0D, CHR '' ''})"

definition strings_TrimSpace :: "string \<Rightarrow> string" where
  "strings_TrimSpace s = rev (dropWhile is_space (rev (dropWhile is_space s)))"

fun fields_acc :: "string \<Rightarrow> string \<Rightarrow> string list" where
  "fields_acc w [] = (if w = [] then [] else [w])"
| "fields_acc w (c # cs) =
     (if is_space c then (if w = [] then fields_acc [] cs else w # fields_acc [] cs)
      else fields_acc (w @ [c]) cs)"

definition strings_Fields :: "string \<Rightarrow> string list" where
  "strings_Fields s = fields_acc [] s"

definition char_lower :: "char \<Rightarrow> char" where
  "char_lower c = (if CHR ''A'' \<le> c \<and> c \<le> CHR ''Z'' then char_of (of_char c + 32 :: nat) else c)"

definition strings_ToLower :: "string \<Rightarrow> string" where
  "strings_ToLower s = map char_lower s"

definition strings_EqualFold :: "string \<Rightarrow> string \<Rightarrow> bool" where
  "strings_EqualFold a b = (strings_ToLower a = strings_ToLower b)"

lemma cut_Some_append: "str_cut sep s = Some (a, b) \<Longrightarrow> s = a @ sep @ b"
  by (induction sep s arbitrary: a b rule: str_cut.induct)
     (auto split: if_splits option.splits simp: prefix_def)

lemma cut_None_iff: "str_cut sep s = None \<longleftrightarrow> \<not> sublist sep s"
  by (induction sep s rule: str_cut.induct)
     (auto split: option.splits simp: sublist_Cons_right)

lemma cut_first: "str_cut sep s = Some (a, b) \<Longrightarrow> length a \<le> k \<or> \<not> prefix sep (drop k s)"
proof (induction sep s arbitrary: a b k rule: str_cut.induct)
  case (2 sep c cs)
  show ?case
  proof (cases "prefix sep (c # cs)")
    case True
    with 2 show ?thesis by auto
  next
    case False
    with 2 obtain a' where "str_cut sep cs = Some (a', b)" "a = c # a'"
      by (auto split: option.splits)
    with 2 False show ?thesis by (cases k) auto
  qed
qed (auto split: if_splits)

text \<open>Cutting at one character: the part before it is the longest prefix without it.\<close>

lemma cut_char: "str_cut [c] s = (if c \<in> set s then Some (takeWhile (\<lambda>x. x \<noteq> c) s, tl (dropWhile (\<lambda>x. x \<noteq> c) s)) else None)"
  by (induction s) auto

lemma dropWhile_until: "c \<in> set s \<Longrightarrow> c # tl (dropWhile (\<lambda>x. x \<noteq> c) s) = dropWhile (\<lambda>x. x \<noteq> c) s"
  by (induction s) auto

lemma cut_at:
  assumes "c \<notin> set a"
  shows "str_cut [c] (a @ c # b) = Some (a, b)"
  using assms by (induction a) auto

lemma cut_notin [simp]: "c \<notin> set s \<Longrightarrow> str_cut [c] s = None"
  by (simp add: cut_char)

lemma strings_Contains_iff: "strings_Contains s sub \<longleftrightarrow> (\<exists>a b. s = a @ sub @ b)"
  by (auto simp: strings_Contains_def cut_None_iff sublist_def)

lemma strings_Contains_char [simp]: "strings_Contains s [c] \<longleftrightarrow> c \<in> set s"
  by (simp add: strings_Contains_def cut_char)

lemma cut_length: "str_cut sep s = Some (a, b) \<Longrightarrow> length s = length a + length sep + length b"
  by (drule cut_Some_append) simp

lemma SplitN_nonempty: "0 < n \<Longrightarrow> strings_SplitN s sep n \<noteq> []"
  by (cases n) (auto split: option.splits)

lemma SplitN_length_le: "length (strings_SplitN s sep n) \<le> n"
proof (induction n arbitrary: s)
  case (Suc n)
  then show ?case by (auto split: option.splits)
qed simp

text \<open>Any bound above the length of the string gives the same pieces.\<close>

lemma SplitN_enough:
  "sep \<noteq> [] \<Longrightarrow> length s < n \<Longrightarrow> length s < m \<Longrightarrow> strings_SplitN s sep n = strings_SplitN s sep m"
proof (induction n arbitrary: s m)
  case (Suc n)
  obtain m' where m: "m = Suc m'" using Suc.prems by (cases m) auto
  show ?case
  proof (cases "str_cut sep s")
    case (Some ab)
    obtain a b where ab: "ab = (a, b)" by force
    with Some have len: "length b < length s" using Suc.prems(1) cut_length [of sep s a b] by (cases sep) auto
    then have "strings_SplitN b sep n = strings_SplitN b sep m'"
      using Suc.IH [of b m'] Suc.prems m by auto
    then show ?thesis using Some ab m Suc.prems len by auto
  qed (use m in auto)
qed simp

lemma strings_Split_unfold:
  "sep \<noteq> [] \<Longrightarrow> strings_Split s sep =
     (case str_cut sep s of None \<Rightarrow> [s] | Some (a, b) \<Rightarrow> a # strings_Split b sep)"
proof (cases "str_cut sep s")
  case None
  then show ?thesis by (auto simp: strings_Split_def)
next
  case (Some ab)
  assume sep: "sep \<noteq> []"
  obtain a b where ab: "ab = (a, b)" by force
  with Some have len: "length b < length s" using sep cut_length [of sep s a b] by (cases sep) auto
  then have "strings_SplitN b sep (length s) = strings_Split b sep"
    unfolding strings_Split_def using sep by (intro SplitN_enough) auto
  then show ?thesis using Some ab len by (auto simp: strings_Split_def)
qed

lemma strings_Split_nonempty [simp]: "strings_Split s sep \<noteq> []"
  by (simp add: strings_Split_def SplitN_nonempty del: strings_SplitN.simps)

lemma strings_Split_char_notin:
  "x \<in> set (strings_Split s [c]) \<Longrightarrow> c \<notin> set x"
proof (induction "length s" arbitrary: s rule: less_induct)
  case less
  show ?case
  proof (cases "c \<in> set s")
    case True
    then obtain a b where ab: "str_cut [c] s = Some (a, b)" by (simp add: cut_char)
    then have s: "s = a @ [c] @ b" by (rule cut_Some_append)
    have "a = takeWhile (\<lambda>x. x \<noteq> c) s" using ab True by (simp add: cut_char)
    then have ca: "c \<notin> set a" by (auto dest: set_takeWhileD)
    from less.prems ab have "x = a \<or> x \<in> set (strings_Split b [c])"
      by (subst (asm) strings_Split_unfold) auto
    then show ?thesis using less.hyps [of b] s ca by auto
  next
    case False
    with less.prems show ?thesis by (subst (asm) strings_Split_unfold) auto
  qed
qed

lemma strings_Split_Join:
  "sep \<noteq> [] \<Longrightarrow> strings_Join (strings_Split s sep) sep = s"
proof (induction "length s" arbitrary: s rule: less_induct)
  case less
  show ?case
  proof (cases "str_cut sep s")
    case None
    with less.prems show ?thesis by (subst strings_Split_unfold) auto
  next
    case (Some ab)
    obtain a b where ab: "ab = (a, b)" by force
    with Some have s: "s = a @ sep @ b" by (auto dest: cut_Some_append)
    with less.prems have "strings_Join (strings_Split b sep) sep = b"
      by (intro less.hyps) auto
    moreover obtain y ys where "strings_Split b sep = y # ys"
      using strings_Split_nonempty [of b sep] by (cases "strings_Split b sep") auto
    ultimately show ?thesis using Some ab s less.prems by (subst strings_Split_unfold) auto
  qed
qed

lemma strings_Join_append:
  "xs \<noteq> [] \<Longrightarrow> ys \<noteq> [] \<Longrightarrow> strings_Join (xs @ ys) sep = strings_Join xs sep @ sep @ strings_Join ys sep"
proof (induction xs)
  case (Cons x xs)
  then show ?case by (cases xs; cases ys) auto
qed simp

lemma strings_Join_snoc:
  "xs \<noteq> [] \<Longrightarrow> strings_Join (xs @ [y]) sep = strings_Join xs sep @ sep @ y"
  by (simp add: strings_Join_append)

lemma set_strings_Join:
  "set (strings_Join xs sep) \<subseteq> (\<Union>x \<in> set xs. set x) \<union> set sep"
  by (induction xs sep rule: strings_Join.induct) auto

lemma set_in_Join: "x \<in> set xs \<Longrightarrow> set x \<subseteq> set (strings_Join xs sep)"
  by (induction xs sep rule: strings_Join.induct) auto

text \<open>A list of pieces without the separator character is recovered by splitting the join.\<close>

lemma strings_Join_Split:
  "xs \<noteq> [] \<Longrightarrow> (\<And>x. x \<in> set xs \<Longrightarrow> c \<notin> set x) \<Longrightarrow> strings_Split (strings_Join xs [c]) [c] = xs"
proof (induction xs "[c]" rule: strings_Join.induct)
  case (2 x)
  then show ?case by (subst strings_Split_unfold) auto
next
  case (3 x y ys)
  then have "str_cut [c] (x @ c # strings_Join (y # ys) [c]) = Some (x, strings_Join (y # ys) [c])"
    by (intro cut_at) simp
  with 3 show ?case by (subst strings_Split_unfold) auto
qed simp

lemma strings_Split_notin: "c \<notin> set s \<Longrightarrow> strings_Split s [c] = [s]"
  by (subst strings_Split_unfold) auto

lemma strings_ReplaceAll_char_notin:
  "c \<notin> set new \<Longrightarrow> c \<notin> set (strings_ReplaceAll s [c] new)"
proof -
  assume "c \<notin> set new"
  moreover have "c \<notin> (\<Union>x \<in> set (strings_Split s [c]). set x)"
    using strings_Split_char_notin by blast
  ultimately show ?thesis
    using set_strings_Join [of "strings_Split s [c]" new] by (auto simp: strings_ReplaceAll_def)
qed

lemma strings_ReplaceAll_absent: "str_cut old s = None \<Longrightarrow> old \<noteq> [] \<Longrightarrow> strings_ReplaceAll s old new = s"
  by (simp add: strings_ReplaceAll_def strings_Split_unfold)

lemma TrimRight_no_suffix: "strings_TrimRight s cutset = [] \<or> last (strings_TrimRight s cutset) \<notin> set cutset"
proof -
  have "dropWhile (\<lambda>c. c \<in> set cutset) (rev s) = [] \<or>
      hd (dropWhile (\<lambda>c. c \<in> set cutset) (rev s)) \<notin> set cutset"
    using hd_dropWhile [of "\<lambda>c. c \<in> set cutset" "rev s"] by blast
  then show ?thesis by (auto simp: strings_TrimRight_def last_rev)
qed

lemma TrimPrefix_append [simp]: "strings_TrimPrefix (p @ s) p = s"
  by (simp add: strings_TrimPrefix_def)

section \<open>Numbers as text\<close>

definition digit_char :: "nat \<Rightarrow> char" where
  "digit_char d = (''0123456789abcdef'' ! d)"

text \<open>The digits of a number in base \<open>b\<close> (8, 10 and 16 occur), most significant first.\<close>

fun digits :: "nat \<Rightarrow> nat \<Rightarrow> string" where
  "digits b n = (if b < 2 \<or> n < b then [digit_char n] else digits b (n div b) @ [digit_char (n mod b)])"

declare digits.simps [simp del]

definition fmt_d :: "int \<Rightarrow> string" where
  "fmt_d i = (if i < 0 then CHR ''-'' # digits 10 (nat (- i)) else digits 10 (nat i))"

definition fmt_x :: "int \<Rightarrow> string" where
  "fmt_x i = (if i < 0 then CHR ''-'' # digits 16 (nat (- i)) else digits 16 (nat i))"

definition digit_val :: "char \<Rightarrow> nat option" where
  "digit_val c = (if CHR ''0'' \<le> c \<and> c \<le> CHR ''9'' then Some (of_char c - 48) else None)"

text \<open>Reading decimal digits: every character a digit, at least one.\<close>

fun parse_digits :: "nat \<Rightarrow> string \<Rightarrow> nat option" where
  "parse_digits acc [] = Some acc"
| "parse_digits acc (c # cs) =
     (case digit_val c of None \<Rightarrow> None | Some d \<Rightarrow> parse_digits (10 * acc + d) cs)"

text \<open>
  \<^verbatim>\<open>strconv.ParseInt(s, 10, bits)\<close>: an optional sign, then digits; out of range is an error.
  \<^verbatim>\<open>strconv.Atoi\<close> is the 64-bit case.
\<close>

definition strconv_ParseInt :: "string \<Rightarrow> nat \<Rightarrow> int res" where
  "strconv_ParseInt s bits =
     (let neg = (case s of c # _ \<Rightarrow> c = CHR ''-'' | [] \<Rightarrow> False);
          body = (case s of c # cs \<Rightarrow> (if c = CHR ''-'' \<or> c = CHR ''+'' then cs else s) | [] \<Rightarrow> [])
      in if body = [] then Inl (Ext ''invalid syntax'')
         else (case parse_digits 0 body of
            None \<Rightarrow> Inl (Ext ''invalid syntax'')
          | Some n \<Rightarrow>
             (let i = (if neg then - int n else int n)
              in if - (2 ^ (bits - 1)) \<le> i \<and> i < 2 ^ (bits - 1) then Inr i
                 else Inl (Ext ''value out of range''))))"

definition strconv_Atoi :: "string \<Rightarrow> int res" where
  "strconv_Atoi s = strconv_ParseInt s 64"

definition strconv_ParseUint64 :: "string \<Rightarrow> nat res" where
  "strconv_ParseUint64 s =
     (if s = [] then Inl (Ext ''invalid syntax'')
      else (case parse_digits 0 s of
         None \<Rightarrow> Inl (Ext ''invalid syntax'')
       | Some n \<Rightarrow> if n < 2 ^ 64 then Inr n else Inl (Ext ''value out of range'')))"

text \<open>
  \<^verbatim>\<open>strconv.ParseInt(s, b, bits)\<close> for a base from 2 to 16, and for base 0, which reads the base
  off the prefix. An underscore, which base 0 allows between digits, is not covered.
\<close>

definition digit_in :: "nat \<Rightarrow> char \<Rightarrow> nat option" where
  "digit_in b c = List.find (\<lambda>d. digit_char d = char_lower c) [0..<b]"

fun parse_base :: "nat \<Rightarrow> nat \<Rightarrow> string \<Rightarrow> nat option" where
  "parse_base b acc [] = Some acc"
| "parse_base b acc (c # cs) = (case digit_in b c of None \<Rightarrow> None | Some d \<Rightarrow> parse_base b (acc * b + d) cs)"

definition base_of :: "string \<Rightarrow> nat \<times> string" where
  "base_of s =
     (let p = strings_ToLower (take 2 s) in
      if p = ''0x'' then (16, drop 2 s)
      else if p = ''0b'' then (2, drop 2 s)
      else if p = ''0o'' then (8, drop 2 s)
      else if take 1 s = ''0'' \<and> 1 < length s then (8, drop 1 s)
      else (10, s))"

definition strconv_ParseInt_base :: "string \<Rightarrow> nat \<Rightarrow> nat \<Rightarrow> int res" where
  "strconv_ParseInt_base s base bits =
     (let neg = (take 1 s = ''-'');
          unsigned = (if take 1 s = ''-'' \<or> take 1 s = ''+'' then drop 1 s else s);
          (b, body) = (if base = 0 then base_of unsigned else (base, unsigned))
      in if base = 0 \<and> CHR ''_'' \<in> set s then Inl (Unmodelled ''underscore'')
         else if body = [] then Inl (Ext ''invalid syntax'')
         else (case parse_base b 0 body of
            None \<Rightarrow> Inl (Ext ''invalid syntax'')
          | Some n \<Rightarrow>
             (let i = (if neg then - int n else int n)
              in if - (2 ^ (bits - 1)) \<le> i \<and> i < 2 ^ (bits - 1) then Inr i
                 else Inl (Ext ''value out of range''))))"

definition strconv_ParseUint_base :: "string \<Rightarrow> nat \<Rightarrow> nat \<Rightarrow> nat res" where
  "strconv_ParseUint_base s base bits =
     (if s = [] then Inl (Ext ''invalid syntax'')
      else (case parse_base base 0 s of
         None \<Rightarrow> Inl (Ext ''invalid syntax'')
       | Some n \<Rightarrow> if n < 2 ^ bits then Inr n else Inl (Ext ''value out of range'')))"

definition strconv_ParseBool :: "string \<Rightarrow> bool res" where
  "strconv_ParseBool s =
     (if s \<in> {''1'', ''t'', ''T'', ''TRUE'', ''true'', ''True''} then Inr True
      else if s \<in> {''0'', ''f'', ''F'', ''FALSE'', ''false'', ''False''} then Inr False
      else Inl (Ext ''invalid syntax''))"

definition fmt_bool :: "bool \<Rightarrow> string" where
  "fmt_bool b = (if b then ''true'' else ''false'')"

lemma digit_val_char: "d < 10 \<Longrightarrow> digit_val (digit_char d) = Some d"
proof -
  assume "d < 10"
  then have "d \<in> set [0..<10]" by simp
  moreover have "\<forall>d \<in> set [0..<10]. digit_val (digit_char d) = Some d"
    by code_simp
  ultimately show ?thesis by blast
qed

lemma digit_char_inj: "d < 16 \<Longrightarrow> e < 16 \<Longrightarrow> digit_char d = digit_char e \<longleftrightarrow> d = e"
proof -
  assume "d < 16" "e < 16"
  moreover have "\<forall>d \<in> set [0..<16]. \<forall>e \<in> set [0..<16]. digit_char d = digit_char e \<longrightarrow> d = e"
    by code_simp
  ultimately show ?thesis by auto
qed

lemma digits_nonempty [simp]: "digits b n \<noteq> []" "[] \<noteq> digits b n"
  by (subst digits.simps, simp)+

lemma parse_digits_append:
  "parse_digits acc (xs @ ys) = (case parse_digits acc xs of None \<Rightarrow> None | Some a \<Rightarrow> parse_digits a ys)"
  by (induction xs arbitrary: acc) (auto split: option.splits)

lemma parse_digits_digits: "parse_digits 0 (digits 10 n) = Some n"
proof (induction n rule: less_induct)
  case (less n)
  show ?case
  proof (cases "n < 10")
    case True
    then show ?thesis by (subst digits.simps) (simp add: digit_val_char)
  next
    case False
    then have "parse_digits 0 (digits 10 (n div 10)) = Some (n div 10)" by (intro less) auto
    with False show ?thesis
      by (subst digits.simps) (simp add: parse_digits_append digit_val_char)
  qed
qed

lemma digits_chars: "2 \<le> b \<Longrightarrow> b \<le> 16 \<Longrightarrow> set (digits b n) \<subseteq> digit_char ` {..<16}"
proof (induction b n rule: digits.induct)
  case (1 b n)
  then have "n mod b < 16" using mod_less_divisor [of b n] by linarith
  with 1 show ?case by (subst digits.simps) auto
qed

lemma digits_inj: "2 \<le> b \<Longrightarrow> b \<le> 16 \<Longrightarrow> digits b n = digits b m \<Longrightarrow> n = m"
proof (induction n arbitrary: m rule: less_induct)
  case (less n)
  show ?case
  proof (cases "n < b \<or> m < b")
    case True
    then show ?thesis
      using less.prems digits.simps [of b n] digits.simps [of b m]
      by (auto simp: digit_char_inj split: if_splits)
  next
    case False
    then have eq: "digits b (n div b) = digits b (m div b)" "digit_char (n mod b) = digit_char (m mod b)"
      using less.prems digits.simps [of b n] digits.simps [of b m] by auto
    have "n div b = m div b" using False less.prems eq by (intro less.IH) auto
    moreover have "n mod b = m mod b"
      using eq(2) less.prems digit_char_inj [of "n mod b" "m mod b"]
      by (metis (no_types, lifting) less_le_trans mod_less_divisor not_numeral_le_zero not_gr_zero)
    ultimately show ?thesis by (metis div_mult_mod_eq)
  qed
qed

end
