(* ===== verification/Go_Regexp.thy ===== *)
theory Go_Regexp
  imports Go_Prelude
begin

text \<open>
  The part of Go's \<^verbatim>\<open>regexp\<close> package that stacker uses: compiling a pattern, leftmost-first
  matching with captures, \<^verbatim>\<open>FindAllStringIndex\<close> and \<^verbatim>\<open>ReplaceAllString\<close> with its template
  expansion. Patterns may use literals, \<open>.\<close>, \<open>^\<close>, \<open>$\<close>, classes, groups, \<open>|\<close>, \<open>*\<close>, \<open>+\<close>, \<open>?\<close> and
  the usual escapes; a pattern outside that syntax compiles to the \<^const>\<open>Unmodelled\<close> error.
\<close>

section \<open>Syntax and matching\<close>

datatype regex =
    Eps
  | Lit char
  | Cls bool "(char \<times> char) list"
  | Seq regex regex
  | Alt regex regex
  | Star regex
  | Plus regex
  | Opt regex
  | Grp nat regex
  | Bol
  | Eol
  | WordB

text \<open>A match in progress: the position reached and the captures so far, the latest first.\<close>

type_synonym mstate = "nat \<times> (nat \<times> nat \<times> nat) list"

definition is_word :: "char \<Rightarrow> bool" where
  "is_word c = (c = CHR ''_'' \<or>
     list_ex (\<lambda>(lo, hi). lo \<le> c \<and> c \<le> hi) [(CHR ''0'', CHR ''9''), (CHR ''A'', CHR ''Z''), (CHR ''a'', CHR ''z'')])"

definition in_class :: "bool \<Rightarrow> (char \<times> char) list \<Rightarrow> char \<Rightarrow> bool" where
  "in_class neg rs c = (neg \<noteq> (\<exists>r \<in> set rs. fst r \<le> c \<and> c \<le> snd r))"

text \<open>Greedy iteration; an iteration must move forward.\<close>

primrec iter :: "nat \<Rightarrow> (mstate \<Rightarrow> mstate list) \<Rightarrow> mstate \<Rightarrow> mstate list" where
  "iter 0 f st = [st]"
| "iter (Suc n) f st = concat (map (\<lambda>t. if fst t > fst st then iter n f t else []) (f st)) @ [st]"

definition word_boundary :: "string \<Rightarrow> nat \<Rightarrow> bool" where
  "word_boundary s i =
     ((0 < i \<and> is_word (s ! (i - 1))) \<noteq> (i < length s \<and> is_word (s ! i)))"

text \<open>All ways to match from a state, the preferred one first.\<close>

fun rmatch :: "regex \<Rightarrow> string \<Rightarrow> mstate \<Rightarrow> mstate list" where
  "rmatch Eps s st = [st]"
| "rmatch (Lit c) s (i, cs) = (if i < length s \<and> s ! i = c then [(Suc i, cs)] else [])"
| "rmatch (Cls neg rs) s (i, cs) = (if i < length s \<and> in_class neg rs (s ! i) then [(Suc i, cs)] else [])"
| "rmatch (Seq r1 r2) s st = concat (map (rmatch r2 s) (rmatch r1 s st))"
| "rmatch (Alt r1 r2) s st = rmatch r1 s st @ rmatch r2 s st"
| "rmatch (Star r) s st = iter (Suc (length s - fst st)) (rmatch r s) st"
| "rmatch (Plus r) s st =
     concat (map (\<lambda>t. iter (Suc (length s - fst t)) (rmatch r s) t) (rmatch r s st))"
| "rmatch (Opt r) s st = rmatch r s st @ [st]"
| "rmatch (Grp n r) s (i, cs) = map (\<lambda>(j, cs'). (j, (n, i, j) # cs')) (rmatch r s (i, cs))"
| "rmatch Bol s (i, cs) = (if i = 0 then [(i, cs)] else [])"
| "rmatch Eol s (i, cs) = (if i = length s then [(i, cs)] else [])"
| "rmatch WordB s (i, cs) = (if word_boundary s i then [(i, cs)] else [])"

text \<open>The leftmost match that starts at \<open>i\<close> or later: start, end, captures.\<close>

definition re_find :: "regex \<Rightarrow> string \<Rightarrow> nat \<Rightarrow> (nat \<times> nat \<times> (nat \<times> nat \<times> nat) list) option" where
  "re_find r s i =
     (case List.find (\<lambda>j. rmatch r s (j, []) \<noteq> []) [i..<Suc (length s)] of
        None \<Rightarrow> None
      | Some j \<Rightarrow> (case hd (rmatch r s (j, [])) of (e, cs) \<Rightarrow> Some (j, e, cs)))"

text \<open>
  \<^verbatim>\<open>FindAllStringIndex(s, -1)\<close>: the search position moves forward in every round, so
  \<open>length s + 2\<close> rounds are enough.
\<close>

fun find_all_from :: "nat \<Rightarrow> regex \<Rightarrow> string \<Rightarrow> nat \<Rightarrow> int \<Rightarrow> (nat \<times> nat) list" where
  "find_all_from 0 r s pos prev = []"
| "find_all_from (Suc n) r s pos prev =
     (if pos > length s then []
      else (case re_find r s pos of
         None \<Rightarrow> []
       | Some (a, e, _) \<Rightarrow>
          (let accept = (e \<noteq> pos \<or> int a \<noteq> prev);
               pos' = (if e = pos then Suc pos else e)
           in (if accept then [(a, e)] else []) @ find_all_from n r s pos' (int e))))"

definition re_FindAllStringIndex :: "regex \<Rightarrow> string \<Rightarrow> (nat \<times> nat) list" where
  "re_FindAllStringIndex r s = find_all_from (length s + 2) r s 0 (-1)"

definition re_FindAllString :: "regex \<Rightarrow> string \<Rightarrow> string list" where
  "re_FindAllString r s = map (\<lambda>(a, e). take (e - a) (drop a s)) (re_FindAllStringIndex r s)"

definition re_MatchString :: "regex \<Rightarrow> string \<Rightarrow> bool" where
  "re_MatchString r s = (re_find r s 0 \<noteq> None)"

section \<open>Replacement templates\<close>

text \<open>
  \<^verbatim>\<open>extract\<close> reads \<open>name\<close> or \<open>{name}\<close> at the start of what follows a dollar sign: the name, and
  the rest of the template; \<^const>\<open>None\<close> when there is no well-formed name.
\<close>

definition tmpl_extract :: "string \<Rightarrow> (string \<times> string) option" where
  "tmpl_extract t =
     (let brace = strings_HasPrefix t ''{'';
          body = (if brace then tl t else t);
          name = takeWhile is_word body;
          rest = dropWhile is_word body
      in if name = [] then None
         else if brace then (if strings_HasPrefix rest ''}'' then Some (name, tl rest) else None)
         else Some (name, rest))"

text \<open>A name of digits is a capture number (no leading zero); other names capture nothing here.\<close>

definition tmpl_value :: "string \<Rightarrow> nat \<Rightarrow> nat \<Rightarrow> (nat \<times> nat \<times> nat) list \<Rightarrow> string \<Rightarrow> string" where
  "tmpl_value s a e caps name =
     (case parse_digits 0 name of
        None \<Rightarrow> []
      | Some n \<Rightarrow>
          if length name > 1 \<and> hd name = CHR ''0'' then []
          else if n = 0 then take (e - a) (drop a s)
          else (case map_of caps n of None \<Rightarrow> [] | Some (i, j) \<Rightarrow> take (j - i) (drop i s)))"

text \<open>\<^verbatim>\<open>expand\<close>; every round consumes the dollar sign, so the template's length bounds the rounds.\<close>

fun tmpl_expand :: "nat \<Rightarrow> string \<Rightarrow> nat \<Rightarrow> nat \<Rightarrow> (nat \<times> nat \<times> nat) list \<Rightarrow> string \<Rightarrow> string" where
  "tmpl_expand 0 s a e caps t = t"
| "tmpl_expand (Suc n) s a e caps t =
     (case str_cut ''$'' t of
        None \<Rightarrow> t
      | Some (before, after) \<Rightarrow>
          before @
          (if strings_HasPrefix after ''$'' then CHR ''$'' # tmpl_expand n s a e caps (tl after)
           else (case tmpl_extract after of
               None \<Rightarrow> CHR ''$'' # tmpl_expand n s a e caps after
             | Some (name, rest) \<Rightarrow> tmpl_value s a e caps name @ tmpl_expand n s a e caps rest)))"

text \<open>
  \<^verbatim>\<open>replaceAll\<close>: the text between matches, and the expanded template for each match that is
  not an empty match right after the previous one.
\<close>

fun replace_from :: "nat \<Rightarrow> regex \<Rightarrow> string \<Rightarrow> string \<Rightarrow> nat \<Rightarrow> nat \<Rightarrow> string" where
  "replace_from 0 r s repl lastEnd pos = drop lastEnd s"
| "replace_from (Suc n) r s repl lastEnd pos =
     (if pos > length s then drop lastEnd s
      else (case re_find r s pos of
         None \<Rightarrow> drop lastEnd s
       | Some (a, e, caps) \<Rightarrow>
          take (a - lastEnd) (drop lastEnd s) @
          (if e > lastEnd \<or> a = 0 then tmpl_expand (Suc (length repl)) s a e caps repl else []) @
          replace_from n r s repl e (if e > pos then e else Suc pos)))"

definition re_ReplaceAllString :: "regex \<Rightarrow> string \<Rightarrow> string \<Rightarrow> string" where
  "re_ReplaceAllString r s repl = replace_from (length s + 2) r s repl 0 0"

section \<open>Compiling patterns\<close>

definition class_char :: "char \<Rightarrow> regex option" where
  "class_char c =
     (if c = CHR ''d'' then Some (Cls False [(CHR ''0'', CHR ''9'')])
      else if c = CHR ''D'' then Some (Cls True [(CHR ''0'', CHR ''9'')])
      else if c = CHR ''w'' then Some (Cls False [(CHR ''0'', CHR ''9''), (CHR ''A'', CHR ''Z''), (CHR ''_'', CHR ''_''), (CHR ''a'', CHR ''z'')])
      else if c = CHR ''W'' then Some (Cls True [(CHR ''0'', CHR ''9''), (CHR ''A'', CHR ''Z''), (CHR ''_'', CHR ''_''), (CHR ''a'', CHR ''z'')])
      else if c = CHR ''s'' then Some (Cls False [(CHR 0x09, CHR 0x0A), (CHR 0x0C, CHR 0x0D), (CHR '' '', CHR '' '')])
      else if c = CHR ''S'' then Some (Cls True [(CHR 0x09, CHR 0x0A), (CHR 0x0C, CHR 0x0D), (CHR '' '', CHR '' '')])
      else if c = CHR ''b'' then Some WordB
      else if is_word c \<and> c \<noteq> CHR ''_'' then None
      else Some (Lit c))"

fun class_items :: "string \<Rightarrow> (char \<times> char) list option" where
  "class_items [] = Some []"
| "class_items (a # cs) =
     (if a = CHR 0x5C then
        (case cs of
           [] \<Rightarrow> None
         | c # cs' \<Rightarrow> if is_word c then None else map_option (Cons (c, c)) (class_items cs'))
      else if a = CHR ''['' then None
      else (case cs of
          d # b # cs' \<Rightarrow>
            if d = CHR ''-'' then (if a \<le> b \<and> b \<noteq> CHR 0x5C then map_option (Cons (a, b)) (class_items cs') else None)
            else map_option (Cons (a, a)) (class_items cs)
        | _ \<Rightarrow> map_option (Cons (a, a)) (class_items cs)))"

definition is_rep :: "regex \<Rightarrow> bool" where
  "is_rep r = (case r of Star _ \<Rightarrow> True | Plus _ \<Rightarrow> True | Opt _ \<Rightarrow> True | _ \<Rightarrow> False)"

definition seq_of :: "regex list \<Rightarrow> regex" where
  "seq_of rs = foldr Seq rs Eps"

fun alt_of :: "regex list \<Rightarrow> regex" where
  "alt_of [] = Eps"
| "alt_of [r] = r"
| "alt_of (r # rs) = Alt r (alt_of rs)"

lemma tl_dropWhile_le: "length (dropWhile P xs) - Suc 0 \<le> length xs" "length (dropWhile P (tl xs)) - Suc 0 \<le> length xs"
proof -
  have "length (dropWhile P ys) \<le> length ys" for ys by (rule length_dropWhile_le)
  from this [of xs] this [of "tl xs"] show "length (dropWhile P xs) - Suc 0 \<le> length xs"
    "length (dropWhile P (tl xs)) - Suc 0 \<le> length xs" by auto
qed

text \<open>
  One pass over the pattern with a stack of open groups. A frame holds the alternatives and
  the sequence (last item first) around an open group, and the group's number.
\<close>

type_synonym re_frame = "regex list \<times> regex list \<times> nat"

function re_parse :: "re_frame list \<Rightarrow> regex list \<Rightarrow> regex list \<Rightarrow> nat \<Rightarrow> string \<Rightarrow> regex res" where
  "re_parse fs alts sq g [] =
     (if fs = [] then Inr (alt_of (alts @ [seq_of (rev sq)])) else Inl (Ext ''missing closing )''))"
| "re_parse fs alts sq g (c # cs) =
     (if c = CHR 0x5C then
        (case cs of
           [] \<Rightarrow> Inl (Ext ''trailing backslash'')
         | d # cs' \<Rightarrow> (case class_char d of
               None \<Rightarrow> Inl (Unmodelled ''escape'')
             | Some r \<Rightarrow> re_parse fs alts (r # sq) g cs'))
      else if c = CHR ''('' then
        (if strings_HasPrefix cs ''?'' then Inl (Unmodelled ''group flags'')
         else re_parse ((alts, sq, Suc g) # fs) [] [] (Suc g) cs)
      else if c = CHR '')'' then
        (case fs of
           [] \<Rightarrow> Inl (Ext ''unexpected )'')
         | (alts', sq', n) # fs' \<Rightarrow>
             re_parse fs' alts' (Grp n (alt_of (alts @ [seq_of (rev sq)])) # sq') g cs)
      else if c = CHR ''|'' then re_parse fs (alts @ [seq_of (rev sq)]) [] g cs
      else if c = CHR ''*'' \<or> c = CHR ''+'' \<or> c = CHR ''?'' then
        (case sq of
           [] \<Rightarrow> Inl (Ext ''missing argument to repetition operator'')
         | r # sq' \<Rightarrow>
             if is_rep r then Inl (Unmodelled ''repeated operator'')
             else re_parse fs alts ((if c = CHR ''*'' then Star r else if c = CHR ''+'' then Plus r else Opt r) # sq') g cs)
      else if c = CHR ''.'' then re_parse fs alts (Cls True [(CHR 0x0A, CHR 0x0A)] # sq) g cs
      else if c = CHR ''^'' then re_parse fs alts (Bol # sq) g cs
      else if c = CHR ''$'' then re_parse fs alts (Eol # sq) g cs
      else if c = CHR ''{'' then Inl (Unmodelled ''counted repetition'')
      else if c = CHR ''['' then
        (let neg = strings_HasPrefix cs ''^'';
             body = (if neg then tl cs else cs);
             items = takeWhile (\<lambda>x. x \<noteq> CHR '']'') body;
             rest = dropWhile (\<lambda>x. x \<noteq> CHR '']'') body
         in if rest = [] then Inl (Ext ''missing closing ]'')
            else (case class_items items of
               None \<Rightarrow> Inl (Unmodelled ''class'')
             | Some rs \<Rightarrow>
                 if rs = [] then Inl (Unmodelled ''class'') else re_parse fs alts (Cls neg rs # sq) g (tl rest)))
      else re_parse fs alts (Lit c # sq) g cs)"
  by pat_completeness auto
termination
  by (relation "measure (\<lambda>(fs, alts, sq, g, s). length s)")
     (auto simp: less_Suc_eq_le intro: tl_dropWhile_le)

declare re_parse.simps [simp del]

definition regexp_Compile :: "string \<Rightarrow> regex res" where
  "regexp_Compile p = re_parse [] [] [] 0 p"

text \<open>A character that stands for itself in every pattern.\<close>

definition literal_char :: "char \<Rightarrow> bool" where
  "literal_char c = (c \<notin> set ''.+*?()|[]{}^$'' \<and> c \<noteq> CHR 0x5C)"

section \<open>Facts about compiling\<close>

lemma re_parse_Nil [simp]: "re_parse [] alts sq g [] = Inr (alt_of (alts @ [seq_of (rev sq)]))"
  by (simp add: re_parse.simps)

lemma re_parse_lit: "literal_char c \<Longrightarrow> re_parse fs alts sq g (c # cs) = re_parse fs alts (Lit c # sq) g cs"
  by (subst re_parse.simps) (simp add: literal_char_def)

lemma re_parse_lits:
  "list_all literal_char k \<Longrightarrow> re_parse fs alts sq g (k @ cs) = re_parse fs alts (rev (map Lit k) @ sq) g cs"
  by (induction k arbitrary: sq) (auto simp: re_parse_lit)

lemma re_parse_escape:
  "class_char d = Some r \<Longrightarrow> re_parse fs alts sq g (CHR 0x5C # d # cs) = re_parse fs alts (r # sq) g cs"
  by (subst re_parse.simps) simp

section \<open>Facts about matching\<close>

lemma rmatch_seq_Nil [simp]: "rmatch (seq_of []) s st = [st]"
  by (simp add: seq_of_def)

lemma rmatch_seq_Cons [simp]: "rmatch (seq_of (r # rs)) s st = concat (map (rmatch (seq_of rs) s) (rmatch r s st))"
  by (simp add: seq_of_def)

lemma drop_eq_Cons_iff: "drop i s = c # t \<longleftrightarrow> i < length s \<and> s ! i = c \<and> drop (Suc i) s = t"
  by (metis Cons_nth_drop_Suc drop_all list.inject list.simps(3) not_less)

lemma rmatch_lits:
  "rmatch (seq_of (map Lit k @ rs)) s (i, cs) =
     (if prefix k (drop i s) then rmatch (seq_of rs) s (i + length k, cs) else [])"
proof (induction k arbitrary: i)
  case (Cons c k)
  show ?case
  proof (cases "i < length s \<and> s ! i = c")
    case True
    then have "drop i s = c # drop (Suc i) s" by (simp add: drop_eq_Cons_iff)
    with True Cons [of "Suc i"] show ?thesis by simp
  next
    case False
    then have "\<not> prefix (c # k) (drop i s)" by (auto simp: prefix_def drop_eq_Cons_iff)
    with False show ?thesis by auto
  qed
qed simp

text \<open>A run of a class stops at each position inside the run, the longest first.\<close>

lemma iter_class:
  "length s - i \<le> n \<Longrightarrow>
     iter n (rmatch (Cls neg rs) s) (i, cs) =
       map (\<lambda>m. (i + m, cs)) (rev [0..<Suc (length (takeWhile (in_class neg rs) (drop i s)))])"
proof (induction n arbitrary: i)
  case 0
  then show ?case by simp
next
  case (Suc n)
  show ?case
  proof (cases "i < length s \<and> in_class neg rs (s ! i)")
    case True
    then have d: "drop i s = s ! i # drop (Suc i) s" by (simp add: Cons_nth_drop_Suc)
    have "iter n (rmatch (Cls neg rs) s) (Suc i, cs) =
        map (\<lambda>m. (Suc i + m, cs)) (rev [0..<Suc (length (takeWhile (in_class neg rs) (drop (Suc i) s)))])"
      using Suc.prems by (intro Suc.IH) auto
    also have "\<dots> = map (\<lambda>m. (i + m, cs)) (rev [1..<Suc (Suc (length (takeWhile (in_class neg rs) (drop (Suc i) s))))])"
      by (simp add: rev_map map_Suc_upt [symmetric] del: upt_Suc map_Suc_upt)
    finally show ?thesis using True d by (simp add: upt_conv_Cons del: upt_Suc)
  next
    case False
    then have "takeWhile (in_class neg rs) (drop i s) = []"
      by (cases "i < length s") (auto simp: Cons_nth_drop_Suc [symmetric])
    with False show ?thesis by auto
  qed
qed

lemma find_append_none: "(\<And>x. x \<in> set xs \<Longrightarrow> \<not> P x) \<Longrightarrow> List.find P (xs @ ys) = List.find P ys"
  by (induction xs) auto

lemma re_find_Some:
  assumes "i \<le> m" "m \<le> length s" "rmatch r s (m, []) = (e, cs) # ms"
    and "\<And>j. i \<le> j \<Longrightarrow> j < m \<Longrightarrow> rmatch r s (j, []) = []"
  shows "re_find r s i = Some (m, e, cs)"
proof -
  have "[i..<Suc (length s)] = [i..<m] @ m # [Suc m..<Suc (length s)]"
    using upt_add_eq_append [of i m "Suc (length s) - m"] assms(1,2) by (simp add: upt_conv_Cons)
  moreover have "List.find (\<lambda>j. rmatch r s (j, []) \<noteq> []) ([i..<m] @ m # ys) = Some m" for ys
    using assms(3,4) by (subst find_append_none) auto
  ultimately show ?thesis using assms(3) by (simp add: re_find_def del: upt_Suc)
qed

lemma re_find_None:
  "(\<And>j. i \<le> j \<Longrightarrow> j \<le> length s \<Longrightarrow> rmatch r s (j, []) = []) \<Longrightarrow> re_find r s i = None"
proof -
  assume none: "\<And>j. i \<le> j \<Longrightarrow> j \<le> length s \<Longrightarrow> rmatch r s (j, []) = []"
  have "List.find (\<lambda>j. rmatch r s (j, []) \<noteq> []) [i..<Suc (length s)] = None"
    unfolding find_None_iff using none by auto
  then show ?thesis by (simp add: re_find_def del: upt_Suc)
qed

text \<open>The value of a template without a dollar sign is the template.\<close>

lemma tmpl_expand_plain: "CHR ''$'' \<notin> set t \<Longrightarrow> tmpl_expand n s a e caps t = t"
  by (cases n) auto

section \<open>Patterns that look only at what follows\<close>

text \<open>
  The effect of replacing every match when a match at a position depends on the rest of the
  text only: \<open>f t\<close> is the length of the match at the start of \<open>t\<close>.
\<close>

fun rep_all :: "(string \<Rightarrow> nat option) \<Rightarrow> string \<Rightarrow> string \<Rightarrow> string" where
  "rep_all f to [] = []"
| "rep_all f to (c # cs) =
     (case f (c # cs) of
        None \<Rightarrow> c # rep_all f to cs
      | Some n \<Rightarrow> to @ rep_all f to (drop (n - 1) cs))"

lemma rep_all_skip:
  "(\<And>j. j < l \<Longrightarrow> f (drop j t) = None) \<Longrightarrow> l \<le> length t \<Longrightarrow>
     rep_all f to t = take l t @ rep_all f to (drop l t)"
proof (induction l arbitrary: t)
  case (Suc l)
  then obtain c cs where t: "t = c # cs" by (cases t) auto
  have "rep_all f to cs = take l cs @ rep_all f to (drop l cs)"
    using Suc.prems t by (intro Suc.IH) fastforce+
  then show ?case using Suc.prems(1) [of 0] t by simp
qed simp

lemma rep_all_match: "f t = Some n \<Longrightarrow> 0 < n \<Longrightarrow> t \<noteq> [] \<Longrightarrow> rep_all f to t = to @ rep_all f to (drop n t)"
  by (cases t; cases n) auto

lemma rep_all_none: "(\<And>j. j < length t \<Longrightarrow> f (drop j t) = None) \<Longrightarrow> rep_all f to t = t"
  using rep_all_skip [of "length t" f t to] by simp

text \<open>
  The contract of such a pattern, and what the three search functions return for it. The
  patterns of \<^verbatim>\<open>substitute\<close> are shown to satisfy it where they are defined.
\<close>

locale suffix_regex =
  fixes r :: regex and f :: "string \<Rightarrow> nat option"
  assumes no_match: "i \<le> length s \<Longrightarrow> f (drop i s) = None \<Longrightarrow> rmatch r s (i, []) = []"
    and match_end: "i \<le> length s \<Longrightarrow> f (drop i s) = Some n \<Longrightarrow> \<exists>caps ms. rmatch r s (i, []) = (i + n, caps) # ms"
    and match_len: "f t = Some n \<Longrightarrow> 0 < n \<and> n \<le> length t"
begin

lemma match_nonempty: "f [] = None"
  using match_len [of "[]"] by (cases "f []") auto

text \<open>Either nothing matches from a position on, or there is a first match.\<close>

lemma first_match:
  assumes "p \<le> length s"
  obtains (none) "\<And>j. p \<le> j \<Longrightarrow> j \<le> length s \<Longrightarrow> f (drop j s) = None" "re_find r s p = None"
  | (found) m n caps where "p \<le> m" "m + n \<le> length s" "0 < n" "f (drop m s) = Some n"
      "\<And>j. p \<le> j \<Longrightarrow> j < m \<Longrightarrow> f (drop j s) = None" "re_find r s p = Some (m, m + n, caps)"
proof (cases "\<exists>j. p \<le> j \<and> j \<le> length s \<and> f (drop j s) \<noteq> None")
  case False
  then have no: "\<And>j. p \<le> j \<Longrightarrow> j \<le> length s \<Longrightarrow> f (drop j s) = None" by blast
  then have "re_find r s p = None" by (intro re_find_None no_match) auto
  with no show ?thesis by (rule none)
next
  case True
  define m where "m = (LEAST j. p \<le> j \<and> j \<le> length s \<and> f (drop j s) \<noteq> None)"
  have m: "p \<le> m" "m \<le> length s" "f (drop m s) \<noteq> None"
    using LeastI_ex [OF True] by (auto simp: m_def)
  have before: "f (drop j s) = None" if "p \<le> j" "j < m" for j
    using not_less_Least [of j "\<lambda>j. p \<le> j \<and> j \<le> length s \<and> f (drop j s) \<noteq> None"] that m(2)
    unfolding m_def by auto
  obtain n where n: "f (drop m s) = Some n" using m(3) by auto
  obtain caps ms where "rmatch r s (m, []) = (m + n, caps) # ms" using match_end [OF m(2) n] by auto
  then have "re_find r s p = Some (m, m + n, caps)"
    using m before by (intro re_find_Some) (auto intro: no_match)
  moreover have "0 < n" "m + n \<le> length s" using match_len [OF n] m(2) by auto
  ultimately show ?thesis using m(1) n before by (intro found) auto
qed

lemma replace_from_rep_all:
  assumes "CHR ''$'' \<notin> set to"
  shows "p \<le> length s \<Longrightarrow> length s < p + n \<Longrightarrow> replace_from n r s to p p = rep_all f to (drop p s)"
proof (induction n arbitrary: p)
  case (Suc n)
  show ?case
  proof (cases rule: first_match [OF Suc.prems(1)])
    case 1
    then have "rep_all f to (drop p s) = drop p s" by (intro rep_all_none) (auto simp: drop_drop add.commute)
    with 1 Suc.prems show ?thesis by simp
  next
    case (2 m k caps)
    have IH: "replace_from n r s to (m + k) (m + k) = rep_all f to (drop (m + k) s)"
      using 2 Suc.prems by (intro Suc.IH) auto
    have "rep_all f to (drop p s) = take (m - p) (drop p s) @ rep_all f to (drop (m - p) (drop p s))"
      using 2 Suc.prems by (intro rep_all_skip) auto
    also have "drop (m - p) (drop p s) = drop m s" using 2(1) by simp
    also have "rep_all f to (drop m s) = to @ rep_all f to (drop (m + k) s)"
      using 2 by (subst rep_all_match [of f _ k]) (auto simp: drop_drop add.commute)
    finally show ?thesis using 2 IH Suc.prems assms
      by (simp add: tmpl_expand_plain)
  qed
qed simp

lemma ReplaceAllString_eq:
  "CHR ''$'' \<notin> set to \<Longrightarrow> re_ReplaceAllString r s to = rep_all f to s"
  using replace_from_rep_all [of to 0 s "length s + 2"] by (simp add: re_ReplaceAllString_def)

lemma FindAll_none:
  "(\<And>j. j \<le> length s \<Longrightarrow> f (drop j s) = None) \<Longrightarrow> re_FindAllStringIndex r s = []"
  by (cases rule: first_match [OF le0, of s]) (auto simp: re_FindAllStringIndex_def)

lemma FindAll_first:
  assumes "m \<le> length s" "f (drop m s) = Some n" "\<And>j. j < m \<Longrightarrow> f (drop j s) = None"
  shows "\<exists>rest. re_FindAllStringIndex r s = (m, m + n) # rest"
proof (cases rule: first_match [OF le0, of s])
  case (2 m' n' caps)
  then have "m' = m" using assms by (metis le0 linorder_neqE_nat option.distinct(1))
  with 2 assms show ?thesis by (auto simp: re_FindAllStringIndex_def Let_def)
qed (use assms in auto)

lemma FindAll_Nil_iff: "re_FindAllStringIndex r s = [] \<longleftrightarrow> (\<forall>j \<le> length s. f (drop j s) = None)"
proof (cases rule: first_match [OF le0, of s])
  case (2 m n caps)
  then show ?thesis using FindAll_first [of m s n] by auto
qed (auto simp: FindAll_none)

end

end
