(* ===== verification/Substitute.thy ===== *)
theory Substitute
  imports Go_Regexp
begin

text \<open>
  Variable substitution in stacker files: \<^verbatim>\<open>substitute\<close> of \<^verbatim>\<open>pkg/types/stackerfile.go\<close>, the
  regular expressions it builds, the loop that fills in defaults (with its termination),
  and the abstract specification it refines: a text is a list of segments, and each
  placeholder takes the first substitution for its name, else its default, else it is an
  error.
\<close>

section \<open>The patterns\<close>

abbreviation bs :: char where "bs \<equiv> CHR 0x5C"
abbreviation dollar :: char where "dollar \<equiv> CHR ''$''"
abbreviation rbrace :: char where "rbrace \<equiv> CHR ''}''"

text \<open>The pattern of an unsupported \<open>${KEY:default}\<close> placeholder and of a supported one.\<close>

definition bad_pattern :: "string \<Rightarrow> string" where
  "bad_pattern k = [bs, dollar, bs, CHR ''{''] @ k @ ''(:[^'' @ [bs] @ ''}]*)?'' @ [bs, rbrace]"

definition key_pattern :: "string \<Rightarrow> string" where
  "key_pattern k =
     [bs, dollar, bs, CHR ''{'', bs, CHR ''{''] @ k @ ''(:[^'' @ [bs] @ ''}]*)?'' @ [bs, rbrace, bs, rbrace]"

definition placeholder_pattern :: string where
  "placeholder_pattern =
     [bs, dollar, bs, CHR ''{'', bs, CHR ''{''] @ ''[^'' @ [bs] @ ''}]*'' @ [bs, rbrace, bs, rbrace]"

text \<open>What the patterns compile to (\<open>b\<close> is the number of braces).\<close>

definition tail_re :: regex where
  "tail_re = Opt (Grp 1 (seq_of [Lit (CHR '':''), Star (Cls True [(rbrace, rbrace)])]))"

definition key_re :: "nat \<Rightarrow> string \<Rightarrow> regex" where
  "key_re b k = seq_of (map Lit (dollar # replicate b (CHR ''{'') @ k) @ tail_re # map Lit (replicate b rbrace))"

definition placeholder_re :: regex where
  "placeholder_re = seq_of (map Lit ''${{'' @ Star (Cls True [(rbrace, rbrace)]) # map Lit ''}}'')"

section \<open>The code\<close>

record sub_state =
  sub_content :: string
  sub_usage :: "nat list"
  sub_unsupported :: "(string \<times> string) list"

text \<open>One substitution; a message is the substitution and the placeholder it complains about.\<close>

definition substitute_one :: "sub_state \<Rightarrow> string \<Rightarrow> sub_state res" where
  "substitute_one st subst =
     (case strings_SplitN subst ''='' 2 of
        [key, to] \<Rightarrow>
          (let content = sub_content st;
               nobracket = dollar # key;
               onebracket = ''${'' @ key @ ''}'';
               msgs1 = map (Pair subst) (filter (strings_Contains content) [nobracket, onebracket])
           in rbind (regexp_Compile (bad_pattern key)) (\<lambda>bad_re.
              let msgs2 = map (Pair subst) (re_FindAllString bad_re content)
              in rbind (regexp_Compile (key_pattern key)) (\<lambda>re.
                 let matches = re_FindAllString re content
                 in Inr (st\<lparr>sub_content := re_ReplaceAllString re content to,
                            sub_usage := sub_usage st @ [length matches],
                            sub_unsupported := sub_unsupported st @ msgs1 @ msgs2\<rparr>))))
      | _ \<Rightarrow> Inl (Errorf ''invalid substition %s'' [subst]))"

text \<open>The length of a placeholder at the start of a text, with \<open>b\<close> braces.\<close>

definition ph_tail :: "nat \<Rightarrow> string \<Rightarrow> nat option" where
  "ph_tail b t =
     (if prefix (replicate b rbrace) t then Some b
      else (case t of
          [] \<Rightarrow> None
        | c # u \<Rightarrow>
            if c = CHR '':'' \<and> prefix (replicate b rbrace) (dropWhile (\<lambda>x. x \<noteq> rbrace) u)
            then Some (Suc (length (takeWhile (\<lambda>x. x \<noteq> rbrace) u)) + b) else None))"

definition key_match :: "nat \<Rightarrow> string \<Rightarrow> string \<Rightarrow> nat option" where
  "key_match b k t =
     (let p = dollar # replicate b (CHR ''{'') @ k
      in if prefix p t then map_option (\<lambda>n. length p + n) (ph_tail b (drop (length p) t)) else None)"

definition ph_match :: "string \<Rightarrow> nat option" where
  "ph_match t =
     (if prefix ''${{'' t \<and> prefix ''}}'' (dropWhile (\<lambda>x. x \<noteq> rbrace) (drop 3 t))
      then Some (5 + length (takeWhile (\<lambda>x. x \<noteq> rbrace) (drop 3 t))) else None)"

section \<open>What the patterns match\<close>

lemma class_not_rbrace: "in_class True [(rbrace, rbrace)] c \<longleftrightarrow> c \<noteq> rbrace"
  by (auto simp: in_class_def)

abbreviation close_re :: "nat \<Rightarrow> regex" where
  "close_re b \<equiv> seq_of (map Lit (replicate b rbrace))"

lemma rmatch_close:
  "rmatch (close_re b) s (j, cs) = (if prefix (replicate b rbrace) (drop j s) then [(j + b, cs)] else [])"
  using rmatch_lits [of "replicate b rbrace" "[]" s j cs] by (simp del: map_replicate)

text \<open>The run of characters other than \<open>}\<close>, followed by closing braces: only the longest run fits.\<close>

lemma run_then_braces:
  fixes g :: "nat \<Rightarrow> (nat \<times> nat \<times> nat) list"
  assumes "0 < b" and n: "n = length (takeWhile (\<lambda>x. x \<noteq> rbrace) (drop i s))"
  shows "concat (map (\<lambda>m. rmatch (close_re b) s (i + m, g m)) (rev [0..<Suc n])) =
    (if prefix (replicate b rbrace) (dropWhile (\<lambda>x. x \<noteq> rbrace) (drop i s)) then [(i + n + b, g n)] else [])"
proof -
  let ?P = "\<lambda>x. x \<noteq> rbrace"
  have short: "\<not> prefix (replicate b rbrace) (drop (i + m) s)" if "m < n" for m
  proof -
    have "i + m < length s" using that length_takeWhile_le [of ?P "drop i s"] n by simp
    moreover have "drop i s ! m \<noteq> rbrace"
      using that takeWhile_nth [of m ?P "drop i s"] nth_mem [of m "takeWhile ?P (drop i s)"] set_takeWhileD n by metis
    ultimately show ?thesis using assms(1)
      by (cases b) (auto simp: prefix_def drop_eq_Cons_iff nth_drop)
  qed
  have "concat (map (\<lambda>m. rmatch (close_re b) s (i + m, g m)) (rev [0..<n])) = []"
    using short by (auto simp: rmatch_close simp del: map_replicate)
  moreover have "drop (i + n) s = dropWhile ?P (drop i s)"
    by (simp add: n dropWhile_eq_drop add.commute)
  ultimately show ?thesis by (simp add: rmatch_close del: map_replicate)
qed

lemma iter_not_rbrace:
  "iter (Suc (length s - i)) (rmatch (Cls True [(rbrace, rbrace)]) s) (i, cs) =
     map (\<lambda>m. (i + m, cs)) (rev [0..<Suc (length (takeWhile (\<lambda>x. x \<noteq> rbrace) (drop i s)))])"
proof -
  have "in_class True [(rbrace, rbrace)] = (\<lambda>c. c \<noteq> rbrace)"
    by (rule ext) (rule class_not_rbrace)
  then show ?thesis using iter_class [of s i "Suc (length s - i)" True "[(rbrace, rbrace)]" cs]
    by (simp del: upt_Suc iter.simps)
qed

lemma rmatch_tail_re:
  "rmatch tail_re s (i, cs) =
     (if i < length s \<and> s ! i = CHR '':'' then
        map (\<lambda>m. (Suc i + m, (1, i, Suc i + m) # cs))
          (rev [0..<Suc (length (takeWhile (\<lambda>x. x \<noteq> rbrace) (drop (Suc i) s)))]) else []) @ [(i, cs)]"
  using iter_not_rbrace [of s "Suc i" cs]
  by (simp add: tail_re_def comp_def del: iter.simps upt_Suc)

lemma rmatch_tail:
  assumes "0 < b"
  shows "case ph_tail b (drop i s) of
      None \<Rightarrow> rmatch (seq_of (tail_re # map Lit (replicate b rbrace))) s (i, cs) = []
    | Some n \<Rightarrow> \<exists>caps. rmatch (seq_of (tail_re # map Lit (replicate b rbrace))) s (i, cs) = [(i + n, caps)]"
proof (cases "i < length s \<and> s ! i = CHR '':''")
  case True
  then have d: "drop i s = CHR '':'' # drop (Suc i) s" by (simp add: drop_eq_Cons_iff)
  have no: "\<not> prefix (replicate b rbrace) (drop i s)" using assms d by (cases b) auto
  have "concat (map (rmatch (close_re b) s) (rmatch tail_re s (i, cs))) =
      (if prefix (replicate b rbrace) (dropWhile (\<lambda>x. x \<noteq> rbrace) (drop (Suc i) s))
       then [(Suc i + length (takeWhile (\<lambda>x. x \<noteq> rbrace) (drop (Suc i) s)) + b,
              (1, i, Suc i + length (takeWhile (\<lambda>x. x \<noteq> rbrace) (drop (Suc i) s))) # cs)] else [])"
    using True no run_then_braces [OF assms refl, of s "Suc i" "\<lambda>m. (1, i, Suc i + m) # cs"]
    by (simp add: rmatch_tail_re rmatch_close comp_def del: map_replicate upt_Suc)
  then show ?thesis using d no by (simp add: ph_tail_def del: map_replicate)
next
  case False
  then have "rmatch (seq_of (tail_re # map Lit (replicate b rbrace))) s (i, cs) =
      (if prefix (replicate b rbrace) (drop i s) then [(i + b, cs)] else [])"
    by (simp only: rmatch_seq_Cons rmatch_tail_re if_False) (simp add: rmatch_close del: map_replicate)
  moreover have "drop i s = [] \<or> (\<exists>c u. drop i s = c # u \<and> c \<noteq> CHR '':'')"
    using False by (cases "i < length s") (auto simp: Cons_nth_drop_Suc [symmetric])
  ultimately show ?thesis by (auto simp: ph_tail_def simp del: map_replicate)
qed

lemma ph_tail_len: "ph_tail b t = Some n \<Longrightarrow> n \<le> length t"
proof -
  have "length (takeWhile P u) + b \<le> length u" if "prefix (replicate b rbrace) (dropWhile P u)" for P u
    using prefix_length_le [OF that] takeWhile_dropWhile_id [of P u] length_append [of "takeWhile P u" "dropWhile P u"]
    by simp
  then show "ph_tail b t = Some n \<Longrightarrow> n \<le> length t"
    by (auto simp: ph_tail_def split: if_splits list.splits dest: prefix_length_le)
qed

lemma rmatch_key_re:
  "rmatch (key_re b k) s (i, cs) =
     (let p = dollar # replicate b (CHR ''{'') @ k
      in if prefix p (drop i s) then rmatch (seq_of (tail_re # map Lit (replicate b rbrace))) s (i + length p, cs) else [])"
  unfolding key_re_def rmatch_lits Let_def ..

lemma key_suffix_regex: "0 < b \<Longrightarrow> suffix_regex (key_re b k) (key_match b k)"
proof
  fix i n :: nat and s t :: string
  let ?p = "dollar # replicate b (CHR ''{'') @ k"
  assume b: "0 < b"
  note tail = rmatch_tail [OF b, where i = "i + length ?p" and s = s and cs = "[]"]
  have dd: "drop (length ?p) (drop i s) = drop (i + length ?p) s" by (simp only: drop_drop add.commute)
  show "rmatch (key_re b k) s (i, []) = []" if "key_match b k (drop i s) = None"
    using that tail unfolding key_match_def rmatch_key_re Let_def dd by (auto split: if_splits)
  show "\<exists>caps ms. rmatch (key_re b k) s (i, []) = (i + n, caps) # ms" if "key_match b k (drop i s) = Some n"
    using that tail unfolding key_match_def rmatch_key_re Let_def dd
    by (auto split: if_splits simp: add.assoc simp del: map_replicate rmatch_seq_Cons)
  show "0 < n \<and> n \<le> length t" if "key_match b k t = Some n"
    using that ph_tail_len [of b "drop (length ?p) t"] unfolding key_match_def Let_def
    by (auto split: if_splits simp: prefix_def)
qed

interpretation kr: suffix_regex "key_re 2 k" "key_match 2 k" for k
  by (rule key_suffix_regex) simp

interpretation bad: suffix_regex "key_re 1 k" "key_match 1 k" for k
  by (rule key_suffix_regex) simp

lemma rmatch_placeholder_re:
  "rmatch placeholder_re s (i, cs) = (case ph_match (drop i s) of None \<Rightarrow> [] | Some n \<Rightarrow> [(i + n, cs)])"
proof (cases "prefix ''${{'' (drop i s)")
  case True
  let ?n = "length (takeWhile (\<lambda>x. x \<noteq> rbrace) (drop (i + 3) s))"
  have lits: "map Lit ''}}'' = map Lit (replicate 2 rbrace)" "replicate 2 rbrace = ''}}''" by (simp_all add: numeral_2_eq_2)
  have dd: "drop 3 (drop i s) = drop (i + 3) s" by (simp add: add.commute)
  have "rmatch placeholder_re s (i, cs) =
      concat (map (rmatch (close_re 2) s) (iter (Suc (length s - (i + 3))) (rmatch (Cls True [(rbrace, rbrace)]) s) (i + 3, cs)))"
    unfolding placeholder_re_def rmatch_lits using True lits(1) by (simp del: map_replicate iter.simps upt_Suc list.map add: numeral_3_eq_3)
  also have "\<dots> = (if prefix ''}}'' (dropWhile (\<lambda>x. x \<noteq> rbrace) (drop (i + 3) s)) then [(i + 3 + ?n + 2, cs)] else [])"
    using run_then_braces [of 2 ?n "i + 3" s "\<lambda>_. cs"] unfolding iter_not_rbrace lits(2)
    by (simp add: comp_def del: upt_Suc map_replicate)
  finally show ?thesis using True unfolding ph_match_def dd by (simp add: ac_simps)
next
  case False
  then show ?thesis unfolding placeholder_re_def rmatch_lits by (simp add: ph_match_def)
qed

interpretation phr: suffix_regex placeholder_re ph_match
proof
  fix t n assume "ph_match t = Some n"
  then have p: "prefix ''${{'' t" and q: "prefix ''}}'' (dropWhile (\<lambda>x. x \<noteq> rbrace) (drop 3 t))"
    and n: "n = 5 + length (takeWhile (\<lambda>x. x \<noteq> rbrace) (drop 3 t))"
    by (auto simp: ph_match_def split: if_splits)
  have "length (drop 3 t) = length (takeWhile (\<lambda>x. x \<noteq> rbrace) (drop 3 t)) + length (dropWhile (\<lambda>x. x \<noteq> rbrace) (drop 3 t))"
    by (metis length_append takeWhile_dropWhile_id)
  then show "0 < n \<and> n \<le> length t" using prefix_length_le [OF p] prefix_length_le [OF q] n by simp
qed (simp_all add: rmatch_placeholder_re)

section \<open>Compiling the patterns\<close>

lemma not_word [simp]: "\<not> is_word dollar" "\<not> is_word (CHR ''{'')" "\<not> is_word rbrace"
  by code_simp+

lemma re_parse_class:
  "re_parse fs alts sq g (''[^'' @ [bs] @ ''}]*'' @ cs) =
     re_parse fs alts (Star (Cls True [(rbrace, rbrace)]) # sq) g cs"
  unfolding append.simps
  by (subst re_parse.simps, simp add: strings_HasPrefix_def class_char_def, subst re_parse.simps, simp add: is_rep_def)

lemma re_parse_tail:
  "re_parse fs alts sq 0 (''(:[^'' @ [bs] @ ''}]*)?'' @ cs) = re_parse fs alts (tail_re # sq) 1 cs"
proof -
  let ?star = "Star (Cls True [(rbrace, rbrace)])"
  have "re_parse fs alts sq 0 (''(:[^'' @ [bs] @ ''}]*)?'' @ cs) =
      re_parse ((alts, sq, 1) # fs) [] [] 1 ('':'' @ ''[^'' @ [bs] @ ''}]*'' @ '')?'' @ cs)"
    unfolding append.simps by (subst re_parse.simps) (simp add: strings_HasPrefix_def)
  also have "\<dots> = re_parse ((alts, sq, 1) # fs) [] [Lit (CHR '':'')] 1 (''[^'' @ [bs] @ ''}]*'' @ '')?'' @ cs)"
    by (subst re_parse_lits) (simp_all add: literal_char_def)
  also have "\<dots> = re_parse ((alts, sq, 1) # fs) [] [?star, Lit (CHR '':'')] 1 ('')?'' @ cs)"
    by (rule re_parse_class)
  also have "\<dots> = re_parse fs alts (Grp 1 (seq_of [Lit (CHR '':''), ?star]) # sq) 1 (''?'' @ cs)"
    unfolding append.simps by (subst re_parse.simps) simp
  also have "\<dots> = re_parse fs alts (tail_re # sq) 1 cs"
    unfolding append.simps by (subst re_parse.simps) (simp add: is_rep_def tail_re_def)
  finally show ?thesis .
qed

lemma re_parse_punct:
  "re_parse fs alts sq g (bs # dollar # cs) = re_parse fs alts (Lit dollar # sq) g cs"
  "re_parse fs alts sq g (bs # CHR ''{'' # cs) = re_parse fs alts (Lit (CHR ''{'') # sq) g cs"
  "re_parse fs alts sq g (bs # rbrace # cs) = re_parse fs alts (Lit rbrace # sq) g cs"
  by (rule re_parse_escape, simp add: class_char_def)+

lemma compile_placeholder: "regexp_Compile placeholder_pattern = Inr placeholder_re"
  using re_parse_class [of "[]" "[]" "rev (map Lit ''${{'')" 0 "[bs, rbrace, bs, rbrace]"]
  by (simp add: regexp_Compile_def placeholder_pattern_def placeholder_re_def re_parse_punct)

lemma compile_key:
  assumes "list_all literal_char k"
  shows "regexp_Compile (key_pattern k) = Inr (key_re 2 k)"
proof -
  let ?tl = "''(:[^'' @ [bs] @ ''}]*)?'' @ [bs, rbrace, bs, rbrace]"
  have "regexp_Compile (key_pattern k) = re_parse [] [] (rev (map Lit ''${{'')) 0 (k @ ?tl)"
    by (simp add: regexp_Compile_def key_pattern_def re_parse_punct)
  also have "\<dots> = re_parse [] [] (rev (map Lit k) @ rev (map Lit ''${{'')) 0 ?tl"
    by (rule re_parse_lits [OF assms])
  also have "\<dots> = re_parse [] [] (tail_re # rev (map Lit k) @ rev (map Lit ''${{'')) 1 [bs, rbrace, bs, rbrace]"
    by (rule re_parse_tail)
  also have "\<dots> = Inr (key_re 2 k)"
    by (simp add: re_parse_punct key_re_def numeral_2_eq_2)
  finally show ?thesis .
qed

lemma compile_bad:
  assumes "list_all literal_char k"
  shows "regexp_Compile (bad_pattern k) = Inr (key_re 1 k)"
proof -
  let ?tl = "''(:[^'' @ [bs] @ ''}]*)?'' @ [bs, rbrace]"
  have "regexp_Compile (bad_pattern k) = re_parse [] [] (rev (map Lit ''${'')) 0 (k @ ?tl)"
    by (simp add: regexp_Compile_def bad_pattern_def re_parse_punct)
  also have "\<dots> = re_parse [] [] (rev (map Lit k) @ rev (map Lit ''${'')) 0 ?tl"
    by (rule re_parse_lits [OF assms])
  also have "\<dots> = re_parse [] [] (tail_re # rev (map Lit k) @ rev (map Lit ''${'')) 1 [bs, rbrace]"
    by (rule re_parse_tail)
  also have "\<dots> = Inr (key_re 1 k)"
    by (simp add: re_parse_punct key_re_def)
  finally show ?thesis .
qed

section \<open>Defaults, and the whole function\<close>

lemma FindAll_placeholder:
  assumes "re_FindAllStringIndex placeholder_re s = (a, e) # rest"
  shows "a + 5 \<le> e" "e \<le> length s"
proof -
  from assms have "a + 5 \<le> e \<and> e \<le> length s"
  proof (cases rule: phr.first_match [OF le0, of s])
    case (2 m n caps)
    have "5 \<le> n" using 2(4) by (auto simp: ph_match_def split: if_splits)
    with 2 assms phr.FindAll_first [of m s n] show ?thesis by auto
  qed (use assms phr.FindAll_none [of s] in auto)
  then show "a + 5 \<le> e" "e \<le> length s" by auto
qed

lemma SplitN_two: "strings_SplitN s sep 2 = [a, d] \<Longrightarrow> length d \<le> length s"
  by (auto simp: numeral_2_eq_2 split: option.splits prod.splits dest: cut_length)

text \<open>The loop that fills in the defaults; each round removes the first placeholder.\<close>

function subst_defaults :: "string \<Rightarrow> string res" where
  "subst_defaults content =
     (case re_FindAllStringIndex placeholder_re content of
        [] \<Rightarrow> Inr content
      | (a, e) # _ \<Rightarrow>
          (let variable = take (e - 2 - (a + 3)) (drop (a + 3) content)
           in case strings_SplitN variable '':'' 2 of
                [_, d] \<Rightarrow> subst_defaults (take a content @ d @ drop e content)
              | _ \<Rightarrow> Inl (Errorf ''no value for substitution %s'' [variable])))"
  by pat_completeness auto
termination
proof (relation "measure length")
  fix content d v :: string and p rest a e x xs y ys
  assume *: "re_FindAllStringIndex placeholder_re content = p # rest" "(a, e) = p"
    "v = take (e - 2 - (a + 3)) (drop (a + 3) content)" "strings_SplitN v '':'' 2 = x # xs" "xs = d # ys" "ys = []"
  then have "length d \<le> length v" "a + 5 \<le> e" "e \<le> length content"
    using FindAll_placeholder [of content a e rest] SplitN_two [of v "'':''" x d] by auto
  with * show "(take a content @ d @ drop e content, content) \<in> measure length" by auto
qed simp

declare subst_defaults.simps [simp del]

definition substitute :: "string \<Rightarrow> string list \<Rightarrow> string res" where
  "substitute content substitutions =
     rbind (rfold substitute_one \<lparr>sub_content = content, sub_usage = [], sub_unsupported = []\<rparr> substitutions)
       (\<lambda>st. if sub_unsupported st \<noteq> []
             then Inl (Errorf ''%d instances of unsupported placeholders found. Review log for how to update.''
                         [fmt_d (int (length (sub_unsupported st)))])
             else subst_defaults (sub_content st))"

section \<open>The specification\<close>

text \<open>
  A stacker file as the documentation describes it: plain text and placeholders, with the
  default a placeholder may carry.
\<close>

datatype seg = Txt string | Ph string "string option"

fun render :: "seg \<Rightarrow> string" where
  "render (Txt t) = t"
| "render (Ph k None) = ''${{'' @ k @ ''}}''"
| "render (Ph k (Some d)) = ''${{'' @ k @ '':'' @ d @ ''}}''"

fun eval_seg :: "(string \<times> string) list \<Rightarrow> seg \<Rightarrow> string res" where
  "eval_seg subs (Txt t) = Inr t"
| "eval_seg subs (Ph k d) =
     (case map_of subs k of
        Some v \<Rightarrow> Inr v
      | None \<Rightarrow> (case d of
            Some x \<Rightarrow> Inr x
          | None \<Rightarrow> Inl (Errorf ''no value for substitution %s'' [k])))"

text \<open>
  Text that no pattern touches: each dollar sign is followed by a character that neither
  opens a brace nor starts the name of a substitution (\<open>H\<close> holds their first characters).
\<close>

fun txt_ok :: "char list \<Rightarrow> string \<Rightarrow> bool" where
  "txt_ok H [] = True"
| "txt_ok H (c # cs) =
     ((c = dollar \<longrightarrow> (case cs of [] \<Rightarrow> False | d # _ \<Rightarrow> d \<notin> set H \<and> d \<noteq> CHR ''{'')) \<and> txt_ok H cs)"

definition name_ok :: "string \<Rightarrow> bool" where
  "name_ok k = (k \<noteq> [] \<and> list_all literal_char k \<and> CHR '':'' \<notin> set k \<and> CHR ''='' \<notin> set k)"

fun seg_ok :: "char list \<Rightarrow> seg \<Rightarrow> bool" where
  "seg_ok H (Txt t) = txt_ok H t"
| "seg_ok H (Ph k d) = (name_ok k \<and> (case d of None \<Rightarrow> True | Some x \<Rightarrow> txt_ok H x \<and> rbrace \<notin> set x))"

definition heads :: "(string \<times> string) list \<Rightarrow> char list" where
  "heads subs = map (hd \<circ> fst) subs"

definition subs_ok :: "(string \<times> string) list \<Rightarrow> bool" where
  "subs_ok subs = list_all (\<lambda>(k, v). name_ok k \<and> dollar \<notin> set v) subs"

definition render_all :: "seg list \<Rightarrow> string" where
  "render_all segs = concat (map render segs)"

fun apply_sub :: "string \<times> string \<Rightarrow> seg \<Rightarrow> seg" where
  "apply_sub kv (Txt t) = Txt t"
| "apply_sub (k, v) (Ph k' d) = (if k' = k then Txt v else Ph k' d)"

section \<open>Refinement\<close>

lemma txt_ok_append: "txt_ok H a \<Longrightarrow> txt_ok H (a @ b) = txt_ok H b"
  by (induction a) (auto split: list.splits)

lemma txt_ok_plain: "dollar \<notin> set t \<Longrightarrow> txt_ok H t"
  by (induction t) auto

text \<open>
  A matcher that only fires at a dollar sign followed by a brace or by the start of a name.
\<close>

definition fires :: "char list \<Rightarrow> (string \<Rightarrow> nat option) \<Rightarrow> bool" where
  "fires H f = (\<forall>u. f u \<noteq> None \<longrightarrow> (\<exists>d r. u = dollar # d # r \<and> (d = CHR ''{'' \<or> d \<in> set H)))"

lemma fires_txt: "fires H f \<Longrightarrow> txt_ok H (c # cs) \<Longrightarrow> f (c # cs @ w) = None"
proof (rule ccontr)
  assume fires: "fires H f" and ok: "txt_ok H (c # cs)" and "f (c # cs @ w) \<noteq> None"
  then obtain d r where "c = dollar" "cs @ w = d # r" "d = CHR ''{'' \<or> d \<in> set H"
    unfolding fires_def by blast
  then show False using ok by (cases cs) auto
qed

fun nowhere :: "(string \<Rightarrow> nat option) \<Rightarrow> string \<Rightarrow> bool" where
  "nowhere f [] = (f [] = None)"
| "nowhere f (c # cs) = (f (c # cs) = None \<and> nowhere f cs)"

lemma nowhere_iff: "nowhere f s \<longleftrightarrow> (\<forall>j \<le> length s. f (drop j s) = None)"
proof (induction s)
  case (Cons c cs)
  have "(\<forall>j \<le> length (c # cs). f (drop j (c # cs)) = None) \<longleftrightarrow>
      f (c # cs) = None \<and> (\<forall>j \<le> length cs. f (drop j cs) = None)"
    by (metis Suc_le_mono drop0 drop_Suc_Cons le0 length_Cons not0_implies_Suc)
  with Cons show ?case by simp
qed simp

lemma nowhere_txt: "fires H f \<Longrightarrow> txt_ok H t \<Longrightarrow> nowhere f (t @ w) = nowhere f w"
proof (induction t)
  case (Cons c cs)
  then show ?case using fires_txt [of H f c cs w] by simp
qed simp

lemma rep_all_txt: "fires H f \<Longrightarrow> txt_ok H t \<Longrightarrow> rep_all f to (t @ w) = t @ rep_all f to w"
proof (induction t)
  case (Cons c cs)
  then show ?case using fires_txt [of H f c cs w] by simp
qed simp

text \<open>A placeholder is a dollar sign and then harmless text.\<close>

lemma render_Ph:
  assumes "seg_ok H (Ph k d)"
  obtains u where "render (Ph k d) = dollar # ''{{'' @ u" "txt_ok H (''{{'' @ u)"
    "u = k @ (case d of None \<Rightarrow> [] | Some x \<Rightarrow> CHR '':'' # x) @ ''}}''"
proof -
  have "dollar \<notin> set k" using assms by (auto simp: name_ok_def literal_char_def list_all_iff)
  then have "txt_ok H (''{{'' @ k)" by (intro txt_ok_plain) auto
  then have "txt_ok H (''{{'' @ k @ (case d of None \<Rightarrow> [] | Some x \<Rightarrow> CHR '':'' # x) @ ''}}'')"
    using assms by (cases d) (auto simp: txt_ok_append)
  then show ?thesis by (cases d) (auto intro: that)
qed

lemma nowhere_render:
  assumes "fires H f" "\<And>u. f (''${{'' @ u) = None" "list_all (seg_ok H) segs" "f [] = None"
  shows "nowhere f (render_all segs)"
  using assms(3)
proof (induction segs)
  case (Cons sg segs)
  then have IH: "nowhere f (render_all segs)" by simp
  show ?case
  proof (cases sg)
    case (Txt t)
    with Cons IH assms(1) show ?thesis by (simp add: render_all_def nowhere_txt)
  next
    case (Ph k d)
    have "seg_ok H (Ph k d)" using Cons.prems Ph by simp
    then obtain u where u: "render (Ph k d) = dollar # ''{{'' @ u" "txt_ok H (''{{'' @ u)" by (rule render_Ph)
    have "nowhere f ((''{{'' @ u) @ render_all segs)" using nowhere_txt [OF assms(1) u(2)] IH by blast
    moreover have "f (''${{'' @ u @ render_all segs) = None" by (rule assms(2))
    ultimately show ?thesis using Ph u(1) by (simp add: render_all_def)
  qed
qed (simp add: render_all_def assms(4))

text \<open>The matchers of the unsupported forms, and that none of them fires.\<close>

definition starts :: "string \<Rightarrow> string \<Rightarrow> nat option" where
  "starts p u = (if prefix p u then Some (length p) else None)"

lemma Contains_nowhere: "strings_Contains s p \<longleftrightarrow> \<not> nowhere (starts p) s"
proof -
  have "strings_Contains s p \<longleftrightarrow> (\<exists>j \<le> length s. prefix p (drop j s))"
  proof
    assume "strings_Contains s p"
    then obtain a b where "s = a @ p @ b" by (auto simp: strings_Contains_iff)
    then show "\<exists>j \<le> length s. prefix p (drop j s)" by (intro exI [of _ "length a"]) auto
  next
    assume "\<exists>j \<le> length s. prefix p (drop j s)"
    then obtain j b where "drop j s = p @ b" by (auto simp: prefix_def)
    then show "strings_Contains s p"
      unfolding strings_Contains_iff by (intro exI [of _ "take j s"] exI [of _ b]) (metis append_take_drop_id)
  qed
  then show ?thesis by (auto simp: nowhere_iff starts_def)
qed

lemma name_hd: "name_ok k \<Longrightarrow> hd k \<noteq> CHR ''{'' \<and> k \<noteq> []"
  by (cases k) (auto simp: name_ok_def literal_char_def)

lemma fires_matchers:
  assumes "name_ok k" "hd k \<in> set H"
  shows "fires H (starts (dollar # k))" "fires H (starts (''${'' @ k @ ''}''))"
    "fires H (key_match (Suc b) k)" "fires H ph_match"
  using assms name_hd [OF assms(1)]
  by (cases k; auto simp: fires_def starts_def key_match_def ph_match_def Let_def prefix_def split: if_splits)+

lemma unsupported_quiet:
  assumes "name_ok k"
  shows "starts (dollar # k) (''${{'' @ u) = None" "starts (''${'' @ k @ ''}'') (''${{'' @ u) = None"
    "key_match 1 k (''${{'' @ u) = None"
  using name_hd [OF assms] by (cases k; auto simp: starts_def key_match_def)+

lemma name_chars: "name_ok k \<Longrightarrow> c \<in> set k \<Longrightarrow> c \<noteq> CHR '':'' \<and> c \<noteq> rbrace \<and> c \<noteq> dollar \<and> c \<noteq> CHR ''{''"
  by (auto simp: name_ok_def literal_char_def list_all_iff)

definition ph_rest :: "string option \<Rightarrow> string" where
  "ph_rest d = (case d of None \<Rightarrow> [] | Some x \<Rightarrow> CHR '':'' # x) @ ''}}''"

lemma render_rest: "render (Ph k d) = ''${{'' @ k @ ph_rest d"
  by (cases d) (auto simp: ph_rest_def)

lemma ph_tail_rest:
  "(case d of None \<Rightarrow> True | Some x \<Rightarrow> rbrace \<notin> set x) \<Longrightarrow> ph_tail 2 (ph_rest d @ w) = Some (length (ph_rest d))"
proof (cases d)
  case (Some x)
  assume "case d of None \<Rightarrow> True | Some x \<Rightarrow> rbrace \<notin> set x"
  then have "dropWhile (\<lambda>c. c \<noteq> rbrace) (x @ rbrace # rbrace # w) = rbrace # rbrace # w"
    "takeWhile (\<lambda>c. c \<noteq> rbrace) (x @ rbrace # rbrace # w) = x"
    using Some by (auto simp: dropWhile_append takeWhile_append)
  with Some show ?thesis by (simp add: ph_tail_def ph_rest_def numeral_2_eq_2)
qed (simp add: ph_tail_def ph_rest_def numeral_2_eq_2)

lemma key_match_other:
  assumes k: "name_ok k" and k': "name_ok k'" and ne: "k' \<noteq> k"
  shows "key_match 2 k (''${{'' @ k' @ ph_rest d @ w) = None"
proof (cases "prefix k (k' @ ph_rest d @ w)")
  case True
  then have "(\<exists>z. k' = k @ z) \<or> (\<exists>y. k = k' @ y \<and> prefix y (ph_rest d @ w))"
    by (simp only: prefix_append) (auto elim: prefixE)
  then consider z where "k' = k @ z" "z \<noteq> []" | y where "k = k' @ y" "prefix y (ph_rest d @ w)" "y \<noteq> []"
    using ne by auto
  then show ?thesis
  proof cases
    case 1
    then obtain c z' where z: "z = c # z'" by (cases z) auto
    then have "c \<noteq> CHR '':'' \<and> c \<noteq> rbrace" using k' 1 name_chars by auto
    then show ?thesis using 1 z by (auto simp: key_match_def ph_tail_def numeral_2_eq_2)
  next
    case 2
    then obtain c where "c \<in> set k" "c = CHR '':'' \<or> c = rbrace" by (cases y; cases d) (auto simp: ph_rest_def)
    with k name_chars show ?thesis by blast
  qed
qed (simp add: key_match_def numeral_2_eq_2)

lemma key_at_Ph:
  assumes "name_ok k" "seg_ok H (Ph k' d)"
  shows "key_match 2 k (render (Ph k' d) @ w) = (if k' = k then Some (length (render (Ph k' d))) else None)"
proof (cases "k' = k")
  case True
  have "ph_tail 2 (ph_rest d @ w) = Some (length (ph_rest d))"
    using assms(2) by (intro ph_tail_rest) (auto split: option.splits)
  with True show ?thesis unfolding render_rest by (simp add: key_match_def numeral_2_eq_2)
next
  case False
  with assms key_match_other [of k k' d w] show ?thesis unfolding render_rest by simp
qed

lemma replace_render:
  assumes k: "name_ok k" "hd k \<in> set H" and ok: "list_all (seg_ok H) segs"
  shows "rep_all (key_match 2 k) v (render_all segs) = render_all (map (apply_sub (k, v)) segs)"
  using ok
proof (induction segs)
  case (Cons sg segs)
  note fires = fires_matchers(3) [OF k, of 1, simplified]
  from Cons have IH: "rep_all (key_match 2 k) v (render_all segs) = render_all (map (apply_sub (k, v)) segs)" by simp
  show ?case
  proof (cases sg)
    case (Txt t)
    with Cons.prems IH fires show ?thesis by (simp add: render_all_def rep_all_txt numeral_2_eq_2)
  next
    case (Ph k' d)
    have sok: "seg_ok H (Ph k' d)" using Cons.prems Ph by simp
    then obtain u where u: "render (Ph k' d) = dollar # ''{{'' @ u" "txt_ok H (''{{'' @ u)" by (rule render_Ph)
    have m: "key_match 2 k (render (Ph k' d) @ render_all segs) =
        (if k' = k then Some (length (render (Ph k' d))) else None)" by (rule key_at_Ph [OF k(1) sok])
    show ?thesis
    proof (cases "k' = k")
      case True
      have "rep_all (key_match 2 k) v (render (Ph k' d) @ render_all segs) = v @ rep_all (key_match 2 k) v (render_all segs)"
        using m True u(1) rep_all_match [of "key_match 2 k" "render (Ph k' d) @ render_all segs"] by simp
      then show ?thesis using True Ph IH by (simp add: render_all_def)
    next
      case False
      have "rep_all (key_match 2 k) v ((''{{'' @ u) @ render_all segs) = (''{{'' @ u) @ rep_all (key_match 2 k) v (render_all segs)"
        using fires u(2) by (intro rep_all_txt) (auto simp: numeral_2_eq_2)
      then have "rep_all (key_match 2 k) v (render (Ph k' d) @ render_all segs) = render (Ph k' d) @ rep_all (key_match 2 k) v (render_all segs)"
        using m False u(1) by simp
      then show ?thesis using False Ph IH by (simp add: render_all_def)
    qed
  qed
qed (simp add: render_all_def)

lemma split_sub: "name_ok k \<Longrightarrow> strings_SplitN (k @ CHR ''='' # v) ''='' 2 = [k, v]"
  by (simp add: numeral_2_eq_2 cut_at name_ok_def)

text \<open>One round of the substitution loop, on a rendered text.\<close>

lemma substitute_one_render:
  assumes k: "name_ok k" "hd k \<in> set H" and v: "dollar \<notin> set v" and ok: "list_all (seg_ok H) segs"
    and st: "sub_content st = render_all segs"
  shows "\<exists>u. substitute_one st (k @ CHR ''='' # v) =
    Inr (st\<lparr>sub_content := render_all (map (apply_sub (k, v)) segs), sub_usage := u\<rparr>)"
proof -
  have lit: "list_all literal_char k" using k(1) by (simp add: name_ok_def)
  note fires = fires_matchers [OF k] and quiet = unsupported_quiet [OF k(1)]
  have "nowhere (starts (dollar # k)) (render_all segs)" "nowhere (starts (''${'' @ k @ ''}'')) (render_all segs)"
    by (rule nowhere_render [OF fires(1) quiet(1) ok], simp add: starts_def)
       (rule nowhere_render [OF fires(2) quiet(2) ok], simp add: starts_def)
  then have no: "\<not> strings_Contains (render_all segs) (dollar # k)"
    "\<not> strings_Contains (render_all segs) (dollar # CHR ''{'' # k @ [rbrace])"
    by (simp_all add: Contains_nowhere)
  have "nowhere (key_match 1 k) (render_all segs)"
    using nowhere_render [OF fires(3) [of 0] _ ok] quiet(3) bad.match_nonempty by simp
  then have bad: "re_FindAllString (key_re 1 k) (render_all segs) = []"
    using bad.FindAll_none by (simp add: nowhere_iff re_FindAllString_def)
  have rep: "re_ReplaceAllString (key_re 2 k) (render_all segs) v = render_all (map (apply_sub (k, v)) segs)"
    using kr.ReplaceAllString_eq [OF v] replace_render [OF k ok] by simp
  show ?thesis
    by (rule exI [of _ "sub_usage st @ [length (re_FindAllString (key_re 2 k) (render_all segs))]"])
       (simp add: substitute_one_def split_sub [OF k(1)] st compile_bad [OF lit] compile_key [OF lit] Let_def
         no bad [simplified] rep)
qed

lemma apply_sub_ok: "dollar \<notin> set v \<Longrightarrow> seg_ok H sg \<Longrightarrow> seg_ok H (apply_sub (k, v) sg)"
  by (cases sg) (auto intro: txt_ok_plain)

lemma substitute_loop:
  assumes "list_all (\<lambda>(k, v). name_ok k \<and> hd k \<in> set H \<and> dollar \<notin> set v) subs" "list_all (seg_ok H) segs"
    and "sub_content st = render_all segs"
  shows "\<exists>u. rfold substitute_one st (map (\<lambda>(k, v). k @ CHR ''='' # v) subs) =
    Inr (st\<lparr>sub_content := render_all (map (fold apply_sub subs) segs), sub_usage := u\<rparr>)"
  using assms
proof (induction subs arbitrary: segs st)
  case Nil
  then have "st = st\<lparr>sub_content := render_all segs, sub_usage := sub_usage st\<rparr>" by simp
  then show ?case by (auto intro: exI [of _ "sub_usage st"])
next
  case (Cons kv subs)
  obtain k v where kv: "kv = (k, v)" by force
  let ?segs = "map (apply_sub (k, v)) segs"
  from Cons.prems kv obtain u where u: "substitute_one st (k @ CHR ''='' # v) =
      Inr (st\<lparr>sub_content := render_all ?segs, sub_usage := u\<rparr>)"
    using substitute_one_render [of k H v segs st] by auto
  have "list_all (seg_ok H) ?segs"
    using Cons.prems kv by (auto simp: list_all_iff intro: apply_sub_ok)
  with Cons.IH [of ?segs "st\<lparr>sub_content := render_all ?segs, sub_usage := u\<rparr>"] Cons.prems(1)
  show ?case using u kv by (simp add: comp_def)
qed

text \<open>The loop over the defaults, behind a prefix that is done.\<close>

lemma ph_match_Ph:
  assumes "seg_ok H (Ph k d)"
  shows "ph_match (render (Ph k d) @ w) = Some (length (render (Ph k d)))"
proof -
  obtain b where b: "render (Ph k d) = ''${{'' @ b @ ''}}''" "rbrace \<notin> set b"
  proof
    show "render (Ph k d) = ''${{'' @ (k @ (case d of None \<Rightarrow> [] | Some x \<Rightarrow> CHR '':'' # x)) @ ''}}''" by (cases d) auto
    show "rbrace \<notin> set (k @ (case d of None \<Rightarrow> [] | Some x \<Rightarrow> CHR '':'' # x))"
      using assms name_chars [of k rbrace] by (cases d) auto
  qed
  then have "dropWhile (\<lambda>c. c \<noteq> rbrace) (b @ rbrace # rbrace # w) = rbrace # rbrace # w"
    "takeWhile (\<lambda>c. c \<noteq> rbrace) (b @ rbrace # rbrace # w) = b"
    by (auto simp: dropWhile_append takeWhile_append)
  with b(1) show ?thesis by (simp add: ph_match_def)
qed

lemma ph_fires: "fires H ph_match"
  by (auto simp: fires_def ph_match_def prefix_def split: if_splits)

lemma txt_ok_before: "fires H f \<Longrightarrow> txt_ok H pre \<Longrightarrow> j < length pre \<Longrightarrow> f (drop j (pre @ w)) = None"
proof (induction pre arbitrary: j)
  case (Cons c pre)
  then show ?case using fires_txt [of H f c pre w] by (cases j) auto
qed simp

definition default_seg :: "seg \<Rightarrow> string res" where
  "default_seg = eval_seg []"

lemma SplitN_variable:
  assumes "name_ok k"
  shows "strings_SplitN (k @ (case d of None \<Rightarrow> [] | Some x \<Rightarrow> CHR '':'' # x)) '':'' 2 =
    (case d of None \<Rightarrow> [k] | Some x \<Rightarrow> [k, x])"
  using assms by (cases d) (simp_all add: numeral_2_eq_2 name_ok_def cut_at)

lemma subst_defaults_Ph:
  assumes "txt_ok H pre" "seg_ok H (Ph k d)"
  shows "subst_defaults (pre @ render (Ph k d) @ w) =
    (case d of None \<Rightarrow> Inl (Errorf ''no value for substitution %s'' [k]) | Some x \<Rightarrow> subst_defaults (pre @ x @ w))"
proof -
  define b where "b = k @ (case d of None \<Rightarrow> [] | Some x \<Rightarrow> CHR '':'' # x)"
  define r where "r = render (Ph k d)"
  have rb: "r = ''${{'' @ b @ ''}}''" by (cases d) (auto simp: b_def r_def)
  have "ph_match (r @ w) = Some (length r)" using ph_match_Ph [OF assms(2)] by (simp add: r_def)
  then obtain rest where "re_FindAllStringIndex placeholder_re (pre @ r @ w) = (length pre, length pre + length r) # rest"
    using phr.FindAll_first [of "length pre" "pre @ r @ w" "length r"] txt_ok_before [OF ph_fires assms(1)] by auto
  moreover have "take (length pre + length r - 2 - (length pre + 3)) (drop (length pre + 3) (pre @ r @ w)) = b"
    by (simp add: rb numeral_3_eq_3)
  moreover have "strings_SplitN b '':'' 2 = (case d of None \<Rightarrow> [k] | Some x \<Rightarrow> [k, x])"
    using SplitN_variable [of k d] assms(2) by (simp add: b_def)
  moreover have "d = None \<Longrightarrow> b = k" by (simp add: b_def)
  ultimately show ?thesis
    unfolding r_def [symmetric] by (subst subst_defaults.simps) (cases d, simp_all add: Let_def)
qed

lemma subst_defaults_render:
  "list_all (seg_ok H) segs \<Longrightarrow> txt_ok H pre \<Longrightarrow>
     subst_defaults (pre @ render_all segs) = rbind (rmap default_seg segs) (\<lambda>ts. Inr (pre @ concat ts))"
proof (induction segs arbitrary: pre)
  case Nil
  then have "re_FindAllStringIndex placeholder_re pre = []"
    using nowhere_txt [OF ph_fires Nil(2), of "[]"] phr.match_nonempty
    by (intro phr.FindAll_none) (simp add: nowhere_iff)
  then show ?case by (subst subst_defaults.simps) (simp add: render_all_def)
next
  case (Cons sg segs)
  show ?case
  proof (cases sg)
    case (Txt t)
    then have "txt_ok H (pre @ t)" using Cons.prems by (simp add: txt_ok_append)
    from Cons.IH [OF _ this] Cons.prems Txt show ?thesis
      by (simp add: render_all_def default_seg_def rbind_assoc)
  next
    case (Ph k d)
    then have *: "subst_defaults (pre @ render_all (sg # segs)) =
        (case d of None \<Rightarrow> Inl (Errorf ''no value for substitution %s'' [k]) | Some x \<Rightarrow> subst_defaults (pre @ x @ render_all segs))"
      using subst_defaults_Ph [of H pre k d "render_all segs"] Cons.prems by (simp add: render_all_def)
    show ?thesis
    proof (cases d)
      case (Some x)
      then have "txt_ok H (pre @ x)" using Cons.prems Ph by (simp add: txt_ok_append)
      from Cons.IH [OF _ this] Cons.prems Ph Some show ?thesis
        unfolding * by (simp add: default_seg_def rbind_assoc)
    next
      case None
      then show ?thesis unfolding * using Ph by (simp add: default_seg_def)
    qed
  qed
qed

lemma default_fold: "default_seg (fold apply_sub subs sg) = eval_seg subs sg"
proof (induction subs arbitrary: sg)
  case (Cons kv subs)
  have keep: "fold apply_sub subs (Txt t) = Txt t" for t by (induction subs) auto
  show ?case using Cons [of sg] keep by (cases sg; cases kv) (auto simp: default_seg_def)
qed (simp add: default_seg_def)

lemma substitute_spec:
  assumes "subs_ok subs" "list_all (seg_ok (heads subs)) segs"
  shows "substitute (render_all segs) (map (\<lambda>(k, v). k @ CHR ''='' # v) subs) =
    rbind (rmap (eval_seg subs) segs) (\<lambda>ts. Inr (concat ts))"
proof -
  let ?st = "\<lparr>sub_content = render_all segs, sub_usage = [], sub_unsupported = []\<rparr>" and ?H = "heads subs"
  have "list_all (\<lambda>(k, v). name_ok k \<and> hd k \<in> set ?H \<and> dollar \<notin> set v) subs"
    using assms(1) by (force simp: subs_ok_def heads_def list_all_iff)
  from substitute_loop [OF this assms(2), of ?st] obtain u where
    "rfold substitute_one ?st (map (\<lambda>(k, v). k @ CHR ''='' # v) subs) =
      Inr (?st\<lparr>sub_content := render_all (map (fold apply_sub subs) segs), sub_usage := u\<rparr>)" by auto
  moreover have "list_all (seg_ok ?H) (map (fold apply_sub subs) segs)"
  proof -
    have "list_all (\<lambda>(k, v). dollar \<notin> set v) subs" using assms(1) by (auto simp: subs_ok_def list_all_iff)
    then have "seg_ok H sg \<Longrightarrow> seg_ok H (fold apply_sub subs sg)" for H sg
      by (induction subs arbitrary: sg) (auto intro: apply_sub_ok)
    then show ?thesis using assms(2) by (auto simp: list_all_iff)
  qed
  moreover have "rmap default_seg (map (fold apply_sub subs) segs) = rmap (eval_seg subs) segs"
    by (induction segs) (auto simp: default_fold)
  ultimately show ?thesis
    using subst_defaults_render [of ?H "map (fold apply_sub subs) segs" "[]"] by (simp add: substitute_def)
qed

section \<open>Properties\<close>

text \<open>
  C4. On a text of plain segments and placeholders, \<^verbatim>\<open>substitute\<close> computes the
  specification: every placeholder \<open>${{NAME}}\<close> or \<open>${{NAME:default}}\<close> becomes the value of
  the first substitution for its name, otherwise its default, and a placeholder with
  neither is an error that names it. The names are literal (no regular-expression
  characters, no colon, no equals sign), values hold no dollar sign (the code expands a value
  as a regular-expression template), and dollar signs in the text are not followed by a
  brace or by the first character of a substitution name.
\<close>

theorem substitute_refines:
  assumes "subs_ok subs" "list_all (seg_ok (heads subs)) segs"
  shows "substitute (render_all segs) (map (\<lambda>(k, v). k @ CHR ''='' # v) subs) =
    rbind (rmap (eval_seg subs) segs) (\<lambda>ts. Inr (concat ts))"
  using assms by (rule substitute_spec)

theorem substitute_refines_witness:
  "substitute ''a $(b) ${{X}} ${{Y:d}}'' [''X=1''] = Inr ''a $(b) 1 d''"
proof -
  have "subs_ok [(''X'', ''1'')] \<and>
    list_all (seg_ok (heads [(''X'', ''1'')])) [Txt ''a $(b) '', Ph ''X'' None, Txt '' '', Ph ''Y'' (Some ''d'')]"
    by (simp add: subs_ok_def heads_def name_ok_def literal_char_def)
  with substitute_refines [of "[(''X'', ''1'')]" "[Txt ''a $(b) '', Ph ''X'' None, Txt '' '', Ph ''Y'' (Some ''d'')]"]
  show ?thesis by (simp add: render_all_def)
qed

lemma subst_defaults_clean: "subst_defaults c = Inr out \<Longrightarrow> re_FindAllStringIndex placeholder_re out = []"
proof (induction c rule: subst_defaults.induct)
  case (1 content)
  show ?case
  proof (cases "re_FindAllStringIndex placeholder_re content")
    case Nil
    with 1(2) show ?thesis by (subst (asm) subst_defaults.simps) simp
  next
    case (Cons p rest)
    with 1 show ?thesis
      by (subst (asm) (2) subst_defaults.simps) (auto simp: Let_def split: list.splits prod.splits)
  qed
qed

text \<open>
  C23. Whatever the file and the substitutions are, when \<^verbatim>\<open>substitute\<close> succeeds its
  result holds no placeholder: \<open>${{\<close>, any text without \<open>}\<close>, \<open>}}\<close> occurs nowhere.
\<close>

theorem substitute_no_placeholder_left:
  assumes "substitute content subs = Inr out" and "rbrace \<notin> set b"
  shows "out \<noteq> pre @ ''${{'' @ b @ ''}}'' @ post"
proof
  assume out: "out = pre @ ''${{'' @ b @ ''}}'' @ post"
  from assms(1) have "re_FindAllStringIndex placeholder_re out = []"
    by (auto simp: substitute_def rbind_Inr_iff split: if_splits intro: subst_defaults_clean)
  then have "\<forall>j \<le> length out. ph_match (drop j out) = None" by (simp only: phr.FindAll_Nil_iff)
  then have "ph_match (drop (length pre) out) = None" by (rule allE [of _ "length pre"]) (simp add: out)
  moreover have "dropWhile (\<lambda>c. c \<noteq> rbrace) (b @ rbrace # rbrace # post) = rbrace # rbrace # post"
    using assms(2) by (auto simp: dropWhile_append)
  ultimately show False using out by (simp add: ph_match_def)
qed

theorem substitute_no_placeholder_left_witness:
  "substitute ''${{A:b}}'' [] = Inr ''b'' \<and> ''b'' \<noteq> [] @ ''${{'' @ ''x'' @ ''}}'' @ []"
proof -
  have "substitute ''${{A:b}}'' [] = Inr ''b''"
    using subst_defaults_render [of "[]" "[Ph ''A'' (Some ''b'')]" "[]"]
    by (simp add: substitute_def default_seg_def name_ok_def literal_char_def render_all_def)
  with substitute_no_placeholder_left [of "''${{A:b}}''" "[]" "''b''" "''x''" "[]" "[]"] show ?thesis by simp
qed

end
