(* ===== verification/Go_Path.thy ===== *)
theory Go_Path
  imports Go_Prelude
begin

text \<open>
  The lexical path functions of Go's \<^verbatim>\<open>path\<close> and \<^verbatim>\<open>path/filepath\<close> packages that stacker
  calls (on Unix the two agree), and the facts about them that the components use: what
  \<^verbatim>\<open>Join\<close> builds from a directory and a plain name, and that absolute paths stay absolute.
\<close>

section \<open>Definitions\<close>

abbreviation slash :: char where "slash \<equiv> CHR ''/''"

definition filepath_IsAbs :: "string \<Rightarrow> bool" where
  "filepath_IsAbs p = strings_HasPrefix p ''/''"

text \<open>One element of a path against the elements kept so far (last one first).\<close>

definition clean_step :: "bool \<Rightarrow> string list \<Rightarrow> string \<Rightarrow> string list" where
  "clean_step rooted st c =
     (if c = [] \<or> c = ''.'' then st
      else if c = ''..'' then
        (case st of
           [] \<Rightarrow> if rooted then [] else [c]
         | t # ts \<Rightarrow> if t = ''..'' then c # st else ts)
      else c # st)"

definition path_elems :: "bool \<Rightarrow> string \<Rightarrow> string list" where
  "path_elems rooted p = rev (foldl (clean_step rooted) [] (strings_Split p ''/''))"

definition path_Clean :: "string \<Rightarrow> string" where
  "path_Clean p =
     (if filepath_IsAbs p then slash # strings_Join (path_elems True p) ''/''
      else (let es = path_elems False p in if es = [] then ''.'' else strings_Join es ''/''))"

definition path_Join :: "string list \<Rightarrow> string" where
  "path_Join ps =
     (let qs = filter (\<lambda>p. p \<noteq> []) ps in if qs = [] then [] else path_Clean (strings_Join qs ''/''))"

definition path_Base :: "string \<Rightarrow> string" where
  "path_Base p =
     (if p = [] then ''.''
      else (let q = last (strings_Split (strings_TrimRight p ''/'') ''/'') in if q = [] then ''/'' else q))"

text \<open>Everything before the last slash, with the slash, cleaned.\<close>

definition path_Dir :: "string \<Rightarrow> string" where
  "path_Dir p = path_Clean (rev (dropWhile (\<lambda>c. c \<noteq> slash) (rev p)))"

text \<open>\<^verbatim>\<open>filepath.Abs\<close>, with the working directory as a parameter.\<close>

definition filepath_Abs :: "string \<Rightarrow> string \<Rightarrow> string" where
  "filepath_Abs cwd p = (if filepath_IsAbs p then path_Clean p else path_Join [cwd, p])"

text \<open>A plain name: one element that cleaning keeps.\<close>

definition plain :: "string \<Rightarrow> bool" where
  "plain x = (x \<noteq> [] \<and> x \<noteq> ''.'' \<and> x \<noteq> ''..'' \<and> slash \<notin> set x)"

text \<open>A path that is absolute and clean, and is not the root itself.\<close>

definition clean_abs :: "string \<Rightarrow> bool" where
  "clean_abs d = (filepath_IsAbs d \<and> path_Clean d = d \<and> d \<noteq> ''/'')"

section \<open>Facts\<close>

lemma split_slash_append:
  "strings_Split (a @ slash # b) ''/'' = strings_Split a ''/'' @ strings_Split b ''/''"
proof (induction "length a" arbitrary: a rule: less_induct)
  case less
  show ?case
  proof (cases "slash \<in> set a")
    case True
    then obtain x y where xy: "a = x @ slash # y" "slash \<notin> set x"
      by (metis split_list_first)
    then have "strings_Split (y @ slash # b) ''/'' = strings_Split y ''/'' @ strings_Split b ''/''"
      by (intro less) simp
    with xy show ?thesis
      by (simp add: strings_Split_unfold [of "''/''" "x @ _"] cut_at)
  next
    case False
    then show ?thesis by (simp add: strings_Split_unfold [of "''/''" "a @ _"] cut_at strings_Split_notin)
  qed
qed

lemma split_slash_Cons [simp]: "strings_Split (slash # b) ''/'' = [] # strings_Split b ''/''"
  using split_slash_append [of "[]" b] by (simp add: strings_Split_notin)

lemma foldl_clean_plain:
  "(\<And>x. x \<in> set xs \<Longrightarrow> plain x) \<Longrightarrow> foldl (clean_step r) st xs = rev xs @ st"
  by (induction xs arbitrary: st) (auto simp: clean_step_def plain_def)

lemma clean_step_Nil [simp]: "clean_step r st [] = st"
  by (simp add: clean_step_def)

lemma clean_elems_plain:
  "(\<And>x. x \<in> set xs \<Longrightarrow> slash \<notin> set x) \<Longrightarrow> list_all plain st \<Longrightarrow>
     list_all plain (foldl (clean_step True) st xs)"
proof (induction xs arbitrary: st)
  case (Cons x xs)
  have "list_all plain (clean_step True st x)"
    using Cons.prems by (cases st) (auto simp: clean_step_def plain_def list_all_iff)
  then show ?case using Cons by simp
qed simp

lemma path_elems_plain: "x \<in> set (path_elems True p) \<Longrightarrow> plain x"
proof -
  have "list_all plain (foldl (clean_step True) [] (strings_Split p ''/''))"
    by (rule clean_elems_plain) (auto dest: strings_Split_char_notin)
  then show "x \<in> set (path_elems True p) \<Longrightarrow> plain x"
    by (simp add: path_elems_def list_all_iff)
qed

lemma split_join_plain: "xs \<noteq> [] \<Longrightarrow> (\<And>x. x \<in> set xs \<Longrightarrow> plain x) \<Longrightarrow>
    strings_Split (strings_Join xs ''/'') ''/'' = xs"
  by (rule strings_Join_Split) (auto simp: plain_def)

lemma path_elems_join_plain:
  assumes "\<And>x. x \<in> set xs \<Longrightarrow> plain x"
  shows "path_elems r (slash # strings_Join xs ''/'') = xs"
proof (cases "xs = []")
  case True
  then show ?thesis by (simp add: path_elems_def strings_Split_notin)
next
  case False
  then show ?thesis using assms
    by (simp add: path_elems_def split_join_plain foldl_clean_plain)
qed

lemma path_Clean_abs [simp]: "filepath_IsAbs p \<Longrightarrow> filepath_IsAbs (path_Clean p)"
  by (simp add: path_Clean_def filepath_IsAbs_def strings_HasPrefix_def)

lemma path_Clean_idem_abs: "filepath_IsAbs p \<Longrightarrow> path_Clean (path_Clean p) = path_Clean p"
  by (simp add: path_Clean_def filepath_IsAbs_def strings_HasPrefix_def path_elems_join_plain path_elems_plain)

lemma path_Join_abs: "filepath_IsAbs d \<Longrightarrow> filepath_IsAbs (path_Join (d # ps))"
proof -
  assume d: "filepath_IsAbs d"
  then obtain d' where "d = slash # d'" by (cases d) (auto simp: filepath_IsAbs_def strings_HasPrefix_def)
  then have "filepath_IsAbs (strings_Join (d # filter (\<lambda>p. p \<noteq> []) ps) ''/'')"
    by (cases "filter (\<lambda>p. p \<noteq> []) ps") (auto simp: filepath_IsAbs_def strings_HasPrefix_def)
  then show ?thesis using \<open>d = slash # d'\<close> by (simp add: path_Join_def)
qed

lemma filepath_Abs_abs: "filepath_IsAbs cwd \<Longrightarrow> filepath_IsAbs (filepath_Abs cwd p)"
  by (simp add: filepath_Abs_def path_Join_abs)

lemma filepath_Abs_idem:
  "filepath_IsAbs cwd \<Longrightarrow> filepath_Abs cwd (filepath_Abs cwd p) = filepath_Abs cwd p"
proof -
  assume cwd: "filepath_IsAbs cwd"
  have "path_Clean (path_Join [cwd, p]) = path_Join [cwd, p]"
  proof -
    obtain d' where d: "cwd = slash # d'"
      using cwd by (cases cwd) (auto simp: filepath_IsAbs_def strings_HasPrefix_def)
    then have "filepath_IsAbs (strings_Join (filter (\<lambda>p. p \<noteq> []) [cwd, p]) ''/'')"
      by (auto simp: filepath_IsAbs_def strings_HasPrefix_def)
    then show ?thesis using d by (simp add: path_Join_def path_Clean_idem_abs)
  qed
  then show ?thesis using cwd
    by (auto simp: filepath_Abs_def path_Clean_idem_abs path_Join_abs)
qed

text \<open>The elements of a clean absolute path, and the path they spell.\<close>

lemma clean_abs_elems:
  assumes "clean_abs d"
  obtains es where "d = slash # strings_Join es ''/''" "es \<noteq> []" "\<And>x. x \<in> set es \<Longrightarrow> plain x"
proof
  show "d = slash # strings_Join (path_elems True d) ''/''"
    using assms by (metis clean_abs_def path_Clean_def)
  then show "path_elems True d \<noteq> []" using assms by (auto simp: clean_abs_def)
qed (rule path_elems_plain)

lemma path_Join_plain:
  assumes "clean_abs d" and "plain x"
  shows "path_Join [d, x] = d @ slash # x"
proof -
  obtain es where es: "d = slash # strings_Join es ''/''" "es \<noteq> []" "\<And>y. y \<in> set es \<Longrightarrow> plain y"
    using clean_abs_elems [OF assms(1)] by blast
  have eq: "d @ slash # x = slash # strings_Join (es @ [x]) ''/''"
    using es by (simp add: strings_Join_snoc)
  have "path_elems True (d @ slash # x) = es @ [x]"
    unfolding eq using es assms(2) by (intro path_elems_join_plain) auto
  then show ?thesis using assms es eq
    by (simp add: path_Join_def path_Clean_def plain_def filepath_IsAbs_def strings_HasPrefix_def)
qed

lemma clean_abs_Join:
  assumes "clean_abs d" and "plain x"
  shows "clean_abs (path_Join [d, x])"
proof -
  have d: "filepath_IsAbs (d @ slash # x)" "d \<noteq> []" "x \<noteq> []"
    using assms by (auto simp: clean_abs_def plain_def filepath_IsAbs_def strings_HasPrefix_def prefix_def)
  then have "path_Clean (d @ slash # x) = d @ slash # x"
    using path_Join_plain [OF assms] by (simp add: path_Join_def)
  with d show ?thesis
    by (simp add: clean_abs_def path_Join_plain [OF assms] append_eq_Cons_conv)
qed

lemma TrimRight_plain: "x \<noteq> [] \<Longrightarrow> slash \<notin> set x \<Longrightarrow> strings_TrimRight (d @ x) ''/'' = d @ x"
  by (cases x rule: rev_cases) (auto simp: strings_TrimRight_def)

lemma path_Base_append: "x \<noteq> [] \<Longrightarrow> slash \<notin> set x \<Longrightarrow> path_Base (d @ slash # x) = x"
  using TrimRight_plain [of x "d @ ''/''"]
  by (simp add: path_Base_def split_slash_append strings_Split_notin)

lemma path_Base_plain: "x \<noteq> [] \<Longrightarrow> slash \<notin> set x \<Longrightarrow> path_Base x = x"
  using TrimRight_plain [of x "[]"] by (simp add: path_Base_def strings_Split_notin)

lemma path_Base_Join: "clean_abs d \<Longrightarrow> plain x \<Longrightarrow> path_Base (path_Join [d, x]) = x"
  by (simp add: path_Join_plain path_Base_append plain_def)

lemma path_Base_no_slash: "path_Base p = ''/'' \<or> slash \<notin> set (path_Base p)"
proof -
  have "slash \<notin> set (last (strings_Split (strings_TrimRight p ''/'') ''/''))"
    by (rule strings_Split_char_notin [of _ "strings_TrimRight p ''/''"]) simp
  then show ?thesis by (auto simp: path_Base_def Let_def)
qed

lemma path_Base_nonempty [simp]: "path_Base p \<noteq> []"
  by (simp add: path_Base_def Let_def)

lemma path_Join_inj:
  assumes "clean_abs d" "plain x" "plain y" and "path_Join [d, x] = path_Join [d, y]"
  shows "x = y"
  using assms by (metis path_Base_Join)

text \<open>Cleaning a path without \<open>..\<close> drops empty elements and dots.\<close>

lemma path_elems_no_dotdot:
  assumes "''..'' \<notin> set (strings_Split p ''/'')"
  shows "path_elems r p = filter (\<lambda>c. c \<noteq> [] \<and> c \<noteq> ''.'') (strings_Split p ''/'')"
proof -
  have "foldl (clean_step r) st xs = rev (filter (\<lambda>c. c \<noteq> [] \<and> c \<noteq> ''.'') xs) @ st" if "''..'' \<notin> set xs" for st xs
    using that by (induction xs arbitrary: st) (auto simp: clean_step_def)
  with assms show ?thesis by (simp add: path_elems_def)
qed

text \<open>A clean directory, with plain names below it.\<close>

lemma Join_append_names: "xs \<noteq> [] \<Longrightarrow> strings_Join (xs @ ys) ''/'' = strings_Join xs ''/'' @ concat (map (\<lambda>x. slash # x) ys)"
proof (induction ys arbitrary: xs)
  case (Cons y ys)
  then show ?case using Cons.IH [of "xs @ [y]"] by (simp add: strings_Join_snoc)
qed simp

lemma path_Join_plains:
  assumes "clean_abs d" "\<And>x. x \<in> set xs \<Longrightarrow> plain x"
  shows "path_Join (d # xs) = d @ concat (map (\<lambda>x. slash # x) xs)"
proof -
  obtain es where es: "d = slash # strings_Join es ''/''" "es \<noteq> []" "\<And>y. y \<in> set es \<Longrightarrow> plain y"
    using clean_abs_elems [OF assms(1)] by blast
  have ne: "filter (\<lambda>p. p \<noteq> []) (d # xs) = d # xs" using assms(2) es(1) by (auto simp: plain_def filter_id_conv)
  have eq: "d @ concat (map (\<lambda>x. slash # x) xs) = slash # strings_Join (es @ xs) ''/''"
    using es by (simp add: Join_append_names)
  have "strings_Join (d # xs) ''/'' = d @ concat (map (\<lambda>x. slash # x) xs)"
    using Join_append_names [of "[d]" xs] by simp
  moreover have "path_elems True (d @ concat (map (\<lambda>x. slash # x) xs)) = es @ xs"
    unfolding eq using es assms(2) by (intro path_elems_join_plain) auto
  ultimately show ?thesis using ne eq es(1)
    by (simp add: path_Join_def path_Clean_def filepath_IsAbs_def strings_HasPrefix_def)
qed

lemma path_Join_abs_abs:
  assumes "clean_abs d" "clean_abs e"
  shows "path_Join [d, e] = d @ e"
proof -
  obtain es where es: "d = slash # strings_Join es ''/''" "es \<noteq> []" "\<And>y. y \<in> set es \<Longrightarrow> plain y"
    using clean_abs_elems [OF assms(1)] by blast
  obtain fs where fs: "e = slash # strings_Join fs ''/''" "fs \<noteq> []" "\<And>y. y \<in> set fs \<Longrightarrow> plain y"
    using clean_abs_elems [OF assms(2)] by blast
  have "strings_Split (d @ slash # e) ''/'' = [] # es @ [] # fs"
    using es fs split_join_plain [of es] split_join_plain [of fs] by (simp add: split_slash_append)
  then have "path_elems True (d @ slash # e) = es @ fs"
    using es(3) fs(3) path_elems_no_dotdot [of "d @ slash # e" True] by (auto simp: plain_def filter_id_conv)
  moreover have "slash # strings_Join (es @ fs) ''/'' = d @ e"
    using es(1,2) fs(1,2) by (simp add: strings_Join_append)
  ultimately show ?thesis using es(1) fs(1)
    by (simp add: path_Join_def path_Clean_def filepath_IsAbs_def strings_HasPrefix_def)
qed

text \<open>Elements without a colon make a path without one (the rule overlay mounts depend on).\<close>

lemma clean_step_subset: "set (clean_step r st x) \<subseteq> insert x (set st)"
  by (cases st) (auto simp: clean_step_def)

lemma clean_step_set: "set (foldl (clean_step r) st xs) \<subseteq> set st \<union> set xs"
proof (induction xs arbitrary: st)
  case (Cons x xs)
  show ?case using Cons [of "clean_step r st x"] clean_step_subset [of r st x] by auto
qed simp

lemma path_elems_chars: "(\<Union>x \<in> set (path_elems r p). set x) \<subseteq> set p"
proof -
  have "x \<in> set (strings_Split p ''/'') \<Longrightarrow> set x \<subseteq> set p" for x
    using set_in_Join [of x "strings_Split p ''/''" "''/''"] by (simp add: strings_Split_Join)
  then show ?thesis
    using clean_step_set [of r "[]" "strings_Split p ''/''"] by (auto simp: path_elems_def)
qed

lemma path_Clean_chars: "set (path_Clean p) \<subseteq> set p \<union> {slash, CHR ''.''}"
proof (cases "filepath_IsAbs p")
  case True
  then show ?thesis
    using set_strings_Join [of "path_elems True p" "''/''"] path_elems_chars [of True p]
    by (auto simp: path_Clean_def)
next
  case False
  then show ?thesis
    using set_strings_Join [of "path_elems False p" "''/''"] path_elems_chars [of False p]
    by (auto simp: path_Clean_def Let_def)
qed

lemma path_Join_chars: "set (path_Join ps) \<subseteq> (\<Union>p \<in> set ps. set p) \<union> {slash, CHR ''.''}"
proof -
  let ?qs = "filter (\<lambda>p. p \<noteq> []) ps"
  have "set (strings_Join ?qs ''/'') \<subseteq> (\<Union>p \<in> set ps. set p) \<union> {slash}"
    using set_strings_Join [of ?qs "''/''"] by auto
  then show ?thesis
    using path_Clean_chars [of "strings_Join ?qs ''/''"] by (auto simp: path_Join_def Let_def)
qed

end
