(* ===== verification/Image_Source.thy ===== *)
theory Image_Source
  imports Go_Path
begin

text \<open>
  Where a layer comes from and what it is written as: \<^verbatim>\<open>pkg/types/imagesource.go\<close> (URLs,
  image sources and their tags) and \<^verbatim>\<open>pkg/types/layer_type.go\<close> (output layer types).
  The media types and the annotation key that name an output format are constants of the
  atomfs and OCI packages: they are the fields of a parameter record.
\<close>

section \<open>URLs and image sources\<close>

record dockerishUrl =
  du_Scheme :: string
  du_Host :: string
  du_Tag :: string
  du_Path :: string

record ImageSource =
  is_Type :: string
  is_Url :: string
  is_Tag :: string
  is_Insecure :: bool

definition DockerLayer :: string where "DockerLayer = ''docker''"
definition TarLayer :: string where "TarLayer = ''tar''"
definition OCILayer :: string where "OCILayer = ''oci''"
definition BuiltLayer :: string where "BuiltLayer = ''built''"
definition ScratchLayer :: string where "ScratchLayer = ''scratch''"

lemmas layer_kind_defs = DockerLayer_def TarLayer_def OCILayer_def BuiltLayer_def ScratchLayer_def

definition IsContainersImageLayer :: "string \<Rightarrow> bool" where
  "IsContainersImageLayer frm = (frm = DockerLayer \<or> frm = OCILayer)"

definition NewDockerishUrl :: "string \<Rightarrow> dockerishUrl res" where
  "NewDockerishUrl thing =
     (case strings_SplitN thing ''://'' 2 of
        [scheme, rest] \<Rightarrow>
          (let pathSplit = strings_SplitN rest ''/'' 2;
               host = hd pathSplit;
               path = (if length pathSplit = 2 then slash # pathSplit ! 1 else []);
               tagSplit = strings_SplitN host '':'' 2;
               tag = (if length tagSplit = 2 then tagSplit ! 1 else [])
           in Inr \<lparr>du_Scheme = scheme, du_Host = host, du_Tag = tag, du_Path = path\<rparr>)
      | _ \<Rightarrow> Inr \<lparr>du_Scheme = [], du_Host = [], du_Tag = [], du_Path = thing\<rparr>)"

definition NewImageSource :: "string \<Rightarrow> ImageSource res" where
  "NewImageSource s =
     (if strings_HasPrefix s ''oci:'' then
        Inr \<lparr>is_Type = OCILayer, is_Url = drop (length ''oci:'') s, is_Tag = [], is_Insecure = False\<rparr>
      else rbind (NewDockerishUrl s) (\<lambda>url.
        if du_Scheme url = ''docker'' then
          Inr \<lparr>is_Type = DockerLayer, is_Url = s, is_Tag = [], is_Insecure = False\<rparr>
        else Inl (Errorf ''unknown image source type: %s'' [s])))"

definition ContainersImageURL :: "ImageSource \<Rightarrow> string res" where
  "ContainersImageURL is =
     (if is_Type is = DockerLayer then Inr (is_Url is)
      else if is_Type is = OCILayer then Inr (''oci:'' @ is_Url is)
      else Inl (Errorf ''can't get containers/image url for source type: %s'' [is_Type is]))"

definition ParseTag :: "ImageSource \<Rightarrow> string res" where
  "ParseTag is =
     (if is_Type is = BuiltLayer then Inr (is_Tag is)
      else if is_Type is = DockerLayer then
        rbind (NewDockerishUrl (is_Url is)) (\<lambda>url.
          if du_Path url \<noteq> [] then Inr (path_Base (hd (strings_Split (du_Path url) '':'')))
          else Inr (hd (strings_Split (du_Host url) '':'')))
      else if is_Type is = OCILayer then
        (case strings_SplitN (is_Url is) '':'' 2 of
           [_, t] \<Rightarrow> Inr t
         | _ \<Rightarrow> Inl (Errorf ''bad OCI tag: %s'' [is_Type is]))
      else Inl (Errorf ''unsupported type: %s'' [is_Type is]))"

text \<open>The fields of \<^verbatim>\<open>ImageSource\<close> by their yaml tags, as \<^verbatim>\<open>init\<close> collects them.\<close>

definition imageSourceFields :: "string list" where
  "imageSourceFields = [''type'', ''url'', ''tag'', ''insecure'']"

section \<open>Layer types\<close>

record LayerType =
  lt_Type :: string
  lt_Verity :: bool

record Descriptor =
  desc_MediaType :: string
  desc_Digest :: string
  desc_Size :: int
  desc_Annotations :: "(string \<times> string) list"

record Manifest =
  man_Config :: Descriptor
  man_Layers :: "Descriptor list"
  man_Annotations :: "(string \<times> string) list"

record media_types =
  mt_squashfs_base :: string
  mt_squashfs_gzip :: string
  mt_squashfs_zstd :: string
  mt_erofs_base :: string
  mt_erofs_lz4hc :: string
  mt_erofs_lz4 :: string
  mt_erofs_zstd :: string
  mt_layer_gzip :: string
  mt_layer :: string
  mt_verity_annotation :: string

definition LayerType_String :: "LayerType \<Rightarrow> string" where
  "LayerType_String lt = (if lt_Verity lt then lt_Type lt @ ''+verity'' else lt_Type lt)"

definition LayerType_MarshalText :: "LayerType \<Rightarrow> string res" where
  "LayerType_MarshalText lt = Inr (lt_Type lt @ ''+'' @ fmt_bool (lt_Verity lt))"

text \<open>The receiver is an argument: a text without \<open>+\<close> leaves its verity field alone.\<close>

definition LayerType_UnmarshalText :: "LayerType \<Rightarrow> string \<Rightarrow> LayerType res" where
  "LayerType_UnmarshalText lt text =
     (let fields = strings_Split text ''+'' in
      if length fields > 2 then Inl (Errorf ''invalid layer type %s'' [text])
      else if length fields = 1 then Inr (lt\<lparr>lt_Type := hd fields\<rparr>)
      else (case strconv_ParseBool (fields ! 1) of
          Inl err \<Rightarrow> Inl (Wrapf err ''bad verity bool: %s'' [fields ! 1])
        | Inr result \<Rightarrow> Inr (lt\<lparr>lt_Type := hd fields, lt_Verity := result\<rparr>)))"

definition NewLayerType :: "string \<Rightarrow> bool \<Rightarrow> LayerType res" where
  "NewLayerType lt verity =
     (if lt = ''squashfs'' \<or> lt = ''erofs'' then Inr \<lparr>lt_Type = lt, lt_Verity = verity\<rparr>
      else if lt = ''tar'' then Inr \<lparr>lt_Type = lt, lt_Verity = False\<rparr>
      else Inl (Errorf ''invalid layer type: %s'' [lt]))"

definition NewLayerTypeManifest :: "media_types \<Rightarrow> Manifest \<Rightarrow> LayerType res" where
  "NewLayerTypeManifest mt manifest =
     (case man_Layers manifest of
        [] \<Rightarrow> NewLayerType ''tar'' False
      | d # _ \<Rightarrow>
         (let verityPresent = (map_of (desc_Annotations d) (mt_verity_annotation mt) \<noteq> None);
              m = desc_MediaType d
          in if m = mt_squashfs_base mt \<or> m = mt_squashfs_gzip mt \<or> m = mt_squashfs_zstd mt
             then NewLayerType ''squashfs'' verityPresent
             else if m = mt_erofs_base mt \<or> m = mt_erofs_lz4hc mt \<or> m = mt_erofs_lz4 mt \<or> m = mt_erofs_zstd mt
             then NewLayerType ''erofs'' verityPresent
             else if m = mt_layer_gzip mt \<or> m = mt_layer mt then NewLayerType ''tar'' False
             else Inl (Errorf ''invalid layer type %s'' [m])))"

definition NewLayerTypes :: "string list \<Rightarrow> bool \<Rightarrow> LayerType list res" where
  "NewLayerTypes lts verity = rmap (\<lambda>lt. NewLayerType lt verity) lts"

definition LayerName :: "LayerType \<Rightarrow> string \<Rightarrow> string" where
  "LayerName lt tag = (if lt_Type lt = ''tar'' then tag else tag @ ''-'' @ lt_Type lt)"

text \<open>What \<^verbatim>\<open>NewLayerType\<close> lets through: the three formats, and no verity on tar.\<close>

definition valid_layer_type :: "LayerType \<Rightarrow> bool" where
  "valid_layer_type lt =
     (lt_Type lt \<in> {''tar'', ''squashfs'', ''erofs''} \<and> (lt_Type lt = ''tar'' \<longrightarrow> \<not> lt_Verity lt))"

section \<open>Facts about URLs\<close>

text \<open>The parser is total; its result as a function.\<close>

definition dockerish :: "string \<Rightarrow> dockerishUrl" where
  "dockerish thing = (case NewDockerishUrl thing of Inr u \<Rightarrow> u | Inl _ \<Rightarrow> undefined)"

lemma SplitN_2: "strings_SplitN s sep 2 = (case str_cut sep s of None \<Rightarrow> [s] | Some (a, b) \<Rightarrow> [a, b])"
  by (simp add: numeral_2_eq_2 split: option.splits)

lemma NewDockerishUrl_dockerish [simp]: "NewDockerishUrl thing = Inr (dockerish thing)"
  by (auto simp: dockerish_def NewDockerishUrl_def SplitN_2 Let_def split: option.splits)

lemma dockerish_None: "str_cut ''://'' thing = None \<Longrightarrow>
    dockerish thing = \<lparr>du_Scheme = [], du_Host = [], du_Tag = [], du_Path = thing\<rparr>"
  by (simp add: dockerish_def NewDockerishUrl_def SplitN_2 del: NewDockerishUrl_dockerish)

lemma dockerish_Some:
  assumes "str_cut ''://'' thing = Some (scheme, rest)"
  shows "du_Scheme (dockerish thing) = scheme"
    and "du_Host (dockerish thing) = takeWhile (\<lambda>c. c \<noteq> slash) rest"
    and "du_Path (dockerish thing) = dropWhile (\<lambda>c. c \<noteq> slash) rest"
proof -
  have D: "dockerish thing =
      (let host = takeWhile (\<lambda>c. c \<noteq> slash) rest; tagSplit = strings_SplitN host '':'' 2
       in \<lparr>du_Scheme = scheme, du_Host = host, du_Tag = (if length tagSplit = 2 then tagSplit ! 1 else []),
            du_Path = dropWhile (\<lambda>c. c \<noteq> slash) rest\<rparr>)"
  proof (cases "slash \<in> set rest")
    case True
    then show ?thesis using assms
      by (simp add: dockerish_def NewDockerishUrl_def SplitN_2 [of thing] SplitN_2 [of rest] Let_def
          cut_char [of slash] dropWhile_until del: NewDockerishUrl_dockerish)
  next
    case False
    then have none: "takeWhile (\<lambda>c. c \<noteq> slash) rest = rest" "dropWhile (\<lambda>c. c \<noteq> slash) rest = []"
      by (simp_all add: takeWhile_eq_all_conv dropWhile_eq_Nil_conv) blast+
    then show ?thesis unfolding none using assms cut_notin [OF False]
      by (simp add: dockerish_def NewDockerishUrl_def SplitN_2 [of thing] SplitN_2 [of rest] Let_def
          del: NewDockerishUrl_dockerish)
  qed
  show "du_Scheme (dockerish thing) = scheme"
    and "du_Host (dockerish thing) = takeWhile (\<lambda>c. c \<noteq> slash) rest"
    and "du_Path (dockerish thing) = dropWhile (\<lambda>c. c \<noteq> slash) rest"
    by (simp_all add: D Let_def)
qed

text \<open>A text without \<open>://\<close> has no scheme; an absolute path is such a text unless it contains one.\<close>

lemma dockerish_no_scheme: "\<not> strings_Contains thing ''://'' \<Longrightarrow> du_Scheme (dockerish thing) = []"
  by (cases "str_cut ''://'' thing") (simp_all add: strings_Contains_def dockerish_None)

text \<open>A URL as stacker writes one: \<open>scheme://host/rest\<close>.\<close>

lemma dockerish_url:
  assumes "\<not> strings_Contains scheme '':''" and "slash \<notin> set host"
  shows "du_Scheme (dockerish (scheme @ ''://'' @ host @ slash # p)) = scheme"
    and "du_Host (dockerish (scheme @ ''://'' @ host @ slash # p)) = host"
    and "du_Path (dockerish (scheme @ ''://'' @ host @ slash # p)) = slash # p"
proof -
  have nc: "CHR '':'' \<notin> set scheme" using assms(1) by simp
  then have "str_cut ''://'' (scheme @ ''://'' @ host @ slash # p) = Some (scheme, host @ slash # p)"
    by (induction scheme) auto
  from dockerish_Some [OF this] assms(2)
  show "du_Scheme (dockerish (scheme @ ''://'' @ host @ slash # p)) = scheme"
    and "du_Host (dockerish (scheme @ ''://'' @ host @ slash # p)) = host"
    and "du_Path (dockerish (scheme @ ''://'' @ host @ slash # p)) = slash # p"
    by (auto simp: takeWhile_append dropWhile_append3)
qed

section \<open>Properties\<close>

text \<open>
  Parsing a URL loses nothing but the scheme separator: when the text has a scheme
  separator, the scheme, the separator, the host (which keeps its tag) and the path spell
  the text again, the host has no slash and the path is empty or begins with one; otherwise
  the whole text is the path and every other field is empty.
\<close>

theorem dockerish_reconstruct:
  "NewDockerishUrl thing = Inr u \<Longrightarrow>
     (if strings_Contains thing ''://''
      then thing = du_Scheme u @ ''://'' @ du_Host u @ du_Path u \<and>
        \<not> strings_Contains (du_Scheme u) ''://'' \<and>
        \<not> strings_Contains (du_Host u) ''/'' \<and>
        (du_Path u = [] \<or> filepath_IsAbs (du_Path u))
      else u = \<lparr>du_Scheme = [], du_Host = [], du_Tag = [], du_Path = thing\<rparr>)"
proof (cases "str_cut ''://'' thing")
  case None
  assume "NewDockerishUrl thing = Inr u"
  with None show ?thesis by (simp add: strings_Contains_def dockerish_None)
next
  case (Some sr)
  assume "NewDockerishUrl thing = Inr u"
  then have u: "u = dockerish thing" by simp
  obtain scheme rest where sr: "str_cut ''://'' thing = Some (scheme, rest)" using Some by (cases sr) auto
  then have t: "thing = scheme @ ''://'' @ rest" by (auto dest: cut_Some_append)
  have "\<not> strings_Contains scheme ''://''"
  proof
    assume "strings_Contains scheme ''://''"
    then obtain a b where "scheme = a @ ''://'' @ b" by (auto simp: strings_Contains_iff)
    with cut_first [OF sr, of "length a"] t show False by auto
  qed
  moreover have "dropWhile (\<lambda>c. c \<noteq> slash) rest = [] \<or> filepath_IsAbs (dropWhile (\<lambda>c. c \<noteq> slash) rest)"
    using hd_dropWhile [of "\<lambda>c. c \<noteq> slash" rest]
    by (cases "dropWhile (\<lambda>c. c \<noteq> slash) rest") (auto simp: filepath_IsAbs_def strings_HasPrefix_def)
  moreover have "slash \<notin> set (takeWhile (\<lambda>c. c \<noteq> slash) rest)" by (auto dest: set_takeWhileD)
  moreover have "strings_Contains thing ''://''" using sr by (simp add: strings_Contains_def)
  ultimately show ?thesis using u t dockerish_Some [OF sr] by simp
qed

theorem dockerish_reconstruct_witness:
  "NewDockerishUrl ''docker://zot:5000/c3/test'' =
     Inr \<lparr>du_Scheme = ''docker'', du_Host = ''zot:5000'', du_Tag = ''5000'', du_Path = ''/c3/test''\<rparr> \<and>
   ''docker://zot:5000/c3/test'' = ''docker'' @ ''://'' @ ''zot:5000'' @ ''/c3/test''"
proof -
  have h: "NewDockerishUrl ''docker://zot:5000/c3/test'' =
     Inr \<lparr>du_Scheme = ''docker'', du_Host = ''zot:5000'', du_Tag = ''5000'', du_Path = ''/c3/test''\<rparr>"
    by (simp add: NewDockerishUrl_def SplitN_2 Let_def del: NewDockerishUrl_dockerish)
  show ?thesis using h dockerish_reconstruct [OF h] by simp
qed

text \<open>
  C29. An image source read from a containers/image string gives that string back when it
  is turned into a containers/image URL, so what \<^verbatim>\<open>publish --url\<close> accepts is what it copies to.
\<close>

theorem image_source_roundtrip:
  "NewImageSource s = Inr is \<Longrightarrow> ContainersImageURL is = Inr s"
  by (auto simp: NewImageSource_def ContainersImageURL_def layer_kind_defs strings_HasPrefix_def prefix_def
      split: if_splits)

theorem image_source_roundtrip_witness:
  "ContainersImageURL \<lparr>is_Type = ''oci'', is_Url = ''/out/oci:app'', is_Tag = [], is_Insecure = False\<rparr>
     = Inr ''oci:/out/oci:app''"
proof -
  have "NewImageSource ''oci:/out/oci:app'' =
      Inr \<lparr>is_Type = ''oci'', is_Url = ''/out/oci:app'', is_Tag = [], is_Insecure = False\<rparr>"
    by (simp add: NewImageSource_def layer_kind_defs strings_HasPrefix_def)
  then show ?thesis by (rule image_source_roundtrip)
qed

text \<open>
  The tag under which a docker base image is cached is the last element of its
  repository path, without registry, port and version: a slash or a colon never reaches it.
\<close>

theorem docker_parse_tag:
  assumes "slash \<notin> set host" and "slash \<notin> set img" and "CHR '':'' \<notin> set img" and "CHR '':'' \<notin> set dir"
    and "img \<noteq> []"
  shows "ParseTag \<lparr>is_Type = DockerLayer, is_Url = ''docker://'' @ host @ slash # dir @ slash # img @ '':'' @ ver,
      is_Tag = t, is_Insecure = i\<rparr> = Inr img"
proof -
  have path: "du_Path (dockerish (''docker'' @ ''://'' @ host @ slash # dir @ slash # img @ '':'' @ ver))
      = slash # dir @ slash # img @ '':'' @ ver"
    using assms(1) by (intro dockerish_url(3)) auto
  have "str_cut '':'' ((slash # dir @ slash # img) @ CHR '':'' # ver) = Some (slash # dir @ slash # img, ver)"
    using assms by (intro cut_at) auto
  then have "hd (strings_Split (slash # dir @ slash # img @ '':'' @ ver) '':'') = slash # dir @ slash # img"
    by (subst strings_Split_unfold) auto
  moreover have "path_Base ((slash # dir) @ slash # img) = img"
    using assms by (intro path_Base_append)
  ultimately show ?thesis using path by (simp add: ParseTag_def layer_kind_defs)
qed

theorem docker_parse_tag_witness:
  "ParseTag \<lparr>is_Type = DockerLayer, is_Url = ''docker://docker.io/library/centos:latest'',
      is_Tag = [], is_Insecure = False\<rparr> = Inr ''centos''"
  using docker_parse_tag [of "''docker.io''" "''centos''" "''library''" "''latest''" "[]" False] by simp

section \<open>Properties of layer types\<close>

text \<open>
  Layer types are written as keys of the JSON build cache and overlay metadata and
  read back: reading what was written gives the same type, whatever the receiver held, and
  only texts with at most one \<open>+\<close> are accepted.
\<close>

theorem layer_type_text_roundtrip:
  assumes "CHR ''+'' \<notin> set (lt_Type lt)"
  shows "rbind (LayerType_MarshalText lt) (LayerType_UnmarshalText lt0) = Inr lt"
proof -
  have "strings_Split (strings_Join [lt_Type lt, fmt_bool (lt_Verity lt)] ''+'') ''+'' =
      [lt_Type lt, fmt_bool (lt_Verity lt)]"
    using assms by (intro strings_Join_Split) (auto simp: fmt_bool_def split: if_splits)
  then show ?thesis
    by (cases lt) (auto simp: LayerType_MarshalText_def LayerType_UnmarshalText_def Let_def
        fmt_bool_def strconv_ParseBool_def)
qed

theorem layer_type_text_roundtrip_witness:
  "rbind (LayerType_MarshalText \<lparr>lt_Type = ''squashfs'', lt_Verity = True\<rparr>)
     (LayerType_UnmarshalText \<lparr>lt_Type = [], lt_Verity = False\<rparr>)
   = Inr \<lparr>lt_Type = ''squashfs'', lt_Verity = True\<rparr>"
  by (rule layer_type_text_roundtrip) simp

lemma NewLayerType_valid: "NewLayerType s v = Inr lt \<Longrightarrow> valid_layer_type lt \<and> lt_Type lt = s"
  by (auto simp: NewLayerType_def valid_layer_type_def split: if_splits)

lemma NewLayerTypeManifest_valid: "NewLayerTypeManifest mt m = Inr lt \<Longrightarrow> valid_layer_type lt"
  by (auto simp: NewLayerTypeManifest_def Let_def dest: NewLayerType_valid split: list.splits if_splits)

text \<open>
  The layer types a command line can ask for are well formed, come out in the order
  given, and two of them with different formats never share an output reference for the same
  layer: each format of a layer has its own tag in the OCI layout.
\<close>

theorem layer_types_distinct_names:
  assumes "NewLayerTypes lts verity = Inr types"
  shows "map lt_Type types = lts \<and> list_all valid_layer_type types \<and>
    (\<forall>i < length types. \<forall>j < length types.
       LayerName (types ! i) tag = LayerName (types ! j) tag \<longleftrightarrow> lts ! i = lts ! j)"
proof -
  have all2: "list_all2 (\<lambda>s lt. NewLayerType s verity = Inr lt) lts types"
    using assms by (simp add: NewLayerTypes_def rmap_Inr_iff)
  then have eq: "map lt_Type types = lts"
    by (induction rule: list_all2_induct) (auto dest: NewLayerType_valid)
  have valid: "list_all valid_layer_type types"
    using all2 by (induction rule: list_all2_induct) (auto dest: NewLayerType_valid)
  have "i < length types \<Longrightarrow> j < length types \<Longrightarrow>
      LayerName (types ! i) tag = LayerName (types ! j) tag \<longleftrightarrow> lts ! i = lts ! j" for i j
    using valid unfolding eq [symmetric]
    by (auto simp: LayerName_def list_all_length valid_layer_type_def)
  with eq valid show ?thesis by blast
qed

theorem layer_types_distinct_names_witness:
  "map lt_Type [\<lparr>lt_Type = ''tar'', lt_Verity = False\<rparr>, \<lparr>lt_Type = ''erofs'', lt_Verity = True\<rparr>] = [''tar'', ''erofs'']"
  using layer_types_distinct_names [of "[''tar'', ''erofs'']" True
      "[\<lparr>lt_Type = ''tar'', lt_Verity = False\<rparr>, \<lparr>lt_Type = ''erofs'', lt_Verity = True\<rparr>]" "''app''"]
  by (simp add: NewLayerTypes_def NewLayerType_def)

end
