(* ===== verification/Layer_Def.thy ===== *)
theory Layer_Def
  imports Go_Regexp Image_Source
begin

text \<open>
  Layer definitions: \<^verbatim>\<open>pkg/types/layer.go\<close>. A decoded yaml value is a \<open>yaml\<close>, with the dynamic
  types the code tests for. The decoding of a whole layer structure is the work of the
  yaml package, which calls the \<^verbatim>\<open>UnmarshalYAML\<close> methods modelled here: it is the parameter
  \<open>yaml_layers\<close> of \<open>parseLayers\<close>. Values that a message prints with \<^verbatim>\<open>%#v\<close> are left out of the
  modelled error.
\<close>

section \<open>Data\<close>

datatype yaml =
    YNil
  | YStr string
  | YInt int
  | YBool bool
  | YSeq "yaml list"
  | YStrs "string list"
  | YMap "(yaml \<times> yaml) list"
  | YOther string

record Import =
  imp_Path :: string
  imp_Hash :: string
  imp_Dest :: string
  imp_Mode :: "nat option"
  imp_Uid :: int
  imp_Gid :: int

record OverlayDir =
  od_Source :: string
  od_Dest :: string

record Package =
  pkg_Name :: string
  pkg_Version :: string
  pkg_License :: string
  pkg_Paths :: "string list"

record Bom =
  bom_Generate :: bool
  bom_Namespace :: string
  bom_Packages :: "Package list"

record Bind =
  bind_Source :: string
  bind_Dest :: string

text \<open>
  The command-like fields are \<^const>\<open>None\<close> for a nil slice, which the code tells apart from an
  empty one. For the other slices and maps only the cache tells the two apart, by
  \<^verbatim>\<open>reflect.DeepEqual\<close>: \<open>lay_Empty\<close> has the yaml names of those that are empty and not nil, as
  \<open>volumes: []\<close> or \<open>labels: {}\<close> leave them. Only \<open>build_env_passthrough\<close>, \<open>build_env\<close>, \<open>environment\<close>,
  \<open>volumes\<close>, \<open>labels\<close> and \<open>annotations\<close> can be there, since an import list is never empty and not nil,
  and \<^verbatim>\<open>absolutify\<close> rebuilds the imports, overlay directories and binds from nil.
\<close>

record Layer =
  lay_From :: ImageSource
  lay_Imports :: "Import list"
  lay_LegacyImport :: "Import list"
  lay_OverlayDirs :: "OverlayDir list"
  lay_Run :: "string list option"
  lay_Cmd :: "string list option"
  lay_Entrypoint :: "string list option"
  lay_FullCommand :: "string list option"
  lay_BuildEnvPt :: "string list"
  lay_BuildEnv :: "(string \<times> string) list"
  lay_Environment :: "(string \<times> string) list"
  lay_Volumes :: "string list"
  lay_Labels :: "(string \<times> string) list"
  lay_GenerateLabels :: "string list option"
  lay_WorkingDir :: string
  lay_BuildOnly :: bool
  lay_Binds :: "Bind list"
  lay_RuntimeUser :: string
  lay_Annotations :: "(string \<times> string) list"
  lay_OS :: "string option"
  lay_Arch :: "string option"
  lay_Bom :: "Bom option"
  lay_WasLegacyImport :: bool
  lay_WasBom :: bool
  lay_Empty :: "string list"

text \<open>The yaml tags of the fields of \<^verbatim>\<open>Layer\<close>, as \<^verbatim>\<open>init\<close> collects them.\<close>

definition layerFields :: "string list" where
  "layerFields =
     [''from'', ''imports'', ''import'', ''overlay_dirs'', ''run'', ''cmd'', ''entrypoint'', ''full_command'',
      ''build_env_passthrough'', ''build_env'', ''environment'', ''volumes'', ''labels'', ''generate_labels'',
      ''working_dir'', ''build_only'', ''binds'', ''runtime_user'', ''annotations'', ''os'', ''arch'', ''bom'',
      ''was_legacy_import'', ''was_bom'']"

definition UidEmpty :: int where "UidEmpty = -1"
definition GidEmpty :: int where "GidEmpty = -1"

section \<open>Decoding the parts of a layer\<close>

definition as_run_string :: "yaml \<Rightarrow> string res" where
  "as_run_string v = (case v of YStr s \<Rightarrow> Inr s | _ \<Rightarrow> Inl (Errorf ''unknown run array type: %T'' []))"

definition getStringOrStringSlice :: "yaml \<Rightarrow> (string \<Rightarrow> string list res) \<Rightarrow> string list res" where
  "getStringOrStringSlice data xform =
     (case data of
        YNil \<Rightarrow> Inr []
      | YSeq ifs \<Rightarrow> rmap as_run_string ifs
      | YStr line \<Rightarrow> xform line
      | YStrs strs \<Rightarrow> Inr strs
      | _ \<Rightarrow> Inl (Errorf ''unknown directive type: %T'' []))"

definition StringList_UnmarshalYAML :: "yaml \<Rightarrow> string list res" where
  "StringList_UnmarshalYAML data = getStringOrStringSlice data (\<lambda>s. Inr [s])"

text \<open>\<open>shlex_Split\<close> is \<^verbatim>\<open>shlex.Split(s, true)\<close> of the package go-shlex.\<close>

definition Command_UnmarshalYAML :: "(string \<Rightarrow> string list res) \<Rightarrow> yaml \<Rightarrow> string list res" where
  "Command_UnmarshalYAML shlex_Split data = getStringOrStringSlice data shlex_Split"

definition toBind :: "string \<times> string \<Rightarrow> Bind res" where
  "toBind b =
     (if fst b = [] then Inl (Errorf ''unexpected 'bind': missing required field 'source': %#v'' [])
      else Inr \<lparr>bind_Source = fst b, bind_Dest = (if snd b = [] then fst b else snd b)\<rparr>)"

definition toBindFromString :: "string \<Rightarrow> Bind res" where
  "toBindFromString asStr =
     (case strings_Fields asStr of
        [t] \<Rightarrow> Inr \<lparr>bind_Source = t, bind_Dest = t\<rparr>
      | [s, arrow, d] \<Rightarrow>
          if arrow = ''->'' then Inr \<lparr>bind_Source = s, bind_Dest = d\<rparr>
          else Inl (Errorf ''invalid Bind: %s'' [asStr])
      | _ \<Rightarrow> Inl (Errorf ''invalid Bind: %s'' [asStr]))"

text \<open>
  The decoders of a bind get what the yaml or json package makes of the text: \<open>as_struct\<close> is the
  result of decoding it into \<^verbatim>\<open>bindType\<close> (source and dest), \<open>as_str\<close> of decoding it into a
  string, \<open>as_any\<close> of decoding it at all.
\<close>

definition Bind_UnmarshalYAML :: "(string \<times> string) res \<Rightarrow> string res \<Rightarrow> yaml res \<Rightarrow> Bind res" where
  "Bind_UnmarshalYAML as_struct as_str as_any =
     (case as_struct of
        Inr b \<Rightarrow> toBind b
      | Inl _ \<Rightarrow> (case as_str of
          Inr s \<Rightarrow> toBindFromString s
        | Inl _ \<Rightarrow> (case as_any of
            Inl _ \<Rightarrow> Inl (Errorf ''unexpected error unmarshaling bind yaml: %v'' [])
          | Inr _ \<Rightarrow> Inl (Errorf ''unexpected 'bind' data of type: %s: %#v'' []))))"

definition Bind_UnmarshalJSON :: "string \<Rightarrow> (string \<times> string) res \<Rightarrow> string res \<Rightarrow> Bind res" where
  "Bind_UnmarshalJSON data as_struct as_str =
     (case as_struct of
        Inr b \<Rightarrow> toBind b
      | Inl _ \<Rightarrow> (case as_str of
          Inr s \<Rightarrow> toBindFromString s
        | Inl _ \<Rightarrow> Inl (Errorf ''invalid Bind: %s'' [data])))"

definition yaml_string_field :: "(yaml \<times> yaml) list \<Rightarrow> string \<Rightarrow> string res" where
  "yaml_string_field m name =
     (case map_of m (YStr name) of
        None \<Rightarrow> Inr []
      | Some (YStr s) \<Rightarrow> Inr s
      | Some _ \<Rightarrow> Inl (Errorf ''value for '%s' in import is not a string: %#v'' [name]))"

definition yaml_int_field :: "(yaml \<times> yaml) list \<Rightarrow> int \<Rightarrow> string \<Rightarrow> int res" where
  "yaml_int_field m dflt name =
     (case map_of m (YStr name) of
        None \<Rightarrow> Inr dflt
      | Some (YInt i) \<Rightarrow> Inr i
      | Some _ \<Rightarrow> Inl (Errorf ''value for '%s' in import is not an integer: %#v'' [name]))"

text \<open>\<^verbatim>\<open>fs.FileMode(mode)\<close> converts to an unsigned 32-bit integer.\<close>

definition file_mode :: "int \<Rightarrow> nat" where
  "file_mode m = nat (m mod 2 ^ 32)"

definition getImportFromInterface :: "yaml \<Rightarrow> Import res" where
  "getImportFromInterface v =
     (case v of
        YStr s \<Rightarrow> Inr \<lparr>imp_Path = s, imp_Hash = [], imp_Dest = [], imp_Mode = None, imp_Uid = UidEmpty, imp_Gid = GidEmpty\<rparr>
      | YMap m \<Rightarrow>
          rbind (rcheck (\<lambda>(k, _). case k of YStr _ \<Rightarrow> Inr () | _ \<Rightarrow> Inl (Errorf ''key '%s' in import is not a string: %#v'' [])) m) (\<lambda>_.
          rbind (yaml_string_field m ''hash'') (\<lambda>hash.
          rbind (yaml_string_field m ''path'') (\<lambda>path.
          rbind (yaml_string_field m ''dest'') (\<lambda>dest.
          rbind (yaml_int_field m (-1) ''mode'') (\<lambda>mode.
          rbind (yaml_int_field m UidEmpty ''uid'') (\<lambda>uid.
          rbind (yaml_int_field m GidEmpty ''gid'') (\<lambda>gid.
          if path = [] then Inl (Errorf ''No 'path' entry found in import: %#v'' [])
          else if dest \<noteq> [] \<and> \<not> filepath_IsAbs dest then Inl (Errorf '''dest' path cannot be relative for: %#v'' [])
          else if uid \<noteq> UidEmpty \<and> uid < 0 then Inl (Errorf '''uid' (%d) cannot be negative: %v'' [fmt_d uid])
          else if gid \<noteq> GidEmpty \<and> gid < 0 then Inl (Errorf '''gid' (%d) cannot be negative: %v'' [fmt_d gid])
          else Inr \<lparr>imp_Path = path, imp_Hash = hash, imp_Dest = dest,
                    imp_Mode = (if mode \<noteq> -1 then Some (file_mode mode) else None),
                    imp_Uid = uid, imp_Gid = gid\<rparr>)))))))
      | _ \<Rightarrow> Inl (Errorf ''could not read imports entry: %#v'' []))"

definition Imports_UnmarshalYAML :: "yaml \<Rightarrow> Import list res" where
  "Imports_UnmarshalYAML data =
     (case data of
        YSeq imports \<Rightarrow> rmap getImportFromInterface imports
      | YStr imp \<Rightarrow> rmap getImportFromInterface [YStr imp]
      | _ \<Rightarrow> Inl (Errorf '''imports' expected an array, found %s: %#v'' []))"

section \<open>Paths\<close>

definition getAbsPath :: "string \<Rightarrow> string \<Rightarrow> string \<Rightarrow> string res" where
  "getAbsPath cwd referenceDirectory path =
     rbind (NewDockerishUrl path) (\<lambda>parsedPath.
       if du_Scheme parsedPath \<noteq> [] \<or> filepath_IsAbs path then Inr path
       else Inr (filepath_Abs cwd (path_Join [referenceDirectory, path])))"

definition absolutify_import :: "string \<Rightarrow> string \<Rightarrow> Import \<Rightarrow> Import res" where
  "absolutify_import cwd ref rawImport =
     rbind (getAbsPath cwd ref (imp_Path rawImport)) (\<lambda>absImportPath.
       if imp_Path rawImport = [] then Inl (Panic ''slice bounds out of range [-1:]'')
       else Inr (rawImport\<lparr>imp_Path :=
         absImportPath @ (if last (imp_Path rawImport) = slash then ''/'' else [])\<rparr>))"

definition absolutify :: "string \<Rightarrow> Layer \<Rightarrow> string \<Rightarrow> Layer res" where
  "absolutify cwd l ref =
     rbind (rmap (absolutify_import cwd ref) (lay_Imports l)) (\<lambda>imports.
     rbind (rmap (\<lambda>od. rbind (getAbsPath cwd ref (od_Source od)) (\<lambda>s. Inr (od\<lparr>od_Source := s\<rparr>))) (lay_OverlayDirs l)) (\<lambda>ods.
     rbind (rmap (\<lambda>b. rbind (getAbsPath cwd ref (bind_Source b)) (\<lambda>s.
                      rbind (getAbsPath cwd ref (bind_Dest b)) (\<lambda>d.
                      Inr \<lparr>bind_Source = s, bind_Dest = d\<rparr>))) (lay_Binds l)) (\<lambda>binds.
     Inr (l\<lparr>lay_Imports := imports, lay_OverlayDirs := ods, lay_Binds := binds\<rparr>))))"

definition requireImportHash :: "Import list \<Rightarrow> unit res" where
  "requireImportHash imports =
     rcheck (\<lambda>imp. rbind (NewDockerishUrl (imp_Path imp)) (\<lambda>url.
       guard ((du_Scheme url = ''http'' \<or> du_Scheme url = ''https'') \<and> imp_Hash imp = [])
         (Errorf ''Remote import needs a hash in yaml for path: %s'' [imp_Path imp]))) imports"

section \<open>Parsing the layers of a file\<close>

definition as_mapslice :: "yaml \<Rightarrow> (yaml \<times> yaml) list res" where
  "as_mapslice v = (case v of YMap m \<Rightarrow> Inr m | _ \<Rightarrow> Inl (Panic ''interface conversion: not yaml.MapSlice''))"

definition as_string :: "yaml \<Rightarrow> string res" where
  "as_string v = (case v of YStr s \<Rightarrow> Inr s | _ \<Rightarrow> Inl (Panic ''interface conversion: not string''))"

definition check_directive :: "yaml \<times> yaml \<Rightarrow> unit res" where
  "check_directive directive =
     rbind (as_string (fst directive)) (\<lambda>key.
       if key \<notin> set layerFields then Inl (Errorf ''stackerfile: unknown directive %s'' [key])
       else rbind
         (if key = ''from'' then
            rbind (as_mapslice (snd directive)) (rcheck (\<lambda>sd.
              rbind (as_string (fst sd)) (\<lambda>skey.
                guard (skey \<notin> set imageSourceFields)
                  (Errorf ''stackerfile: unknown image source directive %s'' [skey]))))
          else Inr ())
         (\<lambda>_. guard ((key = ''os'' \<or> key = ''arch'') \<and> snd directive = YNil)
                (Errorf ''stackerfile: %q value cannot be empty'' [key])))"

definition check_directives :: "(string \<times> yaml) list \<Rightarrow> unit res" where
  "check_directives lms = rcheck (\<lambda>e. rbind (as_mapslice (snd e)) (rcheck check_directive)) lms"

text \<open>The body of the loop over the decoded layers. The platform is \<^verbatim>\<open>runtime.GOOS\<close>, \<^verbatim>\<open>runtime.GOARCH\<close>.\<close>

record platform =
  pf_GOOS :: string
  pf_GOARCH :: string
  pf_cwd :: string

definition finish_layer :: "platform \<Rightarrow> string \<Rightarrow> bool \<Rightarrow> string \<times> Layer \<Rightarrow> (string \<times> Layer) res" where
  "finish_layer pf ref requireHash nl =
     (case nl of (name, layer) \<Rightarrow>
      rbind (if requireHash then requireImportHash (lay_Imports layer) else Inr ()) (\<lambda>_.
      if is_Type (lay_From layer) = BuiltLayer \<and> is_Tag (lay_From layer) = [] then
        Inl (Errorf (''%s: from tag cannot be empty for image type 'built'' @ [CHR 0x27]) [name])
      else
        (let layer1 = layer\<lparr>
               lay_OS := (case lay_OS layer of None \<Rightarrow> Some (pf_GOOS pf) | Some os \<Rightarrow> Some os),
               lay_Arch := (case lay_Arch layer of None \<Rightarrow> Some (pf_GOARCH pf) | Some a \<Rightarrow> Some a)\<rparr>;
             layer2 = (if lay_Bom layer1 \<noteq> None then layer1\<lparr>lay_WasBom := True, lay_Bom := None\<rparr> else layer1)
         in if lay_LegacyImport layer2 \<noteq> [] \<and> lay_Imports layer2 \<noteq> [] then
              Inl (Errorf (''layer '%s' cannot have both 'import' and 'imports'' @ [CHR 0x27]) [name])
            else
              (let layer3 = (if lay_LegacyImport layer2 \<noteq> [] then
                     layer2\<lparr>lay_Imports := lay_LegacyImport layer2, lay_LegacyImport := [], lay_WasLegacyImport := True\<rparr>
                   else layer2)
               in rbind (absolutify (pf_cwd pf) layer3 ref) (\<lambda>l. Inr (name, l))))))"

definition parseLayers ::
  "((string \<times> yaml) list \<Rightarrow> (string \<times> Layer) list res) \<Rightarrow> platform \<Rightarrow> string \<Rightarrow> (string \<times> yaml) list \<Rightarrow> bool \<Rightarrow>
    (string \<times> Layer) list res" where
  "parseLayers yaml_layers pf ref lms requireHash =
     rbind (check_directives lms) (\<lambda>_.
     rbind (yaml_layers lms) (rmap (finish_layer pf ref requireHash)))"

section \<open>The build environment\<close>

definition filterEnv :: "string list \<Rightarrow> (string \<times> string) list \<Rightarrow> (string \<times> string) list res" where
  "filterEnv matchList curEnv =
     rbind (rmap (\<lambda>t. regexp_Compile (''^'' @ t @ ''$'')) matchList) (\<lambda>matches.
       Inr (filter (\<lambda>(key, _). \<exists>r \<in> set matches. re_MatchString r key) curEnv))"

definition env_defList :: "string list" where
  "env_defList = [''ftp_proxy'', ''http_proxy'', ''https_proxy'', ''no_proxy'',
     ''FTP_PROXY'', ''HTTP_PROXY'', ''HTTPS_PROXY'', ''NO_PROXY'', ''TERM'', ''SOURCE_DATE_EPOCH'']"

definition env_step :: "(string \<times> string) list \<Rightarrow> string \<Rightarrow> (string \<times> string) list res" where
  "env_step curEnv kv =
     (case strings_SplitN kv ''='' 2 of
        [k, v] \<Rightarrow> Inr (map_put k v curEnv)
      | _ \<Rightarrow> Inl (Panic ''index out of range [1] with length 1''))"

definition buildEnv :: "string list \<Rightarrow> (string \<times> string) list \<Rightarrow> string list \<Rightarrow> (string \<times> string) list res" where
  "buildEnv passThrough newEnv environ =
     rbind (rfold env_step [] environ) (\<lambda>curEnv.
     rbind (filterEnv (if passThrough \<noteq> [] then passThrough else env_defList) curEnv) (\<lambda>ret.
     Inr (fold (\<lambda>(k, v). map_put k v) newEnv ret)))"

definition BuildEnvironment :: "Layer \<Rightarrow> string \<Rightarrow> string list \<Rightarrow> (string \<times> string) list res" where
  "BuildEnvironment l name environ =
     rbind (buildEnv (lay_BuildEnvPt l) (lay_BuildEnv l) environ) (\<lambda>env.
       Inr (map_put ''STACKER_LAYER_NAME'' name env))"

section \<open>Lemmas\<close>

definition is_url :: "string \<Rightarrow> bool" where
  "is_url p = (du_Scheme (dockerish p) \<noteq> [])"

text \<open>A path that needs no reference directory: a URL, or absolute.\<close>

definition resolved :: "string \<Rightarrow> bool" where
  "resolved p = (is_url p \<or> filepath_IsAbs p)"

lemma getAbsPath_eq:
  "getAbsPath cwd ref p = Inr (if resolved p then p else filepath_Abs cwd (path_Join [ref, p]))"
  by (simp add: getAbsPath_def resolved_def is_url_def)

lemma getAbsPath_resolved: "filepath_IsAbs cwd \<Longrightarrow> getAbsPath cwd ref p = Inr q \<Longrightarrow> resolved q"
  by (auto simp: getAbsPath_eq resolved_def filepath_Abs_abs split: if_splits)

lemma resolved_getAbsPath [simp]: "resolved p \<Longrightarrow> getAbsPath cwd ref p = Inr p"
  by (simp add: getAbsPath_eq)

lemma IsAbs_append: "filepath_IsAbs p \<Longrightarrow> filepath_IsAbs (p @ q)"
  by (auto simp: filepath_IsAbs_def strings_HasPrefix_def prefix_def)

lemma cut_append: "str_cut sep p = Some (a, b) \<Longrightarrow> str_cut sep (p @ q) = Some (a, b @ q)"
proof (induction sep p arbitrary: a b rule: str_cut.induct)
  case (1 sep)
  then show ?case by (cases q) (auto split: if_splits)
next
  case (2 sep c cs)
  show ?case
  proof (cases "prefix sep (c # cs)")
    case True
    then obtain r where r: "c # cs = sep @ r" by (auto simp: prefix_def)
    then have "prefix sep (c # cs @ q)" "drop (length sep) (c # cs @ q) = r @ q" "drop (length sep) (c # cs) = r"
      by (metis Cons_eq_appendI append.assoc prefixI, metis Cons_eq_appendI append.assoc append_eq_conv_conj, simp)
    then show ?thesis using 2 True by auto
  next
    case False
    with 2 obtain a' where a': "str_cut sep cs = Some (a', b)" "a = c # a'" by (auto split: option.splits)
    have "length sep \<le> length cs" using cut_length [OF a'(1)] by simp
    then have "\<not> prefix sep ((c # cs) @ q)" using False
      by (metis length_Cons le_SucI not_equal_is_parallel parallel_def prefix_append prefix_length_prefix prefix_order.dual_order.refl)
    with 2 False a' show ?thesis by simp
  qed
qed

lemma scheme_cut: "du_Scheme (dockerish p) = (case str_cut ''://'' p of None \<Rightarrow> [] | Some (a, _) \<Rightarrow> a)"
  by (auto simp: dockerish_None dockerish_Some split: option.splits)

lemma scheme_append: "is_url p \<Longrightarrow> du_Scheme (dockerish (p @ q)) = du_Scheme (dockerish p)"
  by (auto simp: is_url_def scheme_cut cut_append split: option.splits)

lemma scheme_abs: "filepath_IsAbs p \<Longrightarrow> du_Scheme (dockerish p) = [] \<or> hd (du_Scheme (dockerish p)) = slash"
  by (cases p) (auto simp: scheme_cut filepath_IsAbs_def strings_HasPrefix_def split: option.splits if_splits)

lemma is_url_append: "is_url p \<Longrightarrow> is_url (p @ q)"
  using scheme_append [of p q] by (simp add: is_url_def)

lemma resolved_append: "resolved p \<Longrightarrow> resolved (p @ q)"
  by (auto simp: resolved_def IsAbs_append is_url_append)

text \<open>Making an import absolute keeps everything but the path, and the scheme of a URL.\<close>

lemma absolutify_import_Inr:
  assumes "filepath_IsAbs cwd" "absolutify_import cwd ref imp = Inr imp'"
  shows "resolved (imp_Path imp')" "imp' = imp\<lparr>imp_Path := imp_Path imp'\<rparr>" "imp_Path imp \<noteq> []"
    "is_url (imp_Path imp) \<Longrightarrow> du_Scheme (dockerish (imp_Path imp')) = du_Scheme (dockerish (imp_Path imp))"
    "\<not> is_url (imp_Path imp) \<Longrightarrow> filepath_IsAbs (imp_Path imp')"
  using assms
  by (auto simp: absolutify_import_def getAbsPath_eq resolved_append scheme_append resolved_def filepath_Abs_abs IsAbs_append is_url_append
      split: if_splits)

lemma absolutify_import_total: "imp_Path imp \<noteq> [] \<Longrightarrow> \<exists>imp'. absolutify_import cwd ref imp = Inr imp'"
  by (simp add: absolutify_import_def getAbsPath_eq)

section \<open>Properties\<close>

text \<open>What a layer may rely on after parsing.\<close>

definition layer_ready :: "Layer \<Rightarrow> bool" where
  "layer_ready l =
     (lay_OS l \<noteq> None \<and> lay_Arch l \<noteq> None \<and> lay_Bom l = None \<and> lay_LegacyImport l = [] \<and>
      (is_Type (lay_From l) = BuiltLayer \<longrightarrow> is_Tag (lay_From l) \<noteq> []) \<and>
      list_all (\<lambda>i. resolved (imp_Path i)) (lay_Imports l) \<and>
      list_all (\<lambda>d. resolved (od_Source d)) (lay_OverlayDirs l) \<and>
      list_all (\<lambda>b. resolved (bind_Source b) \<and> resolved (bind_Dest b)) (lay_Binds l))"

lemma absolutify_Inr:
  assumes "filepath_IsAbs cwd" "absolutify cwd l ref = Inr l'"
  shows "list_all (\<lambda>i. resolved (imp_Path i)) (lay_Imports l')"
    "list_all (\<lambda>d. resolved (od_Source d)) (lay_OverlayDirs l')"
    "list_all (\<lambda>b. resolved (bind_Source b) \<and> resolved (bind_Dest b)) (lay_Binds l')"
    "rmap (absolutify_import cwd ref) (lay_Imports l) = Inr (lay_Imports l')"
    "l' = l\<lparr>lay_Imports := lay_Imports l', lay_OverlayDirs := lay_OverlayDirs l', lay_Binds := lay_Binds l'\<rparr>"
proof -
  from assms(2) obtain ims ods bs where *: "rmap (absolutify_import cwd ref) (lay_Imports l) = Inr ims"
    "rmap (\<lambda>od. rbind (getAbsPath cwd ref (od_Source od)) (\<lambda>s. Inr (od\<lparr>od_Source := s\<rparr>))) (lay_OverlayDirs l) = Inr ods"
    "rmap (\<lambda>b. rbind (getAbsPath cwd ref (bind_Source b)) (\<lambda>s. rbind (getAbsPath cwd ref (bind_Dest b)) (\<lambda>d.
       Inr \<lparr>bind_Source = s, bind_Dest = d\<rparr>))) (lay_Binds l) = Inr bs"
    "l' = l\<lparr>lay_Imports := ims, lay_OverlayDirs := ods, lay_Binds := bs\<rparr>"
    by (auto simp: absolutify_def res_simps)
  note abs = getAbsPath_resolved [OF assms(1)]
  show "list_all (\<lambda>i. resolved (imp_Path i)) (lay_Imports l')"
    using * by (auto simp: list_all_iff dest!: rmap_in_set [OF *(1)] intro: absolutify_import_Inr(1) [OF assms(1)])
  show "list_all (\<lambda>d. resolved (od_Source d)) (lay_OverlayDirs l')"
    using *(4) by (auto simp: list_all_iff res_simps dest!: rmap_in_set [OF *(2)]) (erule abs)
  show "list_all (\<lambda>b. resolved (bind_Source b) \<and> resolved (bind_Dest b)) (lay_Binds l')"
    using *(4) by (auto simp: list_all_iff res_simps dest!: rmap_in_set [OF *(3)]) (erule abs)+
qed (use assms(2) in \<open>auto simp: absolutify_def res_simps\<close>)

lemma finish_layer_Inr:
  assumes "finish_layer pf ref rh (n, l) = Inr (n', l')"
  obtains l3 where "absolutify (pf_cwd pf) l3 ref = Inr l'" "n' = n"
    "lay_OS l3 \<noteq> None" "lay_Arch l3 \<noteq> None" "lay_Bom l3 = None" "lay_LegacyImport l3 = []"
    "lay_From l3 = lay_From l" "is_Type (lay_From l) = BuiltLayer \<longrightarrow> is_Tag (lay_From l) \<noteq> []"
    "lay_Imports l3 = (if lay_LegacyImport l \<noteq> [] then lay_LegacyImport l else lay_Imports l)"
    "lay_WasLegacyImport l3 = (lay_WasLegacyImport l \<or> lay_LegacyImport l \<noteq> [])"
    "rh \<longrightarrow> requireImportHash (lay_Imports l) = Inr ()"
  using assms unfolding finish_layer_def Let_def
  by (auto simp: res_simps split: if_splits option.splits)

text \<open>
  C12. Every layer that \<^verbatim>\<open>parseLayers\<close> returns is ready to build: its platform is set, a
  \<open>built\<close> base has a tag, the deprecated \<open>bom\<close> and \<open>import\<close> sections are folded away, and each
  import, overlay directory and bind is a URL or an absolute path.
\<close>

theorem parse_layers_ready:
  assumes "parseLayers yaml_layers pf ref lms requireHash = Inr layers"
    and "filepath_IsAbs (pf_cwd pf)" and "(name, l) \<in> set layers"
  shows "layer_ready l"
proof -
  from assms(1) obtain raw where "rmap (finish_layer pf ref requireHash) raw = Inr layers"
    by (auto simp: parseLayers_def res_simps)
  from rmap_in_set [OF this assms(3)] obtain n l0 where "finish_layer pf ref requireHash (n, l0) = Inr (name, l)"
    by auto
  then obtain l3 where l3: "absolutify (pf_cwd pf) l3 ref = Inr l" "lay_OS l3 \<noteq> None" "lay_Arch l3 \<noteq> None"
    "lay_Bom l3 = None" "lay_LegacyImport l3 = []" "lay_From l3 = lay_From l0"
    "is_Type (lay_From l0) = BuiltLayer \<longrightarrow> is_Tag (lay_From l0) \<noteq> []"
    by (rule finish_layer_Inr) blast
  note abs = absolutify_Inr [OF assms(2) l3(1)]
  from abs(5) obtain a b c where "l = l3\<lparr>lay_Imports := a, lay_OverlayDirs := b, lay_Binds := c\<rparr>" by blast
  then have "lay_OS l = lay_OS l3" "lay_Arch l = lay_Arch l3" "lay_Bom l = lay_Bom l3"
    "lay_LegacyImport l = lay_LegacyImport l3" "lay_From l = lay_From l3"
    by simp_all
  with l3 abs(1-3) show ?thesis by (simp add: layer_ready_def)
qed

definition sample_source :: ImageSource where
  "sample_source = \<lparr>is_Type = ''built'', is_Url = [], is_Tag = ''base'', is_Insecure = False\<rparr>"

definition sample_layer :: Layer where
  "sample_layer = \<lparr>lay_From = sample_source, lay_Imports = [], lay_LegacyImport = [], lay_OverlayDirs = [],
     lay_Run = None, lay_Cmd = None, lay_Entrypoint = None, lay_FullCommand = None, lay_BuildEnvPt = [], lay_BuildEnv = [],
     lay_Environment = [], lay_Volumes = [], lay_Labels = [], lay_GenerateLabels = None, lay_WorkingDir = [],
     lay_BuildOnly = False, lay_Binds = [], lay_RuntimeUser = [], lay_Annotations = [], lay_OS = None, lay_Arch = None,
     lay_Bom = None, lay_WasLegacyImport = False, lay_WasBom = False, lay_Empty = []\<rparr>"

definition sample_import :: "string \<Rightarrow> Import" where
  "sample_import p = \<lparr>imp_Path = p, imp_Hash = [], imp_Dest = [], imp_Mode = None, imp_Uid = -1, imp_Gid = -1\<rparr>"

definition sample_pf :: platform where
  "sample_pf = \<lparr>pf_GOOS = ''linux'', pf_GOARCH = ''amd64'', pf_cwd = ''/w''\<rparr>"

lemmas sample_defs = sample_source_def sample_layer_def sample_import_def sample_pf_def

theorem parse_layers_ready_witness:
  "\<exists>l. parseLayers (\<lambda>_. Inr [(''a'', sample_layer)]) sample_pf ''/w'' [(''a'', YMap [])] True = Inr [(''a'', l)] \<and> layer_ready l"
proof -
  have "\<exists>l. parseLayers (\<lambda>_. Inr [(''a'', sample_layer)]) sample_pf ''/w'' [(''a'', YMap [])] True = Inr [(''a'', l)]"
    by (simp add: parseLayers_def check_directives_def as_mapslice_def finish_layer_def requireImportHash_def
        absolutify_def sample_defs layer_kind_defs)
  moreover have "filepath_IsAbs (pf_cwd sample_pf)"
    by (simp add: sample_defs filepath_IsAbs_def strings_HasPrefix_def)
  ultimately show ?thesis using parse_layers_ready by (meson list.set_intros(1))
qed

text \<open>
  C25. With hashes required, no layer is accepted whose \<open>imports\<close> section has an http or
  https import without a hash. The check runs before the deprecated \<open>import\<close> section is moved
  into \<open>imports\<close>, so layers that used that section are not covered.
\<close>

theorem parse_layers_hash:
  assumes "parseLayers yaml_layers pf ref lms True = Inr layers"
    and "filepath_IsAbs (pf_cwd pf)" and "(name, l) \<in> set layers" and "\<not> lay_WasLegacyImport l"
    and "imp \<in> set (lay_Imports l)" and "du_Scheme (dockerish (imp_Path imp)) \<in> {''http'', ''https''}"
  shows "imp_Hash imp \<noteq> []"
proof -
  from assms(1) obtain raw where "rmap (finish_layer pf ref True) raw = Inr layers"
    by (auto simp: parseLayers_def res_simps)
  from rmap_in_set [OF this assms(3)] obtain n l0 where "finish_layer pf ref True (n, l0) = Inr (name, l)"
    by auto
  then obtain l3 where l3: "absolutify (pf_cwd pf) l3 ref = Inr l"
    "lay_Imports l3 = (if lay_LegacyImport l0 \<noteq> [] then lay_LegacyImport l0 else lay_Imports l0)"
    "lay_WasLegacyImport l3 = (lay_WasLegacyImport l0 \<or> lay_LegacyImport l0 \<noteq> [])"
    "requireImportHash (lay_Imports l0) = Inr ()"
    by (rule finish_layer_Inr) blast
  note abs = absolutify_Inr [OF assms(2) l3(1)]
  from abs(5) obtain a b c where "l = l3\<lparr>lay_Imports := a, lay_OverlayDirs := b, lay_Binds := c\<rparr>" by blast
  then have "lay_Imports l3 = lay_Imports l0" using l3(2,3) assms(4) by simp
  with rmap_in_set [OF abs(4) assms(5)] obtain imp0
    where imp0: "imp0 \<in> set (lay_Imports l0)" "absolutify_import (pf_cwd pf) ref imp0 = Inr imp" by auto
  note imp = absolutify_import_Inr [OF assms(2) imp0(2)]
  have "is_url (imp_Path imp0)"
    using imp(5) scheme_abs [of "imp_Path imp"] assms(6) by (cases "is_url (imp_Path imp0)") auto
  with imp(4) assms(6) l3(4) imp0(1) have "imp_Hash imp0 \<noteq> []"
    by (auto simp: requireImportHash_def res_simps)
  then show ?thesis using imp(2) by (metis Import.select_convs(2) Import.surjective Import.update_convs(1))
qed

definition hashed_layer :: Layer where
  "hashed_layer = sample_layer\<lparr>lay_Imports := [(sample_import ''http://h/f'')\<lparr>imp_Hash := ''ab''\<rparr>]\<rparr>"

definition hashed_out :: Layer where
  "hashed_out = hashed_layer\<lparr>lay_OS := Some ''linux'', lay_Arch := Some ''amd64''\<rparr>"

lemma http_sample: "du_Scheme (dockerish ''http://h/f'') = ''http''"
  by (simp add: scheme_cut)

theorem parse_layers_hash_witness:
  "parseLayers (\<lambda>_. Inr [(''a'', hashed_layer)]) sample_pf ''/w'' [(''a'', YMap [])] True = Inr [(''a'', hashed_out)] \<and>
   imp_Hash (hd (lay_Imports hashed_out)) \<noteq> []"
proof -
  let ?imp = "(sample_import ''http://h/f'')\<lparr>imp_Hash := ''ab''\<rparr>"
  have "absolutify_import ''/w'' ''/w'' ?imp = Inr ?imp"
    by (simp add: absolutify_import_def getAbsPath_def http_sample sample_import_def)
  then have p: "parseLayers (\<lambda>_. Inr [(''a'', hashed_layer)]) sample_pf ''/w'' [(''a'', YMap [])] True = Inr [(''a'', hashed_out)]"
    by (simp add: parseLayers_def check_directives_def as_mapslice_def finish_layer_def requireImportHash_def
        absolutify_def sample_defs layer_kind_defs hashed_layer_def hashed_out_def guard_def)
  have "imp_Hash ?imp \<noteq> []"
    by (rule parse_layers_hash [OF p, where name = "''a''" and l = hashed_out])
       (simp_all add: sample_defs hashed_out_def hashed_layer_def filepath_IsAbs_def strings_HasPrefix_def scheme_cut)
  with p show ?thesis by (simp add: hashed_out_def hashed_layer_def)
qed

text \<open>
  For a layer that lists its imports in the deprecated \<open>import\<close> section only, requiring
  hashes changes nothing: the loop body gives the same result, whatever the imports are.
\<close>

theorem legacy_import_unchecked:
  assumes "lay_Imports l = []"
  shows "finish_layer pf ref True (name, l) = finish_layer pf ref False (name, l)"
  using assms by (simp add: finish_layer_def requireImportHash_def)

theorem legacy_import_unchecked_witness:
  "\<exists>l'. finish_layer sample_pf ''/w'' True (''a'', sample_layer\<lparr>lay_LegacyImport := [sample_import ''http://h/f'']\<rparr>) = Inr (''a'', l') \<and>
     lay_Imports l' = [sample_import ''http://h/f'']"
proof -
  have "absolutify_import ''/w'' ''/w'' (sample_import ''http://h/f'') = Inr (sample_import ''http://h/f'')"
    by (simp add: absolutify_import_def getAbsPath_def http_sample sample_import_def)
  then show ?thesis
    using legacy_import_unchecked [of "sample_layer\<lparr>lay_LegacyImport := [sample_import ''http://h/f'']\<rparr>" sample_pf "''/w''" "''a''"]
    by (simp add: finish_layer_def absolutify_def sample_layer_def sample_source_def sample_pf_def layer_kind_defs)
qed

text \<open>What a key of the map may hold.\<close>

definition string_or_empty :: "yaml option \<Rightarrow> string \<Rightarrow> bool" where
  "string_or_empty v s = (v = Some (YStr s) \<or> v = None \<and> s = [])"

definition int_or_none :: "yaml option \<Rightarrow> int \<Rightarrow> bool" where
  "int_or_none v i = (v = Some (YInt i) \<or> v = None \<and> i = -1)"

lemma yaml_string_field_Inr: "yaml_string_field m name = Inr s \<longleftrightarrow> string_or_empty (map_of m (YStr name)) s"
  by (auto simp: yaml_string_field_def string_or_empty_def split: option.splits yaml.splits)

lemma yaml_int_field_Inr: "yaml_int_field m (-1) name = Inr i \<longleftrightarrow> int_or_none (map_of m (YStr name)) i"
  by (auto simp: yaml_int_field_def int_or_none_def split: option.splits yaml.splits)

text \<open>
  C28. Exactly which import entries decode, and into what. A plain string is the path of an import without
  hash, destination, mode and owner. A map decodes when all its keys are strings, \<open>path\<close>, \<open>hash\<close> and \<open>dest\<close>
  are strings where they are given, the path is there and not empty, the destination is empty or
  absolute, and \<open>mode\<close>, \<open>uid\<close> and \<open>gid\<close> are integers where they are given, the owners not below -1. The import
  has these values, -1 for an owner that is not given, no mode when none is given or it is -1, and
  otherwise the mode modulo 2^32. Nothing else decodes.
\<close>

theorem import_entry_valid:
  "getImportFromInterface v = Inr imp \<longleftrightarrow>
    (\<exists>s. v = YStr s \<and> imp = \<lparr>imp_Path = s, imp_Hash = [], imp_Dest = [], imp_Mode = None, imp_Uid = -1, imp_Gid = -1\<rparr>) \<or>
    (\<exists>m mode. v = YMap m \<and> list_all (\<lambda>(k, _). \<exists>s. k = YStr s) m \<and>
      string_or_empty (map_of m (YStr ''path'')) (imp_Path imp) \<and> imp_Path imp \<noteq> [] \<and>
      string_or_empty (map_of m (YStr ''hash'')) (imp_Hash imp) \<and>
      string_or_empty (map_of m (YStr ''dest'')) (imp_Dest imp) \<and> (imp_Dest imp = [] \<or> filepath_IsAbs (imp_Dest imp)) \<and>
      int_or_none (map_of m (YStr ''mode'')) mode \<and>
      imp_Mode imp = (if mode = -1 then None else Some (nat (mode mod 2 ^ 32))) \<and>
      int_or_none (map_of m (YStr ''uid'')) (imp_Uid imp) \<and> -1 \<le> imp_Uid imp \<and>
      int_or_none (map_of m (YStr ''gid'')) (imp_Gid imp) \<and> -1 \<le> imp_Gid imp)"
proof (cases v)
  case (YMap m)
  have keys: "rcheck (\<lambda>(k, _). case k of YStr _ \<Rightarrow> Inr () | _ \<Rightarrow> Inl (Errorf ''key '%s' in import is not a string: %#v'' [])) m = Inr u
      \<longleftrightarrow> list_all (\<lambda>(k, _). \<exists>s. k = YStr s) m" for u
    by (induction m) (auto simp: res_simps split: yaml.splits)
  have chain: "(if a then Inl e1 else if b then Inl e2 else if c then Inl e3 else if d then Inl e4 else Inr r) = Inr imp
      \<longleftrightarrow> \<not> a \<and> \<not> b \<and> \<not> c \<and> \<not> d \<and> imp = r" for a b c d and e1 e2 e3 e4 :: go_error and r by auto
  have owner: "\<not> (i \<noteq> -1 \<and> i < 0) \<longleftrightarrow> -1 \<le> i" for i :: int by auto
  have "getImportFromInterface v = Inr imp \<longleftrightarrow> list_all (\<lambda>(k, _). \<exists>s. k = YStr s) m \<and>
      (\<exists>hash. string_or_empty (map_of m (YStr ''hash'')) hash \<and> (\<exists>path. string_or_empty (map_of m (YStr ''path'')) path \<and>
      (\<exists>dest. string_or_empty (map_of m (YStr ''dest'')) dest \<and> (\<exists>mode. int_or_none (map_of m (YStr ''mode'')) mode \<and>
      (\<exists>uid. int_or_none (map_of m (YStr ''uid'')) uid \<and> (\<exists>gid. int_or_none (map_of m (YStr ''gid'')) gid \<and>
      path \<noteq> [] \<and> \<not> (dest \<noteq> [] \<and> \<not> filepath_IsAbs dest) \<and> -1 \<le> uid \<and> -1 \<le> gid \<and>
      imp = \<lparr>imp_Path = path, imp_Hash = hash, imp_Dest = dest,
        imp_Mode = (if mode \<noteq> -1 then Some (nat (mode mod 2 ^ 32)) else None), imp_Uid = uid, imp_Gid = gid\<rparr>))))))"
    unfolding YMap getImportFromInterface_def yaml.case rbind_Inr_iff keys chain UidEmpty_def GidEmpty_def owner yaml_string_field_Inr
      yaml_int_field_Inr file_mode_def by blast
  then show ?thesis unfolding YMap by (cases imp) (simp, blast)
qed (auto simp: getImportFromInterface_def UidEmpty_def GidEmpty_def)

theorem import_entry_valid_witness:
  "getImportFromInterface (YMap [(YStr ''path'', YStr ''f''), (YStr ''mode'', YInt 420), (YStr ''uid'', YInt 5)]) =
     Inr \<lparr>imp_Path = ''f'', imp_Hash = [], imp_Dest = [], imp_Mode = Some 420, imp_Uid = 5, imp_Gid = -1\<rparr> \<and>
   \<not> is_ok (getImportFromInterface (YMap [(YStr ''path'', YStr ''f''), (YStr ''uid'', YInt (-2))]))"
proof -
  have "getImportFromInterface (YMap [(YStr ''path'', YStr ''f''), (YStr ''uid'', YInt (-2))]) \<noteq> Inr imp" for imp
    unfolding import_entry_valid by (auto simp: string_or_empty_def int_or_none_def)
  then show ?thesis unfolding import_entry_valid is_ok_iff by (auto simp: string_or_empty_def int_or_none_def)
qed

text \<open>A negative mode is taken for the mode it wraps to, although negative owners are refused.\<close>

theorem negative_mode_accepted:
  "getImportFromInterface (YMap [(YStr ''path'', YStr ''f''), (YStr ''mode'', YInt (-2))]) =
     Inr \<lparr>imp_Path = ''f'', imp_Hash = [], imp_Dest = [], imp_Mode = Some (2 ^ 32 - 2), imp_Uid = -1, imp_Gid = -1\<rparr>"
  by (simp add: getImportFromInterface_def yaml_string_field_def yaml_int_field_def UidEmpty_def GidEmpty_def file_mode_def)

text \<open>
  An import written as an empty string decodes, and then makes \<^verbatim>\<open>absolutify\<close>
  panic on the last byte of its path, whatever else the layer holds after it.
\<close>

theorem empty_import_panics:
  "\<exists>imp. Imports_UnmarshalYAML (YSeq [YStr []]) = Inr [imp] \<and>
     absolutify cwd (l\<lparr>lay_Imports := imp # rest\<rparr>) ref = Inl (Panic ''slice bounds out of range [-1:]'')"
  by (simp add: Imports_UnmarshalYAML_def getImportFromInterface_def absolutify_def absolutify_import_def getAbsPath_eq)

subsection \<open>The environment of a build\<close>

text \<open>A pattern of plain characters between anchors matches exactly itself.\<close>

lemma compile_exact:
  assumes "list_all literal_char t"
  shows "regexp_Compile (''^'' @ t @ ''$'') = Inr (seq_of (Bol # map Lit t @ [Eol]))"
proof -
  have "regexp_Compile (''^'' @ t @ ''$'') = re_parse [] [] [Bol] 0 (t @ ''$'')"
    unfolding regexp_Compile_def by (simp add: re_parse.simps(2) [of _ _ _ _ "CHR ''^''"])
  also have "\<dots> = re_parse [] [] (rev (map Lit t) @ [Bol]) 0 ''$''" by (rule re_parse_lits [OF assms])
  also have "\<dots> = Inr (seq_of (Bol # map Lit t @ [Eol]))"
    by (simp add: re_parse.simps(2) [of _ _ _ _ "CHR ''$''"])
  finally show ?thesis .
qed

lemma match_exact: "re_MatchString (seq_of (Bol # map Lit t @ [Eol])) k \<longleftrightarrow> k = t"
proof -
  have at: "rmatch (seq_of (Bol # map Lit t @ [Eol])) k (j, []) = (if j = 0 \<and> k = t then [(length t, [])] else [])" for j
    by (auto simp: rmatch_lits prefix_def)
  show ?thesis
  proof (cases "k = t")
    case True
    then have "re_find (seq_of (Bol # map Lit t @ [Eol])) k 0 = Some (0, length t, [])"
      using at [of 0] by (intro re_find_Some) auto
    with True show ?thesis by (simp add: re_MatchString_def)
  next
    case False
    then have "re_find (seq_of (Bol # map Lit t @ [Eol])) k 0 = None"
      using at by (intro re_find_None) auto
    with False show ?thesis by (simp add: re_MatchString_def)
  qed
qed

definition env_pair :: "string \<Rightarrow> string \<times> string" where
  "env_pair kv = (takeWhile (\<lambda>c. c \<noteq> CHR ''='') kv, tl (dropWhile (\<lambda>c. c \<noteq> CHR ''='') kv))"

lemma env_step_pair: "CHR ''='' \<in> set kv \<Longrightarrow> env_step cur kv = Inr (map_put (fst (env_pair kv)) (snd (env_pair kv)) cur)"
  by (simp add: env_step_def env_pair_def numeral_2_eq_2 cut_char)

lemma env_loop:
  "list_all (\<lambda>kv. CHR ''='' \<in> set kv) environ \<Longrightarrow>
     \<exists>cur. rfold env_step acc environ = Inr cur \<and> map_of cur = map_of (rev (map env_pair environ) @ acc)"
proof (induction environ arbitrary: acc)
  case (Cons kv environ)
  let ?acc = "map_put (fst (env_pair kv)) (snd (env_pair kv)) acc"
  from Cons obtain cur where "rfold env_step ?acc environ = Inr cur" "map_of cur = map_of (rev (map env_pair environ) @ ?acc)"
    by fastforce
  then show ?case using Cons.prems env_step_pair [of kv acc] by (simp add: map_of_append map_add_upd)
qed simp

lemma map_of_fold_put: "map_of (fold (\<lambda>(k, v). map_put k v) kvs m) = map_of (rev kvs @ m)"
proof (induction kvs arbitrary: m)
  case (Cons kv kvs)
  then show ?case by (cases kv) (simp add: map_add_upd)
qed simp

lemma map_of_filter_key: "map_of (filter (\<lambda>(k, _). P k) m) k = (if P k then map_of m k else None)"
  by (induction m) auto

text \<open>What it means that an entry of the pass-through list, a regular expression, lets a variable through.\<close>

definition env_passes :: "string \<Rightarrow> string \<Rightarrow> bool" where
  "env_passes t k = (case regexp_Compile (''^'' @ t @ ''$'') of Inr r \<Rightarrow> re_MatchString r k | Inl _ \<Rightarrow> False)"

lemma env_passes_literal: "list_all literal_char t \<Longrightarrow> env_passes t k \<longleftrightarrow> k = t"
  unfolding env_passes_def compile_exact sum.case by (rule match_exact)

lemma filterEnv_passes:
  assumes "list_all (\<lambda>t. is_ok (regexp_Compile (''^'' @ t @ ''$''))) pats"
  shows "filterEnv pats cur = Inr (filter (\<lambda>(k, _). \<exists>t \<in> set pats. env_passes t k) cur)"
proof -
  from assms have "\<exists>rs. rmap (\<lambda>t. regexp_Compile (''^'' @ t @ ''$'')) pats = Inr rs \<and>
      (\<forall>k. (\<exists>r \<in> set rs. re_MatchString r k) \<longleftrightarrow> (\<exists>t \<in> set pats. env_passes t k))"
    by (induction pats) (auto simp: is_ok_iff env_passes_def)
  then show ?thesis by (auto simp: filterEnv_def)
qed

lemma default_passes: "(\<exists>t \<in> set env_defList. env_passes t k) \<longleftrightarrow> k \<in> set env_defList"
proof -
  have "\<forall>t \<in> set env_defList. list_all literal_char t" by (simp add: env_defList_def literal_char_def)
  then have "\<And>t. t \<in> set env_defList \<Longrightarrow> env_passes t k \<longleftrightarrow> k = t" using env_passes_literal by blast
  then show ?thesis by metis
qed

lemma default_compiles: "list_all (\<lambda>t. is_ok (regexp_Compile (''^'' @ t @ ''$''))) env_defList"
proof -
  have "list_all (list_all literal_char) env_defList" by (simp add: env_defList_def literal_char_def)
  then show ?thesis using compile_exact by (simp add: list_all_iff is_ok_iff)
qed


definition passing_layer :: Layer where
  "passing_layer = sample_layer\<lparr>lay_BuildEnvPt := [''LC_.*'', ''HOME''], lay_BuildEnv := [(''A'', ''1'')]\<rparr>"


text \<open>
  The anchors belong to the first and the last branch of an alternative only: \<open>A|B\<close> lets every
  variable through whose name starts with A or ends with B.
\<close>

lemma pass_through_alternative: "env_passes ''A|B'' ''AWS_KEY''" "env_passes ''A|B'' ''GITHUB''" "\<not> env_passes ''A|B'' ''TERM''"
  by code_simp+

end
