(* ===== verification/Stackerfile.thy ===== *)
theory Stackerfile
  imports Substitute Layer_Def
begin

text \<open>
  Stacker files and sets of them: \<^verbatim>\<open>pkg/types/stackerfile.go\<close>, \<^verbatim>\<open>pkg/types/stackerfiles.go\<close> and the
  substitutions of \<^verbatim>\<open>pkg/types/config.go\<close>.

  What the code gets from outside is the record \<open>sf_env\<close>: the working directory, the file
  system and the network it reads stacker files from, and the yaml package. The two recursive
  functions have no bound of their own, so the model gives each the number of frames the
  goroutine's stack has room for; a deeper recursion is the run-time's fatal stack overflow.
\<close>

section \<open>Data\<close>

record Stackerfile =
  sf_AfterSubstitutions :: string
  sf_internal :: "(string \<times> Layer) list"
  sf_FileOrder :: "string list"
  sf_buildConfig :: "string list option"
  sf_path :: string
  sf_ReferenceDirectory :: string

type_synonym StackerFiles = "(string \<times> Stackerfile) list"

record StackerConfig =
  sc_WorkDir :: string
  sc_StackerDir :: string
  sc_OCIDir :: string
  sc_RootFSDir :: string
  sc_Debug :: bool
  sc_StorageType :: string
  sc_SourceDateEpoch :: "int option"

record http_response =
  resp_StatusCode :: int
  resp_Status :: string
  resp_Body :: "string res"

text \<open>
  \<open>env_config\<close> decodes the \<open>config\<close> section: \<^const>\<open>None\<close> when the decoder leaves a nil pointer, else the
  prerequisites.
\<close>

record sf_env =
  env_Getwd :: "string res"
  env_ReadFile :: "string \<Rightarrow> string res"
  env_Get :: "string \<Rightarrow> http_response res"
  env_yaml :: "string \<Rightarrow> (yaml \<times> yaml) list res"
  env_config :: "yaml \<Rightarrow> string list option res"
  env_layers :: "(string \<times> yaml) list \<Rightarrow> (string \<times> Layer) list res"
  env_platform :: platform

definition Substitutions :: "StackerConfig \<Rightarrow> string list" where
  "Substitutions sc =
     [''STACKER_ROOTFS_DIR='' @ sc_RootFSDir sc, ''STACKER_STACKER_DIR='' @ sc_StackerDir sc,
      ''STACKER_OCI_DIR='' @ sc_OCIDir sc, ''STACKER_WORK_DIR='' @ sc_WorkDir sc]"

definition CacheFile :: "StackerConfig \<Rightarrow> string" where
  "CacheFile sc = path_Join [sc_StackerDir sc, ''build.cache'']"

definition Stackerfile_Get :: "Stackerfile \<Rightarrow> string \<Rightarrow> Layer option" where
  "Stackerfile_Get sf name = map_of (sf_internal sf) name"

definition Stackerfile_Len :: "Stackerfile \<Rightarrow> nat" where
  "Stackerfile_Len sf = length (sf_internal sf)"

text \<open>The zero value of \<^verbatim>\<open>Layer\<close>, which a map lookup returns for a missing key.\<close>

definition zero_layer :: Layer where
  "zero_layer = \<lparr>lay_From = \<lparr>is_Type = [], is_Url = [], is_Tag = [], is_Insecure = False\<rparr>, lay_Imports = [],
     lay_LegacyImport = [], lay_OverlayDirs = [],
     lay_Run = None, lay_Cmd = None, lay_Entrypoint = None, lay_FullCommand = None, lay_BuildEnvPt = [], lay_BuildEnv = [],
     lay_Environment = [], lay_Volumes = [], lay_Labels = [], lay_GenerateLabels = None, lay_WorkingDir = [],
     lay_BuildOnly = False, lay_Binds = [], lay_RuntimeUser = [], lay_Annotations = [], lay_OS = None, lay_Arch = None,
     lay_Bom = None, lay_WasLegacyImport = False, lay_WasBom = False, lay_Empty = []\<rparr>"

definition layer_at :: "Stackerfile \<Rightarrow> string \<Rightarrow> Layer" where
  "layer_at sf name = (case map_of (sf_internal sf) name of Some l \<Rightarrow> l | None \<Rightarrow> zero_layer)"

section \<open>Reading one file\<close>

text \<open>The text of the file, its path and the directory its contents refer to.\<close>

definition read_stackerfile :: "sf_env \<Rightarrow> string \<Rightarrow> string \<Rightarrow> (string \<times> string \<times> string) res" where
  "read_stackerfile env wd stackerfile =
     rbind (NewDockerishUrl stackerfile) (\<lambda>url.
       if du_Scheme url = [] then
         (case env_ReadFile env stackerfile of
            Inl err \<Rightarrow> Inl (Wrapf err ''couldn't read stacker file'' [])
          | Inr raw \<Rightarrow> (let p = filepath_Abs wd stackerfile in Inr (raw, p, path_Dir p)))
       else rbind (env_Get env stackerfile) (\<lambda>resp.
         if resp_StatusCode resp \<noteq> 200 then
           Inl (Errorf ''stackerfile: couldn't download %s: %s'' [stackerfile, resp_Status resp])
         else rbind (resp_Body resp) (\<lambda>raw. Inr (raw, stackerfile, wd))))"

text \<open>One entry of the file: the \<open>config\<close> section, or a layer.\<close>

definition section_step ::
  "sf_env \<Rightarrow> string list option \<times> (string \<times> yaml) list \<Rightarrow> yaml \<times> yaml \<Rightarrow> (string list option \<times> (string \<times> yaml) list) res" where
  "section_step env st e =
     (case e of
        (YStr keyName, v) \<Rightarrow>
          if keyName = ''config'' then
            (case env_config env v of
               Inl _ \<Rightarrow> Inl (Errorf (''stackerfile: cannot interpret 'config' value, '' @
                 ''note the 'config' section in the stackerfile cannot contain a layer definition %v'') [])
             | Inr c \<Rightarrow> Inr (c, snd st))
          else Inr (fst st, snd st @ [(keyName, v)])
      | _ \<Rightarrow> Inl (Errorf ''stackerfile: cannot cast %v to string'' []))"

definition NewStackerfile :: "sf_env \<Rightarrow> string \<Rightarrow> bool \<Rightarrow> string list \<Rightarrow> Stackerfile res" where
  "NewStackerfile env stackerfile validateHash substitutions =
     rbind (env_Getwd env) (\<lambda>wd.
     rbind (read_stackerfile env wd stackerfile) (\<lambda>(raw, path, refdir).
     rbind (substitute raw substitutions) (\<lambda>content.
     case env_yaml env content of
       Inl err \<Rightarrow> Inl (Wrapf err ''couldn't parse stacker file %s'' [stackerfile])
     | Inr ms \<Rightarrow>
         rbind (rfold (section_step env) (Some [], []) ms) (\<lambda>(cfg, lms).
         rbind (parseLayers (env_layers env) (env_platform env) refdir lms validateHash) (\<lambda>internal.
         Inr \<lparr>sf_AfterSubstitutions = content, sf_internal = internal, sf_FileOrder = map fst lms,
              sf_buildConfig = cfg, sf_path = path, sf_ReferenceDirectory = refdir\<rparr>)))))"

definition buildPrerequisites :: "Stackerfile \<Rightarrow> string list res" where
  "buildPrerequisites sf =
     (case sf_buildConfig sf of None \<Rightarrow> Inl (Panic ''nil pointer dereference'') | Some ps \<Rightarrow> Inr ps)"

definition Prerequisites :: "string \<Rightarrow> Stackerfile \<Rightarrow> string list res" where
  "Prerequisites cwd sf =
     rbind (buildPrerequisites sf) (rmap (\<lambda>p.
       rbind (NewDockerishUrl p) (\<lambda>parsedPath.
         if du_Scheme parsedPath \<noteq> [] \<or> filepath_IsAbs p then Inr p
         else Inr (filepath_Abs cwd (path_Join [sf_ReferenceDirectory sf, p])))))"

section \<open>Sets of files\<close>

definition unique_step :: "(string \<times> string) list \<Rightarrow> string \<times> string \<Rightarrow> (string \<times> string) list res" where
  "unique_step names e =
     (case e of (layerName, path) \<Rightarrow>
        (case map_of names layerName of
           Some otherFile \<Rightarrow> Inl (Errorf ''duplicate layer name: both %s and %s have %s'' [otherFile, path, layerName])
         | None \<Rightarrow> Inr (map_put layerName path names)))"

definition all_names :: "StackerFiles \<Rightarrow> (string \<times> string) list" where
  "all_names sfm = concat (map (\<lambda>(path, sf). map (\<lambda>n. (n, path)) (sf_FileOrder sf)) sfm)"

definition check_unique :: "StackerFiles \<Rightarrow> unit res" where
  "check_unique sfm = rbind (rfold unique_step [] (all_names sfm)) (\<lambda>_. Inr ())"

fun NewStackerFiles :: "nat \<Rightarrow> sf_env \<Rightarrow> string list \<Rightarrow> bool \<Rightarrow> string list \<Rightarrow> StackerFiles res" where
  "NewStackerFiles 0 env paths validateHash substituteVars = Inl (Panic ''stack overflow'')"
| "NewStackerFiles (Suc n) env paths validateHash substituteVars =
     rbind (rfold (\<lambda>sfm path.
         rbind (NewStackerfile env path validateHash substituteVars) (\<lambda>sf.
         rbind (env_Getwd env) (\<lambda>cwd.
         let absPath = filepath_Abs cwd path;
             sfm1 = (if map_of sfm absPath = None then map_put absPath sf sfm else sfm)
         in rbind (Prerequisites cwd sf) (\<lambda>prerequisites.
            rbind (NewStackerFiles n env prerequisites validateHash substituteVars) (\<lambda>depStackerFiles.
            Inr (fold (\<lambda>(p, f). map_put p f) depStackerFiles sfm1)))))) [] paths)
       (\<lambda>sfm. rbind (check_unique sfm) (\<lambda>_. Inr sfm))"

definition LookupLayerDefinition :: "StackerFiles \<Rightarrow> string \<Rightarrow> Layer option" where
  "LookupLayerDefinition sfm name =
     (case List.find (\<lambda>(_, sf). Stackerfile_Get sf name \<noteq> None) sfm of
        None \<Rightarrow> None
      | Some (_, sf) \<Rightarrow> Stackerfile_Get sf name)"

section \<open>Build order inside a file\<close>

definition prereq_path :: "Stackerfile \<Rightarrow> string \<Rightarrow> string" where
  "prereq_path s prereq = (if filepath_IsAbs prereq then prereq else path_Join [path_Dir (sf_path s), prereq])"

fun addPrerequisites :: "nat \<Rightarrow> StackerFiles \<Rightarrow> Stackerfile \<Rightarrow> string list \<Rightarrow> string list res" where
  "addPrerequisites 0 sfm s processed = Inl (Panic ''stack overflow'')"
| "addPrerequisites (Suc n) sfm s processed =
     rbind (buildPrerequisites s) (\<lambda>ps.
       rfold (\<lambda>processed prereq.
         case map_of sfm (prereq_path s prereq) of
           None \<Rightarrow> Inl (Errorf ''couldn't find prerequisite %s'' [prereq_path s prereq])
         | Some prereqFile \<Rightarrow>
             addPrerequisites n sfm prereqFile (processed @ map fst (sf_internal prereqFile))) processed ps)"

definition unprocessed_import :: "string list \<Rightarrow> string \<Rightarrow> string list res" where
  "unprocessed_import processed p =
     rbind (NewDockerishUrl p) (\<lambda>url.
       Inr (if du_Scheme url = ''stacker'' \<and> du_Host url \<notin> set processed then [p] else []))"

definition getUnprocessedStackerImports :: "string list \<Rightarrow> Layer \<Rightarrow> string list res" where
  "getUnprocessedStackerImports processed layer =
     rbind (rmap (\<lambda>imp. unprocessed_import processed (imp_Path imp)) (lay_Imports layer)) (\<lambda>us.
     rbind (if is_Type (lay_From layer) = TarLayer then unprocessed_import processed (is_Url (lay_From layer)) else Inr [])
       (\<lambda>u. Inr (concat us @ u)))"

text \<open>One visit of a layer; the state is the order so far and the processed names.\<close>

definition order_visit :: "Stackerfile \<Rightarrow> string list \<times> string list \<Rightarrow> string \<Rightarrow> (string list \<times> string list) res" where
  "order_visit s st name =
     (if name \<in> set (snd st) then Inr st
      else
        (let layer = layer_at s name in
         if is_Type (lay_From layer) = [] then Inl (Errorf ''invalid layer: no base (from directive)'' [])
         else
           rbind (getUnprocessedStackerImports (snd st) layer) (\<lambda>unprocessedImports.
             if unprocessedImports = [] \<and>
                (is_Type (lay_From layer) \<noteq> BuiltLayer \<or> is_Tag (lay_From layer) \<in> set (snd st))
             then Inr (fst st @ [name], snd st @ [name])
             else Inr st)))"

definition order_round :: "Stackerfile \<Rightarrow> string list \<times> string list \<Rightarrow> (string list \<times> string list) res" where
  "order_round s st = rfold (order_visit s) st (sf_FileOrder s)"

definition DependencyOrder :: "nat \<Rightarrow> Stackerfile \<Rightarrow> StackerFiles \<Rightarrow> string list res" where
  "DependencyOrder stack s sfm =
     rbind (addPrerequisites stack sfm s []) (\<lambda>processed.
     rbind (rfold (\<lambda>st _. order_round s st) ([], processed) [0..<Stackerfile_Len s]) (\<lambda>(ret, processed').
       if length ret \<noteq> Stackerfile_Len s then
         rbind (rcheck (\<lambda>name. rbind (getUnprocessedStackerImports processed' (layer_at s name)) (\<lambda>_. Inr ()))
                  (filter (\<lambda>name. name \<notin> set processed') (sf_FileOrder s)))
           (\<lambda>_. Inl (Errorf ''couldn't resolve some dependencies'' []))
       else Inr ret))"

section \<open>The order, specified\<close>

definition stacker_host :: "string \<Rightarrow> string list" where
  "stacker_host p = (if du_Scheme (dockerish p) = ''stacker'' then [du_Host (dockerish p)] else [])"

text \<open>The layers a layer needs: stacker imports, a stacker tar base, a built base.\<close>

definition layer_deps :: "Layer \<Rightarrow> string list" where
  "layer_deps l =
     concat (map (\<lambda>imp. stacker_host (imp_Path imp)) (lay_Imports l)) @
     (if is_Type (lay_From l) = TarLayer then stacker_host (is_Url (lay_From l)) else []) @
     (if is_Type (lay_From l) = BuiltLayer then [is_Tag (lay_From l)] else [])"

text \<open>Each name comes after everything it needs, the names in \<open>P\<close> being there already.\<close>

fun in_order :: "(string \<Rightarrow> string list) \<Rightarrow> string list \<Rightarrow> string list \<Rightarrow> bool" where
  "in_order deps P [] = True"
| "in_order deps P (n # ns) = (set (deps n) \<subseteq> set P \<and> in_order deps (n # P) ns)"

definition file_deps :: "Stackerfile \<Rightarrow> string \<Rightarrow> string list" where
  "file_deps s name = layer_deps (layer_at s name)"

lemma in_order_snoc: "in_order deps P (ns @ [n]) \<longleftrightarrow> in_order deps P ns \<and> set (deps n) \<subseteq> set P \<union> set ns"
  by (induction ns arbitrary: P) auto

lemma in_order_nth: "in_order deps P ns \<Longrightarrow> i < length ns \<Longrightarrow> set (deps (ns ! i)) \<subseteq> set P \<union> set (take i ns)"
proof (induction ns arbitrary: P i)
  case (Cons n ns)
  then show ?case by (cases i) fastforce+
qed simp

section \<open>Visits and rounds\<close>

lemma unprocessed_import_eq:
  "unprocessed_import P p = Inr (if set (stacker_host p) \<subseteq> set P then [] else [p])"
  by (auto simp: unprocessed_import_def stacker_host_def)

lemma getUnprocessed_eq:
  "getUnprocessedStackerImports P l =
     Inr (concat (map (\<lambda>imp. if set (stacker_host (imp_Path imp)) \<subseteq> set P then [] else [imp_Path imp]) (lay_Imports l)) @
          (if is_Type (lay_From l) = TarLayer \<and> \<not> set (stacker_host (is_Url (lay_From l))) \<subseteq> set P
           then [is_Url (lay_From l)] else []))"
  unfolding getUnprocessedStackerImports_def unprocessed_import_eq
  by (subst rmap_total [where g = "\<lambda>imp. if set (stacker_host (imp_Path imp)) \<subseteq> set P then [] else [imp_Path imp]"]) auto

lemma order_visit_eq:
  "order_visit s (ret, P) name =
     (if name \<in> set P then Inr (ret, P)
      else if is_Type (lay_From (layer_at s name)) = [] then Inl (Errorf ''invalid layer: no base (from directive)'' [])
      else if set (file_deps s name) \<subseteq> set P then Inr (ret @ [name], P @ [name])
      else Inr (ret, P))"
  by (auto simp: order_visit_def getUnprocessed_eq file_deps_def layer_deps_def Let_def layer_kind_defs
      simp del: if_image_distrib split: if_splits)

text \<open>What holds of the order and the processed names at every moment.\<close>

definition order_inv :: "Stackerfile \<Rightarrow> string list \<Rightarrow> string list \<times> string list \<Rightarrow> bool" where
  "order_inv s P0 st =
     (case st of (ret, P) \<Rightarrow>
        set P = set P0 \<union> set ret \<and> distinct ret \<and> set ret \<inter> set P0 = {} \<and>
        set ret \<subseteq> set (sf_FileOrder s) \<and> in_order (file_deps s) P0 ret)"

lemma order_visit_inv:
  assumes "order_inv s P0 st" "name \<in> set (sf_FileOrder s)" "order_visit s st name = Inr st'"
  shows "order_inv s P0 st'"
proof -
  obtain ret P where st: "st = (ret, P)" by force
  with assms show ?thesis
    by (auto simp: order_visit_eq order_inv_def in_order_snoc split: if_splits)
qed

lemma order_round_inv:
  assumes "order_inv s P0 st" "order_round s st = Inr st'"
  shows "order_inv s P0 st'"
  using assms(2) unfolding order_round_def
  by (rule rfold_invariant [where I = "order_inv s P0"]) (auto intro: assms(1) order_visit_inv)

lemma order_rounds_inv:
  assumes "rfold (\<lambda>st _. order_round s st) ([], P0) xs = Inr st'"
  shows "order_inv s P0 st'"
  using assms by (rule rfold_invariant [where I = "order_inv s P0"]) (auto simp: order_inv_def [of _ _ "([], _)"] intro: order_round_inv)

text \<open>Rounds never lose a processed name, and process every name whose needs are met.\<close>

lemma order_visits_mono:
  "rfold (order_visit s) st names = Inr st' \<Longrightarrow> set (snd st) \<subseteq> set (snd st')"
proof (induction names arbitrary: st)
  case (Cons n names)
  then obtain st1 where "order_visit s st n = Inr st1" "rfold (order_visit s) st1 names = Inr st'"
    by (auto simp: res_simps)
  moreover from this have "set (snd st) \<subseteq> set (snd st1)"
    by (cases st) (auto simp: order_visit_eq split: if_splits)
  ultimately show ?case using Cons.IH by blast
qed simp

lemma order_visits_total:
  "\<forall>n \<in> set names. is_Type (lay_From (layer_at s n)) \<noteq> [] \<Longrightarrow> \<exists>st'. rfold (order_visit s) st names = Inr st'"
proof (induction names arbitrary: st)
  case (Cons n names)
  then have "\<exists>st1. order_visit s st n = Inr st1" by (cases st) (auto simp: order_visit_eq)
  with Cons show ?case by auto
qed simp

lemma order_round_progress:
  assumes "order_round s st = Inr st'" "name \<in> set (sf_FileOrder s)" "set (file_deps s name) \<subseteq> set (snd st)"
  shows "name \<in> set (snd st')"
proof -
  obtain as bs where sp: "sf_FileOrder s = as @ name # bs" using split_list [OF assms(2)] by auto
  from assms(1) obtain st1 st2 where
    st1: "rfold (order_visit s) st as = Inr st1" and st2: "order_visit s st1 name = Inr st2"
    and st3: "rfold (order_visit s) st2 bs = Inr st'"
    unfolding order_round_def sp by (auto simp: rfold_append res_simps)
  have "name \<in> set (snd st2)"
    using st2 order_visits_mono [OF st1] assms(3) by (cases st1) (auto simp: order_visit_eq split: if_splits)
  with order_visits_mono [OF st3] show ?thesis by auto
qed

lemma order_rounds_progress:
  assumes "in_order (file_deps s) P0 ord" "set ord \<subseteq> set (sf_FileOrder s)"
    and "rfold (\<lambda>st _. order_round s st) (ret, P) xs = Inr st'" "set P0 \<subseteq> set P"
  shows "set (take (length xs) ord) \<subseteq> set (snd st')"
  using assms(3)
proof (induction xs arbitrary: st' rule: rev_induct)
  case Nil
  then show ?case by simp
next
  case (snoc x xs)
  then obtain st1 where st1: "rfold (\<lambda>st _. order_round s st) (ret, P) xs = Inr st1" "order_round s st1 = Inr st'"
    by (auto simp: rfold_append res_simps)
  have mono: "set (snd st1) \<subseteq> set (snd st')"
    using st1(2) order_visits_mono unfolding order_round_def by blast
  have P: "set P0 \<subseteq> set (snd st1)"
    by (rule rfold_invariant [OF st1(1), where I = "\<lambda>st. set P0 \<subseteq> set (snd st)"])
       (use assms(4) order_visits_mono in \<open>auto simp: order_round_def\<close>, blast)
  have IH: "set (take (length xs) ord) \<subseteq> set (snd st1)" using snoc.IH st1(1) .
  show ?case
  proof (cases "length xs < length ord")
    case True
    let ?n = "ord ! length xs"
    have "set (file_deps s ?n) \<subseteq> set (snd st1)"
      using in_order_nth [OF assms(1) True] P IH by blast
    then have "?n \<in> set (snd st')"
      using order_round_progress [OF st1(2), of ?n] assms(2) True by (meson nth_mem subsetD)
    then show ?thesis using IH mono True by (auto simp: take_Suc_conv_app_nth)
  next
    case False
    then show ?thesis using IH mono by auto
  qed
qed

section \<open>Prerequisites\<close>

text \<open>\<open>prereq_of sfm s f\<close>: the file \<open>f\<close> is a prerequisite of \<open>s\<close>, directly or through others.\<close>

inductive prereq_of :: "StackerFiles \<Rightarrow> Stackerfile \<Rightarrow> Stackerfile \<Rightarrow> bool" for sfm where
  direct: "sf_buildConfig s = Some ps \<Longrightarrow> p \<in> set ps \<Longrightarrow> map_of sfm (prereq_path s p) = Some f \<Longrightarrow> prereq_of sfm s f"
| through: "sf_buildConfig s = Some ps \<Longrightarrow> p \<in> set ps \<Longrightarrow> map_of sfm (prereq_path s p) = Some f \<Longrightarrow>
    prereq_of sfm f g \<Longrightarrow> prereq_of sfm s g"

definition file_layers :: "Stackerfile \<Rightarrow> string set" where
  "file_layers f = fst ` set (sf_internal f)"

definition prereq_layers :: "StackerFiles \<Rightarrow> Stackerfile \<Rightarrow> string set" where
  "prereq_layers sfm s = {x. \<exists>f. prereq_of sfm s f \<and> x \<in> file_layers f}"

inductive_simps prereq_of_unfold: "prereq_of sfm s f"

lemma prereq_layers_unfold:
  assumes "sf_buildConfig s = Some ps"
  shows "prereq_layers sfm s =
    {x. \<exists>p \<in> set ps. \<exists>f. map_of sfm (prereq_path s p) = Some f \<and> (x \<in> file_layers f \<or> x \<in> prereq_layers sfm f)}"
  unfolding prereq_layers_def by (subst prereq_of_unfold) (use assms in auto)

lemma addPrerequisites_set:
  "addPrerequisites n sfm s P = Inr P' \<Longrightarrow> set P' = set P \<union> prereq_layers sfm s"
proof (induction n arbitrary: s P P')
  case (Suc n)
  then obtain ps where ps: "sf_buildConfig s = Some ps" by (auto simp: buildPrerequisites_def split: option.splits)
  let ?step = "\<lambda>processed prereq. case map_of sfm (prereq_path s prereq) of
      None \<Rightarrow> Inl (Errorf ''couldn't find prerequisite %s'' [prereq_path s prereq])
    | Some f \<Rightarrow> addPrerequisites n sfm f (processed @ map fst (sf_internal f))"
  have "rfold ?step P qs = Inr P' \<Longrightarrow> set P' = set P \<union>
      {x. \<exists>p \<in> set qs. \<exists>f. map_of sfm (prereq_path s p) = Some f \<and> (x \<in> file_layers f \<or> x \<in> prereq_layers sfm f)}" for qs
  proof (induction qs arbitrary: P)
    case (Cons q qs)
    then obtain f P1 where f: "map_of sfm (prereq_path s q) = Some f"
      "addPrerequisites n sfm f (P @ map fst (sf_internal f)) = Inr P1" "rfold ?step P1 qs = Inr P'"
      by (auto simp: res_simps split: option.splits)
    from Suc.IH [OF f(2)] have "set P1 = set P \<union> file_layers f \<union> prereq_layers sfm f"
      by (auto simp: file_layers_def)
    with Cons.IH [OF f(3)] f(1) show ?case by auto
  qed simp
  moreover have "rfold ?step P ps = Inr P'" using Suc.prems ps by (simp add: buildPrerequisites_def)
  ultimately show ?case by (simp add: prereq_layers_unfold [OF ps])
qed simp

section \<open>Properties of the build order\<close>

definition layers_match :: "Stackerfile \<Rightarrow> bool" where
  "layers_match s = (distinct (map fst (sf_internal s)) \<and> set (sf_FileOrder s) = fst ` set (sf_internal s))"

lemma card_file_order: "layers_match s \<Longrightarrow> card (set (sf_FileOrder s)) = Stackerfile_Len s"
  using distinct_card [of "map fst (sf_internal s)"] by (simp add: layers_match_def Stackerfile_Len_def)

lemma DependencyOrder_Inr:
  "DependencyOrder stack s sfm = Inr order \<longleftrightarrow>
     (\<exists>P P'. addPrerequisites stack sfm s [] = Inr P \<and>
       rfold (\<lambda>st _. order_round s st) ([], P) [0..<Stackerfile_Len s] = Inr (order, P') \<and>
       length order = Stackerfile_Len s)"
  by (auto simp: DependencyOrder_def res_simps split: if_splits)

text \<open>
  Whatever order is returned, it lists the layers of the file: the yaml package gives a layer for
  each key of the file, and only for those.
\<close>

definition yaml_keeps_keys :: "sf_env \<Rightarrow> bool" where
  "yaml_keeps_keys env \<longleftrightarrow>
     (\<forall>lms ls. env_layers env lms = Inr ls \<longrightarrow> distinct (map fst ls) \<and> fst ` set ls = fst ` set lms)"

lemma finish_layers_names:
  assumes "rmap (finish_layer pf ref vh) ls = Inr ls'"
  shows "map fst ls' = map fst ls"
proof -
  have "list_all2 (\<lambda>x y. finish_layer pf ref vh x = Inr y) ls ls'" using assms by (simp add: rmap_Inr_iff)
  then show ?thesis
    by (induction rule: list_all2_induct) (auto simp: finish_layer_def res_simps Let_def split: if_splits)
qed

lemma NewStackerfile_match:
  assumes "NewStackerfile env p vh subs = Inr sf" "yaml_keeps_keys env"
  shows "layers_match sf"
proof -
  from assms(1) obtain content ref path where "(case env_yaml env content of
      Inl err \<Rightarrow> Inl (Wrapf err ''couldn't parse stacker file %s'' [p])
    | Inr ms \<Rightarrow> rbind (rfold (section_step env) (Some [], []) ms) (\<lambda>(cfg, lms).
        rbind (parseLayers (env_layers env) (env_platform env) ref lms vh) (\<lambda>internal.
        Inr \<lparr>sf_AfterSubstitutions = content, sf_internal = internal, sf_FileOrder = map fst lms,
          sf_buildConfig = cfg, sf_path = path, sf_ReferenceDirectory = ref\<rparr>))) = Inr sf"
    unfolding NewStackerfile_def rbind_Inr_iff case_prod_beta by blast
  then obtain lms where lms: "parseLayers (env_layers env) (env_platform env) ref lms vh = Inr (sf_internal sf)"
    "sf_FileOrder sf = map fst lms"
    by (cases "env_yaml env content") (auto simp: res_simps)
  then obtain ls where ls: "env_layers env lms = Inr ls" "rmap (finish_layer (env_platform env) ref vh) ls = Inr (sf_internal sf)"
    by (auto simp: parseLayers_def res_simps)
  from ls(1) assms(2) have keys: "distinct (map fst ls)" "fst ` set ls = fst ` set lms" unfolding yaml_keeps_keys_def by blast+
  note names = finish_layers_names [OF ls(2)]
  have "fst ` set (sf_internal sf) = fst ` set ls" using names by (metis list.set_map)
  then show ?thesis using names keys lms(2) by (simp add: layers_match_def)
qed

lemma order_lists_layers:
  assumes "DependencyOrder stack s sfm = Inr order" "layers_match s"
  shows "distinct order \<and> set order = set (sf_FileOrder s)"
proof -
  from assms(1) obtain P P' where rounds: "rfold (\<lambda>st _. order_round s st) ([], P) [0..<Stackerfile_Len s] = Inr (order, P')"
    and len: "length order = Stackerfile_Len s"
    by (auto simp: DependencyOrder_Inr)
  from order_rounds_inv [OF rounds] have inv: "distinct order" "set order \<subseteq> set (sf_FileOrder s)"
    by (auto simp: order_inv_def)
  with len card_file_order [OF assms(2)] show ?thesis by (metis card_subset_eq distinct_card finite_set)
qed

text \<open>
  C2. When \<^verbatim>\<open>DependencyOrder\<close> returns an order, it lists every layer of the file once, and
  each layer comes after all it depends on: the layers its \<open>stacker://\<close> imports and tar base
  name, and its \<open>built\<close> base are earlier in the order or defined in a (transitive)
  prerequisite file.
\<close>

theorem dependency_order_sound:
  assumes "DependencyOrder stack s sfm = Inr order" and "layers_match s"
  shows "distinct order \<and> set order = set (sf_FileOrder s) \<and>
    (\<forall>i < length order. \<forall>d \<in> set (file_deps s (order ! i)).
       d \<in> set (take i order) \<or> (\<exists>f. prereq_of sfm s f \<and> d \<in> file_layers f))"
proof -
  from assms(1) obtain P P' where P: "addPrerequisites stack sfm s [] = Inr P"
    and rounds: "rfold (\<lambda>st _. order_round s st) ([], P) [0..<Stackerfile_Len s] = Inr (order, P')"
    by (auto simp: DependencyOrder_Inr)
  from order_rounds_inv [OF rounds] have inv: "distinct order" "set order \<subseteq> set (sf_FileOrder s)"
    "in_order (file_deps s) P order" by (auto simp: order_inv_def)
  have "set order = set (sf_FileOrder s)" using order_lists_layers [OF assms] by blast
  moreover have "set P = prereq_layers sfm s" using addPrerequisites_set [OF P] by simp
  ultimately show ?thesis using inv(1) in_order_nth [OF inv(3)] by (fastforce simp: prereq_layers_def)
qed

definition sample_file :: Stackerfile where
  "sample_file = \<lparr>sf_AfterSubstitutions = [],
     sf_internal = [(''app'', sample_layer), (''base'', sample_layer\<lparr>lay_From := sample_source\<lparr>is_Type := ''scratch''\<rparr>\<rparr>)],
     sf_FileOrder = [''app'', ''base''], sf_buildConfig = Some [], sf_path = ''/w/s.yaml'', sf_ReferenceDirectory = ''/w''\<rparr>"

lemma sample_file_simps:
  "sf_FileOrder sample_file = [''app'', ''base'']" "Stackerfile_Len sample_file = 2" "layers_match sample_file"
  "file_deps sample_file ''app'' = [''base'']" "file_deps sample_file ''base'' = []"
  "is_Type (lay_From (layer_at sample_file ''app'')) = ''built''" "is_Type (lay_From (layer_at sample_file ''base'')) = ''scratch''"
  "buildPrerequisites sample_file = Inr []"
  by (auto simp: sample_file_def Stackerfile_Len_def layers_match_def file_deps_def layer_at_def layer_deps_def sample_defs
      layer_kind_defs buildPrerequisites_def)

lemma sample_order: "DependencyOrder 1 sample_file [] = Inr [''base'', ''app'']"
  unfolding DependencyOrder_Inr
  by (intro exI [of _ "[]"] exI [of _ "[''base'', ''app'']"])
     (simp add: sample_file_simps order_round_def order_visit_eq upt_conv_Cons numeral_2_eq_2)

theorem dependency_order_sound_witness:
  "DependencyOrder 1 sample_file [] = Inr [''base'', ''app''] \<and> layers_match sample_file \<and> distinct [''base'', ''app'']"
  using dependency_order_sound [OF sample_order sample_file_simps(3)] sample_order sample_file_simps(3) by simp

text \<open>
  C11. If the layers of a file can be put in some order in which every layer follows what it
  depends on, none of them is also defined by a prerequisite, and each has a base, then
  \<^verbatim>\<open>DependencyOrder\<close> finds an order: as many rounds as there are layers are enough.
\<close>

theorem dependency_order_complete:
  assumes "addPrerequisites stack sfm s [] = Inr P" and "layers_match s"
    and "in_order (file_deps s) P ord" and "distinct ord" and "set ord = set (sf_FileOrder s)"
    and "set ord \<inter> set P = {}" and "list_all (\<lambda>n. is_Type (lay_From (layer_at s n)) \<noteq> []) (sf_FileOrder s)"
  shows "\<exists>order. DependencyOrder stack s sfm = Inr order"
proof -
  have "\<exists>st'. rfold (\<lambda>st _. order_round s st) st xs = Inr st'" for st and xs :: "nat list"
  proof (induction xs arbitrary: st)
    case (Cons x xs)
    obtain st1 where "order_round s st = Inr st1"
      using order_visits_total [of "sf_FileOrder s" s st] assms(7) by (auto simp: order_round_def list_all_iff)
    with Cons show ?case by simp
  qed simp
  then obtain order P' where rounds: "rfold (\<lambda>st _. order_round s st) ([], P) [0..<Stackerfile_Len s] = Inr (order, P')"
    by (metis surj_pair)
  have len: "length ord = Stackerfile_Len s"
    using assms(4,5) card_file_order [OF assms(2)] by (metis distinct_card)
  have "set ord \<subseteq> set P'"
    using order_rounds_progress [OF assms(3) _ rounds] assms(5) len by simp
  moreover from order_rounds_inv [OF rounds] have inv: "set P' = set P \<union> set order" "distinct order"
    "set order \<subseteq> set (sf_FileOrder s)" by (auto simp: order_inv_def)
  ultimately have "set order = set (sf_FileOrder s)" using assms(5,6) by blast
  then have "length order = Stackerfile_Len s"
    using inv(2) card_file_order [OF assms(2)] by (metis distinct_card)
  with assms(1) rounds show ?thesis by (auto simp: DependencyOrder_Inr)
qed

theorem dependency_order_complete_witness:
  "\<exists>order. DependencyOrder 1 sample_file [] = Inr order"
  by (rule dependency_order_complete [of 1 "[]" sample_file "[]" "[''base'', ''app'']"])
     (auto simp: sample_file_simps)

section \<open>Properties of sets of files\<close>

lemma unique_names:
  "rfold unique_step names es = Inr names' \<Longrightarrow>
     distinct (map fst es) \<and> fst ` set names \<inter> fst ` set es = {}"
proof (induction es arbitrary: names)
  case (Cons e es)
  obtain n p where e: "e = (n, p)" by force
  with Cons.prems have n: "map_of names n = None" and rest: "rfold unique_step (map_put n p names) es = Inr names'"
    by (auto simp: unique_step_def [of names] split: option.splits)
  from Cons.IH [OF rest] n show ?case
    by (auto simp: e map_put_keys map_of_eq_None_iff)
qed simp

lemma fold_put_keys: "fst ` set (fold (\<lambda>(p, f). map_put p f) es m) = fst ` set es \<union> fst ` set m"
proof (induction es arbitrary: m)
  case (Cons e es)
  then show ?case by (cases e) (auto simp: map_put_keys)
qed simp

lemma fold_put_set: "set (fold (\<lambda>(p, f). map_put p f) es m) \<subseteq> set es \<union> set m"
proof (induction es arbitrary: m)
  case (Cons e es)
  obtain k v where e: "e = (k, v)" by force
  have "set (fold (\<lambda>(p, f). map_put p f) es (map_put k v m)) \<subseteq> set es \<union> set (map_put k v m)" by (rule Cons.IH)
  then show ?case using map_put_set [of k v m] by (auto simp: e)
qed simp

lemma fold_put_distinct: "distinct (map fst m) \<Longrightarrow> distinct (map fst (fold (\<lambda>(p, f). map_put p f) es m))"
proof (induction es arbitrary: m)
  case (Cons e es)
  then show ?case by (cases e) (simp add: map_put_distinct)
qed simp

text \<open>What the files read so far satisfy: one entry per path, and every prerequisite is there.\<close>

definition files_closed :: "string \<Rightarrow> StackerFiles \<Rightarrow> bool" where
  "files_closed cwd sfm =
     (distinct (map fst sfm) \<and>
      (\<forall>(p, sf) \<in> set sfm. \<forall>ps. Prerequisites cwd sf = Inr ps \<longrightarrow> (\<forall>q \<in> set ps. filepath_Abs cwd q \<in> fst ` set sfm)))"

lemma NewStackerFiles_closed:
  assumes cwd: "env_Getwd env = Inr cwd"
  shows "NewStackerFiles n env paths vh subs = Inr sfm \<Longrightarrow>
    files_closed cwd sfm \<and> filepath_Abs cwd ` set paths \<subseteq> fst ` set sfm"
proof (induction n arbitrary: paths sfm)
  case (Suc n)
  let ?step = "\<lambda>sfm path. rbind (NewStackerfile env path vh subs) (\<lambda>sf.
      rbind (env_Getwd env) (\<lambda>cwd.
      let absPath = filepath_Abs cwd path; sfm1 = (if map_of sfm absPath = None then map_put absPath sf sfm else sfm)
      in rbind (Prerequisites cwd sf) (\<lambda>prerequisites.
         rbind (NewStackerFiles n env prerequisites vh subs) (\<lambda>deps.
         Inr (fold (\<lambda>(p, f). map_put p f) deps sfm1)))))"
  have step: "files_closed cwd m' \<and> fst ` set m \<subseteq> fst ` set m' \<and> filepath_Abs cwd path \<in> fst ` set m'"
    if m: "files_closed cwd m" and "?step m path = Inr m'" for m m' path
  proof -
    from that(2) cwd obtain sf ps deps where sf: "Prerequisites cwd sf = Inr ps"
      "NewStackerFiles n env ps vh subs = Inr deps"
      "m' = fold (\<lambda>(p, f). map_put p f) deps (if map_of m (filepath_Abs cwd path) = None then map_put (filepath_Abs cwd path) sf m else m)"
      by (auto simp: res_simps Let_def)
    let ?m1 = "if map_of m (filepath_Abs cwd path) = None then map_put (filepath_Abs cwd path) sf m else m"
    from Suc.IH [OF sf(2)] have deps: "files_closed cwd deps" "filepath_Abs cwd ` set ps \<subseteq> fst ` set deps" by auto
    have keys: "fst ` set m' = fst ` set deps \<union> insert (filepath_Abs cwd path) (fst ` set m)"
      using weak_map_of_SomeI by (auto simp: sf(3) fold_put_keys map_put_keys map_of_eq_None_iff)
    have sub: "set m' \<subseteq> set deps \<union> insert (filepath_Abs cwd path, sf) (set m)"
      using fold_put_set [of deps ?m1] map_put_set [of "filepath_Abs cwd path" sf m] unfolding sf(3) by (auto split: if_splits)
    have "distinct (map fst m')"
      unfolding sf(3) using m by (intro fold_put_distinct) (auto simp: files_closed_def map_put_distinct)
    moreover have "filepath_Abs cwd q \<in> fst ` set m'" if "(p, g) \<in> set m'" "Prerequisites cwd g = Inr qs" "q \<in> set qs" for p g qs q
    proof -
      from that(1) sub consider "(p, g) \<in> set deps" | "g = sf" | "(p, g) \<in> set m" by auto
      then show ?thesis
      proof cases
        case 1
        then show ?thesis using that(2,3) deps(1) unfolding keys files_closed_def by blast
      next
        case 2
        then show ?thesis using that(2,3) deps(2) sf(1) unfolding keys by auto
      next
        case 3
        then show ?thesis using that(2,3) m unfolding keys files_closed_def by blast
      qed
    qed
    ultimately have "files_closed cwd m'" unfolding files_closed_def by blast
    then show ?thesis unfolding keys by auto
  qed
  from Suc.prems have loop: "rfold ?step [] paths = Inr sfm" by (auto simp: res_simps Let_def)
  have "rfold ?step m paths = Inr sfm \<Longrightarrow> files_closed cwd m \<Longrightarrow>
      files_closed cwd sfm \<and> fst ` set m \<union> filepath_Abs cwd ` set paths \<subseteq> fst ` set sfm" for m
  proof (induction paths arbitrary: m)
    case (Cons p paths)
    from Cons.prems(1) obtain m' where m': "?step m p = Inr m'" "rfold ?step m' paths = Inr sfm"
      unfolding rfold.simps rbind_Inr_iff by blast
    note st = step [OF Cons.prems(2) m'(1)]
    have IH: "files_closed cwd sfm \<and> fst ` set m' \<union> filepath_Abs cwd ` set paths \<subseteq> fst ` set sfm"
      using Cons.IH [OF m'(2)] st by blast
    moreover have "fst ` set m \<subseteq> fst ` set sfm" "filepath_Abs cwd p \<in> fst ` set sfm" using IH st by blast+
    ultimately show ?case by simp
  qed auto
  from this [OF loop] show ?case by (simp add: files_closed_def)
qed simp

text \<open>
  C27. The set of files \<^verbatim>\<open>NewStackerFiles\<close> returns has one entry per absolute path, holds
  every file asked for and, for each file in it, all the prerequisites that file lists, and no
  layer name occurs twice, in one file or in two.
\<close>

theorem stacker_files_closed:
  assumes "NewStackerFiles stack env paths validateHash substituteVars = Inr sfm" and "env_Getwd env = Inr cwd"
  shows "distinct (map fst sfm) \<and> filepath_Abs cwd ` set paths \<subseteq> fst ` set sfm \<and>
    (\<forall>p sf ps q. (p, sf) \<in> set sfm \<and> Prerequisites cwd sf = Inr ps \<and> q \<in> set ps \<longrightarrow> filepath_Abs cwd q \<in> fst ` set sfm) \<and>
    distinct (map fst (all_names sfm))"
proof -
  obtain n where n: "stack = Suc n" using assms(1) by (cases stack) auto
  from assms(1) obtain names where "rfold unique_step [] (all_names sfm) = Inr names"
    by (auto simp: n res_simps check_unique_def)
  with unique_names have "distinct (map fst (all_names sfm))" by blast
  with NewStackerFiles_closed [OF assms(2,1)] show ?thesis unfolding files_closed_def by blast
qed

lemma substitute_empty: "substitute [] [] = Inr []"
  using phr.FindAll_none [of "[]"] phr.match_nonempty
  by (simp add: substitute_def) (subst subst_defaults.simps, simp)

definition sample_env :: "string list \<Rightarrow> sf_env" where
  "sample_env prereqs = \<lparr>env_Getwd = Inr ''/w'', env_ReadFile = (\<lambda>_. Inr []), env_Get = (\<lambda>_. Inl (Ext ''no network'')),
     env_yaml = (\<lambda>_. Inr [(YStr ''config'', YNil)]), env_config = (\<lambda>_. Inr (Some prereqs)),
     env_layers = (\<lambda>_. Inr []), env_platform = sample_pf\<rparr>"

lemma sample_NewStackerfile:
  assumes "du_Scheme (dockerish p) = []"
  shows "NewStackerfile (sample_env prereqs) p vh [] =
    Inr \<lparr>sf_AfterSubstitutions = [], sf_internal = [], sf_FileOrder = [], sf_buildConfig = Some prereqs,
         sf_path = filepath_Abs ''/w'' p, sf_ReferenceDirectory = path_Dir (filepath_Abs ''/w'' p)\<rparr>"
  using assms substitute_empty
  by (simp add: NewStackerfile_def sample_env_def read_stackerfile_def section_step_def parseLayers_def check_directives_def Let_def)

lemma sample_paths:
  "du_Scheme (dockerish ''s.yaml'') = []" "du_Scheme (dockerish ''/w/s.yaml'') = []"
  "filepath_Abs ''/w'' ''s.yaml'' = ''/w/s.yaml''" "filepath_Abs ''/w'' ''/w/s.yaml'' = ''/w/s.yaml''"
  "filepath_Abs ''/w'' (path_Join [path_Dir ''/w/s.yaml'', ''s.yaml'']) = ''/w/s.yaml''"
  by (simp_all add: scheme_cut) code_simp+

theorem stacker_files_closed_witness:
  "\<exists>sfm. NewStackerFiles 2 (sample_env []) [''s.yaml''] True [] = Inr sfm \<and> ''/w/s.yaml'' \<in> fst ` set sfm"
proof -
  have "\<exists>sfm. NewStackerFiles 2 (sample_env []) [''s.yaml''] True [] = Inr sfm"
    by (simp add: numeral_2_eq_2 sample_NewStackerfile sample_paths Prerequisites_def buildPrerequisites_def Let_def
        check_unique_def all_names_def) (simp add: sample_env_def check_unique_def all_names_def)
  then obtain sfm where *: "NewStackerFiles 2 (sample_env []) [''s.yaml''] True [] = Inr sfm" ..
  have "env_Getwd (sample_env []) = Inr ''/w''" by (simp add: sample_env_def)
  from stacker_files_closed [OF * this] * show ?thesis by (auto simp: sample_paths)
qed

text \<open>
  Files whose prerequisites form a cycle are never reported as an error: \<^verbatim>\<open>NewStackerFiles\<close>
  reads them over and over, and however large the stack is the recursion exceeds it.
\<close>

theorem cyclic_prerequisites_overflow:
  assumes "env_Getwd env = Inr cwd" and "p \<in> set cycle"
    and "\<forall>q \<in> set cycle. \<exists>sf r rs. NewStackerfile env q vh subs = Inr sf \<and> Prerequisites cwd sf = Inr (r # rs) \<and> r \<in> set cycle"
  shows "NewStackerFiles stack env (p # ps) vh subs = Inl (Panic ''stack overflow'')"
  using assms(2)
proof (induction stack arbitrary: p ps)
  case (Suc n)
  from Suc.prems assms(3) obtain sf r rs where "NewStackerfile env p vh subs = Inr sf"
    "Prerequisites cwd sf = Inr (r # rs)" "r \<in> set cycle" by blast
  with Suc.IH [of r rs] assms(1) show ?case by (simp add: Let_def)
qed simp

theorem cyclic_prerequisites_overflow_witness:
  "NewStackerFiles 1000 (sample_env [''s.yaml'']) [''/w/s.yaml''] True [] = Inl (Panic ''stack overflow'')"
  by (rule cyclic_prerequisites_overflow [of _ "''/w''" _ "[''/w/s.yaml'']"])
     (simp_all add: sample_NewStackerfile sample_paths Prerequisites_def buildPrerequisites_def,
      simp_all add: sample_env_def filepath_IsAbs_def strings_HasPrefix_def)

text \<open>
  Files whose prerequisites form no cycle need no more stack than their longest chain has files: a larger
  stack changes nothing, so the reading ends with the result that the code has without a bound.
\<close>

theorem acyclic_prerequisites_stack_enough:
  assumes "env_Getwd env = Inr cwd"
    and chain: "\<And>p sf ps q. NewStackerfile env p vh subs = Inr sf \<Longrightarrow> Prerequisites cwd sf = Inr ps \<Longrightarrow> q \<in> set ps \<Longrightarrow>
      depth q < depth p"
    and "\<forall>p \<in> set paths. depth p < n \<and> depth p < m"
  shows "NewStackerFiles (Suc n) env paths vh subs = NewStackerFiles (Suc m) env paths vh subs"
  using assms(3)
proof (induction n arbitrary: m paths)
  case 0
  then show ?case by simp
next
  case (Suc n)
  have step: "NewStackerFiles (Suc n) env ps vh subs = NewStackerFiles m env ps vh subs"
    if p: "p \<in> set paths" and sf: "NewStackerfile env p vh subs = Inr sf" "Prerequisites cwd sf = Inr ps" for p sf ps
  proof -
    from Suc.prems p have "depth p < Suc n" "depth p < m" by auto
    moreover from this obtain m' where m: "m = Suc m'" by (cases m) auto
    ultimately have "\<forall>q \<in> set ps. depth q < n \<and> depth q < m'" using chain [OF sf] by fastforce
    then show ?thesis unfolding m by (rule Suc.IH)
  qed
  show ?case
    unfolding NewStackerFiles.simps(2) [of "Suc n"] NewStackerFiles.simps(2) [of m]
    unfolding assms(1) rbind.simps Let_def
    by (intro arg_cong2 [where f = rbind, OF rfold_cong [OF refl refl] refl] rbind_cong [OF refl])
       (simp only: step)
qed

text \<open>
  Looking up a layer by name in a set of files does not depend on the order in which the
  files are met: any file that defines the name gives the definition that is returned.
\<close>

theorem lookup_layer_unique:
  assumes "NewStackerFiles stack env paths validateHash substituteVars = Inr sfm" and "env_Getwd env = Inr cwd"
    and "(p, sf) \<in> set sfm" and "Stackerfile_Get sf name = Some l"
    and "\<forall>(_, f) \<in> set sfm. fst ` set (sf_internal f) \<subseteq> set (sf_FileOrder f)"
  shows "LookupLayerDefinition sfm name = Some l"
proof -
  obtain n where n: "stack = Suc n" using assms(1) by (cases stack) auto
  from assms(1) obtain names where "rfold unique_step [] (all_names sfm) = Inr names"
    by (auto simp: n res_simps check_unique_def)
  with unique_names have dist: "distinct (map fst (all_names sfm))" by blast
  have named: "(name, q) \<in> set (all_names sfm)" if "(q, f) \<in> set sfm" "Stackerfile_Get f name \<noteq> None" for q f
  proof -
    have "name \<in> set (sf_FileOrder f)"
      using that assms(5) by (force simp: Stackerfile_Get_def dest: map_of_SomeD)
    with that(1) show ?thesis by (force simp: all_names_def)
  qed
  obtain q f where qf: "List.find (\<lambda>(_, sf). Stackerfile_Get sf name \<noteq> None) sfm = Some (q, f)"
    using assms(3,4) by (cases "List.find (\<lambda>(_, sf). Stackerfile_Get sf name \<noteq> None) sfm") (auto simp: find_None_iff)
  then have f: "(q, f) \<in> set sfm" "Stackerfile_Get f name \<noteq> None" by (auto simp: find_Some_iff in_set_conv_nth)
  have "q = p"
    using named [OF f] named [OF assms(3)] assms(4) dist
    by (metis eq_key_imp_eq_value option.simps(3))
  moreover have "distinct (map fst sfm)" using NewStackerFiles_closed [OF assms(2,1)] by (simp add: files_closed_def)
  ultimately have "f = sf" using f(1) assms(3) by (metis eq_key_imp_eq_value)
  then show ?thesis using qf assms(4) by (simp add: LookupLayerDefinition_def)
qed

definition sample_env1 :: sf_env where
  "sample_env1 = (sample_env [])\<lparr>env_yaml := (\<lambda>_. Inr [(YStr ''a'', YMap [])]), env_layers := (\<lambda>_. Inr [(''a'', sample_layer)])\<rparr>"

definition sample_out :: Layer where
  "sample_out = sample_layer\<lparr>lay_OS := Some ''linux'', lay_Arch := Some ''amd64''\<rparr>"

definition sample_out_file :: Stackerfile where
  "sample_out_file = \<lparr>sf_AfterSubstitutions = [], sf_internal = [(''a'', sample_out)], sf_FileOrder = [''a''], sf_buildConfig = Some [],
     sf_path = ''/w/s.yaml'', sf_ReferenceDirectory = path_Dir ''/w/s.yaml''\<rparr>"

lemma sample_files1: "NewStackerFiles 2 sample_env1 [''s.yaml''] True [] = Inr [(''/w/s.yaml'', sample_out_file)]"
proof -
  have fin: "finish_layer sample_pf ref True (''a'', sample_layer) = Inr (''a'', sample_out)" for ref
    by (simp add: finish_layer_def requireImportHash_def absolutify_def sample_defs sample_out_def layer_kind_defs)
  have "NewStackerfile sample_env1 ''s.yaml'' True [] = Inr sample_out_file"
    using substitute_empty fin sample_paths
    by (simp add: NewStackerfile_def sample_env1_def sample_env_def read_stackerfile_def section_step_def parseLayers_def
        check_directives_def as_mapslice_def Let_def sample_out_file_def)
  then show ?thesis
    by (simp add: numeral_2_eq_2 Prerequisites_def buildPrerequisites_def Let_def sample_out_file_def)
       (simp add: sample_env1_def sample_env_def check_unique_def all_names_def sample_paths unique_step_def)
qed

theorem lookup_layer_unique_witness:
  "LookupLayerDefinition [(''/w/s.yaml'', sample_out_file)] ''a'' = Some sample_out"
proof (rule lookup_layer_unique [OF sample_files1, where p = "''/w/s.yaml''" and sf = sample_out_file])
  show "env_Getwd sample_env1 = Inr ''/w''" by (simp add: sample_env1_def sample_env_def)
qed (simp_all add: sample_out_file_def Stackerfile_Get_def)

end
