(* ===== verification/Dag.thy ===== *)
theory Dag
  imports Stackerfile
begin

text \<open>
  The dependency graph: \<^verbatim>\<open>pkg/lib/dag.go\<close> and its use on stacker files, \<^verbatim>\<open>pkg/stacker/deps.go\<close>.

  The graph underneath is the package algoimpl: its operations are the record \<open>graph_ops\<close>, an
  argument of every definition, and what its documentation promises of them is the locale
  \<open>graph_laws\<close>, stated with the nodes and edges a graph has. The locale is interpreted on a
  complete list-based graph, which shows the laws can hold and runs the witnesses.

  An operation changes the graph and may fail, so it returns an error value and the state.
\<close>

record ('g, 'n, 'v) graph_ops =
  g_New :: 'g
  g_MakeNode :: "'g \<Rightarrow> 'n \<times> 'g"
  g_SetValue :: "'n \<Rightarrow> string \<times> 'v \<Rightarrow> 'g \<Rightarrow> 'g"
  g_Value :: "'n \<Rightarrow> 'g \<Rightarrow> (string \<times> 'v) option"
  g_RemoveNode :: "'n \<Rightarrow> 'g \<Rightarrow> 'g"
  g_MakeEdge :: "'n \<Rightarrow> 'n \<Rightarrow> 'g \<Rightarrow> 'g res"
  g_RemoveEdge :: "'n \<Rightarrow> 'n \<Rightarrow> 'g \<Rightarrow> 'g"
  g_StronglyConnectedComponents :: "'g \<Rightarrow> 'n list list"
  g_TopologicalSort :: "'g \<Rightarrow> 'n list"

record ('g, 'n) dag =
  dag_graph :: 'g
  dag_vertices :: "(string \<times> 'n) list"

section \<open>The code\<close>

definition NewDAG :: "('g, 'n, 'v) graph_ops \<Rightarrow> ('g, 'n) dag" where
  "NewDAG ops = \<lparr>dag_graph = g_New ops, dag_vertices = []\<rparr>"

definition AddVertex :: "('g, 'n, 'v) graph_ops \<Rightarrow> string \<Rightarrow> 'v \<Rightarrow> ('g, 'n) dag \<Rightarrow> unit res \<times> ('g, 'n) dag" where
  "AddVertex ops key val dg =
     (if map_of (dag_vertices dg) key \<noteq> None then (Inl (Errorf ''key %s already exists'' [key]), dg)
      else (case g_MakeNode ops (dag_graph dg) of (node, g) \<Rightarrow>
        (Inr (), \<lparr>dag_graph = g_SetValue ops node (key, val) g,
                  dag_vertices = map_put key node (dag_vertices dg)\<rparr>)))"

definition RemoveVertex :: "('g, 'n, 'v) graph_ops \<Rightarrow> string \<Rightarrow> ('g, 'n) dag \<Rightarrow> unit res \<times> ('g, 'n) dag" where
  "RemoveVertex ops key dg =
     (case map_of (dag_vertices dg) key of
        None \<Rightarrow> (Inl (Errorf ''key %s does not exist'' [key]), dg)
      | Some v \<Rightarrow> (Inr (), \<lparr>dag_graph = g_RemoveNode ops v (dag_graph dg),
                            dag_vertices = map_delete key (dag_vertices dg)\<rparr>))"

definition isAcyclic :: "('g, 'n, 'v) graph_ops \<Rightarrow> ('g, 'n) dag \<Rightarrow> bool" where
  "isAcyclic ops dg = list_all (\<lambda>arr. \<not> length arr > 1) (g_StronglyConnectedComponents ops (dag_graph dg))"

definition addDep ::
  "('g, 'n, 'v) graph_ops \<Rightarrow> 'n \<Rightarrow> string \<Rightarrow> string \<Rightarrow> ('g, 'n) dag \<Rightarrow> unit res \<times> ('g, 'n) dag" where
  "addDep ops srcObj node dependency dg =
     (case map_of (dag_vertices dg) dependency of
        None \<Rightarrow> (Inl (Errorf ''key %s does not exist'' [dependency]), dg)
      | Some dstObj \<Rightarrow>
          if node = dependency then (Inl (Errorf ''edge to self is not allowed'' []), dg)
          else (case g_MakeEdge ops dstObj srcObj (dag_graph dg) of
              Inl err \<Rightarrow> (Inl err, dg)
            | Inr g \<Rightarrow>
                let dg1 = dg\<lparr>dag_graph := g\<rparr> in
                if \<not> isAcyclic ops dg1 then
                  (Inl (Errorf ''edge from %s to %s makes a cycle'' [node, dependency]),
                   dg1\<lparr>dag_graph := g_RemoveEdge ops dstObj srcObj g\<rparr>)
                else (Inr (), dg1)))"

fun AddDependencies ::
  "('g, 'n, 'v) graph_ops \<Rightarrow> string \<Rightarrow> string list \<Rightarrow> ('g, 'n) dag \<Rightarrow> unit res \<times> ('g, 'n) dag" where
  "AddDependencies ops vertex [] dg = (Inr (), dg)"
| "AddDependencies ops vertex (dep # deps) dg =
     (case map_of (dag_vertices dg) vertex of
        None \<Rightarrow> (Inl (Errorf ''key %s does not exist'' [vertex]), dg)
      | Some srcObj \<Rightarrow>
          (case addDep ops srcObj vertex dep dg of
             (Inl err, dg') \<Rightarrow> (Inl err, dg')
           | (Inr _, dg') \<Rightarrow> AddDependencies ops vertex deps dg'))"

definition GetValue :: "('g, 'n, 'v) graph_ops \<Rightarrow> string \<Rightarrow> ('g, 'n) dag \<Rightarrow> 'v option" where
  "GetValue ops v dg =
     (case map_of (dag_vertices dg) v of
        Some obj \<Rightarrow> map_option snd (g_Value ops obj (dag_graph dg))
      | None \<Rightarrow> None)"

definition SetValue :: "('g, 'n, 'v) graph_ops \<Rightarrow> string \<Rightarrow> 'v \<Rightarrow> ('g, 'n) dag \<Rightarrow> unit res \<times> ('g, 'n) dag" where
  "SetValue ops v val dg =
     (case map_of (dag_vertices dg) v of
        Some obj \<Rightarrow>
          (case g_Value ops obj (dag_graph dg) of
             Some (key, _) \<Rightarrow> (Inr (), dg\<lparr>dag_graph := g_SetValue ops obj (key, val) (dag_graph dg)\<rparr>)
           | None \<Rightarrow> (Inl (Panic ''interface conversion: nil''), dg))
      | None \<Rightarrow> (Inl (Errorf ''key %s does not exist'' [v]), dg))"

definition Dag_Sort :: "('g, 'n, 'v) graph_ops \<Rightarrow> ('g, 'n) dag \<Rightarrow> (string \<times> 'v) list res" where
  "Dag_Sort ops dg =
     rmap (\<lambda>n. case g_Value ops n (dag_graph dg) of
                 Some v \<Rightarrow> Inr v | None \<Rightarrow> Inl (Panic ''interface conversion: nil''))
       (g_TopologicalSort ops (dag_graph dg))"

text \<open>A loop of operations that stops at the first error.\<close>

fun op_loop :: "('a \<Rightarrow> 's \<Rightarrow> unit res \<times> 's) \<Rightarrow> 'a list \<Rightarrow> 's \<Rightarrow> unit res \<times> 's" where
  "op_loop f [] s = (Inr (), s)"
| "op_loop f (x # xs) s = (case f x s of (Inl e, s') \<Rightarrow> (Inl e, s') | (Inr _, s') \<Rightarrow> op_loop f xs s')"

definition to_res :: "unit res \<times> 's \<Rightarrow> 's res" where
  "to_res r = (case r of (Inl e, _) \<Rightarrow> Inl e | (Inr _, s) \<Rightarrow> Inr s)"

definition add_file_deps ::
  "('g, 'n, Stackerfile) graph_ops \<Rightarrow> string \<Rightarrow> string \<times> Stackerfile \<Rightarrow> ('g, 'n) dag \<Rightarrow> unit res \<times> ('g, 'n) dag" where
  "add_file_deps ops cwd e dg =
     (case Prerequisites cwd (snd e) of
        Inl err \<Rightarrow> (Inl err, dg)
      | Inr prerequisites \<Rightarrow> op_loop (\<lambda>depPath. AddDependencies ops (fst e) [depPath]) prerequisites dg)"

definition file_at :: "StackerFiles \<Rightarrow> string \<Rightarrow> Stackerfile" where
  "file_at sfm path = the (map_of sfm path)"

definition NewStackerFilesDAG ::
  "('g, 'n, Stackerfile) graph_ops \<Rightarrow> string \<Rightarrow> StackerFiles \<Rightarrow> ('g, 'n) dag res" where
  "NewStackerFilesDAG ops cwd sfMap =
     rbind (to_res (op_loop (\<lambda>path. AddVertex ops path (file_at sfMap path)) (sort (map fst sfMap)) (NewDAG ops)))
       (\<lambda>dg. to_res (op_loop (add_file_deps ops cwd) sfMap dg))"

definition GetStackerFile :: "('g, 'n, Stackerfile) graph_ops \<Rightarrow> ('g, 'n) dag \<Rightarrow> string \<Rightarrow> Stackerfile res" where
  "GetStackerFile ops d path =
     (case GetValue ops path d of
        None \<Rightarrow> Inl (Panic ''interface conversion: nil, not *types.Stackerfile'')
      | Some sf \<Rightarrow> Inr sf)"

definition StackerFilesDAG_Sort :: "('g, 'n, Stackerfile) graph_ops \<Rightarrow> ('g, 'n) dag \<Rightarrow> string list res" where
  "StackerFilesDAG_Sort ops d = rbind (Dag_Sort ops d) (\<lambda>vs. Inr (map fst vs))"

section \<open>What the graph package promises\<close>

text \<open>\<open>before xs a b\<close>: \<open>a\<close> occurs earlier than \<open>b\<close> in \<open>xs\<close>.\<close>

definition before :: "'a list \<Rightarrow> 'a \<Rightarrow> 'a \<Rightarrow> bool" where
  "before xs a b = (\<exists>us vs ws. xs = us @ a # vs @ b # ws)"

text \<open>
  What a dag keeps true: its vertices are the nodes of the graph, under distinct keys, each
  node holds its key, and there is no cycle. \<open>dag_edge\<close> is the dependency relation on keys, and
  \<open>same_dag\<close> says that two states have the same vertices, values and dependencies.
\<close>

definition dag_inv ::
  "('g, 'n, 'v) graph_ops \<Rightarrow> ('g \<Rightarrow> 'n set) \<Rightarrow> ('g \<Rightarrow> ('n \<times> 'n) set) \<Rightarrow> ('g \<Rightarrow> bool) \<Rightarrow> ('g, 'n) dag \<Rightarrow> bool" where
  "dag_inv ops nds edg valid dg =
     (valid (dag_graph dg) \<and> distinct (map fst (dag_vertices dg)) \<and> distinct (map snd (dag_vertices dg)) \<and>
      snd ` set (dag_vertices dg) = nds (dag_graph dg) \<and>
      (\<forall>(k, n) \<in> set (dag_vertices dg). \<exists>v. g_Value ops n (dag_graph dg) = Some (k, v)) \<and>
      acyclic (edg (dag_graph dg)))"

definition dag_edge :: "('g \<Rightarrow> ('n \<times> 'n) set) \<Rightarrow> ('g, 'n) dag \<Rightarrow> string \<Rightarrow> string \<Rightarrow> bool" where
  "dag_edge edg dg k d =
     (\<exists>n m. map_of (dag_vertices dg) k = Some n \<and> map_of (dag_vertices dg) d = Some m \<and> (m, n) \<in> edg (dag_graph dg))"

definition same_dag :: "('g, 'n, 'v) graph_ops \<Rightarrow> ('g \<Rightarrow> ('n \<times> 'n) set) \<Rightarrow> ('g, 'n) dag \<Rightarrow> ('g, 'n) dag \<Rightarrow> bool" where
  "same_dag ops edg dg dg' =
     (dag_vertices dg' = dag_vertices dg \<and> edg (dag_graph dg') = edg (dag_graph dg) \<and>
      (\<forall>k. GetValue ops k dg' = GetValue ops k dg))"

locale graph_laws =
  fixes ops :: "('g, 'n, 'v) graph_ops" and nds :: "'g \<Rightarrow> 'n set" and edg :: "'g \<Rightarrow> ('n \<times> 'n) set"
    and valid :: "'g \<Rightarrow> bool"
  assumes valid_New: "valid (g_New ops)"
    and nds_New: "nds (g_New ops) = {}" and edg_New: "edg (g_New ops) = {}"
    and finite_nds: "valid g \<Longrightarrow> finite (nds g)" and edg_nds: "valid g \<Longrightarrow> edg g \<subseteq> nds g \<times> nds g"
    and MakeNode: "valid g \<Longrightarrow> g_MakeNode ops g = (n, g') \<Longrightarrow>
      valid g' \<and> n \<notin> nds g \<and> nds g' = insert n (nds g) \<and> edg g' = edg g \<and> (\<forall>m \<in> nds g. g_Value ops m g' = g_Value ops m g)"
    and SetValue: "valid g \<Longrightarrow> n \<in> nds g \<Longrightarrow>
      valid (g_SetValue ops n v g) \<and> nds (g_SetValue ops n v g) = nds g \<and> edg (g_SetValue ops n v g) = edg g \<and>
      (\<forall>m \<in> nds g. g_Value ops m (g_SetValue ops n v g) = (if m = n then Some v else g_Value ops m g))"
    and RemoveNode: "valid g \<Longrightarrow> n \<in> nds g \<Longrightarrow>
      valid (g_RemoveNode ops n g) \<and> nds (g_RemoveNode ops n g) = nds g - {n} \<and>
      edg (g_RemoveNode ops n g) = {(a, b) \<in> edg g. a \<noteq> n \<and> b \<noteq> n} \<and>
      (\<forall>m \<in> nds g - {n}. g_Value ops m (g_RemoveNode ops n g) = g_Value ops m g)"
    and MakeEdge: "valid g \<Longrightarrow> a \<in> nds g \<Longrightarrow> b \<in> nds g \<Longrightarrow> \<exists>g'. g_MakeEdge ops a b g = Inr g' \<and>
      valid g' \<and> nds g' = nds g \<and> edg g' = insert (a, b) (edg g) \<and> (\<forall>m \<in> nds g. g_Value ops m g' = g_Value ops m g)"
    and RemoveEdge: "valid g \<Longrightarrow>
      valid (g_RemoveEdge ops a b g) \<and> nds (g_RemoveEdge ops a b g) = nds g \<and>
      edg (g_RemoveEdge ops a b g) = edg g - {(a, b)} \<and>
      (\<forall>m \<in> nds g. g_Value ops m (g_RemoveEdge ops a b g) = g_Value ops m g)"
    and SCC: "valid g \<Longrightarrow> a \<in> nds g \<Longrightarrow> b \<in> nds g \<Longrightarrow>
      (\<exists>c \<in> set (g_StronglyConnectedComponents ops g). a \<in> set c \<and> b \<in> set c) \<longleftrightarrow> (a, b) \<in> (edg g)\<^sup>* \<and> (b, a) \<in> (edg g)\<^sup>*"
    and SCC_nodes: "valid g \<Longrightarrow> c \<in> set (g_StronglyConnectedComponents ops g) \<Longrightarrow> distinct c \<and> set c \<subseteq> nds g"
    and Sort_nodes: "valid g \<Longrightarrow> distinct (g_TopologicalSort ops g) \<and> set (g_TopologicalSort ops g) = nds g"
    and Sort_edges: "valid g \<Longrightarrow> acyclic (edg g) \<Longrightarrow> (a, b) \<in> edg g \<Longrightarrow> before (g_TopologicalSort ops g) a b"

begin

abbreviation inv where "inv \<equiv> dag_inv ops nds edg valid"

text \<open>The size test on the components is a test for cycles, as long as no node has an edge to itself.\<close>

lemma isAcyclic_iff:
  assumes v: "valid g" and irr: "\<And>a. (a, a) \<notin> edg g" and g: "dag_graph dg = g"
  shows "isAcyclic ops dg \<longleftrightarrow> acyclic (edg g)"
proof
  assume small: "isAcyclic ops dg"
  show "acyclic (edg g)"
  proof (rule acyclicI, rule allI, rule notI)
    fix a assume "(a, a) \<in> (edg g)\<^sup>+"
    then obtain b where b: "(a, b) \<in> edg g" "(b, a) \<in> (edg g)\<^sup>*" by (meson tranclD)
    have ab: "a \<in> nds g" "b \<in> nds g" "a \<noteq> b" using edg_nds [OF v] b(1) irr by auto
    then obtain c where c: "c \<in> set (g_StronglyConnectedComponents ops g)" "a \<in> set c" "b \<in> set c"
      using SCC [OF v, of a b] b by blast
    then have "length c \<le> 1" using small g by (auto simp: isAcyclic_def list_all_iff)
    then have "card (set c) \<le> Suc 0" using card_length [of c] by linarith
    then show False using c ab(3) by (auto simp: card_le_Suc0_iff_eq)
  qed
next
  assume acyc: "acyclic (edg g)"
  have "length c \<le> 1" if c: "c \<in> set (g_StronglyConnectedComponents ops g)" for c
  proof (rule ccontr)
    assume "\<not> length c \<le> 1"
    then obtain a b where "a \<in> set c" "b \<in> set c" "a \<noteq> b"
      using SCC_nodes [OF v c] by (cases c; cases "tl c") auto
    moreover from this have "(a, b) \<in> (edg g)\<^sup>*" "(b, a) \<in> (edg g)\<^sup>*"
      using SCC [OF v, of a b] SCC_nodes [OF v c] c by auto
    ultimately show False using acyc by (meson acyclic_def rtrancl_into_trancl1 rtranclD rtrancl_trancl_trancl)
  qed
  then show "isAcyclic ops dg" using g by (auto simp: isAcyclic_def list_all_iff not_less)
qed

lemma inv_New: "inv (NewDAG ops)"
  by (simp add: dag_inv_def NewDAG_def valid_New nds_New edg_New acyclic_def)

lemma inv_node: "inv dg \<Longrightarrow> map_of (dag_vertices dg) k = Some n \<Longrightarrow> n \<in> nds (dag_graph dg)"
  unfolding dag_inv_def by (metis image_eqI map_of_SomeD snd_conv)

lemma inv_nds: "inv dg \<Longrightarrow> nds (dag_graph dg) = snd ` set (dag_vertices dg)"
  by (simp add: dag_inv_def)

lemma inv_value: "inv dg \<Longrightarrow> map_of (dag_vertices dg) k = Some n \<Longrightarrow> \<exists>v. g_Value ops n (dag_graph dg) = Some (k, v)"
  unfolding dag_inv_def by (fastforce dest: map_of_SomeD)

lemma inv_inj: "inv dg \<Longrightarrow> map_of (dag_vertices dg) k = Some n \<Longrightarrow> map_of (dag_vertices dg) k' = Some n \<Longrightarrow> k = k'"
  by (metis inv_value option.inject prod.inject)

lemma inv_irrefl: "inv dg \<Longrightarrow> (a, a) \<notin> edg (dag_graph dg)"
  unfolding dag_inv_def by (meson acyclic_def r_into_trancl)

lemma AddVertex_spec:
  assumes "inv dg" "AddVertex ops key val dg = (r, dg')"
  shows "inv dg'" "r = Inr () \<longleftrightarrow> map_of (dag_vertices dg) key = None"
    "r = Inr () \<Longrightarrow> map_of (dag_vertices dg') = (map_of (dag_vertices dg))(key \<mapsto> the (map_of (dag_vertices dg') key)) \<and>
       map_of (dag_vertices dg') key \<noteq> None \<and>
       edg (dag_graph dg') = edg (dag_graph dg) \<and> GetValue ops key dg' = Some val \<and>
       (\<forall>k. k \<noteq> key \<longrightarrow> GetValue ops k dg' = GetValue ops k dg)"
proof -
  show r: "r = Inr () \<longleftrightarrow> map_of (dag_vertices dg) key = None"
    using assms(2) by (auto simp: AddVertex_def split: if_splits prod.splits)
  have ok: "inv dg' \<and> (r = Inr () \<longrightarrow> map_of (dag_vertices dg') = (map_of (dag_vertices dg))(key \<mapsto> the (map_of (dag_vertices dg') key)) \<and>
       map_of (dag_vertices dg') key \<noteq> None \<and>
       edg (dag_graph dg') = edg (dag_graph dg) \<and> GetValue ops key dg' = Some val \<and>
       (\<forall>k. k \<noteq> key \<longrightarrow> GetValue ops k dg' = GetValue ops k dg))"
  proof (cases "map_of (dag_vertices dg) key = None")
    case True
    obtain n g where n: "g_MakeNode ops (dag_graph dg) = (n, g)" by force
    have v: "valid (dag_graph dg)" using assms(1) by (simp add: dag_inv_def)
    note mk = MakeNode [OF v n]
    from mk have "valid g" "n \<in> nds g" by auto
    note sv = SetValue [OF this, of "(key, val)"]
    have dg': "dg' = \<lparr>dag_graph = g_SetValue ops n (key, val) g, dag_vertices = dag_vertices dg @ [(key, n)]\<rparr>"
      using assms(2) True n by (simp add: AddVertex_def map_put_new map_of_eq_None_iff [symmetric])
    have fresh: "n \<notin> snd ` set (dag_vertices dg)" using assms(1) mk by (auto simp: dag_inv_def)
    have val: "\<exists>v. g_Value ops m (dag_graph dg') = Some (k, v)" if "(k, m) \<in> set (dag_vertices dg)" for k m
    proof -
      have "m \<in> nds (dag_graph dg)" "\<exists>v. g_Value ops m (dag_graph dg) = Some (k, v)"
        using assms(1) that unfolding dag_inv_def by (metis image_eqI snd_conv) (use assms(1) that in \<open>auto simp: dag_inv_def\<close>)
      with mk sv show ?thesis by (auto simp: dg')
    qed
    have "snd ` set (dag_vertices dg') = nds (dag_graph dg')" "acyclic (edg (dag_graph dg'))" "valid (dag_graph dg')"
      using assms(1) mk sv by (simp_all add: dg' dag_inv_def)
    moreover have "distinct (map fst (dag_vertices dg'))" "distinct (map snd (dag_vertices dg'))"
      using assms(1) True fresh by (simp_all add: dg' dag_inv_def map_of_eq_None_iff)
    moreover have "\<forall>(k, m) \<in> set (dag_vertices dg'). \<exists>v. g_Value ops m (dag_graph dg') = Some (k, v)"
      using val mk sv by (auto simp: dg')
    ultimately have "inv dg'" unfolding dag_inv_def by blast
    moreover have "GetValue ops k dg' = GetValue ops k dg" if "k \<noteq> key" for k
    proof (cases "map_of (dag_vertices dg) k")
      case (Some m)
      then have "m \<in> nds (dag_graph dg)" by (rule inv_node [OF assms(1)])
      with Some that mk sv show ?thesis by (auto simp: GetValue_def dg' map_add_def)
    qed (use that in \<open>simp add: GetValue_def dg' map_add_def\<close>)
    moreover have "GetValue ops key dg' = Some val"
      using mk sv True by (simp add: GetValue_def dg' map_add_def)
    ultimately show ?thesis using mk sv True by (auto simp: dg' map_add_def fun_eq_iff split: option.splits)
  next
    case False
    then have "dg' = dg" "r \<noteq> Inr ()" using assms(2) by (auto simp: AddVertex_def)
    with assms(1) show ?thesis by simp
  qed
  then show "inv dg'" by simp
  show "r = Inr () \<Longrightarrow> map_of (dag_vertices dg') = (map_of (dag_vertices dg))(key \<mapsto> the (map_of (dag_vertices dg') key)) \<and>
       map_of (dag_vertices dg') key \<noteq> None \<and>
       edg (dag_graph dg') = edg (dag_graph dg) \<and> GetValue ops key dg' = Some val \<and>
       (\<forall>k. k \<noteq> key \<longrightarrow> GetValue ops k dg' = GetValue ops k dg)" using ok by blast
qed

lemma inv_update:
  assumes "inv dg" "valid g'" "nds g' = nds (dag_graph dg)" "acyclic (edg g')"
    and "\<forall>m \<in> nds (dag_graph dg). g_Value ops m g' = g_Value ops m (dag_graph dg)"
  shows "inv (dg\<lparr>dag_graph := g'\<rparr>)" "GetValue ops k (dg\<lparr>dag_graph := g'\<rparr>) = GetValue ops k dg"
proof -
  have "\<exists>v. g_Value ops n g' = Some (k, v)" if "(k, n) \<in> set (dag_vertices dg)" for k n
  proof -
    have "n \<in> nds (dag_graph dg)" using assms(1) that unfolding dag_inv_def by (metis image_eqI snd_conv)
    with assms(1,5) that show ?thesis by (auto simp: dag_inv_def)
  qed
  then show "inv (dg\<lparr>dag_graph := g'\<rparr>)" using assms(1-4) by (auto simp: dag_inv_def)
  show "GetValue ops k (dg\<lparr>dag_graph := g'\<rparr>) = GetValue ops k dg"
    using inv_node [OF assms(1)] assms(5) by (auto simp: GetValue_def split: option.splits)
qed

text \<open>Adding one dependency: an edge more, or an error and nothing changed.\<close>

lemma addDep_spec:
  assumes inv: "inv dg" and src: "map_of (dag_vertices dg) node = Some srcObj"
    and res: "addDep ops srcObj node dep dg = (r, dg')"
  shows "inv dg'"
    "r \<noteq> Inr () \<Longrightarrow> same_dag ops edg dg dg'"
    "r = Inr () \<Longrightarrow> dag_vertices dg' = dag_vertices dg \<and> (\<forall>k. GetValue ops k dg' = GetValue ops k dg) \<and>
       (\<forall>k d. dag_edge edg dg' k d \<longleftrightarrow> dag_edge edg dg k d \<or> (k = node \<and> d = dep))"
    "r = Inr () \<Longrightarrow> map_of (dag_vertices dg) dep \<noteq> None \<and> node \<noteq> dep"
proof -
  let ?E = "edg (dag_graph dg)"
  have v: "valid (dag_graph dg)" and acyc: "acyclic ?E" using inv by (auto simp: dag_inv_def)
  have "inv dg' \<and> (r \<noteq> Inr () \<longrightarrow> same_dag ops edg dg dg') \<and>
    (r = Inr () \<longrightarrow> dag_vertices dg' = dag_vertices dg \<and> (\<forall>k. GetValue ops k dg' = GetValue ops k dg) \<and>
       (\<forall>k d. dag_edge edg dg' k d \<longleftrightarrow> dag_edge edg dg k d \<or> (k = node \<and> d = dep)) \<and>
       map_of (dag_vertices dg) dep \<noteq> None \<and> node \<noteq> dep)"
  proof (cases "map_of (dag_vertices dg) dep = None \<or> node = dep")
    case True
    then have "dg' = dg" "r \<noteq> Inr ()" using res by (auto simp: addDep_def split: option.splits)
    with inv show ?thesis by (simp add: same_dag_def)
  next
    case False
    then obtain dst where dst: "map_of (dag_vertices dg) dep = Some dst" and ne: "node \<noteq> dep" by auto
    have ds: "dst \<noteq> srcObj" using inv_inj [OF inv src] dst ne by auto
    obtain g where g: "g_MakeEdge ops dst srcObj (dag_graph dg) = Inr g" "valid g" "nds g = nds (dag_graph dg)"
      "edg g = insert (dst, srcObj) ?E" "\<forall>m \<in> nds (dag_graph dg). g_Value ops m g = g_Value ops m (dag_graph dg)"
      using MakeEdge [OF v inv_node [OF inv dst] inv_node [OF inv src]] by blast
    have irr: "(a, a) \<notin> edg g" for a using inv_irrefl [OF inv] ds by (auto simp: g(4))
    have check: "isAcyclic ops (dg\<lparr>dag_graph := g\<rparr>) \<longleftrightarrow> acyclic (edg g)"
      by (rule isAcyclic_iff [OF g(2)]) (simp_all add: irr)
    show ?thesis
    proof (cases "acyclic (edg g)")
      case True
      then have dg': "dg' = dg\<lparr>dag_graph := g\<rparr>" "r = Inr ()" using res dst ne g(1) check by (auto simp: addDep_def Let_def)
      note up = inv_update [OF inv g(2,3) True g(5)]
      have keys: "map_of (dag_vertices dg) k = Some srcObj \<longleftrightarrow> k = node" "map_of (dag_vertices dg) k = Some dst \<longleftrightarrow> k = dep" for k
        using inv_inj [OF inv dst, of k] inv_inj [OF inv src, of k] dst src by blast+
      have "dag_edge edg dg' k d \<longleftrightarrow> dag_edge edg dg k d \<or> (k = node \<and> d = dep)" for k d
        unfolding dag_edge_def dg' using src dst by (auto simp: g(4) dest: keys [THEN iffD1])
      with up dst ne dg' show ?thesis by auto
    next
      case False
      let ?g = "g_RemoveEdge ops dst srcObj g"
      have new: "(dst, srcObj) \<notin> ?E" using False acyc g(4) by (metis insert_absorb)
      have dg': "dg' = dg\<lparr>dag_graph := ?g\<rparr>" "r \<noteq> Inr ()" using res dst ne g(1) check False by (auto simp: addDep_def Let_def)
      have rm: "valid ?g" "nds ?g = nds (dag_graph dg)" "edg ?g = ?E"
        "\<forall>m \<in> nds (dag_graph dg). g_Value ops m ?g = g_Value ops m (dag_graph dg)"
        using RemoveEdge [OF g(2), of dst srcObj] g new by auto
      have up: "inv dg'" "GetValue ops k dg' = GetValue ops k dg" for k
        using inv_update [OF inv rm(1,2) _ rm(4)] rm(3) acyc dg' by auto
      then show ?thesis using dg' rm(3) by (simp add: same_dag_def)
    qed
  qed
  then show "inv dg'"
    "r \<noteq> Inr () \<Longrightarrow> same_dag ops edg dg dg'"
    "r = Inr () \<Longrightarrow> dag_vertices dg' = dag_vertices dg \<and> (\<forall>k. GetValue ops k dg' = GetValue ops k dg) \<and>
       (\<forall>k d. dag_edge edg dg' k d \<longleftrightarrow> dag_edge edg dg k d \<or> (k = node \<and> d = dep))"
    "r = Inr () \<Longrightarrow> map_of (dag_vertices dg) dep \<noteq> None \<and> node \<noteq> dep" by blast+
qed

lemma AddDependencies_spec:
  assumes "inv dg" "AddDependencies ops vertex deps dg = (r, dg')"
  shows "inv dg' \<and> dag_vertices dg' = dag_vertices dg \<and> (\<forall>k. GetValue ops k dg' = GetValue ops k dg) \<and>
    (r = Inr () \<longrightarrow> (\<forall>k d. dag_edge edg dg' k d \<longleftrightarrow> dag_edge edg dg k d \<or> (k = vertex \<and> d \<in> set deps)) \<and>
       (\<forall>d \<in> set deps. map_of (dag_vertices dg) d \<noteq> None \<and> d \<noteq> vertex))"
  using assms
proof (induction deps arbitrary: dg)
  case (Cons dep deps)
  show ?case
  proof (cases "map_of (dag_vertices dg) vertex")
    case None
    with Cons.prems show ?thesis by auto
  next
    case (Some src)
    obtain r1 dg1 where add: "addDep ops src vertex dep dg = (r1, dg1)" by force
    note spec = addDep_spec [OF Cons.prems(1) Some add]
    show ?thesis
    proof (cases r1)
      case (Inl e)
      then have "dg' = dg1" "r = Inl e" using Cons.prems(2) Some add by auto
      then show ?thesis using spec(1,2) Inl by (simp add: same_dag_def)
    next
      case (Inr u)
      then have "AddDependencies ops vertex deps dg1 = (r, dg')" using Cons.prems(2) Some add by auto
      from Cons.IH [OF spec(1) this] spec(3,4) Inr show ?thesis by auto
    qed
  qed
qed auto

text \<open>Sorting: every key once, and a dependency before what depends on it.\<close>

lemma map_before: "before xs a b \<Longrightarrow> before (map f xs) (f a) (f b)"
  unfolding before_def by fastforce

lemma Sort_spec:
  assumes "inv dg"
  shows "\<exists>vs. Dag_Sort ops dg = Inr vs \<and> distinct (map fst vs) \<and> set (map fst vs) = fst ` set (dag_vertices dg) \<and>
    (\<forall>(k, v) \<in> set vs. GetValue ops k dg = Some v) \<and> (\<forall>k d. dag_edge edg dg k d \<longrightarrow> before (map fst vs) d k)"
proof -
  let ?g = "dag_graph dg" and ?ns = "g_TopologicalSort ops (dag_graph dg)"
  have v: "valid ?g" and acyc: "acyclic (edg ?g)" using assms by (auto simp: dag_inv_def)
  note ns = Sort_nodes [OF v]
  have key: "\<exists>k v. (k, n) \<in> set (dag_vertices dg) \<and> g_Value ops n ?g = Some (k, v)" if "n \<in> set ?ns" for n
  proof -
    from that ns inv_nds [OF assms] obtain k where "(k, n) \<in> set (dag_vertices dg)" by auto
    with assms show ?thesis unfolding dag_inv_def by blast
  qed
  define val where "val n = the (g_Value ops n ?g)" for n
  have val: "g_Value ops n ?g = Some (val n)" "(fst (val n), n) \<in> set (dag_vertices dg)" if "n \<in> set ?ns" for n
    using key [OF that] by (auto simp: val_def)
  have dk: "distinct (map fst (dag_vertices dg))" using assms by (simp add: dag_inv_def)
  have "Dag_Sort ops dg = Inr (map val ?ns)"
    unfolding Dag_Sort_def using val(1) by (intro rmap_total) simp
  moreover have "distinct (map fst (map val ?ns))"
    unfolding distinct_map map_map comp_def using ns
    by (auto intro!: inj_onI) (metis val(2) dk ns eq_key_imp_eq_value)
  moreover have "set (map fst (map val ?ns)) = fst ` set (dag_vertices dg)"
  proof -
    have "k \<in> (\<lambda>n. fst (val n)) ` set ?ns" if "(k, n) \<in> set (dag_vertices dg)" for k n
    proof -
      have n: "n \<in> set ?ns" using assms ns that unfolding dag_inv_def by (metis image_eqI snd_conv)
      have "map_of (dag_vertices dg) k = Some n" using dk that by simp
      from inv_value [OF assms this] have "fst (val n) = k" by (auto simp: val_def)
      with n show ?thesis by blast
    qed
    then show ?thesis using val(2) by (force simp: image_iff)
  qed
  moreover have "\<forall>(k, v) \<in> set (map val ?ns). GetValue ops k dg = Some v"
  proof -
    have "GetValue ops k dg = Some v" if "n \<in> set ?ns" "val n = (k, v)" for n k v
      using val [OF that(1)] that(2) dk by (simp add: GetValue_def)
    then show ?thesis by auto
  qed
  moreover have "before (map fst (map val ?ns)) d k" if "dag_edge edg dg k d" for k d
  proof -
    from that obtain n m where nm: "map_of (dag_vertices dg) k = Some n" "map_of (dag_vertices dg) d = Some m" "(m, n) \<in> edg ?g"
      by (auto simp: dag_edge_def)
    have "fst (val n) = k" "fst (val m) = d" using inv_value [OF assms nm(1)] inv_value [OF assms nm(2)] by (auto simp: val_def)
    with map_before [OF Sort_edges [OF v acyc nm(3)], of "\<lambda>n. fst (val n)"] show ?thesis by (simp add: comp_def)
  qed
  ultimately show ?thesis by blast
qed

lemma RemoveVertex_inv:
  assumes "inv dg" "RemoveVertex ops key dg = (r, dg')"
  shows "inv dg'" "map_of (dag_vertices dg') = (map_of (dag_vertices dg))(key := None)"
proof -
  have "inv dg' \<and> map_of (dag_vertices dg') = (map_of (dag_vertices dg))(key := None)"
  proof (cases "map_of (dag_vertices dg) key")
    case None
    then have "dg' = dg" using assms(2) by (simp add: RemoveVertex_def)
    with None assms(1) show ?thesis by auto
  next
    case (Some n)
    have v: "valid (dag_graph dg)" using assms(1) by (simp add: dag_inv_def)
    note rm = RemoveNode [OF v inv_node [OF assms(1) Some]]
    have dg': "dg' = \<lparr>dag_graph = g_RemoveNode ops n (dag_graph dg), dag_vertices = map_delete key (dag_vertices dg)\<rparr>"
      using assms(2) Some by (simp add: RemoveVertex_def)
    have only: "m \<noteq> n" if "(k, m) \<in> set (dag_vertices dg)" "k \<noteq> key" for k m
      using that inv_inj [OF assms(1) Some, of k] assms(1) by (auto simp: dag_inv_def)
    have "(key, n) \<in> set (dag_vertices dg)" using Some by (rule map_of_SomeD)
    have "snd ` set (map_delete key (dag_vertices dg)) = nds (dag_graph dg) - {n}"
    proof -
      have "m \<in> snd ` set (map_delete key (dag_vertices dg))" if "m \<in> nds (dag_graph dg)" "m \<noteq> n" for m
      proof -
        from that(1) inv_nds [OF assms(1)] obtain k where k: "(k, m) \<in> set (dag_vertices dg)" by auto
        moreover have "k \<noteq> key" using k \<open>(key, n) \<in> set (dag_vertices dg)\<close> assms(1) that(2)
          by (auto simp: dag_inv_def dest: eq_key_imp_eq_value)
        ultimately show ?thesis by (force simp: map_delete_def)
      qed
      moreover have "m \<in> nds (dag_graph dg)" if "(k, m) \<in> set (dag_vertices dg)" for k m
        using assms(1) that unfolding dag_inv_def by (metis image_eqI snd_conv)
      ultimately show ?thesis using only by (force simp: map_delete_def)
    qed
    moreover have "\<exists>v. g_Value ops m (dag_graph dg') = Some (k, v)" if "(k, m) \<in> set (map_delete key (dag_vertices dg))" for k m
    proof -
      from that have km: "(k, m) \<in> set (dag_vertices dg)" "k \<noteq> key" by (auto simp: map_delete_def)
      have "m \<in> nds (dag_graph dg) - {n}" using assms(1) km only unfolding dag_inv_def by (metis DiffI image_eqI singletonD snd_conv)
      with rm assms(1) km(1) show ?thesis by (auto simp: dg' dag_inv_def)
    qed
    moreover have "acyclic (edg (dag_graph dg'))"
      using assms(1) rm by (auto simp: dg' dag_inv_def intro: acyclic_subset [of "edg (dag_graph dg)"])
    moreover have "distinct (map fst (map_delete key (dag_vertices dg)))" "distinct (map snd (map_delete key (dag_vertices dg)))"
      using assms(1) by (auto simp: dag_inv_def map_delete_def distinct_map_filter)
    ultimately have "inv dg'" using rm by (auto simp: dg' dag_inv_def)
    then show ?thesis by (simp add: dg')
  qed
  then show "inv dg'" "map_of (dag_vertices dg') = (map_of (dag_vertices dg))(key := None)" by auto
qed

end

section \<open>Stacker files in the graph\<close>

locale stacker_graph = graph_laws ops nds edg valid
  for ops :: "('g, 'n, Stackerfile) graph_ops" and nds :: "'g \<Rightarrow> 'n set" and edg and valid
begin

lemma add_files:
  assumes "inv dg" "op_loop (\<lambda>path. AddVertex ops path (file_at sfm path)) ks dg = (Inr (), dg')"
  shows "inv dg' \<and> fst ` set (dag_vertices dg') = fst ` set (dag_vertices dg) \<union> set ks \<and> edg (dag_graph dg') = edg (dag_graph dg) \<and>
    (\<forall>k. GetValue ops k dg' = (if k \<in> set ks then Some (file_at sfm k) else GetValue ops k dg))"
  using assms
proof (induction ks arbitrary: dg)
  case (Cons k ks)
  from Cons.prems(2) obtain dg1 where dg1: "AddVertex ops k (file_at sfm k) dg = (Inr (), dg1)"
    and rest: "op_loop (\<lambda>path. AddVertex ops path (file_at sfm path)) ks dg1 = (Inr (), dg')"
    by (auto split: prod.splits sum.splits)
  note spec = AddVertex_spec [OF Cons.prems(1) dg1]
  have keys: "fst ` set (dag_vertices dg1) = insert k (fst ` set (dag_vertices dg))"
  proof -
    from dg1 obtain n where "dag_vertices dg1 = map_put k n (dag_vertices dg)"
      by (auto simp: AddVertex_def split: if_splits prod.splits)
    then show ?thesis by (simp add: map_put_keys)
  qed
  from Cons.IH [OF spec(1) rest] keys spec(3) show ?case by auto
qed simp

lemma add_deps_of_one:
  assumes "inv dg" "op_loop (\<lambda>d. AddDependencies ops p [d]) ps dg = (r, dg')"
  shows "inv dg' \<and> dag_vertices dg' = dag_vertices dg \<and> (\<forall>k. GetValue ops k dg' = GetValue ops k dg) \<and>
    (r = Inr () \<longrightarrow> (\<forall>k d. dag_edge edg dg' k d \<longleftrightarrow> dag_edge edg dg k d \<or> (k = p \<and> d \<in> set ps)) \<and>
       (\<forall>d \<in> set ps. map_of (dag_vertices dg) d \<noteq> None))"
  using assms
proof (induction ps arbitrary: dg)
  case (Cons d ps)
  obtain r1 dg1 where one: "AddDependencies ops p [d] dg = (r1, dg1)" by force
  note spec = AddDependencies_spec [OF Cons.prems(1) one]
  show ?case
  proof (cases r1)
    case (Inl e)
    with one Cons.prems(2) have "dg' = dg1" "r = Inl e" by (auto simp del: AddDependencies.simps)
    with spec show ?thesis by simp
  next
    case (Inr u)
    with one Cons.prems(2) have rest: "op_loop (\<lambda>d. AddDependencies ops p [d]) ps dg1 = (r, dg')"
      by (simp del: AddDependencies.simps)
    have "inv dg1" using spec by blast
    from Cons.IH [OF this rest] spec Inr show ?thesis by (auto simp del: AddDependencies.simps)
  qed
qed auto

lemma add_all_deps:
  assumes "inv dg" "op_loop (add_file_deps ops cwd) es dg = (Inr (), dg')"
  shows "inv dg' \<and> dag_vertices dg' = dag_vertices dg \<and> (\<forall>k. GetValue ops k dg' = GetValue ops k dg) \<and>
    (\<forall>k d. dag_edge edg dg' k d \<longleftrightarrow> dag_edge edg dg k d \<or>
       (\<exists>sf ps. (k, sf) \<in> set es \<and> Prerequisites cwd sf = Inr ps \<and> d \<in> set ps)) \<and>
    (\<forall>(k, sf) \<in> set es. \<exists>ps. Prerequisites cwd sf = Inr ps \<and> (\<forall>d \<in> set ps. map_of (dag_vertices dg) d \<noteq> None))"
  using assms
proof (induction es arbitrary: dg)
  case (Cons e es)
  obtain k sf where e: "e = (k, sf)" by force
  from Cons.prems(2) obtain dg1 where one: "add_file_deps ops cwd e dg = (Inr (), dg1)"
    and rest: "op_loop (add_file_deps ops cwd) es dg1 = (Inr (), dg')"
    by (auto split: prod.splits sum.splits)
  from one obtain ps where ps: "Prerequisites cwd sf = Inr ps" "op_loop (\<lambda>d. AddDependencies ops k [d]) ps dg = (Inr (), dg1)"
    by (auto simp: add_file_deps_def e split: sum.splits)
  note spec = add_deps_of_one [OF Cons.prems(1) ps(2)]
  have "inv dg1" using spec by blast
  from Cons.IH [OF this rest] spec ps(1) show ?case by (auto simp: e)
qed simp

lemma to_res_Inr: "to_res r = Inr s \<longleftrightarrow> r = (Inr (), s)"
  by (auto simp: to_res_def split: prod.splits sum.splits)

lemma files_dag:
  assumes "NewStackerFilesDAG ops cwd sfm = Inr dg"
  shows "inv dg" "fst ` set (dag_vertices dg) = fst ` set sfm"
    "\<forall>k \<in> fst ` set sfm. GetValue ops k dg = Some (file_at sfm k)"
    "dag_edge edg dg k d \<longleftrightarrow> (\<exists>sf ps. (k, sf) \<in> set sfm \<and> Prerequisites cwd sf = Inr ps \<and> d \<in> set ps)"
    "\<forall>(k, sf) \<in> set sfm. \<exists>ps. Prerequisites cwd sf = Inr ps \<and> set ps \<subseteq> fst ` set sfm"
proof -
  from assms obtain dg1 where v: "op_loop (\<lambda>path. AddVertex ops path (file_at sfm path)) (sort (map fst sfm)) (NewDAG ops) = (Inr (), dg1)"
    and d: "op_loop (add_file_deps ops cwd) sfm dg1 = (Inr (), dg)"
    by (auto simp: NewStackerFilesDAG_def res_simps to_res_Inr)
  note av = add_files [OF inv_New v]
  then have inv1: "inv dg1" by blast
  have none: "\<not> dag_edge edg dg1 k d" for k d using av by (auto simp: dag_edge_def NewDAG_def edg_New)
  note ad = add_all_deps [OF inv1 d]
  show "inv dg" using ad by blast
  show keys: "fst ` set (dag_vertices dg) = fst ` set sfm" using av ad by (simp add: NewDAG_def)
  show "\<forall>k \<in> fst ` set sfm. GetValue ops k dg = Some (file_at sfm k)" using av ad by simp
  show "dag_edge edg dg k d \<longleftrightarrow> (\<exists>sf ps. (k, sf) \<in> set sfm \<and> Prerequisites cwd sf = Inr ps \<and> d \<in> set ps)"
    using ad none by blast
  have "x \<in> fst ` set sfm" if "map_of (dag_vertices dg1) x \<noteq> None" for x
    using that ad keys by (auto simp: map_of_eq_None_iff)
  moreover have "\<forall>(k, sf) \<in> set sfm. \<exists>ps. Prerequisites cwd sf = Inr ps \<and> (\<forall>d \<in> set ps. map_of (dag_vertices dg1) d \<noteq> None)"
    using ad by blast
  ultimately show "\<forall>(k, sf) \<in> set sfm. \<exists>ps. Prerequisites cwd sf = Inr ps \<and> set ps \<subseteq> fst ` set sfm" by fastforce
qed

lemma files_order:
  assumes "NewStackerFilesDAG ops cwd sfm = Inr dg"
  shows "\<exists>order. StackerFilesDAG_Sort ops dg = Inr order \<and> distinct order \<and> set order = fst ` set sfm \<and>
    (\<forall>p sf ps q. (p, sf) \<in> set sfm \<and> Prerequisites cwd sf = Inr ps \<and> q \<in> set ps \<longrightarrow> before order q p) \<and>
    (\<forall>p \<in> set order. GetStackerFile ops dg p = Inr (file_at sfm p))"
proof -
  note fd = files_dag [OF assms]
  from Sort_spec [OF fd(1)] obtain vs where vs: "Dag_Sort ops dg = Inr vs" "distinct (map fst vs)"
    "set (map fst vs) = fst ` set (dag_vertices dg)" "\<forall>k d. dag_edge edg dg k d \<longrightarrow> before (map fst vs) d k" by blast
  have "StackerFilesDAG_Sort ops dg = Inr (map fst vs)" using vs(1) by (simp add: StackerFilesDAG_Sort_def)
  moreover have "\<forall>p sf ps q. (p, sf) \<in> set sfm \<and> Prerequisites cwd sf = Inr ps \<and> q \<in> set ps \<longrightarrow> before (map fst vs) q p"
    using vs(4) fd(4) by blast
  moreover have "\<forall>p \<in> set (map fst vs). GetStackerFile ops dg p = Inr (file_at sfm p)"
    using fd(3) vs(3) fd(2) by (simp add: GetStackerFile_def)
  ultimately show ?thesis using vs(2,3) fd(2) by metis
qed

end

section \<open>A list-based graph\<close>

record 'v lgraph =
  lg_next :: nat
  lg_nodes :: "(nat \<times> (string \<times> 'v) option) list"
  lg_edges :: "(nat \<times> nat) list"

definition lg_reach :: "(nat \<times> nat) list \<Rightarrow> nat \<Rightarrow> nat \<Rightarrow> bool" where
  "lg_reach E a b = (a = b \<or> (a, b) \<in> (set E)\<^sup>+)"

definition lg_scc :: "'v lgraph \<Rightarrow> nat list list" where
  "lg_scc g = map (\<lambda>a. filter (\<lambda>b. lg_reach (lg_edges g) a b \<and> lg_reach (lg_edges g) b a) (map fst (lg_nodes g)))
     (map fst (lg_nodes g))"

text \<open>Take out a node without an incoming edge, as long as there is one.\<close>

fun lg_topo :: "(nat \<times> nat) list \<Rightarrow> nat \<Rightarrow> nat list \<Rightarrow> nat list" where
  "lg_topo E 0 ns = ns"
| "lg_topo E (Suc k) ns =
     (case List.find (\<lambda>n. \<forall>m \<in> set ns. (m, n) \<notin> set E) ns of
        None \<Rightarrow> ns
      | Some n \<Rightarrow> n # lg_topo E k (remove1 n ns))"

definition lg_ops :: "('v lgraph, nat, 'v) graph_ops" where
  "lg_ops = \<lparr>g_New = \<lparr>lg_next = 0, lg_nodes = [], lg_edges = []\<rparr>,
     g_MakeNode = (\<lambda>g. (lg_next g, g\<lparr>lg_next := Suc (lg_next g), lg_nodes := lg_nodes g @ [(lg_next g, None)]\<rparr>)),
     g_SetValue = (\<lambda>n v g. g\<lparr>lg_nodes := map (\<lambda>(m, x). (m, if m = n then Some v else x)) (lg_nodes g)\<rparr>),
     g_Value = (\<lambda>n g. case map_of (lg_nodes g) n of Some x \<Rightarrow> x | None \<Rightarrow> None),
     g_RemoveNode = (\<lambda>n g. g\<lparr>lg_nodes := filter (\<lambda>(m, _). m \<noteq> n) (lg_nodes g),
        lg_edges := filter (\<lambda>(a, b). a \<noteq> n \<and> b \<noteq> n) (lg_edges g)\<rparr>),
     g_MakeEdge = (\<lambda>a b g. Inr (g\<lparr>lg_edges := (a, b) # lg_edges g\<rparr>)),
     g_RemoveEdge = (\<lambda>a b g. g\<lparr>lg_edges := filter (\<lambda>e. e \<noteq> (a, b)) (lg_edges g)\<rparr>),
     g_StronglyConnectedComponents = lg_scc,
     g_TopologicalSort = (\<lambda>g. lg_topo (lg_edges g) (length (lg_nodes g)) (map fst (lg_nodes g)))\<rparr>"

definition lg_nds :: "'v lgraph \<Rightarrow> nat set" where "lg_nds g = fst ` set (lg_nodes g)"
definition lg_edg :: "'v lgraph \<Rightarrow> (nat \<times> nat) set" where "lg_edg g = set (lg_edges g)"
definition lg_valid :: "'v lgraph \<Rightarrow> bool" where
  "lg_valid g = (distinct (map fst (lg_nodes g)) \<and> (\<forall>n \<in> lg_nds g. n < lg_next g) \<and> lg_edg g \<subseteq> lg_nds g \<times> lg_nds g)"

lemma lg_topo_set: "distinct ns \<Longrightarrow> distinct (lg_topo E k ns) \<and> set (lg_topo E k ns) = set ns"
proof (induction k arbitrary: ns)
  case (Suc k)
  show ?case
  proof (cases "List.find (\<lambda>n. \<forall>m \<in> set ns. (m, n) \<notin> set E) ns")
    case (Some n)
    then have "n \<in> set ns" by (auto simp: find_Some_iff)
    with Suc.IH [of "remove1 n ns"] Suc.prems Some show ?thesis by auto
  qed (use Suc in auto)
qed simp

lemma before_Cons: "before (x # xs) a b \<longleftrightarrow> (x = a \<and> b \<in> set xs) \<or> before xs a b"
proof
  assume "before (x # xs) a b"
  then obtain us vs ws where "x # xs = us @ a # vs @ b # ws" by (auto simp: before_def)
  then show "(x = a \<and> b \<in> set xs) \<or> before xs a b" by (cases us) (auto simp: before_def)
next
  assume "(x = a \<and> b \<in> set xs) \<or> before xs a b"
  then show "before (x # xs) a b"
  proof
    assume "x = a \<and> b \<in> set xs"
    then obtain vs ws where "xs = vs @ b # ws" "x = a" by (auto dest: split_list)
    then show ?thesis unfolding before_def by (metis append_Nil)
  next
    assume "before xs a b"
    then obtain us vs ws where "xs = us @ a # vs @ b # ws" by (auto simp: before_def)
    then show ?thesis unfolding before_def by (metis append_Cons)
  qed
qed

lemma lg_topo_before:
  assumes "acyclic (set E)"
  shows "distinct ns \<Longrightarrow> length ns \<le> k \<Longrightarrow> a \<in> set ns \<Longrightarrow> b \<in> set ns \<Longrightarrow> (a, b) \<in> set E \<Longrightarrow> before (lg_topo E k ns) a b"
proof (induction k arbitrary: ns)
  case (Suc k)
  have "wf (set E)" using assms by (simp add: finite_acyclic_wf)
  then obtain n0 where "n0 \<in> set ns" "\<And>m. (m, n0) \<in> set E \<Longrightarrow> m \<notin> set ns"
    using wfE_min [of "set E" a "set ns"] Suc.prems(3) by blast
  then obtain n where n: "List.find (\<lambda>n. \<forall>m \<in> set ns. (m, n) \<notin> set E) ns = Some n"
    by (cases "List.find (\<lambda>n. \<forall>m \<in> set ns. (m, n) \<notin> set E) ns") (auto simp: find_None_iff)
  then have n': "n \<in> set ns" "\<forall>m \<in> set ns. (m, n) \<notin> set E" by (auto simp: find_Some_iff)
  have "b \<noteq> n" using n'(2) Suc.prems(3,5) by auto
  have set: "set (lg_topo E k (remove1 n ns)) = set ns - {n}"
    using lg_topo_set [of "remove1 n ns" E k] Suc.prems(1) by simp
  show ?case
  proof (cases "a = n")
    case True
    then show ?thesis using n set \<open>b \<noteq> n\<close> Suc.prems(4) by (simp add: before_Cons)
  next
    case False
    have "before (lg_topo E k (remove1 n ns)) a b"
      using Suc.prems False \<open>b \<noteq> n\<close> n'(1) by (intro Suc.IH) (auto simp: length_remove1)
    then show ?thesis using n by (simp add: before_Cons)
  qed
qed simp

lemma lg_reach_iff: "lg_reach E a b \<longleftrightarrow> (a, b) \<in> (set E)\<^sup>*"
  by (auto simp: lg_reach_def rtrancl_eq_or_trancl)

lemma map_of_set_node:
  "map_of (map (\<lambda>(m, x). (m, if m = n then Some v else x)) xs) k =
     (if k = n then map_option (\<lambda>_. Some v) (map_of xs k) else map_of xs k)"
  by (induction xs) auto

lemma lg_laws: "graph_laws lg_ops lg_nds lg_edg lg_valid"
proof
  fix g g' :: "'v lgraph" and n
  assume v: "lg_valid g" and mk: "g_MakeNode lg_ops g = (n, g')"
  then have g': "n = lg_next g" "g' = g\<lparr>lg_next := Suc (lg_next g), lg_nodes := lg_nodes g @ [(lg_next g, None)]\<rparr>"
    by (auto simp: lg_ops_def)
  have fresh: "lg_next g \<notin> lg_nds g" using v by (auto simp: lg_valid_def)
  have "lg_nds g' = insert n (lg_nds g)" "lg_edg g' = lg_edg g" by (auto simp: g' lg_nds_def lg_edg_def)
  moreover have "lg_valid g'" using v fresh by (auto simp: g' lg_valid_def lg_nds_def lg_edg_def)
  moreover have "\<forall>m \<in> lg_nds g. g_Value lg_ops m g' = g_Value lg_ops m g"
    using fresh by (auto simp: g' lg_ops_def lg_nds_def map_add_def split: option.splits)
  ultimately show "lg_valid g' \<and> n \<notin> lg_nds g \<and> lg_nds g' = insert n (lg_nds g) \<and> lg_edg g' = lg_edg g \<and>
      (\<forall>m \<in> lg_nds g. g_Value lg_ops m g' = g_Value lg_ops m g)" using fresh g'(1) by blast
next
  fix g :: "'v lgraph" and n v
  assume vg: "lg_valid g" and n: "n \<in> lg_nds g"
  let ?g = "g_SetValue lg_ops n v g"
  have fst: "map fst (lg_nodes ?g) = map fst (lg_nodes g)" by (auto simp: lg_ops_def)
  then have nd: "lg_nds ?g = lg_nds g" unfolding lg_nds_def by (metis list.set_map)
  have ed: "lg_edg ?g = lg_edg g" "lg_next ?g = lg_next g" by (simp_all add: lg_edg_def lg_ops_def)
  have "lg_valid ?g" using vg fst nd ed by (simp add: lg_valid_def)
  moreover have "\<exists>x. map_of (lg_nodes g) m = Some x" if "m \<in> lg_nds g" for m
    using that by (auto simp: lg_nds_def map_of_eq_None_iff [symmetric] dest: weak_map_of_SomeI)
  ultimately show "lg_valid ?g \<and> lg_nds ?g = lg_nds g \<and> lg_edg ?g = lg_edg g \<and>
      (\<forall>m \<in> lg_nds g. g_Value lg_ops m ?g = (if m = n then Some v else g_Value lg_ops m g))"
    using nd ed by (fastforce simp: lg_ops_def map_of_set_node)
next
  fix g :: "'v lgraph" and n
  assume vg: "lg_valid g" and n: "n \<in> lg_nds g"
  have "map_of (filter (\<lambda>(m, _). m \<noteq> n) xs) m = map_of xs m" if "m \<noteq> n" for m and xs :: "(nat \<times> (string \<times> 'v) option) list"
    using that by (induction xs) auto
  moreover have "distinct (map fst (filter (\<lambda>(m, _). m \<noteq> n) (lg_nodes g)))"
    using vg by (simp add: lg_valid_def distinct_map_filter)
  ultimately show "lg_valid (g_RemoveNode lg_ops n g) \<and> lg_nds (g_RemoveNode lg_ops n g) = lg_nds g - {n} \<and>
      lg_edg (g_RemoveNode lg_ops n g) = {(a, b) \<in> lg_edg g. a \<noteq> n \<and> b \<noteq> n} \<and>
      (\<forall>m \<in> lg_nds g - {n}. g_Value lg_ops m (g_RemoveNode lg_ops n g) = g_Value lg_ops m g)"
    using vg by (auto simp: lg_ops_def lg_valid_def lg_nds_def lg_edg_def image_iff) force+
next
  fix g :: "'v lgraph" and a b
  assume "lg_valid g" "a \<in> lg_nds g" "b \<in> lg_nds g"
  then show "\<exists>g'. g_MakeEdge lg_ops a b g = Inr g' \<and> lg_valid g' \<and> lg_nds g' = lg_nds g \<and> lg_edg g' = insert (a, b) (lg_edg g) \<and>
      (\<forall>m \<in> lg_nds g. g_Value lg_ops m g' = g_Value lg_ops m g)"
    by (auto simp: lg_ops_def lg_valid_def lg_nds_def lg_edg_def)
next
  fix g :: "'v lgraph" and a b
  assume v: "lg_valid g" and "a \<in> lg_nds g" "b \<in> lg_nds g"
  then show "(\<exists>c \<in> set (g_StronglyConnectedComponents lg_ops g). a \<in> set c \<and> b \<in> set c) \<longleftrightarrow>
      (a, b) \<in> (lg_edg g)\<^sup>* \<and> (b, a) \<in> (lg_edg g)\<^sup>*"
    by (auto simp: lg_ops_def lg_scc_def lg_nds_def lg_edg_def lg_reach_iff dest: rtrancl_trans)
next
  fix g :: "'v lgraph" and a b
  assume v: "lg_valid g" "acyclic (lg_edg g)" "(a, b) \<in> lg_edg g"
  then have "before (lg_topo (lg_edges g) (length (lg_nodes g)) (map fst (lg_nodes g))) a b"
    by (intro lg_topo_before) (auto simp: lg_valid_def lg_edg_def lg_nds_def)
  then show "before (g_TopologicalSort lg_ops g) a b" by (simp add: lg_ops_def)
qed (auto simp: lg_ops_def lg_valid_def lg_nds_def lg_edg_def lg_scc_def lg_topo_set)

interpretation lg: stacker_graph lg_ops lg_nds lg_edg lg_valid
  by (intro stacker_graph.intro lg_laws)

section \<open>Properties\<close>

text \<open>
  C24. Adding dependencies keeps the graph a dag over the same vertices and values, whether it
  succeeds or fails; when it succeeds, exactly the new dependencies have been added, between
  vertices that exist and are not the same.
\<close>

theorem add_dependencies_keeps_dag:
  assumes "graph_laws ops nds edg valid" and "dag_inv ops nds edg valid dg" and "AddDependencies ops vertex deps dg = (r, dg')"
  shows "dag_inv ops nds edg valid dg' \<and> dag_vertices dg' = dag_vertices dg \<and>
    (\<forall>k. GetValue ops k dg' = GetValue ops k dg) \<and>
    (r = Inr () \<longrightarrow>
      (\<forall>k d. dag_edge edg dg' k d \<longleftrightarrow> dag_edge edg dg k d \<or> (k = vertex \<and> d \<in> set deps)) \<and>
      (\<forall>d \<in> set deps. map_of (dag_vertices dg) d \<noteq> None \<and> d \<noteq> vertex))"
  by (rule graph_laws.AddDependencies_spec [OF assms])

definition two_dag :: "(Stackerfile lgraph, nat) dag" where
  "two_dag = snd (op_loop (\<lambda>k. AddVertex lg_ops k sample_file) [''a'', ''b''] (NewDAG lg_ops))"

lemma two_dag_inv: "dag_inv lg_ops lg_nds lg_edg lg_valid two_dag"
proof -
  obtain r dg where *: "AddVertex lg_ops ''a'' sample_file (NewDAG lg_ops) = (r, dg)" by force
  obtain r' dg' where **: "AddVertex lg_ops ''b'' sample_file dg = (r', dg')" by force
  have "dag_inv lg_ops lg_nds lg_edg lg_valid dg" by (rule lg.AddVertex_spec(1) [OF lg.inv_New *])
  from lg.AddVertex_spec(1) [OF this **] lg.AddVertex_spec(2) [OF lg.inv_New *] lg.AddVertex_spec(2) [OF this **]
    \<open>dag_inv lg_ops lg_nds lg_edg lg_valid dg\<close>
  show ?thesis unfolding two_dag_def using * ** by (auto simp: NewDAG_def split: sum.splits)
qed

theorem add_dependencies_keeps_dag_witness:
  "dag_inv lg_ops lg_nds lg_edg lg_valid (snd (AddDependencies lg_ops ''b'' [''a''] two_dag))"
  using add_dependencies_keeps_dag [OF lg_laws two_dag_inv prod.collapse [symmetric], of "''b''" "[''a'']"] by blast

text \<open>
  A dependency that is refused (an unknown vertex, a vertex on itself, or one that would
  close a cycle) leaves no trace: the edge that was tried is taken out again and nothing
  that was there before is lost.
\<close>

theorem refused_dependency_no_trace:
  assumes "graph_laws ops nds edg valid" and "dag_inv ops nds edg valid dg"
    and "AddDependencies ops vertex [dep] dg = (Inl err, dg')"
  shows "same_dag ops edg dg dg'"
proof (cases "map_of (dag_vertices dg) vertex")
  case None
  with assms(3) show ?thesis by (simp add: same_dag_def)
next
  case (Some src)
  with assms(3) have "addDep ops src vertex dep dg = (Inl err, dg')" by (auto split: prod.splits sum.splits)
  with graph_laws.addDep_spec(2) [OF assms(1,2) Some] show ?thesis by blast
qed

theorem refused_dependency_no_trace_witness:
  "same_dag lg_ops lg_edg two_dag (snd (AddDependencies lg_ops ''a'' [''zz''] two_dag))"
proof -
  have "\<exists>e. fst (AddDependencies lg_ops ''a'' [''zz''] two_dag) = Inl e"
    by (simp add: two_dag_def NewDAG_def AddVertex_def lg_ops_def addDep_def)
  then obtain e dg' where "AddDependencies lg_ops ''a'' [''zz''] two_dag = (Inl e, dg')"
    by (metis prod.collapse)
  from refused_dependency_no_trace [OF lg_laws two_dag_inv this] this show ?thesis by simp
qed

text \<open>
  C5. When the graph of a set of stacker files can be made, sorting it gives a build
  order: every file once, each prerequisite before the file that lists it, and looking a
  path of the order up gives its file.
\<close>

theorem stacker_files_build_order:
  assumes "graph_laws ops nds edg valid" and "NewStackerFilesDAG ops cwd sfm = Inr dg"
  shows "\<exists>order. StackerFilesDAG_Sort ops dg = Inr order \<and> distinct order \<and> set order = fst ` set sfm \<and>
    (\<forall>p sf ps q. (p, sf) \<in> set sfm \<and> Prerequisites cwd sf = Inr ps \<and> q \<in> set ps \<longrightarrow> before order q p) \<and>
    (\<forall>p \<in> set order. GetStackerFile ops dg p = Inr (file_at sfm p))"
  by (rule stacker_graph.files_order [OF stacker_graph.intro [OF assms(1)] assms(2)])

definition sample_files2 :: StackerFiles where
  "sample_files2 = [(''/w/a'', sample_file\<lparr>sf_buildConfig := Some [''/w/b'']\<rparr>), (''/w/b'', sample_file)]"

lemma sample_dag2: "\<exists>dg. NewStackerFilesDAG lg_ops ''/w'' sample_files2 = Inr dg"
proof -
  have pre: "Prerequisites ''/w'' (sample_file\<lparr>sf_buildConfig := Some [''/w/b'']\<rparr>) = Inr [''/w/b'']"
    "Prerequisites ''/w'' sample_file = Inr []"
    by (simp_all add: Prerequisites_def buildPrerequisites_def sample_file_def filepath_IsAbs_def strings_HasPrefix_def)
  have keys: "sort (map fst sample_files2) = [''/w/a'', ''/w/b'']"
    unfolding sample_files2_def by code_simp
  let ?g = "\<lparr>lg_next = 2, lg_nodes = [(0, Some (''/w/a'', sample_file\<lparr>sf_buildConfig := Some [''/w/b'']\<rparr>)), (1, Some (''/w/b'', sample_file))],
      lg_edges = [(1, 0)]\<rparr>"
  have "wf {(Suc 0, 0 :: nat)}" by (auto simp: wf_def)
  then have "acyclic {(Suc 0, 0 :: nat)}" by (rule wf_acyclic)
  then have "isAcyclic lg_ops \<lparr>dag_graph = ?g, dag_vertices = [(''/w/a'', 0), (''/w/b'', 1)]\<rparr>"
    by (subst lg.isAcyclic_iff [of ?g]) (simp_all add: lg_valid_def lg_edg_def lg_nds_def)
  then have ok: "isAcyclic lg_ops \<lparr>dag_graph = ?g, dag_vertices = [(''/w/a'', 0), (''/w/b'', Suc 0)]\<rparr>" by simp
  show ?thesis
    unfolding NewStackerFilesDAG_def keys using ok
    by (simp add: sample_files2_def to_res_def NewDAG_def AddVertex_def lg_ops_def add_file_deps_def pre addDep_def file_at_def
        Let_def numeral_2_eq_2)
qed

theorem stacker_files_build_order_witness:
  "\<exists>dg order. NewStackerFilesDAG lg_ops ''/w'' sample_files2 = Inr dg \<and> StackerFilesDAG_Sort lg_ops dg = Inr order \<and>
     set order = {''/w/a'', ''/w/b''}"
proof -
  obtain dg where dg: "NewStackerFilesDAG lg_ops ''/w'' sample_files2 = Inr dg" using sample_dag2 ..
  from stacker_files_build_order [OF lg_laws dg] dg show ?thesis by (auto simp: sample_files2_def)
qed

end
