(* ===== verification/Go_Os.thy ===== *)
theory Go_Os
  imports Go_Path
begin

text \<open>
  Effects: the file system as the package \<^verbatim>\<open>os\<close> shows it, and computations that read and change
  it and may fail.

  A file system maps cleaned absolute paths to nodes. A path is looked up by its cleaned text,
  made absolute with the working directory, after the symbolic links in its directory part are
  resolved (\<open>phys\<close>); a link that the path itself names is followed by the operations that follow
  it, up to \<open>40\<close> times as the kernel does. A file has its content, its permission bits and its owner. The owners
  and permissions of directories, times, and the umask are left out; every operation that the
  model does not make fail succeeds.

  The rest of the world (OCI layouts, the network, programs that are run) is the component
  \<open>w_ext\<close>, of any type: what changes it is a parameter of the definitions that use it.
\<close>

named_theorems io_simps \<open>equations of effectful computations\<close>

section \<open>The world\<close>

datatype node =
    File string nat "int \<times> int"
  | Dir
  | Symlink string

type_synonym fs = "(string \<times> node) list"

record 'x world =
  w_fs :: fs
  w_cwd :: string
  w_ext :: 'x

type_synonym ('x, 'a) io = "'x world \<Rightarrow> 'a res \<times> 'x world"

definition io_ret :: "'a \<Rightarrow> ('x, 'a) io" where
  "io_ret a w = (Inr a, w)"

definition io_err :: "go_error \<Rightarrow> ('x, 'a) io" where
  "io_err e w = (Inl e, w)"

definition io_bind :: "('x, 'a) io \<Rightarrow> ('a \<Rightarrow> ('x, 'b) io) \<Rightarrow> ('x, 'b) io" where
  "io_bind m f w = (case m w of (Inl e, w') \<Rightarrow> (Inl e, w') | (Inr a, w') \<Rightarrow> f a w')"

text \<open>Run a computation and look at its error, as code does that does not return it at once.\<close>

definition io_try :: "('x, 'a) io \<Rightarrow> ('x, 'a res) io" where
  "io_try m w = (case m w of (r, w') \<Rightarrow> (Inr r, w'))"

definition io_res :: "'a res \<Rightarrow> ('x, 'a) io" where
  "io_res r w = (r, w)"

definition io_if :: "bool \<Rightarrow> ('x, unit) io \<Rightarrow> ('x, unit) io" where
  "io_if b m = (if b then m else io_ret ())"

text \<open>\<^verbatim>\<open>errors.Wrapf(err, ...)\<close> around a call.\<close>

definition io_wrap :: "string \<Rightarrow> string list \<Rightarrow> ('x, 'a) io \<Rightarrow> ('x, 'a) io" where
  "io_wrap f args m w = (case m w of (Inl e, w') \<Rightarrow> (Inl (Wrapf e f args), w') | r \<Rightarrow> r)"

fun io_fold :: "('s \<Rightarrow> 'a \<Rightarrow> ('x, 's) io) \<Rightarrow> 's \<Rightarrow> 'a list \<Rightarrow> ('x, 's) io" where
  "io_fold f s [] = io_ret s"
| "io_fold f s (x # xs) = io_bind (f s x) (\<lambda>s'. io_fold f s' xs)"

definition io_each :: "('a \<Rightarrow> ('x, unit) io) \<Rightarrow> 'a list \<Rightarrow> ('x, unit) io" where
  "io_each f xs = io_fold (\<lambda>_. f) () xs"

definition io_get :: "('x, 'x world) io" where
  "io_get w = (Inr w, w)"

definition io_put_fs :: "fs \<Rightarrow> ('x, unit) io" where
  "io_put_fs m w = (Inr (), w\<lparr>w_fs := m\<rparr>)"

text \<open>\<^verbatim>\<open>defer\<close>: run the cleanup after the body, whatever the body returns; its own error is dropped.\<close>

definition io_defer :: "('x, unit) io \<Rightarrow> ('x, 'a) io \<Rightarrow> ('x, 'a) io" where
  "io_defer cleanup m w = (case m w of (r, w') \<Rightarrow> (r, snd (cleanup w')))"

lemma io_ret_eq [io_simps]: "io_ret a w = (r, w') \<longleftrightarrow> r = Inr a \<and> w' = w"
  by (auto simp: io_ret_def)

lemma io_err_eq [io_simps]: "io_err e w = (r, w') \<longleftrightarrow> r = Inl e \<and> w' = w"
  by (auto simp: io_err_def)

lemma io_res_eq [io_simps]: "io_res x w = (r, w') \<longleftrightarrow> x = r \<and> w' = w"
  by (auto simp: io_res_def)

lemma io_bind_Inr [io_simps]:
  "io_bind m f w = (Inr b, w'') \<longleftrightarrow> (\<exists>a w'. m w = (Inr a, w') \<and> f a w' = (Inr b, w''))"
  by (auto simp: io_bind_def split: prod.splits sum.splits)

lemma io_bind_Inl [io_simps]:
  "io_bind m f w = (Inl e, w'') \<longleftrightarrow> m w = (Inl e, w'') \<or> (\<exists>a w'. m w = (Inr a, w') \<and> f a w' = (Inl e, w''))"
  by (auto simp: io_bind_def split: prod.splits sum.splits)

lemma io_try_eq [io_simps]: "io_try m w = (r, w') \<longleftrightarrow> (\<exists>x. m w = (x, w') \<and> r = Inr x)"
  by (auto simp: io_try_def split: prod.splits)

lemma io_wrap_Inr [io_simps]: "io_wrap f args m w = (Inr a, w') \<longleftrightarrow> m w = (Inr a, w')"
  by (auto simp: io_wrap_def split: prod.splits sum.splits)

lemma io_get_eq [io_simps]: "io_get w = (r, w') \<longleftrightarrow> r = Inr w \<and> w' = w"
  by (auto simp: io_get_def)

lemma io_put_fs_eq [io_simps]: "io_put_fs m w = (r, w') \<longleftrightarrow> r = Inr () \<and> w' = w\<lparr>w_fs := m\<rparr>"
  by (auto simp: io_put_fs_def)

lemma io_bindE:
  assumes "io_bind m f w = (Inr b, w')"
  obtains a v where "m w = (Inr a, v)" "f a v = (Inr b, w')"
  using assms by (auto simp: io_bind_Inr)

lemma io_bind_pairE:
  assumes "io_bind m (case_prod f) w = (Inr c, w')"
  obtains a b v where "m w = (Inr (a, b), v)" "f a b v = (Inr c, w')"
  using assms by (auto simp: io_bind_Inr)

text \<open>Running a computation whose first step is known.\<close>

lemma io_bind_run: "m w = (Inr a, w') \<Longrightarrow> io_bind m f w = f a w'"
  by (simp add: io_bind_def)

lemma io_bind_run_err: "m w = (Inl e, w') \<Longrightarrow> io_bind m f w = (Inl e, w')"
  by (simp add: io_bind_def)

lemma io_runs [simp]:
  "io_bind (io_ret a) f w = f a w"
  "io_bind (io_err e) f w = (Inl e, w)"
  "io_bind (io_res (Inr a)) f w = f a w"
  "io_bind (io_res (Inl e)) f w = (Inl e, w)"
  "io_bind io_get g w = g w w"
  "io_bind (io_put_fs m) h w = h () (w\<lparr>w_fs := m\<rparr>)"
  by (simp_all add: io_bind_def io_ret_def io_err_def io_res_def io_get_def io_put_fs_def)

lemma io_each_Nil [simp]: "io_each f [] w = (Inr (), w)"
  by (simp add: io_each_def io_ret_def)

lemma io_each_Cons [simp]: "io_each f (x # xs) w = io_bind (f x) (\<lambda>_. io_each f xs) w"
  by (simp add: io_each_def)

text \<open>The rule for a loop: what its body keeps true of state and world holds when it ends.\<close>

lemma io_fold_invariant:
  assumes "io_fold f s xs w = (Inr s', w')" and "I s w"
    and "\<And>t v x t' v'. I t v \<Longrightarrow> x \<in> set xs \<Longrightarrow> f t x v = (Inr t', v') \<Longrightarrow> I t' v'"
  shows "I s' w'"
  using assms
proof (induction xs arbitrary: s w)
  case (Cons x xs)
  from Cons.prems(1) obtain t v where t: "f s x w = (Inr t, v)" "io_fold f t xs v = (Inr s', w')"
    by (auto simp: io_simps)
  have "I t v" by (rule Cons.prems(3) [OF Cons.prems(2) _ t(1)]) simp
  then show ?case using Cons.IH t(2) Cons.prems(3) by (meson list.set_intros(2))
qed (simp add: io_simps)

section \<open>Paths and nodes\<close>

definition ENOENT :: go_error where "ENOENT = Ext ''no such file or directory''"
definition EEXIST :: go_error where "EEXIST = Ext ''file exists''"
definition ENOTDIR :: go_error where "ENOTDIR = Ext ''not a directory''"
definition EISDIR :: go_error where "EISDIR = Ext ''is a directory''"
definition EINVAL :: go_error where "EINVAL = Ext ''invalid argument''"
definition ENOTEMPTY :: go_error where "ENOTEMPTY = Ext ''directory not empty''"
definition ELOOP :: go_error where "ELOOP = Ext ''too many levels of symbolic links''"

lemmas errno_defs = ENOENT_def EEXIST_def ENOTDIR_def EISDIR_def EINVAL_def ENOTEMPTY_def ELOOP_def

text \<open>\<^verbatim>\<open>os.IsNotExist\<close> does not look inside a wrapped error; \<^verbatim>\<open>errors.Is(err, os.ErrNotExist)\<close> does.\<close>

definition os_IsNotExist :: "go_error \<Rightarrow> bool" where
  "os_IsNotExist e = (e = ENOENT)"

fun errors_Is :: "go_error \<Rightarrow> go_error \<Rightarrow> bool" where
  "errors_Is (Wrapf e f args) t = (Wrapf e f args = t \<or> errors_Is e t)"
| "errors_Is e t = (e = t)"

fun errors_Unwrap :: "go_error \<Rightarrow> go_error option" where
  "errors_Unwrap (Wrapf e f args) = Some e"
| "errors_Unwrap e = None"

definition lnode :: "fs \<Rightarrow> string \<Rightarrow> node option" where
  "lnode m k = (if k = ''/'' then Some Dir else map_of m k)"

definition node_IsDir :: "node \<Rightarrow> bool" where
  "node_IsDir n = (n = Dir)"

definition node_IsLink :: "node \<Rightarrow> bool" where
  "node_IsLink n = (case n of Symlink _ \<Rightarrow> True | _ \<Rightarrow> False)"

text \<open>Where a link at a path points to.\<close>

definition link_target :: "string \<Rightarrow> string \<Rightarrow> string" where
  "link_target k t = (if filepath_IsAbs t then path_Clean t else path_Join [path_Dir k, t])"

text \<open>A link among the directories of a path; replace it by what it points to until there is none.\<close>

definition link_above :: "fs \<Rightarrow> string \<Rightarrow> (string \<times> node) option" where
  "link_above m k = List.find (\<lambda>(d, n). node_IsLink n \<and> prefix (d @ ''/'') k) m"

fun phys :: "nat \<Rightarrow> fs \<Rightarrow> string \<Rightarrow> string" where
  "phys 0 m k = k"
| "phys (Suc n) m k =
     (case link_above m k of
        Some (d, Symlink t) \<Rightarrow> phys n m (path_Join [link_target d t, drop (length d) k])
      | _ \<Rightarrow> k)"

definition w_key :: "'x world \<Rightarrow> string \<Rightarrow> string" where
  "w_key w p = phys 40 (w_fs w) (filepath_Abs (w_cwd w) p)"

text \<open>Follow the link a path names: the path that is left.\<close>

fun follow :: "nat \<Rightarrow> fs \<Rightarrow> string \<Rightarrow> string res" where
  "follow 0 m k = Inl ELOOP"
| "follow (Suc n) m k =
     (case lnode m k of
        Some (Symlink t) \<Rightarrow> follow n m (phys 40 m (link_target k t))
      | _ \<Rightarrow> Inr k)"

definition os_Lstat :: "string \<Rightarrow> ('x, node) io" where
  "os_Lstat p w = (case lnode (w_fs w) (w_key w p) of None \<Rightarrow> (Inl ENOENT, w) | Some n \<Rightarrow> (Inr n, w))"

definition stat_at :: "fs \<Rightarrow> string \<Rightarrow> node res" where
  "stat_at m k = rbind (follow 41 m k) (\<lambda>k'. case lnode m k' of None \<Rightarrow> Inl ENOENT | Some n \<Rightarrow> Inr n)"

definition os_Stat :: "string \<Rightarrow> ('x, node) io" where
  "os_Stat p w = (stat_at (w_fs w) (w_key w p), w)"

definition read_at :: "fs \<Rightarrow> string \<Rightarrow> (string \<times> nat) res" where
  "read_at m k = rbind (stat_at m k) (\<lambda>n. case n of File c perm _ \<Rightarrow> Inr (c, perm) | _ \<Rightarrow> Inl EISDIR)"

definition os_ReadFile :: "string \<Rightarrow> ('x, string) io" where
  "os_ReadFile p w = (rbind (read_at (w_fs w) (w_key w p)) (\<lambda>cp. Inr (fst cp)), w)"

definition os_Readlink :: "string \<Rightarrow> ('x, string) io" where
  "os_Readlink p w =
     (case lnode (w_fs w) (w_key w p) of
        None \<Rightarrow> (Inl ENOENT, w)
      | Some (Symlink t) \<Rightarrow> (Inr t, w)
      | Some _ \<Rightarrow> (Inl EINVAL, w))"

definition parent_ok :: "fs \<Rightarrow> string \<Rightarrow> bool" where
  "parent_ok m k = (stat_at m (path_Dir k) = Inr Dir)"

text \<open>Replace what is at a path, or make it, below an existing directory.\<close>

definition set_node :: "string \<Rightarrow> node \<Rightarrow> fs \<Rightarrow> fs" where
  "set_node k n m = map_put k n m"

definition write_at :: "fs \<Rightarrow> string \<Rightarrow> string \<Rightarrow> nat \<Rightarrow> fs res" where
  "write_at m k content perm =
     rbind (follow 41 m k) (\<lambda>k'.
       case lnode m k' of
         Some Dir \<Rightarrow> Inl EISDIR
       | Some (File _ perm' own) \<Rightarrow> Inr (set_node k' (File content perm' own) m)
       | _ \<Rightarrow> if parent_ok m k' then Inr (set_node k' (File content perm (0, 0)) m) else Inl ENOENT)"

definition os_WriteFile :: "string \<Rightarrow> string \<Rightarrow> nat \<Rightarrow> ('x, unit) io" where
  "os_WriteFile p content perm w =
     (case write_at (w_fs w) (w_key w p) content perm of
        Inl e \<Rightarrow> (Inl e, w)
      | Inr m \<Rightarrow> (Inr (), w\<lparr>w_fs := m\<rparr>))"

text \<open>\<open>under k k'\<close>: \<open>k'\<close> is \<open>k\<close> or lies below it.\<close>

definition under :: "string \<Rightarrow> string \<Rightarrow> bool" where
  "under k k' = (k' = k \<or> prefix (k @ ''/'') k' \<or> k = ''/'')"

definition remove_under :: "string \<Rightarrow> fs \<Rightarrow> fs" where
  "remove_under k m = filter (\<lambda>(k', _). \<not> under k k') m"

definition os_RemoveAll :: "string \<Rightarrow> ('x, unit) io" where
  "os_RemoveAll p w = (Inr (), w\<lparr>w_fs := remove_under (w_key w p) (w_fs w)\<rparr>)"

definition os_Remove :: "string \<Rightarrow> ('x, unit) io" where
  "os_Remove p w =
     (let k = w_key w p in
      case lnode (w_fs w) k of
        None \<Rightarrow> (Inl ENOENT, w)
      | Some n \<Rightarrow>
          if n = Dir \<and> (\<exists>k' \<in> set (map fst (w_fs w)). under k k' \<and> k' \<noteq> k) then (Inl ENOTEMPTY, w)
          else (Inr (), w\<lparr>w_fs := map_delete k (w_fs w)\<rparr>))"

definition os_Mkdir :: "string \<Rightarrow> nat \<Rightarrow> ('x, unit) io" where
  "os_Mkdir p perm w =
     (let k = w_key w p in
      if lnode (w_fs w) k \<noteq> None then (Inl EEXIST, w)
      else if parent_ok (w_fs w) k then (Inr (), w\<lparr>w_fs := set_node k Dir (w_fs w)\<rparr>)
      else (Inl ENOENT, w))"

text \<open>The directories on the way to a path, the outermost first.\<close>

definition ancestors :: "string \<Rightarrow> string list" where
  "ancestors k =
     (let es = path_elems True k in map (\<lambda>i. ''/'' @ strings_Join (take (Suc i) es) ''/'') [0..<length es])"

definition mkdir_step :: "fs \<Rightarrow> string \<Rightarrow> fs res" where
  "mkdir_step m p =
     (let k = phys 40 m p in
      case stat_at m k of
        Inr Dir \<Rightarrow> Inr m
      | Inr _ \<Rightarrow> Inl ENOTDIR
      | Inl e \<Rightarrow> if lnode m k = None then Inr (set_node k Dir m) else Inl e)"

definition os_MkdirAll :: "string \<Rightarrow> nat \<Rightarrow> ('x, unit) io" where
  "os_MkdirAll p perm w =
     (case rfold mkdir_step (w_fs w) (ancestors (filepath_Abs (w_cwd w) p)) of
        Inl e \<Rightarrow> (Inl e, w)
      | Inr m \<Rightarrow> (Inr (), w\<lparr>w_fs := m\<rparr>))"

definition os_Symlink :: "string \<Rightarrow> string \<Rightarrow> ('x, unit) io" where
  "os_Symlink target p w =
     (let k = w_key w p in
      if lnode (w_fs w) k \<noteq> None then (Inl EEXIST, w)
      else if parent_ok (w_fs w) k then (Inr (), w\<lparr>w_fs := set_node k (Symlink target) (w_fs w)\<rparr>)
      else (Inl ENOENT, w))"

text \<open>The entries of a directory, sorted by name.\<close>

definition dir_entries :: "fs \<Rightarrow> string \<Rightarrow> (string \<times> node) list" where
  "dir_entries m k =
     map (\<lambda>n. (n, the (map_of m (path_Join [k, n]))))
       (sort (remdups (map (\<lambda>(k', _). path_Base k') (filter (\<lambda>(k', _). path_Dir k' = k \<and> k' \<noteq> k) m))))"

definition os_ReadDir :: "string \<Rightarrow> ('x, (string \<times> node) list) io" where
  "os_ReadDir p w =
     (case rbind (follow 41 (w_fs w) (w_key w p)) (\<lambda>k.
         case lnode (w_fs w) k of None \<Rightarrow> Inl ENOENT | Some Dir \<Rightarrow> Inr k | Some _ \<Rightarrow> Inl ENOTDIR) of
        Inl e \<Rightarrow> (Inl e, w)
      | Inr k \<Rightarrow> (Inr (dir_entries (w_fs w) k), w))"

text \<open>
  \<^verbatim>\<open>os.MkdirTemp\<close> takes a random name that is not in use: here the prefix and the least number
  that makes one, which at most one candidate more than there are entries decides.
\<close>

definition temp_name :: "fs \<Rightarrow> string \<Rightarrow> string \<Rightarrow> string" where
  "temp_name m dir pre =
     (case List.find (\<lambda>i. lnode m (path_Join [dir, pre @ digits 10 i]) = None) [0..<Suc (length m)] of
        None \<Rightarrow> pre
      | Some i \<Rightarrow> pre @ digits 10 i)"

definition os_MkdirTemp :: "string \<Rightarrow> string \<Rightarrow> ('x, string) io" where
  "os_MkdirTemp dir pre w =
     (let k = w_key w dir; name = temp_name (w_fs w) k pre
      in io_bind (os_Mkdir (path_Join [dir, name]) 448) (\<lambda>_. io_ret (path_Join [dir, name])) w)"

definition os_Lchown :: "string \<Rightarrow> int \<Rightarrow> int \<Rightarrow> ('x, unit) io" where
  "os_Lchown p uid gid w =
     (let k = w_key w p in
      case lnode (w_fs w) k of
        None \<Rightarrow> (Inl ENOENT, w)
      | Some (File c perm (u, g)) \<Rightarrow>
          (Inr (), w\<lparr>w_fs := set_node k (File c perm (if uid = -1 then u else uid, if gid = -1 then g else gid)) (w_fs w)\<rparr>)
      | Some _ \<Rightarrow> (Inr (), w))"

definition os_IsExist :: "go_error \<Rightarrow> bool" where
  "os_IsExist e = (e = EEXIST \<or> e = ENOTEMPTY)"

text \<open>\<^verbatim>\<open>os.Rename\<close>: an existing directory is never replaced.\<close>

definition move_under :: "string \<Rightarrow> string \<Rightarrow> fs \<Rightarrow> fs" where
  "move_under ko kn m = map (\<lambda>(k, n). if under ko k then (kn @ drop (length ko) k, n) else (k, n)) m"

definition os_Rename :: "string \<Rightarrow> string \<Rightarrow> ('x, unit) io" where
  "os_Rename old new w =
     (let m = w_fs w; ko = w_key w old; kn = w_key w new in
      case lnode m ko of
        None \<Rightarrow> (Inl ENOENT, w)
      | Some n \<Rightarrow>
          if lnode m kn = Some Dir then (Inl EEXIST, w)
          else if \<not> parent_ok m kn then (Inl ENOENT, w)
          else if n = Dir then
            (if lnode m kn \<noteq> None then (Inl ENOTDIR, w)
             else if under ko kn then (Inl EINVAL, w)
             else (Inr (), w\<lparr>w_fs := move_under ko kn m\<rparr>))
          else if ko = kn then (Inr (), w)
          else (Inr (), w\<lparr>w_fs := set_node kn n (map_delete ko m)\<rparr>))"

text \<open>\<^verbatim>\<open>filepath.EvalSymlinks\<close> of an absolute path.\<close>

definition filepath_EvalSymlinks :: "string \<Rightarrow> ('x, string) io" where
  "filepath_EvalSymlinks p w =
     (rbind (follow 255 (w_fs w) (w_key w p)) (\<lambda>k. if lnode (w_fs w) k = None then Inl ENOENT else Inr k), w)"

text \<open>The bits of a \<^verbatim>\<open>FileMode\<close> that \<^verbatim>\<open>chmod\<close> sets: the permissions, setuid, setgid and sticky.\<close>

definition mode_bit :: "nat \<Rightarrow> nat \<Rightarrow> bool" where
  "mode_bit m i = ((m div 2 ^ i) mod 2 = 1)"

definition syscall_mode :: "nat \<Rightarrow> nat" where
  "syscall_mode m = m mod 512 + sum_list (map (\<lambda>i. if mode_bit m i then 2 ^ i else 0) [20, 22, 23])"

definition os_Chmod :: "string \<Rightarrow> nat \<Rightarrow> ('x, unit) io" where
  "os_Chmod p perm w =
     (case follow 41 (w_fs w) (w_key w p) of
        Inl e \<Rightarrow> (Inl e, w)
      | Inr k \<Rightarrow> (case lnode (w_fs w) k of
            None \<Rightarrow> (Inl ENOENT, w)
          | Some (File c _ own) \<Rightarrow> (Inr (), w\<lparr>w_fs := set_node k (File c (syscall_mode perm) own) (w_fs w)\<rparr>)
          | Some _ \<Rightarrow> (Inr (), w)))"

lemma mode_bit_small: "m < 2 ^ i \<Longrightarrow> \<not> mode_bit m i"
  by (simp add: mode_bit_def)

lemma mode_bit_code [code]: "mode_bit m i = (if m < 512 \<and> 9 \<le> i then False else m div 2 ^ i mod 2 = 1)"
proof -
  have "\<not> mode_bit m i" if "m < 512" "9 \<le> i"
  proof (rule mode_bit_small)
    have "(512 :: nat) \<le> 2 ^ i" using power_increasing [of 9 i "2 :: nat"] that(2) by simp
    with that(1) show "m < 2 ^ i" by simp
  qed
  then show ?thesis by (auto simp: mode_bit_def)
qed

lemma syscall_mode_small:
  assumes "m < 512" shows "syscall_mode m = m"
proof -
  have "m < 2 ^ 20" "m < 2 ^ 22" "m < 2 ^ 23" using assms by simp_all
  then show ?thesis using assms by (simp add: syscall_mode_def mode_bit_small del: power_numeral)
qed

text \<open>The usual modes need no arithmetic on the high bits.\<close>

lemma syscall_mode_code [code]:
  "syscall_mode m = (if m < 512 then m else m mod 512 + sum_list (map (\<lambda>i. if mode_bit m i then 2 ^ i else 0) [20, 22, 23]))"
  using syscall_mode_small [of m] by (simp add: syscall_mode_def)

text \<open>\<^verbatim>\<open>FileMode.String\<close>, of a node that is not a device.\<close>

definition FileMode_String :: "bool \<Rightarrow> nat \<Rightarrow> string" where
  "FileMode_String isdir m =
     (let kind = (if isdir then ''d'' else []) @ (if mode_bit m 23 then ''u'' else []) @
            (if mode_bit m 22 then ''g'' else []) @ (if mode_bit m 20 then ''t'' else [])
      in (if kind = [] then ''-'' else kind) @
         map (\<lambda>(i, c). if mode_bit m i then c else CHR ''-'')
           (zip [8, 7, 6, 5, 4, 3, 2, 1, 0] ''rwxrwxrwx''))"

text \<open>The mode a \<^verbatim>\<open>FileInfo\<close> gives; those of directories and links are left out.\<close>

definition node_Mode :: "node \<Rightarrow> nat" where
  "node_Mode n = (case n of File _ perm _ \<Rightarrow> perm | _ \<Rightarrow> 493)"

section \<open>Facts\<close>

lemma lnode_set [simp]: "k \<noteq> ''/'' \<Longrightarrow> lnode (set_node k n m) k' = (if k' = k then Some n else lnode m k')"
  by (simp add: lnode_def set_node_def)

lemma map_of_remove_under: "map_of (remove_under k m) k' = (if under k k' then None else map_of m k')"
  by (induction m) (auto simp: remove_under_def)

lemma lnode_remove_under: "k' \<noteq> ''/'' \<Longrightarrow> lnode (remove_under k m) k' = (if under k k' then None else lnode m k')"
  by (simp add: lnode_def map_of_remove_under)

lemma under_refl [simp]: "under k k"
  by (simp add: under_def)

lemma follow_not_link: "\<not> (\<exists>t. lnode m k = Some (Symlink t)) \<Longrightarrow> follow (Suc n) m k = Inr k"
  by (auto split: option.splits node.splits)

lemma follow_41: "\<not> (\<exists>t. lnode m k = Some (Symlink t)) \<Longrightarrow> follow 41 m k = Inr k"
proof -
  assume *: "\<not> (\<exists>t. lnode m k = Some (Symlink t))"
  have "(41 :: nat) = Suc 40" by simp
  then show ?thesis using follow_not_link [OF *, of 40] by presburger
qed

lemma link_above_None: "link_above m k = None \<longleftrightarrow> (\<forall>(d, n) \<in> set m. \<not> (node_IsLink n \<and> prefix (d @ ''/'') k))"
  by (auto simp: link_above_def find_None_iff)

lemma phys_straight: "link_above m k = None \<Longrightarrow> phys n m k = k"
  by (cases n) auto

lemma link_above_remove: "link_above m k = None \<Longrightarrow> link_above (remove_under d m) k = None"
  by (auto simp: link_above_None remove_under_def)

lemma link_above_set: "link_above m k = None \<Longrightarrow> \<not> node_IsLink n \<or> \<not> prefix (d @ ''/'') k \<Longrightarrow> link_above (set_node d n m) k = None"
  unfolding link_above_None set_node_def by (auto dest!: map_put_set [THEN subsetD])

text \<open>A path without links above it is where it says.\<close>

definition straight :: "'x world \<Rightarrow> string \<Rightarrow> bool" where
  "straight w p = (link_above (w_fs w) (filepath_Abs (w_cwd w) p) = None)"

lemma w_key_straight: "straight w p \<Longrightarrow> w_key w p = filepath_Abs (w_cwd w) p"
  by (simp add: straight_def w_key_def phys_straight)

lemma follow_end: "follow n m k = Inr k' \<Longrightarrow> \<not> (\<exists>t. lnode m k' = Some (Symlink t))"
  by (induction n m k rule: follow.induct) (auto split: option.splits node.splits)

lemma stat_at_node: "lnode m k = Some n \<Longrightarrow> \<not> node_IsLink n \<Longrightarrow> stat_at m k = Inr n"
  by (cases n) (simp_all add: stat_at_def node_IsLink_def follow_41)

lemma stat_at_None: "lnode m k = None \<Longrightarrow> stat_at m k = Inl ENOENT"
  by (simp add: stat_at_def follow_41)

text \<open>Reading does not change the world.\<close>

lemma os_Stat_eq [io_simps]: "os_Stat p w = (r, w') \<longleftrightarrow> w' = w \<and> r = stat_at (w_fs w) (w_key w p)"
  by (auto simp: os_Stat_def)

lemma os_Lstat_eq [io_simps]: "os_Lstat p w = (r, w') \<longleftrightarrow> w' = w \<and>
    r = (case lnode (w_fs w) (w_key w p) of None \<Rightarrow> Inl ENOENT | Some n \<Rightarrow> Inr n)"
  by (auto simp: os_Lstat_def split: option.splits)

lemma os_ReadFile_eq [io_simps]: "os_ReadFile p w = (r, w') \<longleftrightarrow> w' = w \<and>
    r = rbind (read_at (w_fs w) (w_key w p)) (\<lambda>cp. Inr (fst cp))"
  by (auto simp: os_ReadFile_def)

lemma os_Readlink_eq [io_simps]: "os_Readlink p w = (Inr t, w') \<longleftrightarrow> w' = w \<and> lnode (w_fs w) (w_key w p) = Some (Symlink t)"
  by (auto simp: os_Readlink_def split: option.splits node.splits)

lemma os_RemoveAll_eq [io_simps]: "os_RemoveAll p w = (r, w') \<longleftrightarrow>
    r = Inr () \<and> w' = w\<lparr>w_fs := remove_under (w_key w p) (w_fs w)\<rparr>"
  by (auto simp: os_RemoveAll_def)

text \<open>What was written is what is read, through whatever links the path goes.\<close>

definition no_link :: "node option \<Rightarrow> bool" where
  "no_link x = (case x of Some n \<Rightarrow> \<not> node_IsLink n | None \<Rightarrow> True)"

lemma link_above_put: "no_link (map_of m k) \<Longrightarrow> \<not> node_IsLink n \<Longrightarrow> link_above (map_put k n m) x = link_above m x"
  unfolding link_above_def by (induction k n m rule: map_put.induct) (auto simp: no_link_def split: if_splits)

lemma phys_put: "no_link (map_of m k) \<Longrightarrow> \<not> node_IsLink n \<Longrightarrow> phys i (map_put k n m) x = phys i m x"
  by (induction i m x rule: phys.induct) (auto simp: link_above_put split: option.splits node.splits)

lemma follow_put:
  "no_link (map_of m k) \<Longrightarrow> \<not> node_IsLink n \<Longrightarrow> k \<noteq> ''/'' \<Longrightarrow> follow i (set_node k n m) x = follow i m x"
proof (induction i arbitrary: x)
  case (Suc i)
  have "lnode (set_node k n m) x = (if x = k then Some n else lnode m x)" using Suc.prems(3) by simp
  with Suc show ?case
    by (auto simp: set_node_def phys_put lnode_def no_link_def node_IsLink_def split: option.splits node.splits if_splits)
qed simp

lemma follow_no_link: "follow i m k = Inr k' \<Longrightarrow> no_link (lnode m k')"
  using follow_end [of i m k k'] by (auto simp: no_link_def node_IsLink_def split: option.splits node.splits)

lemma write_at_Inr:
  assumes "write_at m k c perm = Inr m'"
  obtains k' p own where "follow 41 m k = Inr k'" "m' = set_node k' (File c p own) m" "k' \<noteq> ''/''" "no_link (map_of m k')"
proof -
  from assms obtain k' where k': "follow 41 m k = Inr k'" by (auto simp: write_at_def res_simps)
  have "k' \<noteq> ''/''" using assms k' by (auto simp: write_at_def res_simps lnode_def)
  moreover have "no_link (map_of m k')" using follow_no_link [OF k'] \<open>k' \<noteq> ''/''\<close> by (simp add: lnode_def)
  moreover have "\<exists>p own. m' = set_node k' (File c p own) m"
    using assms k' by (auto simp: write_at_def res_simps split: option.splits node.splits if_splits)
  ultimately show thesis using that k' by blast
qed

lemma write_then_read:
  assumes "os_WriteFile p c perm w = (Inr (), w')"
  shows "os_ReadFile p w' = (Inr c, w')"
proof -
  obtain m where m: "write_at (w_fs w) (w_key w p) c perm = Inr m" "w' = w\<lparr>w_fs := m\<rparr>"
    using assms by (auto simp: os_WriteFile_def split: sum.splits)
  obtain k q own where k: "follow 41 (w_fs w) (w_key w p) = Inr k" "m = set_node k (File c q own) (w_fs w)" "k \<noteq> ''/''"
    "no_link (map_of (w_fs w) k)"
    using write_at_Inr [OF m(1)] by blast
  have nl: "\<not> node_IsLink (File c q own)" by (simp add: node_IsLink_def)
  have "w_key w' p = w_key w p" unfolding w_key_def m(2) k(2) set_node_def using phys_put [OF k(4) nl] by simp
  moreover have "follow 41 m (w_key w p) = Inr k" unfolding k(2) using follow_put [OF k(4) nl k(3)] k(1) by simp
  ultimately show ?thesis
    using k(2,3) m(2) by (simp add: os_ReadFile_def read_at_def stat_at_def del: follow.simps)
qed

end
