(* ===== verification/Convert.thy ===== *)
theory Convert
  imports Go_Os Stackerfile
begin

text \<open>
  Converting a Dockerfile: \<^verbatim>\<open>pkg/stacker/convert.go\<close>. The Dockerfile parser (buildkit), the shell
  quoting of shquot and the yaml encoder are parameters; the converter's state and every
  directive are modelled, with the panics of the code (a directive before the first \<open>FROM\<close>, a
  directive without its value) as errors.
\<close>

section \<open>State\<close>

record Converter =
  cv_output :: "(string \<times> Layer) list"
  cv_currLayer :: string
  cv_subs :: "(string \<times> string) list"
  cv_vols :: int
  cv_args :: "string list"
  cv_env :: "(string \<times> string) list"
  cv_currDir :: string
  cv_currUid :: string
  cv_currGid :: string

record Command =
  cmd_Cmd :: string
  cmd_SubCmd :: string
  cmd_Json :: bool
  cmd_Original :: string
  cmd_Flags :: "string list"
  cmd_Value :: "string list"

record ConvertArgs =
  ca_InputFile :: string
  ca_OutputFile :: string
  ca_SubstituteFile :: string

definition NewConverter :: Converter where
  "NewConverter = \<lparr>cv_output = [], cv_currLayer = [], cv_subs = [], cv_vols = 0, cv_args = [], cv_env = [],
     cv_currDir = [], cv_currUid = [], cv_currGid = []\<rparr>"

section \<open>Helpers\<close>

definition nil_deref :: go_error where
  "nil_deref = Panic ''invalid memory address or nil pointer dereference''"

definition index_panic :: go_error where
  "index_panic = Panic ''index out of range''"

definition val_at :: "string list \<Rightarrow> nat \<Rightarrow> string res" where
  "val_at xs i = (if i < length xs then Inr (xs ! i) else Inl index_panic)"

text \<open>The layer a directive works on, and putting it back.\<close>

definition cur_layer :: "Converter \<Rightarrow> Layer res" where
  "cur_layer c =
     (if cv_currLayer c = [] then Inl nil_deref
      else (case map_of (cv_output c) (cv_currLayer c) of None \<Rightarrow> Inl nil_deref | Some l \<Rightarrow> Inr l))"

definition set_layer :: "Layer \<Rightarrow> Converter \<Rightarrow> Converter" where
  "set_layer l c = c\<lparr>cv_output := map_put (cv_currLayer c) l (cv_output c)\<rparr>"

definition add_run :: "string list \<Rightarrow> Layer \<Rightarrow> Layer" where
  "add_run lines l = l\<lparr>lay_Run := (if lines = [] then lay_Run l
     else Some ((case lay_Run l of None \<Rightarrow> [] | Some r \<Rightarrow> r) @ lines))\<rparr>"

text \<open>The first of the three spellings of an argument that occurs in a value, of the first argument that does.\<close>

definition subst_arg :: "string \<Rightarrow> string \<Rightarrow> string option" where
  "subst_arg val arg =
     List.find (\<lambda>repl. repl \<noteq> val)
       [strings_ReplaceAll val (''$'' @ arg) (''${{'' @ arg @ ''}}''),
        strings_ReplaceAll val (''${'' @ arg @ ''}'') (''${{'' @ arg @ ''}}''),
        strings_ReplaceAll val (''$('' @ arg @ '')'') (''${{'' @ arg @ ''}}'')]"

fun replace_args :: "string list \<Rightarrow> string \<Rightarrow> string" where
  "replace_args [] val = val"
| "replace_args (arg # args) val =
     (case subst_arg val arg of Some repl \<Rightarrow> repl | None \<Rightarrow> replace_args args val)"

text \<open>Key, value and separator, as the parser gives them for \<open>ENV\<close> and \<open>LABEL\<close>.\<close>

fun triples :: "string list \<Rightarrow> (string \<times> string) list res" where
  "triples [] = Inr []"
| "triples [k] = Inl index_panic"
| "triples (k # v # rest) = rbind (triples (drop 1 rest)) (\<lambda>kvs. Inr ((k, v) # kvs))"

definition mkdir_pattern :: string where
  "mkdir_pattern = [CHR 0x5C] @ ''bmkdir'' @ [CHR 0x5C] @ ''b''"

definition patch_mkdir :: "string \<Rightarrow> string res" where
  "patch_mkdir line = rbind (regexp_Compile mkdir_pattern) (\<lambda>re. Inr (re_ReplaceAllString re line ''mkdir -p''))"

section \<open>The directives\<close>

definition conv_from :: "string \<Rightarrow> Command \<Rightarrow> Converter \<Rightarrow> Converter res" where
  "conv_from goarch cmd c0 =
     (let layer = zero_layer\<lparr>lay_BuildEnv := [(''arch'', goarch)]\<rparr>;
          c = c0\<lparr>cv_currDir := [], cv_currUid := [], cv_currGid := []\<rparr>
      in rbind
           (if length (cmd_Value cmd) = 1 then
              Inr (c\<lparr>cv_currLayer := ''${{IMAGE}}'', cv_subs := map_put ''IMAGE'' ''app'' (cv_subs c)\<rparr>)
            else if length (cmd_Value cmd) = 3 \<and> strings_EqualFold (cmd_Value cmd ! 1) ''as'' then
              Inr (c\<lparr>cv_currLayer := cmd_Value cmd ! 2\<rparr>)
            else Inl (Errorf ''unsupported FROM directive'' []))
           (\<lambda>c. let base = cmd_Value cmd ! 0;
                    frm = (if \<not> strings_EqualFold base ''scratch''
                           then (lay_From layer)\<lparr>is_Type := ''docker'', is_Url := ''docker://'' @ base\<rparr>
                           else (lay_From layer)\<lparr>is_Type := base\<rparr>)
                in Inr (set_layer (layer\<lparr>lay_From := frm\<rparr>) c)))"

definition run_line :: "(string list \<Rightarrow> string) \<Rightarrow> string \<Rightarrow> string \<Rightarrow> string res" where
  "run_line shquot uid line =
     rbind (patch_mkdir line) (\<lambda>line.
       Inr (if uid = [] then ''sh -e -c '' @ shquot [line]
            else ''su -p '' @ uid @ '' -c '' @ shquot [line]))"

definition conv_run :: "(string list \<Rightarrow> string) \<Rightarrow> Command \<Rightarrow> Converter \<Rightarrow> Converter res" where
  "conv_run shquot cmd c =
     (let exports = map (\<lambda>(k, v). ''export '' @ k @ ''='' @ v) (cv_env c)
      in rbind (rmap (\<lambda>val. run_line shquot (cv_currUid c) (replace_args (cv_args c) val)) (cmd_Value cmd)) (\<lambda>lines.
           if exports @ lines = [] then Inr c
           else rbind (cur_layer c) (\<lambda>layer. Inr (set_layer (add_run (exports @ lines) layer) c))))"

definition opt_list :: "'a list \<Rightarrow> 'a list option" where
  "opt_list xs = (if xs = [] then None else Some xs)"

definition conv_label :: "Command \<Rightarrow> Converter \<Rightarrow> Converter res" where
  "conv_label cmd c =
     rbind (cur_layer c) (\<lambda>layer.
     rbind (triples (cmd_Value cmd)) (\<lambda>kvs.
       Inr (set_layer (layer\<lparr>lay_Labels := fold (\<lambda>(k, v). map_put k v) kvs (lay_Labels layer)\<rparr>) c)))"

definition authors_key :: string where
  "authors_key = ''org.opencontainers.image.authors''"

definition conv_maintainer :: "Command \<Rightarrow> Converter \<Rightarrow> Converter res" where
  "conv_maintainer cmd c =
     rbind (cur_layer c) (\<lambda>layer.
     rbind (val_at (cmd_Value cmd) 0) (\<lambda>who.
       let who' = (case map_of (lay_Annotations layer) authors_key of None \<Rightarrow> who | Some a \<Rightarrow> a @ '','' @ who)
       in Inr (set_layer (layer\<lparr>lay_Annotations := map_put authors_key who' (lay_Annotations layer)\<rparr>) c)))"

definition conv_env :: "Command \<Rightarrow> Converter \<Rightarrow> Converter res" where
  "conv_env cmd c =
     (if length (cmd_Value cmd) < 3 then Inl (Errorf ''invalid arg - %v'' (cmd_Value cmd))
      else rbind (triples (cmd_Value cmd)) (\<lambda>kvs.
        Inr (c\<lparr>cv_env := fold (\<lambda>(k, v). map_put k (replace_args (cv_args c) v)) kvs (cv_env c)\<rparr>)))"

definition conv_workdir :: "Command \<Rightarrow> Converter \<Rightarrow> Converter res" where
  "conv_workdir cmd c =
     rbind (val_at (cmd_Value cmd) 0) (\<lambda>dir.
     rbind (cur_layer c) (\<lambda>layer.
       Inr (set_layer (add_run [''mkdir -p '' @ dir, ''cd '' @ dir] layer) c\<lparr>cv_currDir := dir\<rparr>)))"

definition conv_arg :: "Command \<Rightarrow> Converter \<Rightarrow> Converter res" where
  "conv_arg cmd c =
     (case cmd_Value cmd of
        [v] \<Rightarrow>
          (case strings_Split v ''='' of
             [a] \<Rightarrow> Inr (c\<lparr>cv_args := cv_args c @ [a]\<rparr>)
           | [a, d] \<Rightarrow> Inr (c\<lparr>cv_args := cv_args c @ [a], cv_subs := map_put a d (cv_subs c)\<rparr>)
           | _ \<Rightarrow> Inl (Errorf ''invalid arg - %v'' (cmd_Value cmd)))
      | _ \<Rightarrow> Inl (Errorf ''invalid arg - %v'' (cmd_Value cmd)))"

text \<open>One flag of \<open>COPY\<close>.\<close>

definition copy_flag :: "string \<Rightarrow> Import \<Rightarrow> string \<Rightarrow> Import res" where
  "copy_flag src imp flag =
     (if strings_HasPrefix flag ''--from='' then
        Inr (imp\<lparr>imp_Path := ''stacker://'' @ path_Join [strings_TrimPrefix flag ''--from='', src]\<rparr>)
      else if strings_HasPrefix flag ''--chown='' then
        (let parts = strings_Split (strings_TrimPrefix flag ''--chown='') '':''
         in rbind (strconv_ParseInt_base (parts ! 0) 0 32) (\<lambda>uid.
              if length parts = 2 then
                rbind (strconv_ParseInt_base (parts ! 1) 0 32) (\<lambda>gid. Inr (imp\<lparr>imp_Uid := uid, imp_Gid := gid\<rparr>))
              else Inr (imp\<lparr>imp_Uid := uid\<rparr>)))
      else Inr imp)"

definition conv_copy :: "Command \<Rightarrow> Converter \<Rightarrow> Converter res" where
  "conv_copy cmd c =
     rbind (val_at (cmd_Value cmd) 0) (\<lambda>src.
       let dest = (if length (cmd_Value cmd) = 2 then
                     (if \<not> filepath_IsAbs (cmd_Value cmd ! 1) then path_Join [cv_currDir c, cmd_Value cmd ! 1]
                      else cmd_Value cmd ! 1)
                   else []);
           imp = \<lparr>imp_Path = src, imp_Hash = [], imp_Dest = dest, imp_Mode = None, imp_Uid = 0, imp_Gid = 0\<rparr>
       in rbind (rfold (copy_flag src) imp (cmd_Flags cmd)) (\<lambda>imp.
          rbind (cur_layer c) (\<lambda>layer.
            Inr (set_layer (layer\<lparr>lay_Imports := lay_Imports layer @ [imp]\<rparr>) c))))"

definition conv_volume :: "Command \<Rightarrow> Converter \<Rightarrow> Converter res" where
  "conv_volume cmd c =
     (let vols = cv_vols c + 1; vol = ''STACKER_VOL'' @ fmt_d vols
      in rbind (val_at (cmd_Value cmd) 0) (\<lambda>v.
         rbind (cur_layer c) (\<lambda>layer.
           Inr (set_layer (layer\<lparr>lay_Binds := lay_Binds layer @ [\<lparr>bind_Source = ''${{'' @ vol @ ''}}'', bind_Dest = v\<rparr>]\<rparr>)
                 (c\<lparr>cv_vols := vols, cv_subs := map_put vol v (cv_subs c)\<rparr>)))))"

definition conv_user :: "Command \<Rightarrow> Converter \<Rightarrow> Converter res" where
  "conv_user cmd c =
     rbind (val_at (cmd_Value cmd) 0) (\<lambda>v.
       let parts = strings_Split v '':''
       in Inr (c\<lparr>cv_currUid := parts ! 0, cv_currGid := (if length parts = 2 then parts ! 1 else cv_currGid c)\<rparr>))"

definition convertCommand :: "(string list \<Rightarrow> string) \<Rightarrow> string \<Rightarrow> Command \<Rightarrow> Converter \<Rightarrow> Converter res" where
  "convertCommand shquot goarch cmd c =
     (let d = strings_ToLower (cmd_Cmd cmd) in
      if d = ''from'' then conv_from goarch cmd c
      else if d = ''run'' then conv_run shquot cmd c
      else if d = ''cmd'' then
        rbind (cur_layer c) (\<lambda>layer. Inr (set_layer (layer\<lparr>lay_Cmd := opt_list (cmd_Value cmd)\<rparr>) c))
      else if d = ''label'' then conv_label cmd c
      else if d = ''maintainer'' then conv_maintainer cmd c
      else if d = ''expose'' then Inr c
      else if d = ''env'' then conv_env cmd c
      else if d = ''workdir'' then conv_workdir cmd c
      else if d = ''arg'' then conv_arg cmd c
      else if d = ''copy'' then conv_copy cmd c
      else if d = ''volume'' then conv_volume cmd c
      else if d = ''entrypoint'' then
        rbind (cur_layer c) (\<lambda>layer. Inr (set_layer (layer\<lparr>lay_Entrypoint := opt_list (cmd_Value cmd)\<rparr>) c))
      else if d = ''user'' then conv_user cmd c
      else Inl (Errorf ''unknown Dockerfile cmd: %s'' [cmd_Cmd cmd]))"

section \<open>A whole file\<close>

text \<open>A node of the parser's tree.\<close>

datatype df_node = DF (df_value: string) (df_original: string) (df_flags: "string list") (df_json: bool)
  (df_children: "df_node list") (df_next: "df_node option")

fun next_values :: "df_node option \<Rightarrow> string list" where
  "next_values None = []"
| "next_values (Some (DF v orig fl j ch nx)) = v # next_values nx"

definition node_command :: "df_node \<Rightarrow> Command" where
  "node_command child =
     (let sub = (case df_next child of
            Some nx \<Rightarrow> (case df_children nx of ch # _ \<Rightarrow> Some ch | [] \<Rightarrow> None)
          | None \<Rightarrow> None);
          child' = (case sub of Some ch \<Rightarrow> ch | None \<Rightarrow> child)
      in \<lparr>cmd_Cmd = df_value child, cmd_SubCmd = (case sub of Some ch \<Rightarrow> df_value ch | None \<Rightarrow> []),
          cmd_Json = df_json child', cmd_Original = df_original child, cmd_Flags = df_flags child,
          cmd_Value = next_values (df_next child')\<rparr>)"

record 'x convert_env =
  ce_parse :: "string \<Rightarrow> df_node list res"
  ce_shquot :: "string list \<Rightarrow> string"
  ce_yaml_layers :: "(string \<times> Layer) list \<Rightarrow> string res"
  ce_yaml_subs :: "(string \<times> string) list \<Rightarrow> string res"
  ce_GOARCH :: string

definition convert_commands :: "'x convert_env \<Rightarrow> df_node list \<Rightarrow> Converter \<Rightarrow> Converter res" where
  "convert_commands env children c =
     rfold (\<lambda>c child. convertCommand (ce_shquot env) (ce_GOARCH env) (node_command child) c) c children"

definition parseFile :: "'x convert_env \<Rightarrow> ConvertArgs \<Rightarrow> Converter \<Rightarrow> ('x, unit) io" where
  "parseFile env opts c =
     io_bind (os_ReadFile (ca_InputFile opts)) (\<lambda>content.
     io_bind (io_res (ce_parse env content)) (\<lambda>children.
     io_bind (io_res (convert_commands env children c)) (\<lambda>c.
     io_bind (io_res (ce_yaml_layers env (cv_output c))) (\<lambda>out.
     io_bind (io_try (os_WriteFile (ca_OutputFile opts) out 420)) (\<lambda>r.
       case r of
         Inl _ \<Rightarrow> io_ret ()
       | Inr _ \<Rightarrow>
           if cv_subs c \<noteq> [] then
             io_bind (io_res (ce_yaml_subs env (cv_subs c))) (\<lambda>out.
               os_WriteFile (ca_SubstituteFile opts) out 420)
           else io_ret ())))))"

definition Convert :: "'x convert_env \<Rightarrow> ConvertArgs \<Rightarrow> ('x, unit) io" where
  "Convert env opts = parseFile env opts NewConverter"

section \<open>Lemmas\<close>

lemma set_layer_simps [simp]:
  "cv_output (set_layer l c) = map_put (cv_currLayer c) l (cv_output c)"
  "cv_currLayer (set_layer l c) = cv_currLayer c" "cv_subs (set_layer l c) = cv_subs c"
  "cv_vols (set_layer l c) = cv_vols c" "cv_args (set_layer l c) = cv_args c" "cv_env (set_layer l c) = cv_env c"
  by (simp_all add: set_layer_def)

lemmas conv_defs = conv_from_def conv_run_def conv_label_def conv_maintainer_def conv_env_def conv_workdir_def
  conv_arg_def conv_copy_def conv_volume_def conv_user_def Let_def

text \<open>Every directive but \<open>FROM\<close> stays on its layer, and touches no other.\<close>

definition same_elsewhere :: "Converter \<Rightarrow> Converter \<Rightarrow> bool" where
  "same_elsewhere c c' =
     (cv_currLayer c' = cv_currLayer c \<and>
      (\<forall>n. n \<noteq> cv_currLayer c \<longrightarrow> map_of (cv_output c') n = map_of (cv_output c) n))"

lemma convert_other:
  assumes "convertCommand sq g cmd c = Inr c'" "strings_ToLower (cmd_Cmd cmd) \<noteq> ''from''"
  shows "same_elsewhere c c'"
proof -
  have "conv_run sq cmd c = Inr c' \<Longrightarrow> ?thesis" "conv_label cmd c = Inr c' \<Longrightarrow> ?thesis"
    "conv_maintainer cmd c = Inr c' \<Longrightarrow> ?thesis" "conv_env cmd c = Inr c' \<Longrightarrow> ?thesis"
    "conv_workdir cmd c = Inr c' \<Longrightarrow> ?thesis" "conv_arg cmd c = Inr c' \<Longrightarrow> ?thesis"
    "conv_copy cmd c = Inr c' \<Longrightarrow> ?thesis" "conv_volume cmd c = Inr c' \<Longrightarrow> ?thesis"
    "conv_user cmd c = Inr c' \<Longrightarrow> ?thesis"
    by (auto simp: conv_defs same_elsewhere_def res_simps split: if_splits list.splits)
  with assms show ?thesis
    by (auto simp: convertCommand_def same_elsewhere_def Let_def res_simps split: if_splits)
qed

lemma conv_from_Inr:
  assumes "conv_from g cmd c = Inr c'"
  shows "cv_currLayer c' \<noteq> [] \<longrightarrow> map_of (cv_output c') (cv_currLayer c') \<noteq> None"
    "n \<noteq> cv_currLayer c' \<Longrightarrow> map_of (cv_output c') n = map_of (cv_output c) n"
    "cmd_Value cmd \<noteq> []"
  using assms by (auto simp: conv_from_def Let_def res_simps split: if_splits)

text \<open>The layer being written exists.\<close>

definition on_layer :: "Converter \<Rightarrow> bool" where
  "on_layer c = (cv_currLayer c \<noteq> [] \<longrightarrow> map_of (cv_output c) (cv_currLayer c) \<noteq> None)"

lemma cur_layer_total: "on_layer c \<Longrightarrow> cv_currLayer c \<noteq> [] \<Longrightarrow> \<exists>l. cur_layer c = Inr l"
  by (auto simp: on_layer_def cur_layer_def)

lemma on_layer_from_same:
  assumes "same_elsewhere c c'" "on_layer c"
    and "dom (map_of (cv_output c)) \<subseteq> dom (map_of (cv_output c'))"
  shows "on_layer c'"
  using assms by (auto simp: same_elsewhere_def on_layer_def dom_def)

lemma convert_keys:
  assumes "convertCommand sq g cmd c = Inr c'"
  shows "dom (map_of (cv_output c)) \<subseteq> dom (map_of (cv_output c'))"
proof -
  have "conv_run sq cmd c = Inr c' \<Longrightarrow> ?thesis" "conv_label cmd c = Inr c' \<Longrightarrow> ?thesis"
    "conv_maintainer cmd c = Inr c' \<Longrightarrow> ?thesis" "conv_env cmd c = Inr c' \<Longrightarrow> ?thesis"
    "conv_workdir cmd c = Inr c' \<Longrightarrow> ?thesis" "conv_arg cmd c = Inr c' \<Longrightarrow> ?thesis"
    "conv_copy cmd c = Inr c' \<Longrightarrow> ?thesis" "conv_volume cmd c = Inr c' \<Longrightarrow> ?thesis"
    "conv_user cmd c = Inr c' \<Longrightarrow> ?thesis" "conv_from g cmd c = Inr c' \<Longrightarrow> ?thesis"
    by (auto simp: conv_defs res_simps split: if_splits list.splits)
  with assms show ?thesis
    by (auto simp: convertCommand_def Let_def res_simps split: if_splits)
qed

lemma convert_on_layer:
  assumes "convertCommand sq g cmd c = Inr c'" "on_layer c"
  shows "on_layer c'"
proof (cases "strings_ToLower (cmd_Cmd cmd) = ''from''")
  case True
  with assms(1) have "conv_from g cmd c = Inr c'" by (simp add: convertCommand_def Let_def)
  with conv_from_Inr(1) show ?thesis by (auto simp: on_layer_def)
next
  case False
  show ?thesis by (rule on_layer_from_same [OF convert_other [OF assms(1) False] assms(2) convert_keys [OF assms(1)]])
qed

section \<open>Panics\<close>

fun is_panic :: "go_error \<Rightarrow> bool" where
  "is_panic (Panic _) = True"
| "is_panic (Wrapf e _ _) = is_panic e"
| "is_panic _ = False"

lemma triples_ok: "length vs mod 3 \<noteq> 1 \<Longrightarrow> \<exists>kvs. triples vs = Inr kvs"
proof (induction vs rule: triples.induct)
  case (3 k v rest)
  have "Suc (Suc (Suc n)) mod 3 = n mod 3" for n :: nat by presburger
  then have "length (drop 1 rest) mod 3 \<noteq> 1" using 3(2) by (cases rest) auto
  with 3 show ?case by auto
qed auto

definition mkdir_re :: regex where
  "mkdir_re = (case regexp_Compile mkdir_pattern of Inr r \<Rightarrow> r | Inl _ \<Rightarrow> Eps)"

lemma compile_mkdir: "regexp_Compile mkdir_pattern = Inr mkdir_re"
  by code_simp

lemma run_line_eq: "run_line sq uid line =
    Inr (if uid = [] then ''sh -e -c '' @ sq [re_ReplaceAllString mkdir_re line ''mkdir -p'']
         else ''su -p '' @ uid @ '' -c '' @ sq [re_ReplaceAllString mkdir_re line ''mkdir -p''])"
  by (simp add: run_line_def patch_mkdir_def compile_mkdir)

definition run_lines :: "(string list \<Rightarrow> string) \<Rightarrow> Command \<Rightarrow> Converter \<Rightarrow> string list" where
  "run_lines sq cmd c = map (\<lambda>(k, v). ''export '' @ k @ ''='' @ v) (cv_env c) @
     map (\<lambda>val. projr (run_line sq (cv_currUid c) (replace_args (cv_args c) val))) (cmd_Value cmd)"

lemma conv_run_eq: "conv_run sq cmd c =
    (if run_lines sq cmd c = [] then Inr c
     else rbind (cur_layer c) (\<lambda>layer. Inr (set_layer (add_run (run_lines sq cmd c) layer) c)))"
proof -
  have "rmap (\<lambda>val. run_line sq (cv_currUid c) (replace_args (cv_args c) val)) (cmd_Value cmd) =
      Inr (map (\<lambda>val. projr (run_line sq (cv_currUid c) (replace_args (cv_args c) val))) (cmd_Value cmd))"
    by (rule rmap_total) (simp add: run_line_eq)
  then show ?thesis by (simp add: conv_run_def run_lines_def)
qed

text \<open>
  A directive with the arguments it needs: at least one where one is read, a key, value and separator each for
  \<open>LABEL\<close> and \<open>ENV\<close> (where the value and, for \<open>ENV A b\<close>, the separator may be empty), and a name of the
  stage that is not empty.
\<close>

definition cmd_ok :: "Command \<Rightarrow> bool" where
  "cmd_ok cmd =
     (let d = strings_ToLower (cmd_Cmd cmd); n = length (cmd_Value cmd) in
      (d = ''from'' \<and> n = 3 \<longrightarrow> cmd_Value cmd ! 2 \<noteq> []) \<and>
      (d \<in> set [''workdir'', ''copy'', ''volume'', ''user'', ''maintainer''] \<longrightarrow> 0 < n) \<and>
      (d \<in> set [''label'', ''env''] \<longrightarrow> n mod 3 \<noteq> 1))"

lemma ParseInt_no_panic: "strconv_ParseInt_base s b n = Inl e \<Longrightarrow> \<not> is_panic e"
  by (auto simp: strconv_ParseInt_base_def Let_def split: if_splits option.splits prod.splits)

lemma copy_flags_no_panic: "rfold (copy_flag src) imp flags = Inl e \<Longrightarrow> \<not> is_panic e"
proof (induction flags arbitrary: imp)
  case (Cons fl flags)
  have "copy_flag src imp fl = Inl e \<Longrightarrow> \<not> is_panic e"
    by (auto simp: copy_flag_def Let_def res_simps split: if_splits dest: ParseInt_no_panic)
  with Cons show ?case by (auto simp: res_simps)
qed simp

lemma convert_step_no_panic:
  assumes on: "on_layer c" and cur: "cv_currLayer c \<noteq> [] \<or> strings_ToLower (cmd_Cmd cmd) = ''from''"
    and ok: "cmd_ok cmd" and err: "convertCommand sq g cmd c = Inl e"
  shows "\<not> is_panic e"
proof (cases "strings_ToLower (cmd_Cmd cmd) = ''from''")
  case True
  with err show ?thesis by (auto simp: convertCommand_def conv_from_def Let_def res_simps split: if_splits)
next
  case False
  with cur obtain l where l: "cur_layer c = Inr l" using cur_layer_total [OF on] by blast
  have tr: "length (cmd_Value cmd) mod 3 \<noteq> 1 \<Longrightarrow> triples (cmd_Value cmd) \<noteq> Inl e"
    using triples_ok [of "cmd_Value cmd"] by auto
  show ?thesis
    using err False l tr ok
    by (auto simp: convertCommand_def cmd_ok_def conv_run_eq conv_label_def conv_maintainer_def conv_env_def conv_workdir_def
        conv_arg_def conv_copy_def conv_volume_def conv_user_def val_at_def Let_def res_simps
        split: if_splits list.splits dest: copy_flags_no_panic)
qed

section \<open>Stages\<close>

lemma path_Join_stage:
  assumes "plain stage" "src \<noteq> []" "''..'' \<notin> set (strings_Split src ''/'')"
  shows "\<exists>rest. path_Join [stage, src] = strings_Join (stage # rest) ''/''"
proof -
  have split: "strings_Split (stage @ ''/'' @ src) ''/'' = stage # strings_Split src ''/''"
    using assms(1) split_slash_append [of stage src] by (simp add: plain_def strings_Split_notin)
  then have "''..'' \<notin> set (strings_Split (stage @ ''/'' @ src) ''/'')" using assms by (auto simp: plain_def)
  from path_elems_no_dotdot [OF this, of False] split assms(1)
  have elems: "\<exists>rest. path_elems False (stage @ ''/'' @ src) = stage # rest" by (simp add: plain_def)
  have "\<not> filepath_IsAbs (stage @ ''/'' @ src)"
    using assms(1) by (cases stage) (auto simp: plain_def filepath_IsAbs_def strings_HasPrefix_def)
  with elems assms show ?thesis by (auto simp: path_Join_def path_Clean_def plain_def Let_def)
qed

lemma takeWhile_stage:
  assumes "slash \<notin> set stage" shows "takeWhile (\<lambda>c. c \<noteq> slash) (strings_Join (stage # rest) ''/'') = stage"
proof -
  from assms have all: "takeWhile (\<lambda>c. c \<noteq> slash) stage = stage" by (simp add: takeWhile_eq_all_conv) blast
  with assms show ?thesis by (cases rest) (auto simp: takeWhile_append)
qed

lemma stacker_host_stage:
  assumes "plain stage" shows "stacker_host (''stacker://'' @ strings_Join (stage # rest) ''/'') = [stage]"
proof -
  have "str_cut ''://'' (''stacker://'' @ q) = Some (''stacker'', q)" for q by simp
  from dockerish_Some [OF this] takeWhile_stage [of stage rest] assms show ?thesis
    unfolding stacker_host_def plain_def by presburger
qed

lemma copy_flag_from: "copy_flag src imp (''--from='' @ stage) =
    Inr (imp\<lparr>imp_Path := ''stacker://'' @ path_Join [stage, src]\<rparr>)"
proof -
  have "strings_TrimPrefix (''--from='' @ stage) ''--from='' = stage" by (rule TrimPrefix_append)
  then show ?thesis unfolding copy_flag_def strings_HasPrefix_def by simp
qed

section \<open>Volumes\<close>

text \<open>Every bind that the converter makes from a volume stands for a key that the substitutions define.\<close>

definition binds_defined :: "Converter \<Rightarrow> bool" where
  "binds_defined c = (\<forall>l \<in> ran (map_of (cv_output c)). \<forall>b \<in> set (lay_Binds l).
     \<exists>k. k \<in> dom (map_of (cv_subs c)) \<and> bind_Source b = ''${{'' @ k @ ''}}'')"

text \<open>What a step may do: keep binds, or add one for a key it defines; never lose a substitution.\<close>

definition binds_step :: "Converter \<Rightarrow> Converter \<Rightarrow> bool" where
  "binds_step c c' =
     (dom (map_of (cv_subs c)) \<subseteq> dom (map_of (cv_subs c')) \<and>
      (\<forall>l' \<in> ran (map_of (cv_output c')). \<forall>b \<in> set (lay_Binds l').
         (\<exists>l \<in> ran (map_of (cv_output c)). b \<in> set (lay_Binds l)) \<or>
         (\<exists>k. k \<in> dom (map_of (cv_subs c')) \<and> bind_Source b = ''${{'' @ k @ ''}}'')))"

lemma binds_step_defined: "binds_step c c' \<Longrightarrow> binds_defined c \<Longrightarrow> binds_defined c'"
  unfolding binds_step_def binds_defined_def by (meson subsetD)

lemma binds_step_refl: "cv_output c' = cv_output c \<Longrightarrow> dom (map_of (cv_subs c)) \<subseteq> dom (map_of (cv_subs c')) \<Longrightarrow> binds_step c c'"
  by (auto simp: binds_step_def)

lemma cur_layer_ran: "cur_layer c = Inr l \<Longrightarrow> l \<in> ran (map_of (cv_output c))"
  by (auto simp: cur_layer_def ran_def split: if_splits option.splits)

lemma ran_map_put: "l' \<in> ran (map_of (map_put n l m)) \<Longrightarrow> l' = l \<or> l' \<in> ran (map_of m)"
  by (auto simp: ran_def split: if_splits)

lemma binds_step_set:
  assumes "cv_output c' = map_put n l (cv_output c)" "dom (map_of (cv_subs c)) \<subseteq> dom (map_of (cv_subs c'))"
    and "\<And>b. b \<in> set (lay_Binds l) \<Longrightarrow> (\<exists>l0. cur_layer c = Inr l0 \<and> b \<in> set (lay_Binds l0)) \<or>
         (\<exists>k. k \<in> dom (map_of (cv_subs c')) \<and> bind_Source b = ''${{'' @ k @ ''}}'')"
  shows "binds_step c c'"
  unfolding binds_step_def assms(1) using assms(2,3) by (blast dest: ran_map_put cur_layer_ran)

lemma add_run_binds [simp]: "lay_Binds (add_run ls l) = lay_Binds l"
  by (simp add: add_run_def)

lemma convert_binds_step:
  assumes "convertCommand sq g cmd c = Inr c'" shows "binds_step c c'"
proof -
  have zero: "lay_Binds zero_layer = []" by (simp add: zero_layer_def)
  have "conv_env cmd c = Inr c' \<Longrightarrow> ?thesis" "conv_user cmd c = Inr c' \<Longrightarrow> ?thesis" "conv_arg cmd c = Inr c' \<Longrightarrow> ?thesis"
    by (rule binds_step_refl; auto simp: conv_env_def conv_user_def conv_arg_def res_simps Let_def split: if_splits list.splits)+
  moreover have "conv_run sq cmd c = Inr c' \<Longrightarrow> ?thesis"
    by (cases "run_lines sq cmd c = []") (auto simp: conv_run_eq res_simps binds_step_refl intro!: binds_step_set)
  moreover have "conv_label cmd c = Inr c' \<Longrightarrow> ?thesis" "conv_maintainer cmd c = Inr c' \<Longrightarrow> ?thesis" "conv_workdir cmd c = Inr c' \<Longrightarrow> ?thesis"
    "conv_copy cmd c = Inr c' \<Longrightarrow> ?thesis" "conv_volume cmd c = Inr c' \<Longrightarrow> ?thesis" "conv_from g cmd c = Inr c' \<Longrightarrow> ?thesis"
    by (auto simp: conv_label_def conv_maintainer_def conv_workdir_def conv_copy_def conv_volume_def
        conv_from_def Let_def res_simps zero intro!: binds_step_set split: if_splits)
  moreover have "rbind (cur_layer c) (\<lambda>layer. Inr (set_layer (layer\<lparr>lay_Cmd := v\<rparr>) c)) = Inr c' \<Longrightarrow> ?thesis"
    "rbind (cur_layer c) (\<lambda>layer. Inr (set_layer (layer\<lparr>lay_Entrypoint := v\<rparr>) c)) = Inr c' \<Longrightarrow> ?thesis" for v
    by (auto simp: res_simps intro!: binds_step_set)
  ultimately show ?thesis using assms
    by (simp add: convertCommand_def Let_def binds_step_refl split: if_splits)
qed

section \<open>Properties\<close>

text \<open>
  C30. A Dockerfile that starts with \<open>FROM\<close> and gives every directive its arguments is
  converted without a crash: converting it may fail, on a directive that is not supported,
  but never by a nil pointer or an index out of range. The arguments may be empty, but for the name
  of a stage.
\<close>

theorem convert_no_panic:
  assumes "convert_commands env (child # children) NewConverter = Inl e"
    and "strings_ToLower (cmd_Cmd (node_command child)) = ''from''"
    and "list_all (\<lambda>ch. cmd_ok (node_command ch)) (child # children)"
  shows "\<not> is_panic e"
proof -
  let ?step = "\<lambda>c ch. convertCommand (ce_shquot env) (ce_GOARCH env) (node_command ch) c"
  have rest: "\<not> is_panic e" if "rfold ?step c chs = Inl e" "on_layer c" "cv_currLayer c \<noteq> []"
    "list_all (\<lambda>ch. cmd_ok (node_command ch)) chs" for c chs
    using that
  proof (induction chs arbitrary: c)
    case (Cons ch chs)
    show ?case
    proof (cases "?step c ch")
      case (Inl e')
      then have "?step c ch = Inl e" using Cons.prems(1) by simp
      moreover have "cmd_ok (node_command ch)" using Cons.prems(4) by simp
      ultimately show ?thesis using convert_step_no_panic [OF Cons.prems(2) disjI1 [OF Cons.prems(3)]] by blast
    next
      case (Inr c')
      have ok: "cmd_ok (node_command ch)" using Cons.prems(4) by simp
      have "cv_currLayer c' \<noteq> []"
      proof (cases "strings_ToLower (cmd_Cmd (node_command ch)) = ''from''")
        case True
        with Inr ok show ?thesis
          by (auto simp: convertCommand_def conv_from_def Let_def res_simps cmd_ok_def split: if_splits)
      next
        case False
        with convert_other [OF Inr False] Cons.prems(3) show ?thesis by (simp add: same_elsewhere_def)
      qed
      with Cons.IH [of c'] Cons.prems Inr convert_on_layer [OF Inr Cons.prems(2)] show ?thesis by simp
    qed
  qed simp
  have on: "on_layer NewConverter" by (simp add: on_layer_def NewConverter_def)
  have ok: "cmd_ok (node_command child)" using assms(3) by simp
  show ?thesis
  proof (cases "?step NewConverter child")
    case (Inl e')
    then have "?step NewConverter child = Inl e" using assms(1) by (simp add: convert_commands_def)
    with convert_step_no_panic [OF on disjI2 [OF assms(2)] ok] show ?thesis by blast
  next
    case (Inr c')
    have "cv_currLayer c' \<noteq> []"
      using Inr assms(2) ok
      by (auto simp: convertCommand_def conv_from_def Let_def res_simps cmd_ok_def split: if_splits)
    with rest [of c' children] Inr assms(1,3) convert_on_layer [OF Inr on] show ?thesis by (simp add: convert_commands_def)
  qed
qed


text \<open>\<open>FROM alpine\<close>, \<open>ENV A b\<close>, \<open>ENV A=\<close>, \<open>LABEL l=\<close>, and a directive that does not exist.\<close>

lemma convert_no_panic_witness:
  "\<not> is_panic (Errorf ''unknown Dockerfile cmd: %s'' [''BOGUS''])"
proof -
  let ?vals = "foldr (\<lambda>v n. Some (DF v [] [] False [] n))"
  let ?from = "DF ''FROM'' ''FROM alpine'' [] False [] (?vals [''alpine''] None)"
  let ?env1 = "DF ''ENV'' ''ENV A b'' [] False [] (?vals [''A'', ''b'', []] None)"
  let ?env2 = "DF ''ENV'' ''ENV A='' [] False [] (?vals [''A'', [], ''=''] None)"
  let ?label = "DF ''LABEL'' ''LABEL l='' [] False [] (?vals [''l'', [], ''=''] None)"
  let ?bogus = "DF ''BOGUS'' ''BOGUS'' [] False [] None"
  let ?env = "\<lparr>ce_parse = (\<lambda>_. Inr []), ce_shquot = concat, ce_yaml_layers = (\<lambda>_. Inr []), ce_yaml_subs = (\<lambda>_. Inr []),
     ce_GOARCH = ''amd64''\<rparr> :: unit convert_env"
  show ?thesis
    by (rule convert_no_panic [of ?env ?from "[?env1, ?env2, ?label, ?bogus]"]) code_simp+
qed

text \<open>
  \<open>COPY --from=stage\<close> makes the stage a layer that the current layer depends on: the
  stackerfile that is written builds the stages in an order in which the copy can be done.
\<close>

theorem copy_from_depends_on_stage:
  assumes "convertCommand sq g cmd c = Inr c'" "strings_ToLower (cmd_Cmd cmd) = ''copy''"
    and "cmd_Flags cmd = [''--from='' @ stage]" "cmd_Value cmd = [src, dest]"
    and "plain stage" "src \<noteq> []" "''..'' \<notin> set (strings_Split src ''/'')"
  shows "\<exists>l. map_of (cv_output c') (cv_currLayer c') = Some l \<and> stage \<in> set (layer_deps l)"
proof -
  obtain rest where "path_Join [stage, src] = strings_Join (stage # rest) ''/''"
    using path_Join_stage [OF assms(5-7)] by blast
  with stacker_host_stage [OF assms(5), of rest]
  have "stacker_host (''stacker://'' @ path_Join [stage, src]) = [stage]" by simp
  moreover have "conv_copy cmd c = Inr c'" using assms(1,2) by (simp add: convertCommand_def Let_def)
  moreover have "rfold (copy_flag src) imp (cmd_Flags cmd) = Inr (imp\<lparr>imp_Path := ''stacker://'' @ path_Join [stage, src]\<rparr>)" for imp
    unfolding assms(3) rfold.simps copy_flag_from rbind.simps ..
  ultimately show ?thesis
    using assms(4) by (auto simp: conv_copy_def Let_def val_at_def res_simps layer_deps_def)
qed

text \<open>
  A volume becomes a bind whose source is a placeholder, and the substitutions that are
  written beside the stackerfile define every such placeholder.
\<close>

theorem converted_volumes_defined:
  assumes "convert_commands env children NewConverter = Inr c"
  shows "binds_defined c"
proof -
  have "binds_defined NewConverter" by (simp add: binds_defined_def NewConverter_def)
  then show ?thesis
    by (rule rfold_invariant [OF assms [unfolded convert_commands_def]])
      (auto intro: binds_step_defined convert_binds_step)
qed

lemma copy_from_depends_on_stage_witness:
  "\<exists>l. map_of [(''app'', zero_layer\<lparr>lay_Imports := [\<lparr>imp_Path = ''stacker://build/bin/app'', imp_Hash = [], imp_Dest = ''/bin/app'',
      imp_Mode = None, imp_Uid = 0, imp_Gid = 0\<rparr>]\<rparr>)] ''app'' = Some l \<and> ''build'' \<in> set (layer_deps l)"
proof -
  let ?c = "NewConverter\<lparr>cv_currLayer := ''app'', cv_output := [(''app'', zero_layer)]\<rparr>"
  let ?cmd = "\<lparr>cmd_Cmd = ''COPY'', cmd_SubCmd = [], cmd_Json = False, cmd_Original = [], cmd_Flags = [''--from='' @ ''build''],
      cmd_Value = [''/bin/app'', ''/bin/app'']\<rparr>"
  let ?l = "zero_layer\<lparr>lay_Imports := [\<lparr>imp_Path = ''stacker://build/bin/app'', imp_Hash = [], imp_Dest = ''/bin/app'',
      imp_Mode = None, imp_Uid = 0, imp_Gid = 0\<rparr>]\<rparr>"
  have "convertCommand concat ''amd64'' ?cmd ?c = Inr (?c\<lparr>cv_output := [(''app'', ?l)]\<rparr>)" by code_simp
  from copy_from_depends_on_stage [OF this, of "''build''" "''/bin/app''" "''/bin/app''"]
  have "\<exists>l. map_of (cv_output (?c\<lparr>cv_output := [(''app'', ?l)]\<rparr>)) (cv_currLayer (?c\<lparr>cv_output := [(''app'', ?l)]\<rparr>)) = Some l \<and>
      ''build'' \<in> set (layer_deps l)"
    by (rule meta_mp) code_simp+
  then show ?thesis by simp
qed

lemma converted_volumes_defined_witness:
  "\<exists>c. binds_defined c \<and> cv_subs c = [(''IMAGE'', ''app''), (''STACKER_VOL1'', ''/data'')] \<and>
     map (lay_Binds \<circ> snd) (cv_output c) = [[\<lparr>bind_Source = ''${{STACKER_VOL1}}'', bind_Dest = ''/data''\<rparr>]]"
proof -
  let ?from = "DF ''FROM'' ''FROM alpine'' [] False [] (Some (DF ''alpine'' [] [] False [] None))"
  let ?vol = "DF ''VOLUME'' ''VOLUME /data'' [] False [] (Some (DF ''/data'' [] [] False [] None))"
  let ?env = "\<lparr>ce_parse = (\<lambda>_. Inr []), ce_shquot = concat, ce_yaml_layers = (\<lambda>_. Inr []), ce_yaml_subs = (\<lambda>_. Inr []),
     ce_GOARCH = ''amd64''\<rparr> :: unit convert_env"
  let ?r = "convert_commands ?env [?from, ?vol] NewConverter"
  have ok: "is_ok ?r \<and> cv_subs (projr ?r) = [(''IMAGE'', ''app''), (''STACKER_VOL1'', ''/data'')] \<and>
      map (lay_Binds \<circ> snd) (cv_output (projr ?r)) = [[\<lparr>bind_Source = ''${{STACKER_VOL1}}'', bind_Dest = ''/data''\<rparr>]]"
    by code_simp
  then obtain c where c: "?r = Inr c" by (cases ?r) auto
  from converted_volumes_defined [OF c] ok c show ?thesis by auto
qed

end
