(* ===== verification/Lib_Files.thy ===== *)
theory Lib_Files
  imports Go_Os Layer_Def
begin

text \<open>
  Copying, hashing and searching files: \<^verbatim>\<open>pkg/lib/file.go\<close>, \<^verbatim>\<open>pkg/lib/dir.go\<close> and
  \<^verbatim>\<open>pkg/lib/hash.go\<close>, over the file system of \<open>Go_Os\<close>. The SHA-256 function is a parameter.
\<close>

section \<open>Definitions\<close>

definition coudnt :: "string \<Rightarrow> string" where
  "coudnt what = ''Coudn'' @ [CHR 0x27] @ ''t '' @ what"

definition couldnt :: "string \<Rightarrow> string" where
  "couldnt what = ''couldn'' @ [CHR 0x27] @ ''t '' @ what"

text \<open>\<^verbatim>\<open>errors.WithStack\<close> adds a stack trace, which makes it another error value that wraps the first.\<close>

definition WithStack :: "('x, 'a) io \<Rightarrow> ('x, 'a) io" where
  "WithStack m = io_wrap [] [] m"

lemma WithStack_Inr [io_simps]: "WithStack m w = (Inr a, w') \<longleftrightarrow> m w = (Inr a, w')"
  by (simp add: WithStack_def io_simps)

definition FileCopy :: "string \<Rightarrow> string \<Rightarrow> nat option \<Rightarrow> int \<Rightarrow> int \<Rightarrow> ('x, unit) io" where
  "FileCopy dest source mode uid gid =
     io_bind (os_RemoveAll dest) (\<lambda>_.
     io_bind (io_wrap (coudnt ''stat link %s'') [source] (os_Lstat source)) (\<lambda>linkFI.
       if node_IsLink linkFI then
         io_bind (io_wrap (coudnt ''read link %s'') [source] (os_Readlink source)) (\<lambda>target.
         io_bind (io_wrap (''Couldn'' @ [CHR 0x27] @ ''t symlink %s->%s'') [source, target] (os_Symlink target dest)) (\<lambda>_.
           io_wrap (''Couldn'' @ [CHR 0x27] @ ''t set symlink ownership %s'') [dest] (os_Lchown dest uid gid)))
       else
         io_bind (io_wrap (coudnt ''stat file %s'') [source] (os_Stat source)) (\<lambda>fi.
         io_bind (io_wrap (coudnt ''create file %s'') [dest] (os_WriteFile dest [] 438)) (\<lambda>_.
         io_bind (io_wrap (coudnt ''chmod file %s'') [source]
           (os_Chmod dest (case mode of Some m \<Rightarrow> m | None \<Rightarrow> node_Mode fi))) (\<lambda>_.
         io_bind (io_wrap (coudnt ''chown file %s'') [source] (os_Lchown dest uid gid)) (\<lambda>_.
           case fi of File content _ _ \<Rightarrow> os_WriteFile dest content 438 | _ \<Rightarrow> io_err EISDIR))))))"

definition FileCopyNoPerms :: "string \<Rightarrow> string \<Rightarrow> ('x, unit) io" where
  "FileCopyNoPerms dest source = FileCopy dest source None UidEmpty GidEmpty"

text \<open>
  \<^verbatim>\<open>filepath.Walk\<close>: the paths it visits, directories before their contents, the contents sorted.
  The number is the depth it may reach, and the entries of the file system bound it.
\<close>

fun walk_tree :: "nat \<Rightarrow> fs \<Rightarrow> string \<Rightarrow> string \<Rightarrow> (string \<times> node) list" where
  "walk_tree 0 m k p = []"
| "walk_tree (Suc n) m k p =
     (case lnode m k of
        None \<Rightarrow> []
      | Some Dir \<Rightarrow> (p, Dir) #
          concat (map (\<lambda>(name, _). walk_tree n m (path_Join [k, name]) (path_Join [p, name])) (dir_entries m k))
      | Some nd \<Rightarrow> [(p, nd)])"

definition FindFiles :: "string \<Rightarrow> string \<Rightarrow> ('x, string list) io" where
  "FindFiles base pattern =
     io_bind (io_res (regexp_Compile pattern)) (\<lambda>re.
     io_bind (os_Lstat base) (\<lambda>_.
     io_bind io_get (\<lambda>w.
       io_ret (map fst (filter (\<lambda>(p, info). \<not> node_IsDir info \<and> re_MatchString re p)
         (walk_tree (Suc (length (w_fs w))) (w_fs w) (w_key w base) base))))))"

definition IsSymlink :: "string \<Rightarrow> ('x, bool) io" where
  "IsSymlink p = io_bind (os_Lstat p) (\<lambda>statInfo. io_ret (node_IsLink statInfo))"

definition PathExists :: "string \<Rightarrow> ('x, bool) io" where
  "PathExists p =
     io_bind (io_try (os_Stat p)) (\<lambda>st.
       case st of
         Inl _ \<Rightarrow> io_bind (io_try (IsSymlink p)) (\<lambda>isLink. io_ret (case isLink of Inl _ \<Rightarrow> False | Inr b \<Rightarrow> b))
       | Inr _ \<Rightarrow> io_ret True)"

fun DirCopy :: "nat \<Rightarrow> string \<Rightarrow> string \<Rightarrow> ('x, unit) io" where
  "DirCopy 0 dest source = io_err (Panic ''stack overflow'')"
| "DirCopy (Suc n) dest source =
     io_bind (io_wrap (coudnt ''stat %s'') [source] (os_Stat source)) (\<lambda>srcinfo.
     io_bind (io_wrap (coudnt ''stat link %s'') [source] (os_Lstat source)) (\<lambda>linkFI.
       if node_IsLink linkFI then
         io_bind (io_wrap (coudnt ''read link %s'') [source] (os_Readlink source)) (\<lambda>target. os_Symlink target dest)
       else
         io_bind (io_wrap (coudnt ''mkdir %s'') [dest] (os_MkdirAll dest (node_Mode srcinfo))) (\<lambda>_.
         io_bind (io_wrap (coudnt ''read dir %s'') [source] (os_ReadDir source)) (\<lambda>fds.
           io_each (\<lambda>(name, fd).
             if node_IsDir fd then DirCopy n (path_Join [dest, name]) (path_Join [source, name])
             else FileCopyNoPerms (path_Join [dest, name]) (path_Join [source, name])) fds))))"

definition CopyThing :: "nat \<Rightarrow> string \<Rightarrow> string \<Rightarrow> ('x, unit) io" where
  "CopyThing n srcpath destpath =
     io_bind (WithStack (os_Lstat srcpath)) (\<lambda>srcInfo.
       if node_IsDir srcInfo then DirCopy n destpath srcpath
       else FileCopy destpath srcpath None (-1) (-1))"

definition lib_Chmod :: "string \<Rightarrow> string \<Rightarrow> ('x, unit) io" where
  "lib_Chmod mode destpath =
     io_bind (WithStack (os_Lstat destpath)) (\<lambda>destInfo.
       if node_IsDir destInfo then WithStack (io_err EINVAL)
       else if node_IsLink destInfo then WithStack (io_err EINVAL)
       else io_bind (WithStack (io_res (strconv_ParseUint_base mode 8 32))) (\<lambda>iperms. os_Chmod destpath iperms))"

definition lib_Chown :: "string \<Rightarrow> string \<Rightarrow> ('x, unit) io" where
  "lib_Chown owner destpath =
     io_bind (WithStack (os_Lstat destpath)) (\<lambda>destInfo.
       if node_IsDir destInfo then WithStack (io_err EINVAL)
       else
         (let owns = strings_Split owner '':'' in
          if 2 < length owns then WithStack (io_err EINVAL)
          else io_bind (WithStack (io_res (strconv_ParseInt_base (owns ! 0) 10 32))) (\<lambda>uid.
               io_bind (if 1 < length owns then WithStack (io_res (strconv_ParseInt_base (owns ! 1) 10 32))
                        else io_ret (-1)) (\<lambda>gid.
                 os_Lchown destpath uid gid))))"

text \<open>The digest of a file, of its content and, if asked, its mode as text.\<close>

definition HashFile :: "(string \<Rightarrow> string) \<Rightarrow> string \<Rightarrow> bool \<Rightarrow> ('x, string) io" where
  "HashFile sha256 p includeMode =
     io_bind (io_wrap (couldnt ''open %s for hashing'') [p] (os_Stat p)) (\<lambda>fi.
       case fi of
         File content perm _ \<Rightarrow>
           io_ret (''sha256:'' @ sha256 (content @ (if includeMode then FileMode_String False perm else [])))
       | _ \<Rightarrow> io_wrap (couldnt ''copy %s for hashing'') [p] (io_err EISDIR))"

section \<open>Facts\<close>

lemma write_at_new:
  assumes "lnode m k = None"
  shows "write_at m k c p = (if parent_ok m k then Inr (set_node k (File c p (0, 0)) m) else Inl ENOENT)"
  using assms by (simp add: write_at_def follow_41)

lemma write_at_old:
  assumes "lnode m k = Some (File c0 p0 own)"
  shows "write_at m k c p = Inr (set_node k (File c p0 own) m)"
  using assms by (simp add: write_at_def follow_41)

lemma node_Mode_File [simp]: "node_Mode (File c p own) = p"
  by (simp add: node_Mode_def)

lemma os_WriteFile_Inr [io_simps]: "os_WriteFile p c perm w = (Inr u, w') \<longleftrightarrow>
    (\<exists>m. write_at (w_fs w) (w_key w p) c perm = Inr m \<and> w' = w\<lparr>w_fs := m\<rparr>)"
  by (auto simp: os_WriteFile_def split: sum.splits)

lemma os_Symlink_Inr [io_simps]: "os_Symlink t p w = (Inr u, w') \<longleftrightarrow>
    lnode (w_fs w) (w_key w p) = None \<and> parent_ok (w_fs w) (w_key w p) \<and>
    w' = w\<lparr>w_fs := set_node (w_key w p) (Symlink t) (w_fs w)\<rparr>"
  by (auto simp: os_Symlink_def Let_def)

text \<open>What a fresh file is after \<^verbatim>\<open>chmod\<close> and \<^verbatim>\<open>chown\<close>.\<close>

definition given :: "int \<Rightarrow> int" where
  "given i = (if i = -1 then 0 else i)"

lemma chmod_file: "lnode (w_fs w) (w_key w f) = Some (File c p own) \<Longrightarrow>
    os_Chmod f perm w = (Inr (), w\<lparr>w_fs := set_node (w_key w f) (File c (syscall_mode perm) own) (w_fs w)\<rparr>)"
  by (simp add: os_Chmod_def follow_41)

lemma chown_file: "lnode (w_fs w) (w_key w f) = Some (File c p (0, 0)) \<Longrightarrow>
    os_Lchown f uid gid w = (Inr (), w\<lparr>w_fs := set_node (w_key w f) (File c p (given uid, given gid)) (w_fs w)\<rparr>)"
  by (simp add: os_Lchown_def Let_def given_def)

lemma chown_link: "lnode (w_fs w) (w_key w f) = Some (Symlink t) \<Longrightarrow> os_Lchown f uid gid w = (Inr (), w)"
  by (simp add: os_Lchown_def Let_def)

text \<open>Paths that are straight stay straight while files at them change.\<close>

lemma straight_remove: "straight w p \<Longrightarrow> straight (w\<lparr>w_fs := remove_under d (w_fs w)\<rparr>) p"
  by (simp add: straight_def link_above_remove)

lemma straight_file: "straight w p \<Longrightarrow> straight (w\<lparr>w_fs := set_node d (File c perm own) (w_fs w)\<rparr>) p"
  by (simp add: straight_def link_above_set node_IsLink_def)

lemma straight_self: "straight w p \<Longrightarrow> straight (w\<lparr>w_fs := set_node (filepath_Abs (w_cwd w) p) n (w_fs w)\<rparr>) p"
proof -
  assume "straight w p"
  moreover have "\<not> prefix (k @ ''/'') k" for k :: string by (auto simp: prefix_def)
  ultimately show ?thesis by (simp add: straight_def link_above_set)
qed

text \<open>The copy of a node.\<close>

definition copied :: "nat option \<Rightarrow> int \<Rightarrow> int \<Rightarrow> node \<Rightarrow> node" where
  "copied mode uid gid n =
     (case n of
        File c perm own \<Rightarrow> File c (syscall_mode (case mode of Some p \<Rightarrow> p | None \<Rightarrow> perm)) (given uid, given gid)
      | n \<Rightarrow> n)"

lemma FileCopy_node:
  assumes copy: "FileCopy dest source mode uid gid w = (Inr (), w')"
    and dest: "straight w dest" and source: "straight w source"
  shows "\<exists>n m. lnode (remove_under (w_key w dest) (w_fs w)) (w_key w source) = Some n \<and> n \<noteq> Dir \<and>
    w' = w\<lparr>w_fs := m\<rparr> \<and> w_key w dest \<noteq> ''/'' \<and>
    (\<forall>k. lnode m k = (if k = w_key w dest then Some (copied mode uid gid n)
                      else lnode (remove_under (w_key w dest) (w_fs w)) k))"
proof -
  obtain d s where ds: "filepath_Abs (w_cwd w) dest = d" "filepath_Abs (w_cwd w) source = s" by simp
  define w1 where w1: "w1 = w\<lparr>w_fs := remove_under d (w_fs w)\<rparr>"
  have key: "w_key w dest = d" "w_key w source = s" using dest source ds by (simp_all add: w_key_straight)
  have st1: "straight w1 dest" "straight w1 source" and cwd1: "w_cwd w1 = w_cwd w"
    using dest source by (simp_all add: w1 straight_remove)
  have key1: "w_key w1 dest = d" "w_key w1 source = s" using st1 ds cwd1 by (simp_all add: w_key_straight)
  have rm: "os_RemoveAll dest w = (Inr (), w1)" by (simp add: os_RemoveAll_def key w1)
  obtain n where n: "lnode (w_fs w1) s = Some n"
    using copy by (auto simp: FileCopy_def io_bind_def rm io_wrap_def os_Lstat_def key1 split: option.splits)
  then have lst: "os_Lstat source w1 = (Inr n, w1)" by (simp add: os_Lstat_def key1)
  have start: "FileCopy dest source mode uid gid w =
    (if node_IsLink n then
       io_bind (io_wrap (coudnt ''read link %s'') [source] (os_Readlink source)) (\<lambda>target.
       io_bind (io_wrap (''Couldn'' @ [CHR 0x27] @ ''t symlink %s->%s'') [source, target] (os_Symlink target dest)) (\<lambda>_.
         io_wrap (''Couldn'' @ [CHR 0x27] @ ''t set symlink ownership %s'') [dest] (os_Lchown dest uid gid)))
     else
       io_bind (io_wrap (coudnt ''stat file %s'') [source] (os_Stat source)) (\<lambda>fi.
       io_bind (io_wrap (coudnt ''create file %s'') [dest] (os_WriteFile dest [] 438)) (\<lambda>_.
       io_bind (io_wrap (coudnt ''chmod file %s'') [source]
         (os_Chmod dest (case mode of Some m \<Rightarrow> m | None \<Rightarrow> node_Mode fi))) (\<lambda>_.
       io_bind (io_wrap (coudnt ''chown file %s'') [source] (os_Lchown dest uid gid)) (\<lambda>_.
         case fi of File content _ _ \<Rightarrow> os_WriteFile dest content 438 | _ \<Rightarrow> io_err EISDIR))))) w1"
    by (simp add: FileCopy_def io_bind_def [of "os_RemoveAll dest"] rm io_bind_def [of "io_wrap _ _ (os_Lstat source)"] io_wrap_def [of _ _ "os_Lstat source"] lst)
  have goal: ?thesis if "n \<noteq> Dir" "d \<noteq> ''/''" "w' = w1\<lparr>w_fs := m\<rparr>"
    "\<And>k. lnode m k = (if k = d then Some (copied mode uid gid n) else lnode (w_fs w1) k)" for m
    using that n by (auto simp: key w1)
  show ?thesis
  proof (cases n)
    case (Symlink t)
    then obtain w2 where w2: "os_Symlink t dest w1 = (Inr (), w2)" "os_Lchown dest uid gid w2 = (Inr (), w')"
      using copy n by (auto simp: start io_simps node_IsLink_def key1 simp del: os_Symlink_Inr)
    then have new: "lnode (w_fs w1) d = None" "w2 = w1\<lparr>w_fs := set_node d (Symlink t) (w_fs w1)\<rparr>"
      by (auto simp: io_simps key1)
    then have d: "d \<noteq> ''/''" by (auto simp: lnode_def)
    have "w_key w2 dest = d" using straight_self [OF st1(1), of "Symlink t"] new(2) ds cwd1 by (simp add: w_key_straight)
    with new d w2(2) chown_link [of w2 dest t uid gid] Symlink show ?thesis
      by (intro goal [of "set_node d (Symlink t) (w_fs w1)"]) (auto simp: copied_def)
  next
    case (File c perm own)
    then have stat: "os_Stat source w1 = (Inr n, w1)" using n by (simp add: os_Stat_def key1 stat_at_node node_IsLink_def)
    have d: "d \<noteq> ''/''"
    proof
      assume "d = ''/''"
      then have "write_at (w_fs w1) d [] 438 = Inl EISDIR" by (simp add: write_at_def follow_41 lnode_def)
      with copy n File stat show False by (auto simp: start io_simps node_IsLink_def key1)
    qed
    then have none: "lnode (w_fs w1) d = None" by (simp add: w1 lnode_remove_under)
    let ?p = "case mode of Some m \<Rightarrow> m | None \<Rightarrow> perm"
    define put where "put = (\<lambda>f (w :: 'a world). w\<lparr>w_fs := set_node d f (w_fs w)\<rparr>)"
    define w2 w3 w4 where ws: "w2 = put (File [] 438 (0, 0)) w1" "w3 = put (File [] (syscall_mode ?p) (0, 0)) w2"
      "w4 = put (File [] (syscall_mode ?p) (given uid, given gid)) w3"
    have st: "straight w2 dest" "straight w3 dest" "straight w4 dest"
      unfolding ws put_def by (intro straight_file st1(1))+
    have keys: "w_key w2 dest = d" "w_key w3 dest = d" "w_key w4 dest = d"
      using st ds cwd1 by (simp_all add: w_key_straight ws put_def)
    have p: "(case mode of Some m \<Rightarrow> m | None \<Rightarrow> node_Mode (File c perm own)) = ?p" by (cases mode) simp_all
    have create: "os_WriteFile dest [] 438 w1 = (Inr (), w2)"
      using copy File none by (auto simp: start io_simps node_IsLink_def key1 stat write_at_new ws put_def split: if_splits)
    have chmod: "os_Chmod dest ?p w2 = (Inr (), w3)"
      using chmod_file [of w2 dest "[]" 438 "(0, 0)" ?p] d by (simp add: keys) (simp add: ws put_def)
    have chown: "os_Lchown dest uid gid w3 = (Inr (), w4)"
      using chown_file [of w3 dest "[]" "syscall_mode ?p" uid gid] d by (simp add: keys) (simp add: ws put_def)
    have wrote: "os_WriteFile dest c 438 w4 = (Inr (), put (File c (syscall_mode ?p) (given uid, given gid)) w4)"
      using write_at_old [of "w_fs w4" d "[]" "syscall_mode ?p" "(given uid, given gid)" c 438] d
      by (simp add: os_WriteFile_def keys) (simp add: ws put_def)
    have "w' = put (File c (syscall_mode ?p) (given uid, given gid)) w4"
      using copy File by (auto simp: start io_simps node_IsLink_def stat create chmod chown wrote p simp del: os_WriteFile_Inr)
    with File d show ?thesis
      by (intro goal [of "w_fs (put (File c (syscall_mode ?p) (given uid, given gid)) w4)"]) (simp_all add: copied_def ws put_def)
  next
    case Dir
    then have "os_Stat source w1 = (Inr Dir, w1)" using n by (simp add: os_Stat_def key1 stat_at_node node_IsLink_def)
    with copy n Dir show ?thesis by (auto simp: start io_simps node_IsLink_def)
  qed
qed

section \<open>Properties\<close>

text \<open>
  A successful copy puts at the destination a node like the one at the source, with the
  mode and the owner that were asked for (no link among the directories of the two paths), and changes nothing that is not at or below the
  destination; the source itself is not at or below it, and is not a directory.
\<close>

theorem file_copy_result:
  assumes "FileCopy dest source mode uid gid w = (Inr (), w')" "straight w dest" "straight w source"
  shows "\<exists>n. lnode (w_fs w) (w_key w source) = Some n \<and> n \<noteq> Dir \<and>
      lnode (w_fs w') (w_key w dest) = Some (copied mode uid gid n) \<and>
      \<not> under (w_key w dest) (w_key w source) \<and>
      (\<forall>k. k \<noteq> ''/'' \<longrightarrow> \<not> under (w_key w dest) k \<longrightarrow> lnode (w_fs w') k = lnode (w_fs w) k)"
proof -
  obtain n m where n: "lnode (remove_under (w_key w dest) (w_fs w)) (w_key w source) = Some n" "n \<noteq> Dir"
    and w': "w' = w\<lparr>w_fs := m\<rparr>" and root: "w_key w dest \<noteq> ''/''"
    and m: "\<And>k. lnode m k = (if k = w_key w dest then Some (copied mode uid gid n)
       else lnode (remove_under (w_key w dest) (w_fs w)) k)"
    using FileCopy_node [OF assms] by metis
  have "w_key w source \<noteq> ''/''" using n by (auto simp: lnode_def)
  then have "\<not> under (w_key w dest) (w_key w source)"
    "lnode (w_fs w) (w_key w source) = Some n"
    using n(1) by (simp_all add: lnode_remove_under split: if_splits)
  with n(2) w' m show ?thesis by (auto simp: lnode_remove_under)
qed

definition sample_world :: "unit world" where
  "sample_world = \<lparr>w_fs = [(''/a'', Dir), (''/a/f'', File ''hello'' 420 (0, 0)), (''/b'', Dir), (''/b/old'', Dir),
     (''/b/old/x'', File [] 420 (0, 0)), (''/c'', Symlink ''/missing'')], w_cwd = ''/'', w_ext = ()\<rparr>"

definition copied_world :: "unit world" where
  "copied_world = snd (FileCopy ''/b/old'' ''/a/f'' (Some 493) 7 (-1) sample_world)"

lemma file_copy_result_witness:
  "\<exists>n. lnode (w_fs sample_world) (w_key sample_world ''/a/f'') = Some n \<and> n \<noteq> Dir \<and>
      lnode (w_fs copied_world) (w_key sample_world ''/b/old'') = Some (copied (Some 493) 7 (-1) n) \<and>
      \<not> under (w_key sample_world ''/b/old'') (w_key sample_world ''/a/f'') \<and>
      (\<forall>k. k \<noteq> ''/'' \<longrightarrow> \<not> under (w_key sample_world ''/b/old'') k \<longrightarrow> lnode (w_fs copied_world) k = lnode (w_fs sample_world) k)"
proof -
  have "FileCopy ''/b/old'' ''/a/f'' (Some 493) 7 (-1) sample_world = (Inr (), copied_world)" by code_simp
  moreover have "straight sample_world ''/b/old''" "straight sample_world ''/a/f''" by code_simp+
  ultimately show ?thesis by (rule file_copy_result)
qed

text \<open>
  Copying a file onto itself, or onto a directory above it, deletes it: the destination
  is removed before the source is looked at, and the copy then fails.
\<close>

theorem file_copy_onto_itself:
  assumes "straight w source" "under (w_key w dest) (w_key w source)" "w_key w source \<noteq> ''/''"
  shows "FileCopy dest source mode uid gid w =
     (Inl (Wrapf ENOENT (coudnt ''stat link %s'') [source]), w\<lparr>w_fs := remove_under (w_key w dest) (w_fs w)\<rparr>)"
proof -
  have "w_key (w\<lparr>w_fs := remove_under (w_key w dest) (w_fs w)\<rparr>) source = w_key w source"
    using straight_remove [OF assms(1)] assms(1) by (simp add: w_key_straight)
  with assms show ?thesis
    by (simp add: FileCopy_def os_RemoveAll_def io_bind_def io_wrap_def os_Lstat_def lnode_remove_under)
qed

lemma file_copy_onto_itself_witness:
  "fst (FileCopy ''/a/f'' ''/a/f'' None (-1) (-1) sample_world) = Inl (Wrapf ENOENT (coudnt ''stat link %s'') [''/a/f''])"
proof -
  have "under (w_key sample_world ''/a/f'') (w_key sample_world ''/a/f'')" by simp
  moreover have "straight sample_world ''/a/f''" by code_simp
  moreover have "w_key sample_world ''/a/f'' \<noteq> ''/''" by code_simp
  ultimately show ?thesis by (simp add: file_copy_onto_itself)
qed

text \<open>
  A path exists for \<^verbatim>\<open>PathExists\<close> exactly when there is something at it, a broken
  link included, and asking changes nothing.
\<close>

theorem path_exists_iff:
  "PathExists p w = (Inr (lnode (w_fs w) (w_key w p) \<noteq> None), w)"
proof (cases "lnode (w_fs w) (w_key w p)")
  case None
  then have "stat_at (w_fs w) (w_key w p) = Inl ENOENT" by (rule stat_at_None)
  with None show ?thesis
    by (simp add: PathExists_def IsSymlink_def io_bind_def io_try_def os_Stat_def os_Lstat_def io_ret_def)
next
  case (Some n)
  show ?thesis
  proof (cases "node_IsLink n")
    case True
    with Some show ?thesis
      by (cases "stat_at (w_fs w) (w_key w p)")
        (simp_all add: PathExists_def IsSymlink_def io_bind_def io_try_def os_Stat_def os_Lstat_def io_ret_def)
  next
    case False
    with Some show ?thesis
      by (simp add: PathExists_def io_bind_def io_try_def os_Stat_def io_ret_def stat_at_node)
  qed
qed

end
