(* ===== verification/Go_Encoding.thy ===== *)
theory Go_Encoding
  imports Go_Prelude
begin

text \<open>
  The base 64 encoding of Go's \<^verbatim>\<open>encoding/base64\<close> (\<^verbatim>\<open>StdEncoding\<close>, padded), which the build
  cache uses to store directory listings, and the fact the cache relies on: decoding gives the
  encoded bytes back.
\<close>

definition b64_alphabet :: string where
  "b64_alphabet = ''ABCDEFGHIJKLMNOPQRSTUVWXYZabcdefghijklmnopqrstuvwxyz0123456789+/''"

definition b64_char :: "nat \<Rightarrow> char" where
  "b64_char n = b64_alphabet ! n"

definition b64_val :: "char \<Rightarrow> nat option" where
  "b64_val c = List.find (\<lambda>n. b64_char n = c) [0..<64]"

definition b64_sextets :: "nat \<Rightarrow> string" where
  "b64_sextets n = map b64_char [n div 262144, n div 4096 mod 64, n div 64 mod 64, n mod 64]"

fun base64_Encode :: "string \<Rightarrow> string" where
  "base64_Encode [] = []"
| "base64_Encode [a] = take 2 (b64_sextets (65536 * of_char a)) @ ''==''"
| "base64_Encode [a, b] = take 3 (b64_sextets (65536 * of_char a + 256 * of_char b)) @ ''=''"
| "base64_Encode (a # b # c # rest) = b64_sextets (65536 * of_char a + 256 * of_char b + of_char c) @ base64_Encode rest"

definition b64_group :: "char list \<Rightarrow> nat option" where
  "b64_group cs = (if list_all (\<lambda>c. b64_val c \<noteq> None) cs then Some (foldl (\<lambda>n c. 64 * n + the (b64_val c)) 0 cs) else None)"

definition b64_bytes :: "nat \<Rightarrow> string" where
  "b64_bytes n = [char_of (n div 65536), char_of (n div 256 mod 256), char_of (n mod 256)]"

definition corrupt :: go_error where
  "corrupt = Ext ''illegal base64 data''"

fun b64_quads :: "string \<Rightarrow> string res" where
  "b64_quads [] = Inr []"
| "b64_quads (a # b # c # d # rest) =
     (if d = CHR ''='' \<and> rest = [] then
        (if c = CHR ''='' then
           (case b64_group [a, b] of None \<Rightarrow> Inl corrupt | Some n \<Rightarrow> Inr (take 1 (b64_bytes (4096 * n))))
         else (case b64_group [a, b, c] of None \<Rightarrow> Inl corrupt | Some n \<Rightarrow> Inr (take 2 (b64_bytes (64 * n)))))
      else (case b64_group [a, b, c, d] of
          None \<Rightarrow> Inl corrupt
        | Some n \<Rightarrow> rbind (b64_quads rest) (\<lambda>s. Inr (b64_bytes n @ s))))"
| "b64_quads _ = Inl corrupt"

definition base64_Decode :: "string \<Rightarrow> string res" where
  "base64_Decode s = b64_quads (filter (\<lambda>c. c \<noteq> CHR 0x0A \<and> c \<noteq> CHR 0x0D) s)"

lemma b64_val_char: "n < 64 \<Longrightarrow> b64_val (b64_char n) = Some n"
proof -
  assume "n < 64"
  then have "n \<in> set [0..<64]" by simp
  moreover have "list_all (\<lambda>n. b64_val (b64_char n) = Some n) [0..<64]" by code_simp
  ultimately show ?thesis unfolding list_all_iff by blast
qed

lemma b64_char_ok: "n < 64 \<Longrightarrow> b64_char n \<noteq> CHR ''='' \<and> b64_char n \<noteq> CHR 0x0A \<and> b64_char n \<noteq> CHR 0x0D"
proof -
  assume "n < 64"
  then have "n \<in> set [0..<64]" by simp
  moreover have "list_all (\<lambda>n. b64_char n \<noteq> CHR ''='' \<and> b64_char n \<noteq> CHR 0x0A \<and> b64_char n \<noteq> CHR 0x0D) [0..<64]"
    by code_simp
  ultimately show ?thesis unfolding list_all_iff by blast
qed

lemma of_char_256: "(of_char c :: nat) < 256"
  by simp

lemma split_sum:
  fixes a b c :: nat
  assumes "b < 256" "c < 256"
  shows "(65536 * a + 256 * b + c) div 65536 = a" "(65536 * a + 256 * b + c) div 256 mod 256 = b"
    "(65536 * a + 256 * b + c) mod 256 = c"
proof -
  have E: "65536 * a + 256 * b + c = c + 256 * (256 * a + b)" by simp
  have d: "(65536 * a + 256 * b + c) div 256 = 256 * a + b" unfolding E using assms(2) by (subst div_mult_self2) simp_all
  have m: "(65536 * a + 256 * b + c) mod 256 = c" unfolding E using assms(2) by (subst mod_mult_self2) simp
  show "(65536 * a + 256 * b + c) mod 256 = c" by (rule m)
  show "(65536 * a + 256 * b + c) div 256 mod 256 = b" unfolding d using assms(1) by simp
  have "(65536 * a + 256 * b + c) div 65536 = (65536 * a + 256 * b + c) div 256 div 256" by (simp add: div_mult2_eq [symmetric])
  then show "(65536 * a + 256 * b + c) div 65536 = a" unfolding d using assms(1) by simp
qed

lemma bytes_of_sum: "b64_bytes (65536 * of_char a + 256 * of_char b + of_char c) = [a, b, c]"
  unfolding b64_bytes_def by (simp only: split_sum [OF of_char_256 of_char_256] char_of_char list.map)

lemma sextet_steps:
  fixes n :: nat
  shows "64 * (n div 262144) + n div 4096 mod 64 = n div 4096" "64 * (n div 4096) + n div 64 mod 64 = n div 64"
    "64 * (n div 64) + n mod 64 = n"
proof -
  have "n div 262144 = n div 4096 div 64" by (simp add: div_mult2_eq [symmetric])
  then show "64 * (n div 262144) + n div 4096 mod 64 = n div 4096" by simp
  have "n div 4096 = n div 64 div 64" by (simp add: div_mult2_eq [symmetric])
  then show "64 * (n div 4096) + n div 64 mod 64 = n div 64" by simp
qed simp

lemma sextet_lt:
  fixes n :: nat
  assumes "n < 16777216"
  shows "n div 262144 < 64" "n div 4096 mod 64 < 64" "n div 64 mod 64 < 64" "n mod 64 < 64"
  using assms by auto

lemma group_sextets:
  assumes "n < 16777216"
  shows "b64_group (b64_sextets n) = Some n" "b64_group (take 3 (b64_sextets n)) = Some (n div 64)"
    "b64_group (take 2 (b64_sextets n)) = Some (n div 4096)"
  unfolding b64_group_def b64_sextets_def
  by (simp_all add: b64_val_char [OF sextet_lt(1) [OF assms]] b64_val_char [OF sextet_lt(2)[OF assms]]
      b64_val_char [OF sextet_lt(3) [OF assms]] b64_val_char [OF sextet_lt(4)[OF assms]] sextet_steps
      numeral_3_eq_3 numeral_2_eq_2)

lemma sextets_chars:
  assumes "n < 16777216" "c \<in> set (b64_sextets n)"
  shows "c \<noteq> CHR ''='' \<and> c \<noteq> CHR 0x0A \<and> c \<noteq> CHR 0x0D"
  using assms(2) b64_char_ok [OF sextet_lt(1) [OF assms(1)]] b64_char_ok [OF sextet_lt(2) [OF assms(1)]]
    b64_char_ok [OF sextet_lt(3) [OF assms(1)]] b64_char_ok [OF sextet_lt(4) [OF assms(1)]]
  by (auto simp: b64_sextets_def)

lemma sum_lt: "65536 * of_char a + 256 * of_char b + of_char c < (16777216 :: nat)"
  using of_char_256 [of a] of_char_256 [of b] of_char_256 [of c] by linarith

lemma drop_low: "4096 * (65536 * a div 4096) = (65536 * a :: nat)" "64 * ((65536 * a + 256 * b) div 64) = (65536 * a + 256 * b :: nat)"
proof -
  have "65536 * a = (16 * a) * 4096" "65536 * a + 256 * b = (1024 * a + 4 * b) * 64" by simp_all
  then show "4096 * (65536 * a div 4096) = (65536 * a :: nat)" "64 * ((65536 * a + 256 * b) div 64) = (65536 * a + 256 * b :: nat)"
    by (metis div_mult_self_is_m mult.commute zero_less_numeral)+
qed

lemma sum_lt2: "65536 * of_char a + 256 * of_char b < (16777216 :: nat)" "65536 * of_char a < (16777216 :: nat)"
  using of_char_256 [of a] of_char_256 [of b] by linarith+

lemma encode_no_newline: "c \<in> set (base64_Encode s) \<Longrightarrow> c \<noteq> CHR 0x0A \<and> c \<noteq> CHR 0x0D"
proof (induction s rule: base64_Encode.induct)
  case (2 a)
  then show ?case using sextets_chars [OF sum_lt2(2) [of a], of c] by (auto dest!: in_set_takeD)
next
  case (3 a b)
  then show ?case using sextets_chars [OF sum_lt2(1) [of a b], of c] by (auto dest!: in_set_takeD)
next
  case (4 a b e rest)
  then show ?case using sextets_chars [OF sum_lt [of a b e], of c] by auto
qed simp

text \<open>One full group, with what follows it.\<close>

lemma quads_group:
  assumes "n < 16777216"
  shows "b64_quads (b64_sextets n @ rest) = rbind (b64_quads rest) (\<lambda>s. Inr (b64_bytes n @ s))"
proof -
  have "b64_char (n mod 64) \<noteq> CHR ''=''" using b64_char_ok [of "n mod 64"] by simp
  with group_sextets(1) [OF assms] show ?thesis by (simp add: b64_sextets_def)
qed

lemma base64_Decode_Encode [simp]: "base64_Decode (base64_Encode s) = Inr s"
proof -
  have "filter (\<lambda>c. c \<noteq> CHR 0x0A \<and> c \<noteq> CHR 0x0D) (base64_Encode s) = base64_Encode s"
    using encode_no_newline [of _ s] by (simp add: filter_id_conv)
  moreover have "b64_quads (base64_Encode s) = Inr s"
  proof (induction s rule: base64_Encode.induct)
    case (2 a)
    have "b64_quads (base64_Encode [a]) = Inr (take 1 (b64_bytes (4096 * (65536 * of_char a div 4096))))"
      using group_sextets(3) [OF sum_lt2(2) [of a]] by (simp add: b64_sextets_def numeral_2_eq_2 del: One_nat_def)
    moreover have "4096 * (65536 * of_char a div 4096) = (65536 * of_char a :: nat)" by (rule drop_low(1))
    ultimately show ?case using bytes_of_sum [of a "CHR 0x00" "CHR 0x00"] by simp
  next
    case (3 a b)
    let ?n = "65536 * of_char a + 256 * of_char b :: nat"
    have "b64_char (?n div 64 mod 64) \<noteq> CHR ''=''" using b64_char_ok [of "?n div 64 mod 64"] by simp
    then have "b64_quads (base64_Encode [a, b]) = Inr (take 2 (b64_bytes (64 * (?n div 64))))"
      using group_sextets(2) [OF sum_lt2(1) [of a b]]
      by (simp add: b64_sextets_def numeral_3_eq_3 del: numeral_2_eq_2)
    moreover have "64 * (?n div 64) = ?n" by (rule drop_low(2))
    ultimately show ?case using bytes_of_sum [of a b "CHR 0x00"] by (simp add: numeral_2_eq_2)
  next
    case (4 a b c rest)
    with quads_group [OF sum_lt [of a b c], of "base64_Encode rest"] show ?case by (simp add: bytes_of_sum)
  qed simp
  ultimately show ?thesis by (simp add: base64_Decode_def)
qed

end
