(* ===== verification/Build_Cache.thy ===== *)
theory Build_Cache
  imports Lib_Files Go_Encoding Stackerfile
begin

text \<open>
  The build cache: \<^verbatim>\<open>pkg/stacker/cache.go\<close>. For every layer that was built the cache keeps its
  definition and fingerprints of what went into it; a later build reuses the layer when they
  are all unchanged. The libraries behind it are parameters (\<open>cache_env\<close>): the directory listings
  of go-mtree, the hash of hashstructure, the OCI layout of umoci, SHA-256, and the JSON
  encoding of the cache file. Nothing but the cache file is written, so the queries are
  functions of the world.
\<close>

section \<open>State\<close>

definition currentCacheVersion :: int where
  "currentCacheVersion = 16"

datatype ImportType = ImportFile | ImportDir

definition ImportType_IsDir :: "ImportType \<Rightarrow> bool" where
  "ImportType_IsDir it = (ImportDir = it)"

record ImportHash =
  ih_Type :: ImportType
  ih_Hash :: string

record OverlayDirHash =
  odh_Hash :: string

record CacheEntry =
  ent_Manifests :: "(LayerType \<times> Descriptor) list"
  ent_Imports :: "(string \<times> ImportHash) list"
  ent_OverlayDirs :: "(string \<times> OverlayDirHash) list"
  ent_Name :: string
  ent_Layer :: Layer
  ent_Base :: string
  ent_SourceDateEpoch :: "int option"

record BuildCache =
  bc_sfm :: StackerFiles
  bc_Cache :: "(string \<times> CacheEntry) list"
  bc_Version :: int
  bc_config :: StackerConfig

record ('x, 'd) cache_env =
  cx_sha256 :: "string \<Rightarrow> string"
  cx_walk :: "string list \<Rightarrow> fs \<Rightarrow> string \<Rightarrow> 'd res"
  cx_parse :: "string \<Rightarrow> 'd res"
  cx_write :: "'d \<Rightarrow> string res"
  cx_compare :: "string list \<Rightarrow> 'd \<Rightarrow> 'd \<Rightarrow> string list res"
  cx_hash :: "CacheEntry \<Rightarrow> nat res"
  cx_FromDescriptor :: "'x \<Rightarrow> Descriptor \<Rightarrow> unit res"
  cx_OpenLayout :: "'x \<Rightarrow> string \<Rightarrow> unit res"
  cx_ResolveReference :: "'x \<Rightarrow> string \<Rightarrow> string \<Rightarrow> Descriptor list res"
  cx_Encoded :: "string \<Rightarrow> string res"
  cx_version :: "string \<Rightarrow> int res"
  cx_decode :: "string \<Rightarrow> ((string \<times> CacheEntry) list \<times> int) res"
  cx_encode :: "(string \<times> CacheEntry) list \<times> int \<Rightarrow> string res"

section \<open>Fingerprints\<close>

definition mtreeKeywords :: "string list" where
  "mtreeKeywords = [''type'', ''link'', ''uid'', ''gid'', ''xattr'', ''mode'', ''sha256digest'']"

definition stat_of :: "string \<Rightarrow> 'x world \<Rightarrow> node res" where
  "stat_of p w = fst (os_Stat p w)"

definition hash_of :: "('x, 'd) cache_env \<Rightarrow> string \<Rightarrow> 'x world \<Rightarrow> string res" where
  "hash_of env p w = fst (HashFile (cx_sha256 env) p True w)"

definition walkImport :: "('x, 'd) cache_env \<Rightarrow> string \<Rightarrow> 'x world \<Rightarrow> 'd res" where
  "walkImport env p w = cx_walk env mtreeKeywords (w_fs w) (w_key w p)"

definition cached_diff :: "('x, 'd) cache_env \<Rightarrow> string \<Rightarrow> string \<Rightarrow> 'x world \<Rightarrow> string list res" where
  "cached_diff env dirPath cachedDirHash w =
     rbind (base64_Decode cachedDirHash) (\<lambda>rawCachedImport.
     rbind (cx_parse env rawCachedImport) (\<lambda>cachedDH.
     rbind (walkImport env dirPath w) (\<lambda>dh.
       cx_compare env mtreeKeywords cachedDH dh)))"

definition isCachedDirChanged :: "('x, 'd) cache_env \<Rightarrow> string \<Rightarrow> string \<Rightarrow> 'x world \<Rightarrow> bool res" where
  "isCachedDirChanged env dirPath cachedDirHash w =
     rbind (cached_diff env dirPath cachedDirHash w) (\<lambda>diff. Inr (0 < length diff))"

definition cachedFileDiff :: "('x, 'd) cache_env \<Rightarrow> string \<Rightarrow> string \<Rightarrow> 'x world \<Rightarrow> string list res" where
  "cachedFileDiff env dirPath cachedDirHash w =
     rbind (cached_diff env dirPath cachedDirHash w) (\<lambda>diff. Inr (map id diff))"

definition getEncodedMtree :: "('x, 'd) cache_env \<Rightarrow> string \<Rightarrow> 'x world \<Rightarrow> string res" where
  "getEncodedMtree env p w =
     rbind (walkImport env p w) (\<lambda>dh. rbind (cx_write env dh) (\<lambda>buf. Inr (base64_Encode buf)))"

definition sourceDateEpochToInt64 :: "int option \<Rightarrow> int option" where
  "sourceDateEpochToInt64 t = (case t of None \<Rightarrow> None | Some epoch \<Rightarrow> Some epoch)"

definition int64PtrEqual :: "int option \<Rightarrow> int option \<Rightarrow> bool" where
  "int64PtrEqual a b =
     (if a = None \<and> b = None then True else if a = None \<or> b = None then False else the a = the b)"

text \<open>
  \<^verbatim>\<open>reflect.DeepEqual\<close> on layer definitions: maps are equal when they map alike, and an empty slice or map
  is not equal to a nil one.
\<close>

definition layer_eq :: "Layer \<Rightarrow> Layer \<Rightarrow> bool" where
  "layer_eq a b =
     (map_eq (lay_BuildEnv a) (lay_BuildEnv b) \<and> map_eq (lay_Environment a) (lay_Environment b) \<and>
      map_eq (lay_Labels a) (lay_Labels b) \<and> map_eq (lay_Annotations a) (lay_Annotations b) \<and>
      set (lay_Empty a) = set (lay_Empty b) \<and>
      a\<lparr>lay_BuildEnv := [], lay_Environment := [], lay_Labels := [], lay_Annotations := [], lay_Empty := []\<rparr> =
      b\<lparr>lay_BuildEnv := [], lay_Environment := [], lay_Labels := [], lay_Annotations := [], lay_Empty := []\<rparr>)"

definition import_disk_path :: "StackerConfig \<Rightarrow> string \<Rightarrow> string \<Rightarrow> string" where
  "import_disk_path config name p =
     path_Join [path_Join [sc_StackerDir config, ''imports''], name, path_Base p]"

definition overlay_disk_path :: "StackerConfig \<Rightarrow> string \<Rightarrow> OverlayDir \<Rightarrow> string" where
  "overlay_disk_path config name od =
     path_Join [sc_RootFSDir config, name, ''overlay_dirs'', path_Base (od_Source od), od_Dest od]"

section \<open>Lookup\<close>

text \<open>A loop that leaves with a miss at the first element that does not match.\<close>

fun rall :: "('a \<Rightarrow> bool res) \<Rightarrow> 'a list \<Rightarrow> bool res" where
  "rall f [] = Inr True"
| "rall f (x # xs) = rbind (f x) (\<lambda>ok. if ok then rall f xs else Inr False)"

definition lookup_import ::
  "('x, 'd) cache_env \<Rightarrow> StackerConfig \<Rightarrow> 'x world \<Rightarrow> string \<Rightarrow> CacheEntry \<Rightarrow> Import \<Rightarrow> bool res" where
  "lookup_import env config w name result imp =
     (if imp_Dest imp \<noteq> [] then Inr True
      else (case map_of (ent_Imports result) (imp_Path imp) of
         None \<Rightarrow> Inr False
       | Some cachedImport \<Rightarrow>
           (let diskPath = import_disk_path config name (imp_Path imp) in
            case stat_of diskPath w of
              Inl e \<Rightarrow> if os_IsNotExist e then Inr False else Inl e
            | Inr st \<Rightarrow>
                if ImportType_IsDir (ih_Type cachedImport) \<noteq> node_IsDir st then Inr False
                else if node_IsDir st then
                  rbind (isCachedDirChanged env diskPath (ih_Hash cachedImport) w) (\<lambda>dirChanged. Inr (\<not> dirChanged))
                else rbind (hash_of env diskPath w) (\<lambda>h. Inr (h = ih_Hash cachedImport)))))"

text \<open>One overlay directory: gone (\<^const>\<open>None\<close>), or there and changed or not.\<close>

definition lookup_overlay ::
  "('x, 'd) cache_env \<Rightarrow> StackerConfig \<Rightarrow> 'x world \<Rightarrow> string \<Rightarrow> CacheEntry \<Rightarrow> OverlayDir \<Rightarrow> bool option res" where
  "lookup_overlay env config w name result od =
     (case map_of (ent_OverlayDirs result) (od_Source od) of
        None \<Rightarrow> Inr None
      | Some cachedOverlayDir \<Rightarrow>
          (case stat_of (overlay_disk_path config name od) w of
             Inl e \<Rightarrow> if os_IsNotExist e then Inr None else Inl e
           | Inr _ \<Rightarrow>
               rbind (isCachedDirChanged env (od_Source od) (odh_Hash cachedOverlayDir) w) (\<lambda>dirChanged.
                 if dirChanged then
                   rbind (cachedFileDiff env (od_Source od) (odh_Hash cachedOverlayDir) w) (\<lambda>_. Inr (Some True))
                 else Inr (Some False))))"

fun lookup_overlays :: "(OverlayDir \<Rightarrow> bool option res) \<Rightarrow> bool \<Rightarrow> OverlayDir list \<Rightarrow> bool res" where
  "lookup_overlays f overlayDirsChanged [] = Inr (\<not> overlayDirsChanged)"
| "lookup_overlays f overlayDirsChanged (od # ods) =
     rbind (f od) (\<lambda>r.
       case r of None \<Rightarrow> Inr False | Some ch \<Rightarrow> lookup_overlays f (overlayDirsChanged \<or> ch) ods)"

definition Lookup_with ::
  "(string \<Rightarrow> string res) \<Rightarrow> ('x, 'd) cache_env \<Rightarrow> BuildCache \<Rightarrow> 'x world \<Rightarrow> string \<Rightarrow> CacheEntry option res" where
  "Lookup_with baseHashOf env c w name =
     (case LookupLayerDefinition (bc_sfm c) name of
        None \<Rightarrow> Inr None
      | Some l \<Rightarrow>
        (case map_of (bc_Cache c) name of
           None \<Rightarrow> Inr None
         | Some result \<Rightarrow>
           if \<not> layer_eq (ent_Layer result) l then Inr None
           else rbind (baseHashOf name) (\<lambda>baseHash.
             if baseHash \<noteq> ent_Base result then Inr None
             else if \<not> int64PtrEqual (sourceDateEpochToInt64 (sc_SourceDateEpoch (bc_config c))) (ent_SourceDateEpoch result)
             then Inr None
             else rbind (rall (lookup_import env (bc_config c) w name result) (lay_Imports l)) (\<lambda>ok.
               if \<not> ok then Inr None
               else rbind (lookup_overlays (lookup_overlay env (bc_config c) w name result) False (lay_OverlayDirs l)) (\<lambda>ok.
                 Inr (if ok then Some result else None))))))"

definition getBaseHash_with ::
  "(string \<Rightarrow> CacheEntry option res) \<Rightarrow> ('x, 'd) cache_env \<Rightarrow> BuildCache \<Rightarrow> 'x world \<Rightarrow> string \<Rightarrow> string res" where
  "getBaseHash_with lookup env c w name =
     (case LookupLayerDefinition (bc_sfm c) name of
        None \<Rightarrow> Inl (Errorf ''%s missing from stackerfile?'' [name])
      | Some l \<Rightarrow>
        (let ty = is_Type (lay_From l) in
         if ty = BuiltLayer then
           rbind (lookup (is_Tag (lay_From l))) (\<lambda>r.
             case r of
               None \<Rightarrow> Inl (Errorf (couldnt ''find a cache of base layer for %s: %s'') [name, is_Tag (lay_From l)])
             | Some baseEnt \<Rightarrow> rbind (cx_hash env baseEnt) (\<lambda>baseHash. Inr (fmt_d (int baseHash))))
         else if ty = ScratchLayer then Inr []
         else if ty = TarLayer then
           hash_of env (path_Join [path_Join [sc_StackerDir (bc_config c), ''layer-bases''], path_Base (is_Url (lay_From l))]) w
         else if ty = OCILayer \<or> ty = DockerLayer then
           rbind (ParseTag (lay_From l)) (\<lambda>tag.
             let layout = path_Join [sc_StackerDir (bc_config c), ''layer-bases'', ''oci''] in
             rbind (cx_OpenLayout env (w_ext w) layout) (\<lambda>_.
             rbind (cx_ResolveReference env (w_ext w) layout tag) (\<lambda>descriptorPaths.
               case descriptorPaths of
                 [d] \<Rightarrow> cx_Encoded env (desc_Digest d)
               | _ \<Rightarrow> Inl (Errorf ''duplicate manifests for %s'' [tag]))))
         else Inl (Errorf ''unknown layer type: %v'' [ty])))"

text \<open>The two functions call each other along the chain of built bases; the number bounds the stack.\<close>

fun Lookup :: "nat \<Rightarrow> ('x, 'd) cache_env \<Rightarrow> BuildCache \<Rightarrow> 'x world \<Rightarrow> string \<Rightarrow> CacheEntry option res" where
  "Lookup 0 env c w name = Inl (Panic ''stack overflow'')"
| "Lookup (Suc n) env c w name = Lookup_with (getBaseHash_with (Lookup n env c w) env c w) env c w name"

definition getBaseHash :: "nat \<Rightarrow> ('x, 'd) cache_env \<Rightarrow> BuildCache \<Rightarrow> 'x world \<Rightarrow> string \<Rightarrow> string res" where
  "getBaseHash n env c w name = getBaseHash_with (Lookup n env c w) env c w name"

section \<open>Put\<close>

definition import_hash :: "('x, 'd) cache_env \<Rightarrow> StackerConfig \<Rightarrow> 'x world \<Rightarrow> string \<Rightarrow> string \<Rightarrow> ImportHash res" where
  "import_hash env config w name p =
     (let diskPath = import_disk_path config name p in
      rbind (stat_of diskPath w) (\<lambda>st.
        if node_IsDir st then rbind (getEncodedMtree env diskPath w) (\<lambda>h. Inr \<lparr>ih_Type = ImportDir, ih_Hash = h\<rparr>)
        else rbind (hash_of env diskPath w) (\<lambda>h. Inr \<lparr>ih_Type = ImportFile, ih_Hash = h\<rparr>)))"

definition put_import ::
  "('x, 'd) cache_env \<Rightarrow> StackerConfig \<Rightarrow> 'x world \<Rightarrow> string \<Rightarrow> (string \<times> ImportHash) list \<Rightarrow> Import \<Rightarrow> (string \<times> ImportHash) list res" where
  "put_import env config w name m imp =
     (if imp_Dest imp \<noteq> [] then Inr m
      else rbind (import_hash env config w name (imp_Path imp)) (\<lambda>ih. Inr (map_put (imp_Path imp) ih m)))"

definition put_overlay ::
  "('x, 'd) cache_env \<Rightarrow> 'x world \<Rightarrow> (string \<times> OverlayDirHash) list \<Rightarrow> OverlayDir \<Rightarrow> (string \<times> OverlayDirHash) list res" where
  "put_overlay env w m od =
     rbind (getEncodedMtree env (od_Source od) w) (\<lambda>h. Inr (map_put (od_Source od) \<lparr>odh_Hash = h\<rparr> m))"

definition new_entry ::
  "nat \<Rightarrow> ('x, 'd) cache_env \<Rightarrow> BuildCache \<Rightarrow> 'x world \<Rightarrow> string \<Rightarrow> (LayerType \<times> Descriptor) list \<Rightarrow> CacheEntry res" where
  "new_entry n env c w name manifests =
     (case LookupLayerDefinition (bc_sfm c) name of
        None \<Rightarrow> Inl (Errorf ''%s missing from stackerfile?'' [name])
      | Some l \<Rightarrow>
        rbind (getBaseHash n env c w name) (\<lambda>baseHash.
        rbind (rfold (put_import env (bc_config c) w name) [] (lay_Imports l)) (\<lambda>imports.
        rbind (rfold (put_overlay env w) [] (lay_OverlayDirs l)) (\<lambda>overlayDirs.
          Inr \<lparr>ent_Manifests = manifests, ent_Imports = imports, ent_OverlayDirs = overlayDirs, ent_Name = name,
               ent_Layer = l, ent_Base = baseHash,
               ent_SourceDateEpoch = sourceDateEpochToInt64 (sc_SourceDateEpoch (bc_config c))\<rparr>))))"

definition persist :: "('x, 'd) cache_env \<Rightarrow> BuildCache \<Rightarrow> ('x, unit) io" where
  "persist env c =
     io_bind (io_res (cx_encode env (bc_Cache c, bc_Version c))) (\<lambda>content.
       os_WriteFile (CacheFile (bc_config c)) content 384)"

definition Put ::
  "nat \<Rightarrow> ('x, 'd) cache_env \<Rightarrow> string \<Rightarrow> (LayerType \<times> Descriptor) list \<Rightarrow> BuildCache \<Rightarrow> ('x, BuildCache) io" where
  "Put n env name manifests c =
     io_bind io_get (\<lambda>w.
     io_bind (io_res (new_entry n env c w name manifests)) (\<lambda>ent.
       let c' = c\<lparr>bc_Cache := map_put name ent (bc_Cache c)\<rparr>
       in io_bind (persist env c') (\<lambda>_. io_ret c')))"

section \<open>Opening\<close>

definition versionMatches :: "('x, 'd) cache_env \<Rightarrow> string \<Rightarrow> bool res" where
  "versionMatches env content =
     (case cx_version env content of
        Inl e \<Rightarrow> Inl (Wrapf e ''error parsing version'' [])
      | Inr v \<Rightarrow> Inr (v = currentCacheVersion))"

text \<open>The error variable as the loop over the manifests of an entry leaves it.\<close>

fun check_manifests :: "(Descriptor \<Rightarrow> unit res) \<Rightarrow> go_error option \<Rightarrow> (LayerType \<times> Descriptor) list \<Rightarrow> go_error option" where
  "check_manifests fromDescriptor err [] = err"
| "check_manifests fromDescriptor err ((layerType, desc) # ms) =
     (case fromDescriptor desc of Inl e \<Rightarrow> Some e | Inr _ \<Rightarrow> check_manifests fromDescriptor None ms)"

definition entry_err :: "('x, 'd) cache_env \<Rightarrow> StackerConfig \<Rightarrow> 'x world \<Rightarrow> go_error option \<Rightarrow> CacheEntry \<Rightarrow> go_error option" where
  "entry_err env config w err ent =
     (if lay_BuildOnly (ent_Layer ent) then
        (case stat_of (path_Join [sc_RootFSDir config, ent_Name ent]) w of Inl e \<Rightarrow> Some e | Inr _ \<Rightarrow> None)
      else check_manifests (cx_FromDescriptor env (w_ext w)) err (ent_Manifests ent))"

definition prune_step ::
  "('x, 'd) cache_env \<Rightarrow> StackerConfig \<Rightarrow> 'x world \<Rightarrow> go_error option \<times> (string \<times> CacheEntry) list \<times> bool \<Rightarrow>
   string \<times> CacheEntry \<Rightarrow> go_error option \<times> (string \<times> CacheEntry) list \<times> bool" where
  "prune_step env config w st he =
     (case st of (err, cache, pruned) \<Rightarrow>
      case he of (hash, ent) \<Rightarrow>
        let err' = entry_err env config w err ent
        in if err' \<noteq> None then (err', map_delete hash cache, True) else (err', cache, pruned))"

definition fresh_cache :: "StackerConfig \<Rightarrow> StackerFiles \<Rightarrow> BuildCache" where
  "fresh_cache config sfm = \<lparr>bc_sfm = sfm, bc_Cache = [], bc_Version = currentCacheVersion, bc_config = config\<rparr>"

definition OpenCache :: "('x, 'd) cache_env \<Rightarrow> StackerConfig \<Rightarrow> StackerFiles \<Rightarrow> ('x, BuildCache) io" where
  "OpenCache env config sfm =
     io_bind (io_try (os_ReadFile (CacheFile config))) (\<lambda>r.
       case r of
         Inl e \<Rightarrow> if os_IsNotExist e then io_ret (fresh_cache config sfm) else io_err e
       | Inr content \<Rightarrow>
           io_bind (io_res (versionMatches env content)) (\<lambda>cacheOk.
             if \<not> cacheOk then
               io_bind (io_try (os_Remove (CacheFile config))) (\<lambda>_. io_ret (fresh_cache config sfm))
             else
               io_bind (io_wrap ''error parsing cache'' [] (io_res (cx_decode env content))) (\<lambda>(entries, version).
               io_bind io_get (\<lambda>w.
                 case foldl (prune_step env config w) (None, entries, False) entries of (err, kept, pruned) \<Rightarrow>
                   let cache = \<lparr>bc_sfm = sfm, bc_Cache = kept, bc_Version = version, bc_config = config\<rparr>
                   in if pruned then io_bind (persist env cache) (\<lambda>_. io_ret cache) else io_ret cache))))"

section \<open>Lemmas\<close>

lemma rall_Inr_True: "rall f xs = Inr True \<longleftrightarrow> (\<forall>x \<in> set xs. f x = Inr True)"
  by (induction xs) (auto simp: res_simps)

lemma lookup_overlays_True: "lookup_overlays f ch ods = Inr True \<longleftrightarrow> \<not> ch \<and> (\<forall>od \<in> set ods. f od = Inr (Some False))"
proof (induction ods arbitrary: ch)
  case (Cons od ods)
  show ?case
  proof
    assume "lookup_overlays f ch (od # ods) = Inr True"
    then obtain c where c: "f od = Inr (Some c)" "lookup_overlays f (ch \<or> c) ods = Inr True"
      by (auto simp: res_simps split: option.splits)
    with Cons.IH show "\<not> ch \<and> (\<forall>od' \<in> set (od # ods). f od' = Inr (Some False))" by auto
  qed (use Cons.IH in auto)
qed auto

lemma layer_eq_refl [simp]: "layer_eq l l"
  by (simp add: layer_eq_def map_eq_def)

lemma int64PtrEqual_iff [simp]: "int64PtrEqual a b \<longleftrightarrow> a = b"
  by (cases a; cases b) (auto simp: int64PtrEqual_def)

lemma isCachedDirChanged_False: "isCachedDirChanged env p h w = Inr False \<longleftrightarrow> cached_diff env p h w = Inr []"
  by (auto simp: isCachedDirChanged_def res_simps)

text \<open>
  What a fingerprint says of the world: the recorded kind and digest are the ones of the file
  that is there, the recorded listing does not differ from the directory that is there.
\<close>

definition matches :: "('x, 'd) cache_env \<Rightarrow> 'x world \<Rightarrow> string \<Rightarrow> ImportHash \<Rightarrow> bool" where
  "matches env w diskPath ih =
     (case stat_of diskPath w of
        Inl _ \<Rightarrow> False
      | Inr st \<Rightarrow>
          ImportType_IsDir (ih_Type ih) = node_IsDir st \<and>
          (if node_IsDir st then cached_diff env diskPath (ih_Hash ih) w = Inr []
           else hash_of env diskPath w = Inr (ih_Hash ih)))"

lemma lookup_import_True:
  "lookup_import env config w name result imp = Inr True \<longleftrightarrow>
     imp_Dest imp \<noteq> [] \<or>
     (\<exists>ih. map_of (ent_Imports result) (imp_Path imp) = Some ih \<and> matches env w (import_disk_path config name (imp_Path imp)) ih)"
  by (auto simp: lookup_import_def matches_def res_simps isCachedDirChanged_def Let_def split: option.splits sum.splits if_splits)

lemma lookup_overlay_False:
  "lookup_overlay env config w name result od = Inr (Some False) \<longleftrightarrow>
     (\<exists>h. map_of (ent_OverlayDirs result) (od_Source od) = Some h \<and> is_ok (stat_of (overlay_disk_path config name od) w) \<and>
          cached_diff env (od_Source od) (odh_Hash h) w = Inr [])"
  by (auto simp: lookup_overlay_def res_simps isCachedDirChanged_False is_ok_iff split: option.splits sum.splits if_splits)

text \<open>A hit, spelled out.\<close>

definition fresh ::
  "('x, 'd) cache_env \<Rightarrow> StackerConfig \<Rightarrow> 'x world \<Rightarrow> string \<Rightarrow> Layer \<Rightarrow> CacheEntry \<Rightarrow> bool" where
  "fresh env config w name l ent =
     ((\<forall>imp \<in> set (lay_Imports l). imp_Dest imp = [] \<longrightarrow>
         (\<exists>ih. map_of (ent_Imports ent) (imp_Path imp) = Some ih \<and> matches env w (import_disk_path config name (imp_Path imp)) ih)) \<and>
      (\<forall>od \<in> set (lay_OverlayDirs l).
         (\<exists>h. map_of (ent_OverlayDirs ent) (od_Source od) = Some h \<and> is_ok (stat_of (overlay_disk_path config name od) w) \<and>
              cached_diff env (od_Source od) (odh_Hash h) w = Inr [])))"

lemma Lookup_with_hit:
  "Lookup_with base env c w name = Inr (Some ent) \<longleftrightarrow>
     (\<exists>l. LookupLayerDefinition (bc_sfm c) name = Some l \<and> map_of (bc_Cache c) name = Some ent \<and> layer_eq (ent_Layer ent) l \<and>
        base name = Inr (ent_Base ent) \<and>
        sourceDateEpochToInt64 (sc_SourceDateEpoch (bc_config c)) = ent_SourceDateEpoch ent \<and>
        fresh env (bc_config c) w name l ent)"
proof -
  have ok: "rall (lookup_import env (bc_config c) w name ent) (lay_Imports l) = Inr True \<and>
      lookup_overlays (lookup_overlay env (bc_config c) w name ent) False (lay_OverlayDirs l) = Inr True \<longleftrightarrow>
      fresh env (bc_config c) w name l ent" for l
    by (auto simp: fresh_def rall_Inr_True lookup_overlays_True lookup_import_True lookup_overlay_False)
  show ?thesis
    by (auto simp: Lookup_with_def res_simps ok [symmetric] split: option.splits if_splits)
qed

lemma put_imports:
  assumes "rfold (put_import env config w name) m0 imps = Inr m"
    and "\<And>p ih. map_of m0 p = Some ih \<Longrightarrow> import_hash env config w name p = Inr ih"
  shows "(\<forall>imp \<in> set imps. imp_Dest imp = [] \<longrightarrow> map_of m (imp_Path imp) \<noteq> None) \<and>
    dom (map_of m0) \<subseteq> dom (map_of m) \<and> (\<forall>p ih. map_of m p = Some ih \<longrightarrow> import_hash env config w name p = Inr ih)"
  using assms
proof (induction imps arbitrary: m0)
  case (Cons imp imps)
  from Cons.prems(1) obtain m1 where m1: "put_import env config w name m0 imp = Inr m1" "rfold (put_import env config w name) m1 imps = Inr m"
    by (auto simp: res_simps)
  have inv: "map_of m1 p = Some ih \<Longrightarrow> import_hash env config w name p = Inr ih" for p ih
    using m1(1) Cons.prems(2) by (auto simp: put_import_def res_simps split: if_splits)
  have "dom (map_of m0) \<subseteq> dom (map_of m1)" "imp_Dest imp = [] \<Longrightarrow> imp_Path imp \<in> dom (map_of m1)"
    using m1(1) by (auto simp: put_import_def res_simps split: if_splits)
  with Cons.IH [OF m1(2) inv] show ?case by (auto simp: dom_def subset_iff)
qed auto

lemma put_overlays:
  assumes "rfold (put_overlay env w) m0 ods = Inr m"
    and "\<And>p h. map_of m0 p = Some h \<Longrightarrow> getEncodedMtree env p w = Inr (odh_Hash h)"
  shows "(\<forall>od \<in> set ods. map_of m (od_Source od) \<noteq> None) \<and> dom (map_of m0) \<subseteq> dom (map_of m) \<and>
    (\<forall>p h. map_of m p = Some h \<longrightarrow> getEncodedMtree env p w = Inr (odh_Hash h))"
  using assms
proof (induction ods arbitrary: m0)
  case (Cons od ods)
  from Cons.prems(1) obtain m1 where m1: "put_overlay env w m0 od = Inr m1" "rfold (put_overlay env w) m1 ods = Inr m"
    by (auto simp: res_simps)
  have inv: "map_of m1 p = Some h \<Longrightarrow> getEncodedMtree env p w = Inr (odh_Hash h)" for p h
    using m1(1) Cons.prems(2) by (auto simp: put_overlay_def res_simps split: if_splits)
  have "dom (map_of m0) \<subseteq> dom (map_of m1)" "od_Source od \<in> dom (map_of m1)"
    using m1(1) by (auto simp: put_overlay_def res_simps)
  with Cons.IH [OF m1(2) inv] show ?case by (auto simp: dom_def subset_iff)
qed auto

text \<open>The law of directory listings: written and read again, a listing does not differ from itself.\<close>

definition listing_laws :: "('x, 'd) cache_env \<Rightarrow> bool" where
  "listing_laws env = (\<forall>d s. cx_write env d = Inr s \<longrightarrow>
     (\<exists>d'. cx_parse env s = Inr d' \<and> cx_compare env mtreeKeywords d' d = Inr []))"

lemma encoded_no_diff:
  assumes "listing_laws env" "getEncodedMtree env p w = Inr h" "walkImport env p w2 = walkImport env p w"
  shows "cached_diff env p h w2 = Inr []"
  using assms by (auto simp: getEncodedMtree_def cached_diff_def res_simps listing_laws_def)

text \<open>The inputs of a layer are the same in two worlds.\<close>

definition same_inputs ::
  "('x, 'd) cache_env \<Rightarrow> StackerConfig \<Rightarrow> string \<Rightarrow> Layer \<Rightarrow> 'x world \<Rightarrow> 'x world \<Rightarrow> bool" where
  "same_inputs env config name l w w2 =
     ((\<forall>imp \<in> set (lay_Imports l). imp_Dest imp = [] \<longrightarrow>
        (let p = import_disk_path config name (imp_Path imp) in
         stat_of p w2 = stat_of p w \<and> hash_of env p w2 = hash_of env p w \<and> walkImport env p w2 = walkImport env p w)) \<and>
      (\<forall>od \<in> set (lay_OverlayDirs l).
         walkImport env (od_Source od) w2 = walkImport env (od_Source od) w \<and> is_ok (stat_of (overlay_disk_path config name od) w2)))"

lemma import_hash_matches:
  assumes "listing_laws env" "import_hash env config w name p = Inr ih" "q = import_disk_path config name p"
    and "stat_of q w2 = stat_of q w" "hash_of env q w2 = hash_of env q w" "walkImport env q w2 = walkImport env q w"
  shows "matches env w2 q ih"
  using assms encoded_no_diff [OF assms(1) _ assms(6)]
  by (auto simp: import_hash_def matches_def Let_def res_simps ImportType_IsDir_def split: if_splits)

lemma new_entry_fresh:
  assumes "listing_laws env" "new_entry n env c w name ms = Inr ent" "LookupLayerDefinition (bc_sfm c) name = Some l"
    and "same_inputs env (bc_config c) name l w w2"
  shows "fresh env (bc_config c) w2 name l ent"
proof -
  from assms(2,3) obtain ims ods where
    ims: "rfold (put_import env (bc_config c) w name) [] (lay_Imports l) = Inr ims" "ent_Imports ent = ims"
    and ods: "rfold (put_overlay env w) [] (lay_OverlayDirs l) = Inr ods" "ent_OverlayDirs ent = ods"
    by (auto simp: new_entry_def res_simps)
  note I = put_imports [OF ims(1), simplified] and O = put_overlays [OF ods(1), simplified]
  have "\<exists>ih. map_of ims (imp_Path imp) = Some ih \<and> matches env w2 (import_disk_path (bc_config c) name (imp_Path imp)) ih"
    if "imp \<in> set (lay_Imports l)" "imp_Dest imp = []" for imp
    using I that assms(4) import_hash_matches [OF assms(1) _ refl] by (fastforce simp: same_inputs_def Let_def)
  moreover have "\<exists>h. map_of ods (od_Source od) = Some h \<and> is_ok (stat_of (overlay_disk_path (bc_config c) name od) w2) \<and>
      cached_diff env (od_Source od) (odh_Hash h) w2 = Inr []" if "od \<in> set (lay_OverlayDirs l)" for od
    using O that assms(4) encoded_no_diff [OF assms(1)] by (fastforce simp: same_inputs_def)
  ultimately show ?thesis using ims(2) ods(2) by (simp add: fresh_def)
qed

section \<open>Properties\<close>

text \<open>
  C3. When a layer is taken from the cache: exactly when the cache has an entry for it whose recorded
  definition is deeply equal to the present one, the base and the source date are the recorded ones,
  every import without a destination is on disk as it was recorded, and every overlay directory of the
  definition is on disk and does not differ from its recorded listing. Imports with a destination are
  not looked at.
\<close>

theorem lookup_hit_iff:
  "Lookup (Suc n) env c w name = Inr (Some ent) \<longleftrightarrow>
     (\<exists>l. LookupLayerDefinition (bc_sfm c) name = Some l \<and> map_of (bc_Cache c) name = Some ent \<and> layer_eq (ent_Layer ent) l \<and>
        getBaseHash n env c w name = Inr (ent_Base ent) \<and>
        sourceDateEpochToInt64 (sc_SourceDateEpoch (bc_config c)) = ent_SourceDateEpoch ent \<and>
        fresh env (bc_config c) w name l ent)"
  unfolding Lookup.simps getBaseHash_def by (rule Lookup_with_hit)

text \<open>
  So the content of what a layer copies in does not matter: when all imports of a layer on
  \<open>scratch\<close> have a destination and it has no overlay directory, the answer is the same in every world.
\<close>

theorem copied_imports_ignored:
  fixes env :: "('x, 'd) cache_env"
  assumes "LookupLayerDefinition (bc_sfm c) name = Some l" "is_Type (lay_From l) = ScratchLayer"
    and "\<forall>imp \<in> set (lay_Imports l). imp_Dest imp \<noteq> []" "lay_OverlayDirs l = []"
  shows "Lookup (Suc n) env c w name = Lookup (Suc n) env c w2 name"
proof -
  have imps: "rall (lookup_import env (bc_config c) v name ent) (lay_Imports l) = Inr True" for v ent
    using assms(3) by (simp add: rall_Inr_True lookup_import_True)
  have base: "getBaseHash_with lk env c v name = Inr []" for lk and v :: "'x world"
    using assms(1,2) by (simp add: getBaseHash_with_def ScratchLayer_def BuiltLayer_def)
  show ?thesis by (simp add: Lookup_with_def assms(1,4) imps base cong: if_cong option.case_cong)
qed

text \<open>
  The entries of the cache file are written with \<^verbatim>\<open>omitempty\<close>, so after the file is read again
  nothing in them is empty and not nil. A layer whose definition has such a field is never
  taken from a cache that was read from disk.
\<close>

theorem reloaded_empty_field_misses:
  assumes "LookupLayerDefinition (bc_sfm c) name = Some l" "lay_Empty l \<noteq> []"
    and "\<And>ent. map_of (bc_Cache c) name = Some ent \<Longrightarrow> lay_Empty (ent_Layer ent) = []"
  shows "Lookup (Suc n) env c w name = Inr None"
proof (cases "map_of (bc_Cache c) name")
  case (Some ent)
  with assms(2,3) have "\<not> layer_eq (ent_Layer ent) l" by (auto simp: layer_eq_def)
  with assms(1) Some show ?thesis by (simp add: Lookup_with_def)
qed (simp add: assms(1) Lookup_with_def)

text \<open>
  C7. A layer that was put into the cache is found again, with the manifests that were put,
  as long as its inputs and its base stay the same.
\<close>

theorem put_then_lookup:
  assumes "listing_laws env" and put: "Put n env name ms c w = (Inr c', w')"
    and l: "LookupLayerDefinition (bc_sfm c) name = Some l" and same: "same_inputs env (bc_config c) name l w w2"
    and base: "getBaseHash m env c' w2 name = getBaseHash n env c w name"
  shows "\<exists>ent. Lookup (Suc m) env c' w2 name = Inr (Some ent) \<and> ent_Manifests ent = ms \<and> ent_Layer ent = l"
proof -
  from put obtain ent where ent: "new_entry n env c w name ms = Inr ent" "c' = c\<lparr>bc_Cache := map_put name ent (bc_Cache c)\<rparr>"
    by (cases "new_entry n env c w name ms") (auto simp: Put_def io_simps Let_def)
  with l have fields: "ent_Manifests ent = ms" "ent_Layer ent = l" "getBaseHash n env c w name = Inr (ent_Base ent)"
    "ent_SourceDateEpoch ent = sourceDateEpochToInt64 (sc_SourceDateEpoch (bc_config c))"
    by (auto simp: new_entry_def res_simps)
  have "fresh env (bc_config c) w2 name l ent" by (rule new_entry_fresh [OF assms(1) ent(1) l same])
  with l fields base have "Lookup (Suc m) env c' w2 name = Inr (Some ent)"
    unfolding Lookup.simps Lookup_with_hit by (auto simp: ent(2) getBaseHash_def)
  with fields show ?thesis by blast
qed

text \<open>What opening the cache keeps: the artefacts of the entry are still there.\<close>

definition present :: "('x, 'd) cache_env \<Rightarrow> StackerConfig \<Rightarrow> 'x world \<Rightarrow> CacheEntry \<Rightarrow> bool" where
  "present env config w ent =
     (if lay_BuildOnly (ent_Layer ent) then is_ok (stat_of (path_Join [sc_RootFSDir config, ent_Name ent]) w)
      else list_all (\<lambda>(_, d). is_ok (cx_FromDescriptor env (w_ext w) d)) (ent_Manifests ent))"

lemma check_manifests_None:
  "ms \<noteq> [] \<Longrightarrow> check_manifests f err ms = None \<longleftrightarrow> list_all (\<lambda>(_, d). is_ok (f d)) ms"
proof (induction ms arbitrary: err)
  case (Cons m ms)
  obtain lt d where m: "m = (lt, d)" by force
  show ?case by (cases ms) (use Cons.IH [of None] m in \<open>auto split: sum.splits\<close>)
qed simp

lemma entry_err_None:
  "lay_BuildOnly (ent_Layer ent) \<or> ent_Manifests ent \<noteq> [] \<Longrightarrow> entry_err env config w err ent = None \<longleftrightarrow> present env config w ent"
  by (auto simp: entry_err_def present_def check_manifests_None split: sum.splits)

lemma map_delete_absent: "k \<notin> fst ` set m \<Longrightarrow> map_delete k m = m"
  by (force simp: map_delete_def filter_id_conv)

lemma prune_step_eq: "prune_step env config w (err, cache, b) (k, e) =
    (if entry_err env config w err e = None then (None, cache, b) else (entry_err env config w err e, map_delete k cache, True))"
  by (simp add: prune_step_def Let_def)

text \<open>The loop deletes from the map it started with; seen from the entries it is a filter.\<close>

lemma prune_loop:
  assumes "distinct (map fst (done @ todo))"
    and "\<And>k e. (k, e) \<in> set todo \<Longrightarrow> lay_BuildOnly (ent_Layer e) \<or> ent_Manifests e \<noteq> []"
  shows "fst (snd (foldl (prune_step env config w) (err, done @ todo, b) todo)) =
    done @ filter (\<lambda>(_, e). present env config w e) todo"
  using assms
proof (induction todo arbitrary: "done" err b)
  case (Cons ke todo)
  obtain k e where ke: "ke = (k, e)" by force
  have absent: "k \<notin> fst ` set done" "k \<notin> fst ` set todo" using Cons.prems(1) by (auto simp: ke)
  have iff: "entry_err env config w err e = None \<longleftrightarrow> present env config w e"
    by (rule entry_err_None) (use Cons.prems(2) [of k e] ke in simp)
  have todo: "\<And>k e. (k, e) \<in> set todo \<Longrightarrow> lay_BuildOnly (ent_Layer e) \<or> ent_Manifests e \<noteq> []"
    using Cons.prems(2) by (meson list.set_intros(2))
  show ?case
  proof (cases "present env config w e")
    case True
    with iff have "foldl (prune_step env config w) (err, done @ ke # todo, b) (ke # todo) =
        foldl (prune_step env config w) (None, (done @ [ke]) @ todo, b) todo" by (simp add: ke prune_step_eq)
    also have "fst (snd \<dots>) = (done @ [ke]) @ filter (\<lambda>(_, e). present env config w e) todo"
      by (rule Cons.IH [OF _ todo]) (use Cons.prems(1) in simp)
    finally show ?thesis using True by (simp add: ke)
  next
    case False
    have "map_delete k (done @ ke # todo) = done @ todo"
      using map_delete_absent [OF absent(1)] map_delete_absent [OF absent(2)] by (simp add: map_delete_def ke)
    moreover have "entry_err env config w err e \<noteq> None" using iff False by blast
    ultimately have "foldl (prune_step env config w) (err, done @ ke # todo, b) (ke # todo) =
        foldl (prune_step env config w) (entry_err env config w err e, done @ todo, True) todo" by (simp add: ke prune_step_eq del: not_None_eq)
    also have "fst (snd \<dots>) = done @ filter (\<lambda>(_, e). present env config w e) todo"
      by (rule Cons.IH [OF _ todo]) (use Cons.prems(1) in simp)
    finally show ?thesis using False by (simp add: ke)
  qed
qed simp

text \<open>
  Opening a cache file of the current version keeps exactly the entries whose artefacts are
  still there: the root file system of a build-only layer, all the manifests of any other.
\<close>

theorem open_cache_keeps_present:
  assumes "OpenCache env config sfm w = (Inr c, w')"
    and "os_ReadFile (CacheFile config) w = (Inr content, w)" "versionMatches env content = Inr True"
    and "cx_decode env content = Inr (entries, v)" "distinct (map fst entries)"
    and "\<And>k e. (k, e) \<in> set entries \<Longrightarrow> lay_BuildOnly (ent_Layer e) \<or> ent_Manifests e \<noteq> []"
  shows "bc_Cache c = filter (\<lambda>(_, e). present env config w e) entries"
proof -
  obtain err kept pruned where loop: "foldl (prune_step env config w) (None, entries, False) entries = (err, kept, pruned)"
    using prod_cases3 by blast
  have "bc_Cache c = kept"
    using assms(1-4) loop by (auto simp: OpenCache_def io_simps io_bind_def io_try_def io_wrap_def io_res_def io_get_def io_ret_def
        Let_def split: if_splits prod.splits sum.splits)
  with prune_loop [of "[]" entries env config w None False] loop assms(5,6) show ?thesis by simp
qed

text \<open>
  A cache file of another version is removed and the build starts with an empty cache.
\<close>

theorem open_cache_other_version:
  assumes "os_ReadFile (CacheFile config) w = (Inr content, w)" "cx_version env content = Inr v" "v \<noteq> currentCacheVersion"
  shows "\<exists>w'. OpenCache env config sfm w = (Inr (fresh_cache config sfm), w') \<and> w' = snd (os_Remove (CacheFile config) w)"
  using assms
  by (simp add: OpenCache_def versionMatches_def io_bind_def io_try_def io_res_def io_ret_def split: prod.splits)

text \<open>
  When built bases do not form a cycle, looking a layer up ends: any stack deeper than
  the chain of bases below the layer gives the same answer.
\<close>

theorem lookup_stack_enough:
  assumes chain: "\<And>nm l. LookupLayerDefinition (bc_sfm c) nm = Some l \<Longrightarrow> is_Type (lay_From l) = BuiltLayer \<Longrightarrow>
      depth (is_Tag (lay_From l)) < depth nm"
    and "depth name < n" "depth name < m"
  shows "Lookup n env c w name = Lookup m env c w name"
  using assms(2,3)
proof (induction n arbitrary: m name)
  case (Suc n)
  then obtain m' where m: "m = Suc m'" by (cases m) auto
  have "getBaseHash_with (Lookup n env c w) env c w name = getBaseHash_with (Lookup m' env c w) env c w name"
  proof (cases "LookupLayerDefinition (bc_sfm c) name")
    case (Some l)
    have "Lookup n env c w (is_Tag (lay_From l)) = Lookup m' env c w (is_Tag (lay_From l))" if "is_Type (lay_From l) = BuiltLayer"
      using chain [OF Some that] Suc.prems m by (intro Suc.IH) auto
    with Some show ?thesis by (simp add: getBaseHash_with_def Let_def)
  qed (simp add: getBaseHash_with_def)
  then show ?case by (simp add: m Lookup_with_def split: option.splits)
qed simp

section \<open>Witnesses\<close>

text \<open>An environment with plain stand-ins: a listing is the texts below a directory.\<close>

definition sample_cache_env :: "(string list, string) cache_env" where
  "sample_cache_env = \<lparr>cx_sha256 = id, cx_walk = (\<lambda>_ m k. Inr (concat (map fst (filter (\<lambda>(k', _). under k k') m)))),
     cx_parse = Inr, cx_write = Inr, cx_compare = (\<lambda>_ a b. Inr (if a = b then [] else [''.''])), cx_hash = (\<lambda>_. Inr 7),
     cx_FromDescriptor = (\<lambda>x d. if desc_Digest d \<in> set x then Inr () else Inl ENOENT),
     cx_OpenLayout = (\<lambda>_ _. Inr ()), cx_ResolveReference = (\<lambda>_ _ _. Inr []), cx_Encoded = Inr, cx_version = (\<lambda>_. Inr 16),
     cx_decode = (\<lambda>_. Inr ([], 16)), cx_encode = (\<lambda>_. Inr ''{}'')\<rparr>"

definition sample_config :: StackerConfig where
  "sample_config = \<lparr>sc_WorkDir = ''/'', sc_StackerDir = ''/s'', sc_OCIDir = ''/oci'', sc_RootFSDir = ''/r'', sc_Debug = False,
     sc_StorageType = ''overlay'', sc_SourceDateEpoch = None\<rparr>"

definition cached_layer :: Layer where
  "cached_layer = zero_layer\<lparr>lay_From := (lay_From zero_layer)\<lparr>is_Type := ScratchLayer\<rparr>, lay_Imports := [sample_import ''/f'']\<rparr>"

definition sample_sfm :: StackerFiles where
  "sample_sfm = [(''/stacker.yaml'', \<lparr>sf_AfterSubstitutions = [], sf_internal = [(''a'', cached_layer)], sf_FileOrder = [''a''],
     sf_buildConfig = None, sf_path = ''/stacker.yaml'', sf_ReferenceDirectory = ''/''\<rparr>)]"

definition cache_world :: "string list world" where
  "cache_world = \<lparr>w_fs = [(''/s'', Dir), (''/s/imports'', Dir), (''/s/imports/a'', Dir), (''/s/imports/a/f'', File ''x'' 420 (0, 0)),
     (''/s/build.cache'', File ''{}'' 384 (0, 0))], w_cwd = ''/'', w_ext = []\<rparr>"

definition sample_desc :: Descriptor where
  "sample_desc = \<lparr>desc_MediaType = ''m'', desc_Digest = ''sha256:d'', desc_Size = 1, desc_Annotations = []\<rparr>"

lemmas cache_samples = sample_cache_env_def sample_config_def cached_layer_def sample_sfm_def cache_world_def sample_desc_def

lemma sample_lookup_def: "LookupLayerDefinition sample_sfm ''a'' = Some cached_layer"
  by (simp add: LookupLayerDefinition_def sample_sfm_def Stackerfile_Get_def)

lemma sample_put: "\<exists>c' w'. Put 1 sample_cache_env ''a'' [] (fresh_cache sample_config sample_sfm) cache_world = (Inr c', w')"
proof -
  have "is_ok (fst (Put 1 sample_cache_env ''a'' [] (fresh_cache sample_config sample_sfm) cache_world))" by code_simp
  then show ?thesis by (cases "Put 1 sample_cache_env ''a'' [] (fresh_cache sample_config sample_sfm) cache_world") (auto simp: is_ok_iff)
qed

theorem put_then_lookup_witness:
  "\<exists>c' w' ent. Put 1 sample_cache_env ''a'' [] (fresh_cache sample_config sample_sfm) cache_world = (Inr c', w') \<and>
     Lookup 1 sample_cache_env c' cache_world ''a'' = Inr (Some ent) \<and> ent_Manifests ent = [] \<and> ent_Layer ent = cached_layer"
proof -
  obtain c' w' where put: "Put 1 sample_cache_env ''a'' [] (fresh_cache sample_config sample_sfm) cache_world = (Inr c', w')"
    using sample_put by blast
  then have sfm: "bc_sfm c' = sample_sfm" by (auto simp: Put_def io_simps Let_def fresh_cache_def)
  have laws: "listing_laws sample_cache_env" by (simp add: listing_laws_def sample_cache_env_def)
  have l: "LookupLayerDefinition (bc_sfm (fresh_cache sample_config sample_sfm)) ''a'' = Some cached_layer"
    by (simp add: fresh_cache_def sample_lookup_def)
  have same: "same_inputs sample_cache_env (bc_config (fresh_cache sample_config sample_sfm)) ''a'' cached_layer cache_world cache_world"
    by (simp add: same_inputs_def cached_layer_def zero_layer_def)
  have "getBaseHash 0 sample_cache_env c' cache_world ''a'' =
      getBaseHash 1 sample_cache_env (fresh_cache sample_config sample_sfm) cache_world ''a''"
    by (simp add: getBaseHash_def getBaseHash_with_def sfm l sample_lookup_def cached_layer_def ScratchLayer_def BuiltLayer_def)
  from put_then_lookup [OF laws put l same this] put show ?thesis by auto
qed

theorem open_cache_keeps_present_witness:
  "bc_Cache (fresh_cache sample_config sample_sfm) = filter (\<lambda>(_, e). present sample_cache_env sample_config cache_world e) []"
proof (rule open_cache_keeps_present)
  show "OpenCache sample_cache_env sample_config sample_sfm cache_world = (Inr (fresh_cache sample_config sample_sfm), cache_world)"
    by code_simp
  show "os_ReadFile (CacheFile sample_config) cache_world = (Inr ''{}'', cache_world)" by code_simp
  show "versionMatches sample_cache_env ''{}'' = Inr True"
    by (simp add: versionMatches_def sample_cache_env_def currentCacheVersion_def)
  show "cx_decode sample_cache_env ''{}'' = Inr ([], 16)" by (simp add: sample_cache_env_def)
qed simp_all

theorem open_cache_other_version_witness:
  "\<exists>w'. OpenCache (sample_cache_env\<lparr>cx_version := (\<lambda>_. Inr 15)\<rparr>) sample_config sample_sfm cache_world =
      (Inr (fresh_cache sample_config sample_sfm), w') \<and> w' = snd (os_Remove (CacheFile sample_config) cache_world)"
proof (rule open_cache_other_version [where v = 15])
  show "os_ReadFile (CacheFile sample_config) cache_world = (Inr ''{}'', cache_world)" by code_simp
qed (simp_all add: sample_cache_env_def currentCacheVersion_def)

theorem lookup_stack_enough_witness:
  "Lookup 1 sample_cache_env (fresh_cache sample_config sample_sfm) cache_world ''a'' =
   Lookup 9 sample_cache_env (fresh_cache sample_config sample_sfm) cache_world ''a''"
proof (rule lookup_stack_enough [where depth = "\<lambda>_. 0"])
  fix nm l
  assume "LookupLayerDefinition (bc_sfm (fresh_cache sample_config sample_sfm)) nm = Some l" "is_Type (lay_From l) = BuiltLayer"
  then show "(0 :: nat) < 0"
    by (auto simp: LookupLayerDefinition_def Stackerfile_Get_def fresh_cache_def sample_sfm_def cached_layer_def
        ScratchLayer_def BuiltLayer_def split: if_splits)
qed simp_all

end
