(* ===== verification/Oci.thy ===== *)
theory Oci
  imports Go_Os Image_Source
begin

text \<open>
  Images and the libraries that keep them: the image configuration of the OCI specification, and
  the operations of umoci, go-containers/image, atomfs, xattr and the kernel that stacker calls,
  as one record of parameters. Every operation may change the world. A layout is named by its
  directory, a mutator of umoci is a value of the type \<open>'m\<close> that every operation on it returns
  anew. \<^verbatim>\<open>lib.ImageCopy\<close> (\<^verbatim>\<open>pkg/lib/image.go\<close>) is modelled here too.
\<close>

section \<open>Images\<close>

record History =
  hi_Created :: int
  hi_CreatedBy :: string
  hi_Author :: string
  hi_EmptyLayer :: bool

record Image =
  img_Created :: "int option"
  img_Author :: string
  img_Architecture :: string
  img_OS :: string
  img_User :: string
  img_Env :: "string list"
  img_Entrypoint :: "string list option"
  img_Cmd :: "string list option"
  img_Volumes :: "string list"
  img_WorkingDir :: string
  img_Labels :: "(string \<times> string) list"
  img_DiffIDs :: "string list"
  img_History :: "History list"

definition zero_descriptor :: Descriptor where
  "zero_descriptor = \<lparr>desc_MediaType = [], desc_Digest = [], desc_Size = 0, desc_Annotations = []\<rparr>"

definition zero_manifest :: Manifest where
  "zero_manifest = \<lparr>man_Config = zero_descriptor, man_Layers = [], man_Annotations = []\<rparr>"

definition zero_image :: Image where
  "zero_image = \<lparr>img_Created = None, img_Author = [], img_Architecture = [], img_OS = [], img_User = [], img_Env = [],
     img_Entrypoint = None, img_Cmd = None, img_Volumes = [], img_WorkingDir = [], img_Labels = [], img_DiffIDs = [],
     img_History = []\<rparr>"

text \<open>A lookup in a Go map: the zero value for a missing key.\<close>

definition map_get :: "'v \<Rightarrow> ('k \<times> 'v) list \<Rightarrow> 'k \<Rightarrow> 'v" where
  "map_get zero m k = (case map_of m k of Some v \<Rightarrow> v | None \<Rightarrow> zero)"

section \<open>Libraries\<close>

record image_ref =
  ref_Transport :: string
  ref_Text :: string

record copy_options =
  co_SrcInsecure :: bool
  co_SrcAuth :: "(string \<times> string) option"
  co_DestInsecure :: bool
  co_DestAuth :: "(string \<times> string) option"
  co_OS :: string
  co_Arch :: string
  co_ForceManifestMIMEType :: string

record ('x, 'm) oci_ops =
  oc_OpenLayout :: "string \<Rightarrow> ('x, unit) io"
  oc_LookupManifest :: "string \<Rightarrow> string \<Rightarrow> ('x, Manifest) io"
  oc_LookupConfig :: "string \<Rightarrow> Descriptor \<Rightarrow> ('x, Image) io"
  oc_UpdateImageConfig :: "string \<Rightarrow> string \<Rightarrow> Image \<Rightarrow> Manifest \<Rightarrow> ('x, Descriptor) io"
  oc_NewImage :: "string \<Rightarrow> string \<Rightarrow> int option \<Rightarrow> ('x, unit) io"
  oc_PutBlob :: "string \<Rightarrow> string \<Rightarrow> ('x, string \<times> int) io"
  oc_GetBlob :: "string \<Rightarrow> string \<Rightarrow> ('x, string) io"
  oc_ResolveReference :: "string \<Rightarrow> string \<Rightarrow> ('x, Descriptor list) io"
  oc_UpdateReference :: "string \<Rightarrow> string \<Rightarrow> Descriptor \<Rightarrow> ('x, unit) io"
  oc_GetIndex :: "string \<Rightarrow> ('x, Descriptor list) io"
  oc_PutIndex :: "string \<Rightarrow> Descriptor list \<Rightarrow> ('x, unit) io"
  oc_Encoded :: "string \<Rightarrow> string res"
  oc_parse_ref :: "string \<Rightarrow> (string \<Rightarrow> image_ref res) option"
  oc_CopyImage :: "image_ref \<Rightarrow> image_ref \<Rightarrow> copy_options \<Rightarrow> ('x, unit) io"
  oc_NewPolicyContext :: "unit res"
  oc_Now :: "('x, int) io"
  mu_New :: "string \<Rightarrow> Descriptor \<Rightarrow> ('x, 'm) io"
  mu_AddExisting :: "'m \<Rightarrow> Descriptor \<Rightarrow> History \<Rightarrow> string \<Rightarrow> ('x, 'm) io"
  mu_Add :: "'m \<Rightarrow> string \<Rightarrow> string \<Rightarrow> History \<Rightarrow> bool \<Rightarrow> (string \<times> string) list \<Rightarrow> ('x, 'm \<times> Descriptor) io"
  mu_Set :: "'m \<Rightarrow> Image \<Rightarrow> (string \<times> string) list \<Rightarrow> History \<Rightarrow> ('x, 'm) io"
  mu_Commit :: "'m \<Rightarrow> ('x, 'm \<times> Descriptor) io"
  mu_Manifest :: "'m \<Rightarrow> ('x, Manifest) io"
  mu_Config :: "'m \<Rightarrow> ('x, Image) io"
  fs_Make :: "string \<Rightarrow> string \<Rightarrow> string \<Rightarrow> bool \<Rightarrow> ('x, string \<times> string \<times> string) io"
  fs_ExtractSingle :: "string \<Rightarrow> (string \<Rightarrow> string \<Rightarrow> ('x, unit) io) option"
  tar_GenerateInsertLayer :: "string \<Rightarrow> int option \<Rightarrow> ('x, string) io"
  tar_UnpackLayer :: "string \<Rightarrow> string \<Rightarrow> ('x, unit) io"
  gz_NewReader :: "string \<Rightarrow> string res"
  xa_LList :: "string \<Rightarrow> ('x, string list) io"
  xa_LRemove :: "string \<Rightarrow> string \<Rightarrow> ('x, unit) io"
  sy_Mount :: "string \<Rightarrow> string \<Rightarrow> string \<Rightarrow> string \<Rightarrow> ('x, unit) io"
  sy_Unmount :: "string \<Rightarrow> ('x, unit) io"
  sy_Mknod :: "string \<Rightarrow> ('x, unit) io"
  sy_Statfs_Type :: "string \<Rightarrow> ('x, int) io"
  sy_IsPermission :: "go_error \<Rightarrow> bool"
  mt_types :: media_types
  mt_ImageLayer :: string
  mt_ImageLayerGzip :: string
  an_RefName :: string
  an_VerityRootHash :: string

section \<open>Copying images\<close>

definition localRefParser :: "('x, 'm) oci_ops \<Rightarrow> string \<Rightarrow> image_ref res" where
  "localRefParser oc ref =
     (case strings_SplitN ref '':'' 2 of
        [scheme, rest] \<Rightarrow>
          (case oc_parse_ref oc scheme of
             None \<Rightarrow> Inl (Errorf ''unknown url scheme %s for %s'' [scheme, ref])
           | Some f \<Rightarrow> f rest)
      | _ \<Rightarrow> Inl (Errorf ''bad image ref: %s'' [ref]))"

record ImageCopyOpts =
  ic_Src :: string
  ic_SrcUsername :: string
  ic_SrcPassword :: string
  ic_Dest :: string
  ic_DestUsername :: string
  ic_DestPassword :: string
  ic_ForceManifestType :: string
  ic_SrcSkipTLS :: bool
  ic_DestSkipTLS :: bool
  ic_OverrideOS :: string
  ic_OverrideArch :: string

definition copy_opts :: "string \<Rightarrow> string \<Rightarrow> ImageCopyOpts" where
  "copy_opts src dest = \<lparr>ic_Src = src, ic_SrcUsername = [], ic_SrcPassword = [], ic_Dest = dest, ic_DestUsername = [],
     ic_DestPassword = [], ic_ForceManifestType = [], ic_SrcSkipTLS = False, ic_DestSkipTLS = False, ic_OverrideOS = [],
     ic_OverrideArch = []\<rparr>"

definition copy_args :: "ImageCopyOpts \<Rightarrow> copy_options" where
  "copy_args opts =
     \<lparr>co_SrcInsecure = ic_SrcSkipTLS opts,
      co_SrcAuth = (if ic_SrcUsername opts \<noteq> [] then Some (ic_SrcUsername opts, ic_SrcPassword opts) else None),
      co_DestInsecure = ic_DestSkipTLS opts,
      co_DestAuth = (if ic_DestUsername opts \<noteq> [] then Some (ic_DestUsername opts, ic_DestPassword opts) else None),
      co_OS = ic_OverrideOS opts, co_Arch = ic_OverrideArch opts, co_ForceManifestMIMEType = ic_ForceManifestType opts\<rparr>"

text \<open>The entries of the index that have a name.\<close>

definition tagged :: "('x, 'm) oci_ops \<Rightarrow> Descriptor list \<Rightarrow> Descriptor list" where
  "tagged oc manifests =
     filter (\<lambda>desc. \<not> (case map_of (desc_Annotations desc) (an_RefName oc) of None \<Rightarrow> True | Some name \<Rightarrow> name = [])) manifests"

definition ImageCopy :: "('x, 'm) oci_ops \<Rightarrow> ImageCopyOpts \<Rightarrow> ('x, unit) io" where
  "ImageCopy oc opts =
     io_bind (io_res (localRefParser oc (ic_Src opts))) (\<lambda>srcRef.
     io_bind (io_res (localRefParser oc (ic_Dest opts))) (\<lambda>destRef.
     io_bind (io_res (oc_NewPolicyContext oc)) (\<lambda>_.
     io_bind (oc_CopyImage oc destRef srcRef (copy_args opts)) (\<lambda>_.
       if ref_Transport destRef = ''oci'' then
         (let parts = strings_SplitN (ic_Dest opts) '':'' 3 in
          if length parts \<noteq> 3 then io_err (Errorf ''un-parsable oci dest %s'' [ic_Dest opts])
          else
            io_bind (oc_OpenLayout oc (parts ! 1)) (\<lambda>_.
            io_bind (oc_GetIndex oc (parts ! 1)) (\<lambda>manifests.
              oc_PutIndex oc (parts ! 1) (tagged oc manifests))))
       else io_ret ()))))"

end
