(* ===== verification/Overlay.thy ===== *)
theory Overlay
  imports Oci Lib_Files Stackerfile
begin

text \<open>
  The overlay storage: \<^verbatim>\<open>pkg/overlay/overlay.go\<close>, \<^verbatim>\<open>metadata.go\<close> and \<^verbatim>\<open>overlay-dirs.go\<close>, and the
  parts of \<^verbatim>\<open>pack.go\<close> they use to make blobs and to unpack layers. A storage tag is a directory
  below the roots directory with an \<open>overlay\<close> directory for its contents and a metadata file that
  names the layers below it. The JSON of the metadata file is a parameter.
\<close>

section \<open>State\<close>

record overlayMetadata =
  om_Manifests :: "(LayerType \<times> Manifest) list"
  om_Configs :: "(LayerType \<times> Image) list"
  om_BuiltLayers :: "string list"
  om_HasBuiltOCIOutput :: bool
  om_OverlayDirLayers :: "(LayerType \<times> Descriptor list) list"

record overlay =
  ov_config :: StackerConfig

record ovl_json =
  oj_Marshal :: "overlayMetadata \<Rightarrow> string res"
  oj_Unmarshal :: "string \<Rightarrow> overlayMetadata res"

definition NewOverlay :: "StackerConfig \<Rightarrow> overlay" where
  "NewOverlay config = \<lparr>ov_config = config\<rparr>"

definition overlay_Name :: "overlay \<Rightarrow> string" where
  "overlay_Name o' = ''overlay''"

section \<open>Paths\<close>

definition safeOverlayName :: "string \<Rightarrow> string" where
  "safeOverlayName d = strings_ReplaceAll d '':'' ''_''"

definition overlayPath :: "string \<Rightarrow> string \<Rightarrow> string list \<Rightarrow> string" where
  "overlayPath rootfs d subdirs = path_Join ([rootfs, safeOverlayName d] @ subdirs)"

section \<open>Metadata\<close>

definition newOverlayMetadata :: overlayMetadata where
  "newOverlayMetadata = \<lparr>om_Manifests = [], om_Configs = [], om_BuiltLayers = [], om_HasBuiltOCIOutput = False,
     om_OverlayDirLayers = []\<rparr>"

definition newOverlayMetadataFromOCI :: "('x, 'm) oci_ops \<Rightarrow> string \<Rightarrow> string \<Rightarrow> ('x, overlayMetadata) io" where
  "newOverlayMetadataFromOCI oc oci tag =
     io_bind (oc_LookupManifest oc oci tag) (\<lambda>manifest.
     io_bind (io_res (NewLayerTypeManifest (mt_types oc) manifest)) (\<lambda>layerType.
       io_ret (newOverlayMetadata\<lparr>om_Manifests := [(layerType, manifest)]\<rparr>)))"

definition metadataFile :: "string \<Rightarrow> string \<Rightarrow> string" where
  "metadataFile rootfs tag = path_Join [rootfs, tag, ''overlay_metadata.json'']"

definition readOverlayMetadata :: "ovl_json \<Rightarrow> string \<Rightarrow> string \<Rightarrow> ('x, overlayMetadata) io" where
  "readOverlayMetadata oj rootfs tag =
     io_bind (io_wrap (couldnt ''read overlay metadata %s'') [metadataFile rootfs tag]
       (os_ReadFile (metadataFile rootfs tag))) (\<lambda>content.
     io_wrap (''couldnt'' @ [CHR 0x27] @ '' unmarshal overlay metadata %s'') [metadataFile rootfs tag]
       (io_res (oj_Unmarshal oj content)))"

definition ovl_write :: "ovl_json \<Rightarrow> overlayMetadata \<Rightarrow> StackerConfig \<Rightarrow> string \<Rightarrow> ('x, unit) io" where
  "ovl_write oj ovl config tag =
     io_bind (io_wrap (couldnt ''marshal overlay metadata'') [] (io_res (oj_Marshal oj ovl))) (\<lambda>content.
     io_wrap (couldnt ''write overlay metadata %s'') [metadataFile (sc_RootFSDir config) tag]
       (os_WriteFile (metadataFile (sc_RootFSDir config) tag) content 420))"

text \<open>The first manifest, and the first list of overlay directories, that \<^verbatim>\<open>range\<close> meets.\<close>

definition any_manifest :: "overlayMetadata \<Rightarrow> Manifest" where
  "any_manifest ovl = (case om_Manifests ovl of [] \<Rightarrow> zero_manifest | (_, m) # _ \<Rightarrow> m)"

definition any_overlay_dirs :: "overlayMetadata \<Rightarrow> Descriptor list" where
  "any_overlay_dirs ovl = (case om_OverlayDirLayers ovl of [] \<Rightarrow> [] | (_, ds) # _ \<Rightarrow> ds)"

text \<open>The lower directories of one kind; a layer of the manifest that was not unpacked is skipped.\<close>

definition manifest_lowerdirs :: "StackerConfig \<Rightarrow> string list \<Rightarrow> Descriptor list \<Rightarrow> ('x, string list) io" where
  "manifest_lowerdirs config dirs layers =
     io_fold (\<lambda>lowerdirs layer.
       let contents = overlayPath (sc_RootFSDir config) (desc_Digest layer) [''overlay''] in
       io_bind (io_try (os_Stat contents)) (\<lambda>st.
         case st of
           Inl e \<Rightarrow> if errors_Is e ENOENT then io_ret lowerdirs else io_err (Wrapf e ''%s unable to stat'' [contents])
         | Inr _ \<Rightarrow> io_ret (lowerdirs @ [contents]))) dirs layers"

definition existing_lowerdirs :: "string list \<Rightarrow> string list \<Rightarrow> ('x, string list) io" where
  "existing_lowerdirs dirs paths =
     io_fold (\<lambda>lowerdirs contents.
       io_bind (io_wrap ''%s does not exist'' [contents] (os_Stat contents)) (\<lambda>_. io_ret (lowerdirs @ [contents]))) dirs paths"

definition overlay_args :: "StackerConfig \<Rightarrow> string \<Rightarrow> string list \<Rightarrow> string" where
  "overlay_args config tag lowerdirs =
     (let buf = ''overlayfs:'' @ concat (map (\<lambda>d. d @ '':'') (rev lowerdirs));
          buf = take (length buf - 1) buf
      in buf @ '':'' @ path_Join [sc_RootFSDir config, tag, ''overlay''])"

definition lxcRootfsString :: "overlayMetadata \<Rightarrow> StackerConfig \<Rightarrow> string \<Rightarrow> ('x, string) io" where
  "lxcRootfsString ovl config tag =
     io_bind (manifest_lowerdirs config [] (man_Layers (any_manifest ovl))) (\<lambda>lowerdirs.
     io_bind (existing_lowerdirs lowerdirs (map (\<lambda>layer. path_Join [sc_RootFSDir config, layer, ''overlay'']) (om_BuiltLayers ovl))) (\<lambda>lowerdirs.
     io_bind (existing_lowerdirs lowerdirs
       (map (\<lambda>od. overlayPath (sc_RootFSDir config) (desc_Digest od) [''overlay'']) (any_overlay_dirs ovl))) (\<lambda>lowerdirs.
     io_bind (if lowerdirs = [] then
                (let workaround = path_Join [sc_RootFSDir config, tag, ''workaround''] in
                 io_bind (io_wrap (couldnt ''make workaround dir'') [] (os_MkdirAll workaround 493)) (\<lambda>_. io_ret [workaround]))
              else io_ret lowerdirs) (\<lambda>lowerdirs.
       io_ret (overlay_args config tag lowerdirs)))))"

section \<open>Blobs and layers\<close>

text \<open>The blob of a directory, its media type and its root hash.\<close>

definition generateBlob :: "('x, 'm) oci_ops \<Rightarrow> LayerType \<Rightarrow> string \<Rightarrow> string \<Rightarrow> int option \<Rightarrow> ('x, string \<times> string \<times> string) io" where
  "generateBlob oc layerType contents ociDir sourceDateEpoch =
     (if lt_Type layerType = ''tar'' then
        io_bind (tar_GenerateInsertLayer oc contents sourceDateEpoch) (\<lambda>blob. io_ret (blob, mt_ImageLayer oc, []))
      else fs_Make oc (lt_Type layerType) ociDir contents (lt_Verity layerType))"

definition root_annotations :: "('x, 'm) oci_ops \<Rightarrow> string \<Rightarrow> (string \<times> string) list" where
  "root_annotations oc rootHash = (if rootHash \<noteq> [] then [(an_VerityRootHash oc, rootHash)] else [])"

definition ociPutBlob :: "('x, 'm) oci_ops \<Rightarrow> string \<Rightarrow> StackerConfig \<Rightarrow> string \<Rightarrow> string \<Rightarrow> ('x, Descriptor) io" where
  "ociPutBlob oc blob config layerMediaType rootHash =
     io_bind (oc_OpenLayout oc (sc_OCIDir config)) (\<lambda>_.
     io_bind (oc_PutBlob oc (sc_OCIDir config) blob) (\<lambda>(layerDigest, layerSize).
       io_ret \<lparr>desc_MediaType = layerMediaType, desc_Digest = layerDigest, desc_Size = layerSize,
               desc_Annotations = root_annotations oc rootHash\<rparr>))"

definition hasDirEntries :: "string \<Rightarrow> ('x, bool) io" where
  "hasDirEntries dir = io_bind (io_try (os_ReadDir dir)) (\<lambda>ents. io_ret (case ents of Inl _ \<Rightarrow> False | Inr es \<Rightarrow> es \<noteq> []))"

text \<open>The lock around the extraction of tar layers has no effect on one extraction alone.\<close>

definition unpackOne :: "('x, 'm) oci_ops \<Rightarrow> Descriptor \<Rightarrow> string \<Rightarrow> string \<Rightarrow> ('x, unit) io" where
  "unpackOne oc l ociDir extractDir =
     io_bind (hasDirEntries extractDir) (\<lambda>populated.
       if populated then io_ret ()
       else (case fs_ExtractSingle oc (desc_MediaType l) of
           Some extractSingle \<Rightarrow>
             io_bind (io_res (oc_Encoded oc (desc_Digest l))) (\<lambda>enc.
               extractSingle (path_Join [ociDir, ''blobs'', ''sha256'', enc]) extractDir)
         | None \<Rightarrow>
             if desc_MediaType l = mt_ImageLayer oc \<or> desc_MediaType l = mt_ImageLayerGzip oc then
               io_bind (oc_OpenLayout oc ociDir) (\<lambda>_.
               io_bind (oc_GetBlob oc ociDir (desc_Digest l)) (\<lambda>compressed.
               io_bind (io_res (gz_NewReader oc compressed)) (\<lambda>uncompressed.
               io_bind (io_try (tar_UnpackLayer oc extractDir uncompressed)) (\<lambda>r.
                 case r of
                   Inl e \<Rightarrow> io_bind (io_try (os_RemoveAll extractDir)) (\<lambda>_. io_err e)
                 | Inr _ \<Rightarrow> io_ret ()))))
             else io_err (Errorf ''unknown media type %s'' [desc_MediaType l])))"

section \<open>Storage tags\<close>

definition overlay_Create :: "overlay \<Rightarrow> string \<Rightarrow> ('x, unit) io" where
  "overlay_Create o' source =
     io_bind (io_wrap (couldnt ''create %s'') [source]
       (os_MkdirAll (path_Join [sc_RootFSDir (ov_config o'), source, ''overlay'']) 493)) (\<lambda>_.
     io_wrap (couldnt ''create %s'') [source]
       (os_MkdirAll (path_Join [sc_RootFSDir (ov_config o'), source, ''rootfs'']) 493))"

definition SetupEmptyRootfs :: "ovl_json \<Rightarrow> overlay \<Rightarrow> string \<Rightarrow> ('x, unit) io" where
  "SetupEmptyRootfs oj o' name = ovl_write oj newOverlayMetadata (ov_config o') name"

definition snapshot :: "('x, 'm) oci_ops \<Rightarrow> ovl_json \<Rightarrow> overlay \<Rightarrow> string \<Rightarrow> string \<Rightarrow> ('x, unit) io" where
  "snapshot oc oj o' source target =
     io_bind (overlay_Create o' target) (\<lambda>_.
     io_bind (readOverlayMetadata oj (sc_RootFSDir (ov_config o')) source) (\<lambda>ovl.
       let manifest = foldl (\<lambda>_ (_, m). m) zero_manifest (om_Manifests ovl);
           ociDir = path_Join [sc_StackerDir (ov_config o'), ''layer-bases'', ''oci'']
       in io_bind (io_each (\<lambda>layer. io_wrap ''Failed mounting %#v'' [desc_Digest layer]
            (unpackOne oc layer ociDir (overlayPath (sc_RootFSDir (ov_config o')) (desc_Digest layer) [''overlay''])))
            (man_Layers manifest)) (\<lambda>_.
          ovl_write oj (ovl\<lparr>om_BuiltLayers := om_BuiltLayers ovl @ [source]\<rparr>) (ov_config o') target)))"

definition Snapshot :: "('x, 'm) oci_ops \<Rightarrow> ovl_json \<Rightarrow> overlay \<Rightarrow> string \<Rightarrow> string \<Rightarrow> ('x, unit) io" where
  "Snapshot oc oj o' source target = snapshot oc oj o' source target"

definition Restore :: "('x, 'm) oci_ops \<Rightarrow> ovl_json \<Rightarrow> overlay \<Rightarrow> string \<Rightarrow> string \<Rightarrow> ('x, unit) io" where
  "Restore oc oj o' source target = snapshot oc oj o' source target"

definition overlay_Delete :: "overlay \<Rightarrow> string \<Rightarrow> ('x, unit) io" where
  "overlay_Delete o' thing =
     io_wrap (couldnt ''delete %s'') [thing] (os_RemoveAll (path_Join [sc_RootFSDir (ov_config o'), thing]))"

definition overlay_Exists :: "overlay \<Rightarrow> string \<Rightarrow> ('x, bool) io" where
  "overlay_Exists o' thing =
     io_bind (io_try (os_Stat (path_Join [sc_RootFSDir (ov_config o'), thing]))) (\<lambda>st. io_ret (is_ok st))"

text \<open>The cleanup that \<^verbatim>\<open>TemporaryWritableSnapshot\<close> hands out, for the directory it made.\<close>

definition snapshot_cleanup :: "('x, 'm) oci_ops \<Rightarrow> overlay \<Rightarrow> string \<Rightarrow> ('x, unit) io" where
  "snapshot_cleanup oc o' dir =
     io_bind (io_try (sy_Unmount oc (path_Join [dir, ''rootfs'']))) (\<lambda>_.
     io_bind (io_try (overlay_Delete o' dir)) (\<lambda>_. io_ret ()))"

definition TemporaryWritableSnapshot ::
  "('x, 'm) oci_ops \<Rightarrow> ovl_json \<Rightarrow> overlay \<Rightarrow> string \<Rightarrow> ('x, string \<times> ('x, unit) io) io" where
  "TemporaryWritableSnapshot oc oj o' source =
     io_bind (io_wrap ''failed to create snapshot'' []
       (os_MkdirTemp (sc_RootFSDir (ov_config o')) (''temp-snapshot-'' @ source @ ''-''))) (\<lambda>dir.
     io_bind (io_try (Snapshot oc oj o' source (path_Base dir))) (\<lambda>r.
       case r of
         Inl e \<Rightarrow> io_bind (snapshot_cleanup oc o' dir) (\<lambda>_. io_err e)
       | Inr _ \<Rightarrow> io_ret (path_Base dir, snapshot_cleanup oc o' dir)))"

definition overlay_Clean :: "overlay \<Rightarrow> ('x, unit) io" where
  "overlay_Clean o' = io_wrap (couldnt ''clean rootfs dir'') [] (os_RemoveAll (sc_RootFSDir (ov_config o')))"

definition overlay_GC :: "overlay \<Rightarrow> ('x, unit) io" where
  "overlay_GC o' = io_err (Errorf ''todo'' [])"

definition GetLXCRootfsConfig :: "ovl_json \<Rightarrow> overlay \<Rightarrow> string \<Rightarrow> ('x, string) io" where
  "GetLXCRootfsConfig oj o' name =
     io_bind (readOverlayMetadata oj (sc_RootFSDir (ov_config o')) name) (\<lambda>ovl.
     io_bind (lxcRootfsString ovl (ov_config o') name) (\<lambda>s.
       io_ret (''overlay:'' @ s @ '',userxattr'')))"

definition TarExtractLocation :: "overlay \<Rightarrow> string \<Rightarrow> string" where
  "TarExtractLocation o' name = path_Join [sc_RootFSDir (ov_config o'), name, ''overlay'']"

section \<open>Overlay directories\<close>

definition generateOverlayDirLayer :: "('x, 'm) oci_ops \<Rightarrow> string \<Rightarrow> LayerType \<Rightarrow> OverlayDir \<Rightarrow> StackerConfig \<Rightarrow> ('x, Descriptor) io" where
  "generateOverlayDirLayer oc name layerType overlayDir config =
     io_bind (oc_OpenLayout oc (sc_OCIDir config)) (\<lambda>_.
     let contents = path_Join [sc_RootFSDir config, name, ''overlay_dirs'', path_Base (od_Source overlayDir)] in
     io_bind (generateBlob oc layerType contents (sc_OCIDir config) (sc_SourceDateEpoch config)) (\<lambda>(blob, mediaType, rootHash).
     io_bind (ociPutBlob oc blob config mediaType rootHash) (\<lambda>desc.
     io_bind (os_MkdirAll (overlayPath (sc_RootFSDir config) (desc_Digest desc) []) 493) (\<lambda>_.
     io_bind (io_try (os_Symlink contents (overlayPath (sc_RootFSDir config) (desc_Digest desc) [''overlay'']))) (\<lambda>r.
       case r of
         Inl e \<Rightarrow> if \<not> errors_Is e EEXIST then io_err (Wrapf e ''failed to create symlink'' []) else io_ret desc
       | Inr _ \<Rightarrow> io_ret desc)))))"

definition generateOverlayDirsLayers ::
  "('x, 'm) oci_ops \<Rightarrow> ovl_json \<Rightarrow> string \<Rightarrow> LayerType list \<Rightarrow> OverlayDir list \<Rightarrow> StackerConfig \<Rightarrow> ('x, unit) io" where
  "generateOverlayDirsLayers oc oj name layerTypes overlayDirs config =
     io_bind (readOverlayMetadata oj (sc_RootFSDir config) name) (\<lambda>ovl.
     io_bind (io_fold (\<lambda>m layerType.
         io_fold (\<lambda>m od.
           io_bind (generateOverlayDirLayer oc name layerType od config) (\<lambda>desc.
             io_ret (map_put layerType (map_get [] m layerType @ [desc]) m))) m overlayDirs) [] layerTypes) (\<lambda>m.
       ovl_write oj (ovl\<lparr>om_OverlayDirLayers := m\<rparr>) config name))"

definition copyOverlayDir :: "nat \<Rightarrow> string \<Rightarrow> string \<Rightarrow> OverlayDir \<Rightarrow> ('x, unit) io" where
  "copyOverlayDir n name rootfs overlayDir =
     io_bind (io_try (os_Stat (od_Source overlayDir))) (\<lambda>st.
       case st of
         Inl e \<Rightarrow>
           if os_IsNotExist e then io_err (Errorf (''Given overlay_dir %s doesn'' @ [CHR 0x27] @ ''t exists'') [od_Source overlayDir])
           else io_err (Panic ''invalid memory address or nil pointer dereference'')
       | Inr fi \<Rightarrow>
           if \<not> node_IsDir fi then io_err (Errorf ''Given overlay_dir %s should be a directory'' [od_Source overlayDir])
           else
             (let contents = path_Join [rootfs, name, ''overlay_dirs'', path_Base (od_Source overlayDir), od_Dest overlayDir] in
              io_bind (io_try (os_Stat contents)) (\<lambda>st.
              io_bind (case st of Inl e \<Rightarrow> if os_IsNotExist e then os_MkdirAll contents 493 else io_ret () | Inr _ \<Rightarrow> io_ret ()) (\<lambda>_.
                DirCopy n contents (od_Source overlayDir)))))"

definition copyOverlayDirs :: "nat \<Rightarrow> string \<Rightarrow> OverlayDir list \<Rightarrow> string \<Rightarrow> ('x, unit) io" where
  "copyOverlayDirs n name overlayDirs rootfs = io_each (copyOverlayDir n name rootfs) overlayDirs"

text \<open>
  The loop over the layers of the manifest, which looks at the last layer every time: the error
  variable it leaves behind, and the destination.
\<close>

fun validate_dest ::
  "nat \<Rightarrow> string \<Rightarrow> string \<Rightarrow> go_error option \<Rightarrow> string \<Rightarrow> ('x, go_error option \<times> string) io" where
  "validate_dest 0 contents dest err cur = io_ret (err, cur)"
| "validate_dest (Suc i) contents dest err cur =
     io_bind (io_try (os_Stat contents)) (\<lambda>st.
       case st of
         Inl e \<Rightarrow> if errors_Is e ENOENT then validate_dest i contents dest err cur
                  else io_err (Wrapf e ''unable to stat %s'' [contents])
       | Inr _ \<Rightarrow>
           io_bind (io_try (filepath_EvalSymlinks contents)) (\<lambda>ec.
             case ec of
               Inl e \<Rightarrow> if errors_Is e ENOENT then validate_dest i contents dest (Some e) cur
                        else io_err (Wrapf e ''unable to eval symlink %s'' [[]])
             | Inr contents' \<Rightarrow>
                 io_bind (io_try (filepath_EvalSymlinks (path_Join [contents', dest]))) (\<lambda>ed.
                   case ed of
                     Inl e \<Rightarrow> if errors_Is e ENOENT then validate_dest i contents dest None cur
                              else io_err (Wrapf e ''unable to eval symlink %s'' [path_Join [contents', dest]])
                   | Inr realdest \<Rightarrow>
                       (let trimmed = strings_TrimPrefix realdest contents';
                            cur' = (if trimmed = [] then dest else trimmed)
                        in if dest \<noteq> cur' then io_ret (None, cur') else validate_dest i contents dest None cur'))))"

definition validateOverlayDirs :: "ovl_json \<Rightarrow> string \<Rightarrow> OverlayDir list \<Rightarrow> string \<Rightarrow> ('x, OverlayDir list) io" where
  "validateOverlayDirs oj name overlayDirs rootfs =
     io_bind (readOverlayMetadata oj rootfs name) (\<lambda>ovl.
     let layers = man_Layers (any_manifest ovl) in
     io_bind (io_fold (\<lambda>(err, done) ovldir.
         if od_Dest ovldir = [] \<or> layers = [] then io_ret (err, done @ [ovldir])
         else io_bind (validate_dest (length layers) (overlayPath rootfs (desc_Digest (last layers)) [''overlay'']) (od_Dest ovldir) err
                  (od_Dest ovldir)) (\<lambda>(err, dest).
                io_ret (err, done @ [ovldir\<lparr>od_Dest := dest\<rparr>])))
       (None, []) overlayDirs) (\<lambda>(err, dirs).
       case err of None \<Rightarrow> io_ret dirs | Some e \<Rightarrow> io_err e))"

definition SetOverlayDirs ::
  "nat \<Rightarrow> ('x, 'm) oci_ops \<Rightarrow> ovl_json \<Rightarrow> overlay \<Rightarrow> string \<Rightarrow> OverlayDir list \<Rightarrow> LayerType list \<Rightarrow> ('x, unit) io" where
  "SetOverlayDirs n oc oj o' name overlayDirs layerTypes =
     (if length overlayDirs = 0 then io_ret ()
      else io_bind (validateOverlayDirs oj name overlayDirs (sc_RootFSDir (ov_config o'))) (\<lambda>overlayDirs.
           io_bind (copyOverlayDirs n name overlayDirs (sc_RootFSDir (ov_config o'))) (\<lambda>_.
             generateOverlayDirsLayers oc oj name layerTypes overlayDirs (ov_config o'))))"

section \<open>Checks\<close>

definition canMountOverlay :: "('x, 'm) oci_ops \<Rightarrow> string \<Rightarrow> ('x, unit) io" where
  "canMountOverlay oc tmpdir =
     io_bind (io_wrap (couldnt ''create overlay tmpdir'') [] (os_MkdirTemp tmpdir ''stacker-overlay-mount-'')) (\<lambda>dir.
     io_defer (os_RemoveAll dir)
       (let lower1 = path_Join [dir, ''lower1'']; lower2 = path_Join [dir, ''lower2'']; mountpoint = path_Join [dir, ''mountpoint''] in
        io_bind (io_wrap (couldnt ''create overlay lower dir'') [] (os_Mkdir lower1 493)) (\<lambda>_.
        io_bind (io_wrap (couldnt ''create overlay lower dir'') [] (os_Mkdir lower2 493)) (\<lambda>_.
        io_bind (io_wrap (couldnt ''create overlay mountpoint dir'') [] (os_Mkdir mountpoint 493)) (\<lambda>_.
        io_defer (sy_Unmount oc mountpoint)
          (io_wrap (couldnt ''mount overlayfs'') []
            (sy_Mount oc ''overlay'' mountpoint ''overlay'' (''userxattr,lowerdir='' @ lower1 @ '':'' @ lower2))))))))"

definition isOverlayfs :: "('x, 'm) oci_ops \<Rightarrow> string \<Rightarrow> ('x, bool) io" where
  "isOverlayfs oc dir =
     io_bind (io_wrap ''failed to stat for overlayfs'' [] (sy_Statfs_Type oc dir)) (\<lambda>ty. io_ret (ty = 0x794c7630))"

definition canWriteWhiteouts :: "('x, 'm) oci_ops \<Rightarrow> StackerConfig \<Rightarrow> ('x, unit) io" where
  "canWriteWhiteouts oc config =
     io_bind (isOverlayfs oc (sc_RootFSDir config)) (\<lambda>isOverlay.
       if isOverlay then
         io_err (Errorf (''can'' @ [CHR 0x27] @ ''t create overlay whiteout on underlying overlayfs in %s'') [sc_RootFSDir config])
       else
         io_bind (io_wrap (couldnt ''create overlay tmpdir'') [] (os_MkdirTemp (sc_RootFSDir config) ''stacker-overlay-whiteout-'')) (\<lambda>dir.
         io_defer (os_RemoveAll dir)
           (io_bind (io_try (sy_Mknod oc (path_Join [dir, ''test'']))) (\<lambda>r.
              case r of
                Inl e \<Rightarrow>
                  if sy_IsPermission oc e
                  then io_err (Errorf (''can'' @ [CHR 0x27] @ ''t create overlay whiteouts (use a kernel >= 5.8)'') [])
                  else io_err (Wrapf e (couldnt ''create overlay whiteout'') [])
              | Inr _ \<Rightarrow> io_ret ()))))"

definition overlay_Check :: "('x, 'm) oci_ops \<Rightarrow> string \<Rightarrow> StackerConfig \<Rightarrow> ('x, unit) io" where
  "overlay_Check oc tmpdir config =
     io_bind (canMountOverlay oc tmpdir) (\<lambda>_. canWriteWhiteouts oc config)"

end
