(* ===== verification/Repack.thy ===== *)
theory Repack
  imports Overlay
begin

text \<open>
  From the root file system of a layer to its images: \<^verbatim>\<open>pkg/overlay/pack.go\<close> without its helpers
  (theory \<open>Overlay\<close>), and \<^verbatim>\<open>pkg/storage/storage.go\<close>, which finds the base to start from.
\<close>

section \<open>The base in the output\<close>

text \<open>
  The search through built bases, which goes on for as long as it meets build-only layers. The
  loop of the code has no bound: \<open>partial_function\<close>, with \<^const>\<open>None\<close> for a search that never ends.
\<close>

partial_function (option) first_base :: "StackerFiles \<Rightarrow> string \<Rightarrow> Layer \<Rightarrow> (string \<times> Layer \<times> bool) res option" where
  "first_base sfm baseTag base =
     (if is_Type (lay_From base) \<noteq> BuiltLayer then
        Some (Inr (if IsContainersImageLayer (is_Type (lay_From base)) then (baseTag, base, True) else ([], zero_layer, False)))
      else (case ParseTag (lay_From base) of
          Inl e \<Rightarrow> Some (Inl e)
        | Inr tag \<Rightarrow>
            (case LookupLayerDefinition sfm tag of
               None \<Rightarrow> Some (Inl (Errorf ''missing base layer: %s?'' [tag]))
             | Some base' \<Rightarrow>
                 if \<not> lay_BuildOnly base' then Some (Inr (tag, base', True)) else first_base sfm tag base')))"

definition FindFirstBaseInOutput :: "string \<Rightarrow> StackerFiles \<Rightarrow> (string \<times> Layer \<times> bool) res option" where
  "FindFirstBaseInOutput name sfm =
     (case LookupLayerDefinition sfm name of
        None \<Rightarrow> Some (Inl (Errorf (couldnt ''find layer %s'') [name]))
      | Some base \<Rightarrow> first_base sfm name base)"

section \<open>Unpacking\<close>

fun new_layers :: "string list \<Rightarrow> Descriptor list \<Rightarrow> Descriptor list" where
  "new_layers seen [] = []"
| "new_layers seen (l # ls) =
     (if desc_Digest l \<in> set seen then new_layers seen ls else l # new_layers (desc_Digest l # seen) ls)"

text \<open>
  The jobs of the thread pool run here one after the other, in the order \<open>order\<close> gives them; what
  the pool itself does is the theory \<open>Thread_Pool\<close>.
\<close>

definition Unpack ::
  "('x, 'm) oci_ops \<Rightarrow> ovl_json \<Rightarrow> (Descriptor list \<Rightarrow> Descriptor list) \<Rightarrow> overlay \<Rightarrow> string \<Rightarrow> string \<Rightarrow> ('x, unit) io" where
  "Unpack oc oj order o' tag name =
     (let cacheDir = path_Join [sc_StackerDir (ov_config o'), ''layer-bases'', ''oci''] in
      io_bind (oc_OpenLayout oc cacheDir) (\<lambda>_.
      io_bind (oc_LookupManifest oc cacheDir tag) (\<lambda>manifest.
      io_bind (io_each (\<lambda>l. unpackOne oc l cacheDir (overlayPath (sc_RootFSDir (ov_config o')) (desc_Digest l) [''overlay'']))
        (order (new_layers [] (man_Layers manifest)))) (\<lambda>_.
      io_bind (overlay_Create o' name) (\<lambda>_.
      io_bind (newOverlayMetadataFromOCI oc cacheDir tag) (\<lambda>ovl.
        ovl_write oj ovl (ov_config o') name))))))"

section \<open>Converting an image to another layer type\<close>

definition convert_layer ::
  "('x, 'm) oci_ops \<Rightarrow> StackerConfig \<Rightarrow> LayerType \<Rightarrow> Manifest \<times> Image \<Rightarrow> Descriptor \<Rightarrow> ('x, Manifest \<times> Image) io" where
  "convert_layer oc config layerType st theLayer =
     (case st of (newManifest, newConfig) \<Rightarrow>
      let overlayDir = path_Join [overlayPath (sc_RootFSDir config) (desc_Digest theLayer) [], ''overlay''] in
      io_bind (generateBlob oc layerType overlayDir (sc_OCIDir config) (sc_SourceDateEpoch config)) (\<lambda>(blob, mediaType, rootHash).
      io_bind (ociPutBlob oc blob config mediaType rootHash) (\<lambda>desc.
      io_bind (PathExists (overlayPath (sc_RootFSDir config) (desc_Digest desc) [])) (\<lambda>there.
      io_bind (if \<not> there then
                 io_wrap ''failed to create squashfs symlink'' []
                   (os_Symlink (overlayPath (sc_RootFSDir config) (desc_Digest theLayer) [])
                      (overlayPath (sc_RootFSDir config) (desc_Digest desc) []))
               else io_ret ()) (\<lambda>_.
        io_ret (newManifest\<lparr>man_Layers := man_Layers newManifest @ [desc]\<rparr>,
                newConfig\<lparr>img_DiffIDs := img_DiffIDs newConfig @ [desc_Digest desc]\<rparr>))))))"

definition ConvertAndOutput :: "('x, 'm) oci_ops \<Rightarrow> StackerConfig \<Rightarrow> string \<Rightarrow> string \<Rightarrow> LayerType \<Rightarrow> ('x, unit) io" where
  "ConvertAndOutput oc config tag name layerType =
     (let cacheDir = path_Join [sc_StackerDir config, ''layer-bases'', ''oci''] in
      io_bind (oc_OpenLayout oc cacheDir) (\<lambda>_.
      io_bind (oc_OpenLayout oc (sc_OCIDir config)) (\<lambda>_.
      io_bind (oc_LookupManifest oc cacheDir tag) (\<lambda>manifest.
      io_bind (oc_LookupConfig oc cacheDir (man_Config manifest)) (\<lambda>imageConfig.
      io_bind (io_fold (convert_layer oc config layerType) (manifest\<lparr>man_Layers := []\<rparr>, imageConfig\<lparr>img_DiffIDs := []\<rparr>)
        (man_Layers manifest)) (\<lambda>(newManifest, newConfig).
      io_bind (oc_UpdateImageConfig oc (sc_OCIDir config) (LayerName layerType name) newConfig newManifest) (\<lambda>_.
        io_ret ())))))))"

definition lookupManifestInDir :: "('x, 'm) oci_ops \<Rightarrow> string \<Rightarrow> string \<Rightarrow> ('x, Manifest) io" where
  "lookupManifestInDir oc dir name =
     io_bind (oc_OpenLayout oc dir) (\<lambda>_. oc_LookupManifest oc dir name)"

definition oci_url :: "string \<Rightarrow> string \<Rightarrow> string" where
  "oci_url dir tag = ''oci:'' @ dir @ '':'' @ tag"

definition initializeBasesInOutput ::
  "('x, 'm) oci_ops \<Rightarrow> overlay \<Rightarrow> string \<Rightarrow> LayerType list \<Rightarrow> StackerFiles \<Rightarrow> ('x, unit) io" where
  "initializeBasesInOutput oc o' name layerTypes sfm =
     (let config = ov_config o';
          newImages =
            io_bind (oc_OpenLayout oc (sc_OCIDir config)) (\<lambda>_.
              io_each (\<lambda>layerType. oc_NewImage oc (sc_OCIDir config) (LayerName layerType name) (sc_SourceDateEpoch config)) layerTypes)
      in case FindFirstBaseInOutput name sfm of
        None \<Rightarrow> io_err (Panic ''infinite loop'')
      | Some (Inl e) \<Rightarrow> io_err e
      | Some (Inr (baseTag, baseLayer, foundBase)) \<Rightarrow>
          if foundBase then
            (if \<not> lay_BuildOnly baseLayer \<and> baseTag \<noteq> name then
               io_each (\<lambda>layerType. ImageCopy oc (copy_opts (oci_url (sc_OCIDir config) (LayerName layerType baseTag))
                 (oci_url (sc_OCIDir config) (LayerName layerType name)))) layerTypes
             else if IsContainersImageLayer (is_Type (lay_From baseLayer)) then
               (let cacheDir = path_Join [sc_StackerDir config, ''layer-bases'', ''oci''] in
                io_bind (io_res (ParseTag (lay_From baseLayer))) (\<lambda>cacheTag.
                io_bind (lookupManifestInDir oc cacheDir cacheTag) (\<lambda>manifest.
                io_bind (io_res (NewLayerTypeManifest (mt_types oc) manifest)) (\<lambda>sourceLayerType.
                  io_each (\<lambda>layerType.
                    if sourceLayerType = layerType then
                      ImageCopy oc (copy_opts (oci_url cacheDir cacheTag) (oci_url (sc_OCIDir config) (LayerName layerType name)))
                    else ConvertAndOutput oc config cacheTag name layerType) layerTypes))))
             else newImages)
          else newImages)"

section \<open>Generating layers\<close>

definition overlay_match :: string where "overlay_match = ''.overlay.''"
definition overlay_opaque :: string where "overlay_opaque = overlay_match @ ''opaque''"

definition stripOverlayAttrs :: "('x, 'm) oci_ops \<Rightarrow> string \<Rightarrow> ('x, unit) io" where
  "stripOverlayAttrs oc p =
     io_bind (xa_LList oc p) (\<lambda>attrs.
       io_each (\<lambda>attr.
         if \<not> strings_Contains attr overlay_match then io_ret ()
         else if strings_HasSuffix attr overlay_opaque then io_ret ()
         else io_bind (io_try (xa_LRemove oc p attr)) (\<lambda>r.
           case r of
             Inl e \<Rightarrow> io_err (Errorf ''%s: failed to remove attr %s: %v'' [p, attr])
           | Inr _ \<Rightarrow> io_ret ())) attrs)"

definition stripOverlayAttrsUnder :: "('x, 'm) oci_ops \<Rightarrow> string \<Rightarrow> ('x, unit) io" where
  "stripOverlayAttrsUnder oc dirPath =
     io_bind (os_Lstat dirPath) (\<lambda>_.
     io_bind io_get (\<lambda>w.
       io_each (\<lambda>(p, _).
         io_bind (io_try (IsSymlink p)) (\<lambda>isSymlink.
           if isSymlink = Inr True then io_ret () else stripOverlayAttrs oc p))
         (walk_tree (Suc (length (w_fs w))) (w_fs w) (w_key w dirPath) dirPath)))"

text \<open>The layers that an earlier build of the same tag made, added to the images again.\<close>

definition add_built ::
  "('x, 'm) oci_ops \<Rightarrow> overlayMetadata \<Rightarrow> 'm list \<Rightarrow> LayerType \<times> 'm \<Rightarrow> ('x, 'm list) io" where
  "add_built oc ovl done lm =
     (case lm of (layerType, mutator) \<Rightarrow>
      let manifest = map_get zero_manifest (om_Manifests ovl) layerType;
          config = map_get zero_image (om_Configs ovl) layerType
      in if length (man_Layers manifest) < 1 then io_ret (done @ [mutator])
         else if img_DiffIDs config = [] \<or> img_History config = [] then io_err (Panic ''index out of range [-1]'')
         else io_bind (mu_AddExisting oc mutator (last (man_Layers manifest)) (last (img_History config)) (last (img_DiffIDs config))) (\<lambda>m'.
              io_ret (done @ [m'])))"

definition build_time :: "('x, 'm) oci_ops \<Rightarrow> StackerConfig \<Rightarrow> ('x, int) io" where
  "build_time oc config =
     io_bind (oc_Now oc) (\<lambda>now. io_ret (case sc_SourceDateEpoch config of Some epoch \<Rightarrow> epoch | None \<Rightarrow> now))"

text \<open>The blob of the directory in one format, added to the image of that format.\<close>

definition add_blob ::
  "('x, 'm) oci_ops \<Rightarrow> StackerConfig \<Rightarrow> string \<Rightarrow> History \<Rightarrow> 'm list \<times> Descriptor list \<Rightarrow> LayerType \<times> 'm \<Rightarrow> ('x, 'm list \<times> Descriptor list) io" where
  "add_blob oc config dir history st lm =
     (case st of (done, descs) \<Rightarrow> case lm of (layerType, mutator) \<Rightarrow>
      io_bind (generateBlob oc layerType dir (sc_OCIDir config) (sc_SourceDateEpoch config)) (\<lambda>(blob, mediaType, rootHash).
      io_bind (if lt_Type layerType = ''tar'' then mu_Add oc mutator mediaType blob history True []
               else mu_Add oc mutator mediaType blob history False (root_annotations oc rootHash)) (\<lambda>(m', desc).
        io_ret (done @ [m'], descs @ [desc]))))"

text \<open>Move the contents to where the first blob has them, and link the other formats to it.\<close>

definition link_layer :: "StackerConfig \<Rightarrow> string \<Rightarrow> Descriptor \<Rightarrow> ('x, unit) io" where
  "link_layer config target desc =
     io_bind (io_try (os_Symlink target (overlayPath (sc_RootFSDir config) (desc_Digest desc) []))) (\<lambda>r.
       case r of
         Inl e \<Rightarrow> if \<not> os_IsExist e then io_err (Wrapf e (couldnt ''symlink additional layer type'') []) else io_ret ()
       | Inr _ \<Rightarrow> io_ret ())"

definition move_contents :: "StackerConfig \<Rightarrow> string \<Rightarrow> Descriptor list \<Rightarrow> ('x, unit) io" where
  "move_contents config dir descs =
     (case descs of
        [] \<Rightarrow> io_err (Panic ''index out of range [0] with length 0'')
      | first # others \<Rightarrow>
          (let target = overlayPath (sc_RootFSDir config) (desc_Digest first) [] in
           io_bind (io_wrap (couldnt ''make new layer overlay dir'') [] (os_MkdirAll target 493)) (\<lambda>_.
           io_bind (io_try (os_Rename dir (path_Join [target, ''overlay'']))) (\<lambda>r.
           io_bind (case r of
               Inl e \<Rightarrow>
                 if \<not> os_IsExist e then io_err (Wrapf e (couldnt ''move overlay data to new location'') [])
                 else io_wrap (couldnt ''delete duplicate layer'') [] (os_RemoveAll dir)
             | Inr _ \<Rightarrow> io_ret ()) (\<lambda>_.
           io_bind (io_wrap (couldnt ''re-make overlay contents for %s'') [dir] (os_MkdirAll dir 493)) (\<lambda>_.
             io_each (link_layer config target) others)))))) "

definition generateLayer ::
  "('x, 'm) oci_ops \<Rightarrow> ovl_json \<Rightarrow> StackerConfig \<Rightarrow> 'm list \<Rightarrow> string \<Rightarrow> LayerType list \<Rightarrow> ('x, 'm list \<times> bool) io" where
  "generateLayer oc oj config mutators name layerTypes =
     (let dir = path_Join [sc_RootFSDir config, name, ''overlay''] in
      io_bind (io_wrap (''coudln'' @ [CHR 0x27] @ ''t read overlay path %s'') [dir] (os_ReadDir dir)) (\<lambda>ents.
        if length ents = 0 then
          io_bind (readOverlayMetadata oj (sc_RootFSDir config) name) (\<lambda>ovl.
            if om_HasBuiltOCIOutput ovl then
              io_bind (io_fold (add_built oc ovl) [] (zip layerTypes mutators)) (\<lambda>mutators. io_ret (mutators, True))
            else io_ret (mutators, False))
        else
          io_bind (build_time oc config) (\<lambda>now.
          let history = \<lparr>hi_Created = now, hi_CreatedBy = ''stacker build of '' @ name, hi_Author = [], hi_EmptyLayer = False\<rparr> in
          io_bind (stripOverlayAttrsUnder oc dir) (\<lambda>_.
          io_bind (io_fold (add_blob oc config dir history) ([], []) (zip layerTypes mutators)) (\<lambda>(mutators, descs).
          io_bind (move_contents config dir descs) (\<lambda>_.
            io_ret (mutators, True)))))))"

section \<open>Repacking a layer\<close>

definition new_mutator :: "('x, 'm) oci_ops \<Rightarrow> StackerConfig \<Rightarrow> string \<Rightarrow> 'm list \<Rightarrow> LayerType \<Rightarrow> ('x, 'm list) io" where
  "new_mutator oc config name mutators layerType =
     io_bind (oc_ResolveReference oc (sc_OCIDir config) (LayerName layerType name)) (\<lambda>descPaths.
       case descPaths of
         [] \<Rightarrow> io_err (Panic ''index out of range [0] with length 0'')
       | d # _ \<Rightarrow> io_bind (mu_New oc (sc_OCIDir config) d) (\<lambda>mutator. io_ret (mutators @ [mutator])))"

definition add_overlay_dirs ::
  "('x, 'm) oci_ops \<Rightarrow> StackerConfig \<Rightarrow> string \<Rightarrow> overlayMetadata \<Rightarrow> 'm list \<Rightarrow> LayerType \<times> 'm \<Rightarrow> ('x, 'm list) io" where
  "add_overlay_dirs oc config name ovl done lm =
     (case lm of (layerType, mutator) \<Rightarrow>
      case map_of (om_OverlayDirLayers ovl) layerType of
        None \<Rightarrow> io_ret (done @ [mutator])
      | Some ods \<Rightarrow>
          io_bind (io_fold (\<lambda>m od.
            io_bind (build_time oc config) (\<lambda>now.
              mu_AddExisting oc m od
                \<lparr>hi_Created = now, hi_CreatedBy = ''stacker overlay dir for '' @ name, hi_Author = [], hi_EmptyLayer = False\<rparr> (desc_Digest od)))
            mutator ods) (\<lambda>m. io_ret (done @ [m])))"

text \<open>The manifests and configurations of the mutators, put into the metadata.\<close>

definition record_images :: "('x, 'm) oci_ops \<Rightarrow> overlayMetadata \<Rightarrow> (LayerType \<times> 'm) list \<Rightarrow> ('x, overlayMetadata) io" where
  "record_images oc ovl lms =
     io_fold (\<lambda>ovl (layerType, mutator).
       io_bind (mu_Manifest oc mutator) (\<lambda>manifest.
       io_bind (mu_Config oc mutator) (\<lambda>config.
         io_ret (ovl\<lparr>om_Manifests := map_put layerType manifest (om_Manifests ovl),
                     om_Configs := map_put layerType config (om_Configs ovl)\<rparr>)))) ovl lms"

definition repack_built ::
  "('x, 'm) oci_ops \<Rightarrow> ovl_json \<Rightarrow> StackerConfig \<Rightarrow> LayerType list \<Rightarrow> 'm list \<times> bool \<Rightarrow> string \<Rightarrow> ('x, 'm list \<times> bool) io" where
  "repack_built oc oj config layerTypes st buildLayer =
     (case st of (mutators, mutated) \<Rightarrow>
      io_bind (generateLayer oc oj config mutators buildLayer layerTypes) (\<lambda>(mutators, didMutate).
        if didMutate then
          io_bind (readOverlayMetadata oj (sc_RootFSDir config) buildLayer) (\<lambda>ovl.
          io_bind (record_images oc ovl (zip layerTypes mutators)) (\<lambda>ovl.
          io_bind (ovl_write oj (ovl\<lparr>om_HasBuiltOCIOutput := True\<rparr>) config buildLayer) (\<lambda>_.
            io_ret (mutators, True))))
        else io_ret (mutators, mutated)))"

definition commit_image ::
  "('x, 'm) oci_ops \<Rightarrow> StackerConfig \<Rightarrow> string \<Rightarrow> overlayMetadata \<Rightarrow> LayerType \<times> 'm \<Rightarrow> ('x, overlayMetadata) io" where
  "commit_image oc config name ovl lm =
     (case lm of (layerType, mutator) \<Rightarrow>
      io_bind (mu_Commit oc mutator) (\<lambda>(mutator, newRoot).
      io_bind (record_images oc ovl [(layerType, mutator)]) (\<lambda>ovl.
      io_bind (oc_UpdateReference oc (sc_OCIDir config) (LayerName layerType name) newRoot) (\<lambda>_.
        io_ret ovl))))"

definition repackOverlay :: "('x, 'm) oci_ops \<Rightarrow> ovl_json \<Rightarrow> StackerConfig \<Rightarrow> string \<Rightarrow> LayerType list \<Rightarrow> ('x, unit) io" where
  "repackOverlay oc oj config name layerTypes =
     io_bind (oc_OpenLayout oc (sc_OCIDir config)) (\<lambda>_.
     io_bind (readOverlayMetadata oj (sc_RootFSDir config) name) (\<lambda>ovl.
     io_bind (io_fold (new_mutator oc config name) [] layerTypes) (\<lambda>mutators.
     io_bind (io_fold (add_overlay_dirs oc config name ovl) [] (zip layerTypes mutators)) (\<lambda>mutators.
     io_bind (io_fold (repack_built oc oj config layerTypes) (mutators, False) (om_BuiltLayers ovl)) (\<lambda>(mutators, mutated).
     io_bind (ovl_write oj ovl config name) (\<lambda>_.
     io_bind (generateLayer oc oj config mutators name layerTypes) (\<lambda>(mutators, didMutate).
       if \<not> didMutate \<and> \<not> mutated \<and> length (om_OverlayDirLayers ovl) = 0 then io_ret ()
       else
         io_bind (io_fold (commit_image oc config name) newOverlayMetadata (zip layerTypes mutators)) (\<lambda>ovl.
           ovl_write oj ovl config name))))))))"

definition Repack ::
  "('x, 'm) oci_ops \<Rightarrow> ovl_json \<Rightarrow> overlay \<Rightarrow> string \<Rightarrow> LayerType list \<Rightarrow> StackerFiles \<Rightarrow> ('x, unit) io" where
  "Repack oc oj o' name layerTypes sfm =
     io_bind (initializeBasesInOutput oc o' name layerTypes sfm) (\<lambda>_.
       repackOverlay oc oj (ov_config o') name layerTypes)"

end
