(* ===== verification/Overlay_Props.thy ===== *)
theory Overlay_Props
  imports Repack
begin

text \<open>
  What the overlay storage guarantees: the mount that a container gets, the layers that are left
  after a failed extraction, the attributes that are stripped, the metadata after a repack, the
  base that is found in the output, and a leak.
\<close>

section \<open>Lower directories\<close>

definition stat_ok :: "'x world \<Rightarrow> string \<Rightarrow> bool" where
  "stat_ok w p = is_ok (fst (os_Stat p w))"

lemma manifest_lowerdirs_eq:
  "manifest_lowerdirs config dirs layers w = (Inr dirs', w') \<Longrightarrow>
   w' = w \<and> dirs' = dirs @ filter (stat_ok w) (map (\<lambda>l. overlayPath (sc_RootFSDir config) (desc_Digest l) [''overlay'']) layers)"
proof (induction layers arbitrary: dirs)
  case (Cons l layers)
  let ?p = "overlayPath (sc_RootFSDir config) (desc_Digest l) [''overlay'']"
  have unfold: "manifest_lowerdirs config dirs (l # layers) w =
      (case fst (os_Stat ?p w) of
         Inl e \<Rightarrow> if errors_Is e ENOENT then manifest_lowerdirs config dirs layers w else (Inl (Wrapf e ''%s unable to stat'' [?p]), w)
       | Inr _ \<Rightarrow> manifest_lowerdirs config (dirs @ [?p]) layers w)"
    by (simp add: manifest_lowerdirs_def io_bind_def io_try_def os_Stat_def io_ret_def io_err_def Let_def split: sum.split)
  show ?case
    using Cons.prems unfold Cons.IH [of dirs] Cons.IH [of "dirs @ [?p]"]
    by (cases "fst (os_Stat ?p w)") (auto simp: stat_ok_def split: if_splits)
qed (simp add: manifest_lowerdirs_def io_simps)

lemma existing_lowerdirs_eq:
  "existing_lowerdirs dirs paths w = (Inr dirs', w') \<Longrightarrow> w' = w \<and> dirs' = dirs @ paths"
proof (induction paths arbitrary: dirs)
  case (Cons p paths)
  have "existing_lowerdirs dirs (p # paths) w =
      (case fst (os_Stat p w) of Inl e \<Rightarrow> (Inl (Wrapf e ''%s does not exist'' [p]), w) | Inr _ \<Rightarrow> existing_lowerdirs (dirs @ [p]) paths w)"
    by (simp add: existing_lowerdirs_def io_bind_def io_wrap_def os_Stat_def io_ret_def split: sum.split)
  with Cons.prems Cons.IH [of "dirs @ [p]"] show ?case by (cases "fst (os_Stat p w)") auto
qed (simp add: existing_lowerdirs_def io_simps)

lemma join_colon: "xs \<noteq> [] \<Longrightarrow> concat (map (\<lambda>d. d @ '':'') xs) = strings_Join xs '':'' @ '':''"
  by (induction xs "'':''" rule: strings_Join.induct) auto

lemma overlay_args_Join:
  assumes "lower \<noteq> []"
  shows "overlay_args config tag lower =
     strings_Join (''overlayfs'' # rev lower @ [path_Join [sc_RootFSDir config, tag, ''overlay'']]) '':''"
proof -
  have "concat (map (\<lambda>d. d @ '':'') (rev lower)) = strings_Join (rev lower) '':'' @ '':''" using assms by (simp add: join_colon)
  moreover have "strings_Join (''overlayfs'' # rev lower @ [p]) '':'' = ''overlayfs:'' @ strings_Join (rev lower) '':'' @ '':'' @ p" for p
    using assms strings_Join_append [of "[''overlayfs'']" "rev lower @ [p]" "'':''"] strings_Join_snoc [of "rev lower" p "'':''"] by simp
  ultimately show ?thesis by (simp add: overlay_args_def Let_def)
qed

lemma no_colon_Join: "(\<And>p. p \<in> set ps \<Longrightarrow> CHR '':'' \<notin> set p) \<Longrightarrow> CHR '':'' \<notin> set (path_Join ps)"
  using path_Join_chars [of ps] by auto

lemma no_colon_overlayPath: "CHR '':'' \<notin> set rootfs \<Longrightarrow> CHR '':'' \<notin> set (overlayPath rootfs d [''overlay''])"
  unfolding overlayPath_def safeOverlayName_def
  using strings_ReplaceAll_char_notin [of "CHR '':''" "''_''" d] by (intro no_colon_Join) auto

text \<open>The directories a tag is made of, the bottom one first.\<close>

definition tag_lowerdirs :: "overlayMetadata \<Rightarrow> StackerConfig \<Rightarrow> 'x world \<Rightarrow> string list" where
  "tag_lowerdirs ovl config w =
     filter (stat_ok w) (map (\<lambda>l. overlayPath (sc_RootFSDir config) (desc_Digest l) [''overlay'']) (man_Layers (any_manifest ovl))) @
     map (\<lambda>layer. path_Join [sc_RootFSDir config, layer, ''overlay'']) (om_BuiltLayers ovl) @
     map (\<lambda>od. overlayPath (sc_RootFSDir config) (desc_Digest od) [''overlay'']) (any_overlay_dirs ovl)"

lemma lxcRootfsString_Inr:
  assumes "lxcRootfsString ovl config tag w = (Inr s, w')"
  shows "s = overlay_args config tag (if tag_lowerdirs ovl config w = [] then [path_Join [sc_RootFSDir config, tag, ''workaround'']]
    else tag_lowerdirs ovl config w)"
  using assms
  by (auto simp: lxcRootfsString_def tag_lowerdirs_def io_simps Let_def split: if_splits
      dest!: manifest_lowerdirs_eq existing_lowerdirs_eq)

section \<open>Properties\<close>

text \<open>
  C31. The mount of a container is read back by splitting at colons: first the overlay directories,
  then the built layers, then the unpacked layers of the image, each kind topmost first, and at
  the end the writable directory of the tag. No colon gets into it from the digests.
\<close>

theorem lxc_rootfs_layers:
  assumes "lxcRootfsString ovl config tag w = (Inr s, w')"
    and colon: "CHR '':'' \<notin> set (sc_RootFSDir config)" "CHR '':'' \<notin> set tag" "\<forall>b \<in> set (om_BuiltLayers ovl). CHR '':'' \<notin> set b"
  shows "\<exists>lower. lower \<noteq> [] \<and> (tag_lowerdirs ovl config w = [] \<or> lower = tag_lowerdirs ovl config w) \<and>
     strings_Split s '':'' = ''overlayfs'' # rev lower @ [path_Join [sc_RootFSDir config, tag, ''overlay'']]"
proof -
  let ?lower = "if tag_lowerdirs ovl config w = [] then [path_Join [sc_RootFSDir config, tag, ''workaround'']]
    else tag_lowerdirs ovl config w"
  have s: "s = strings_Join (''overlayfs'' # rev ?lower @ [path_Join [sc_RootFSDir config, tag, ''overlay'']]) '':''"
    using lxcRootfsString_Inr [OF assms(1)] overlay_args_Join [of ?lower config tag] by simp
  have "CHR '':'' \<notin> set (path_Join [sc_RootFSDir config, t, p])" if "CHR '':'' \<notin> set t" "CHR '':'' \<notin> set p" for t p
    using that colon(1) by (intro no_colon_Join) auto
  then have "CHR '':'' \<notin> set x" if "x \<in> set (''overlayfs'' # rev ?lower @ [path_Join [sc_RootFSDir config, tag, ''overlay'']])" for x
    using that colon no_colon_overlayPath by (auto simp: tag_lowerdirs_def split: if_splits)
  then have "strings_Split s '':'' = ''overlayfs'' # rev ?lower @ [path_Join [sc_RootFSDir config, tag, ''overlay'']]"
    unfolding s by (intro strings_Join_Split) auto
  then show ?thesis by (intro exI [of _ ?lower]) auto
qed

definition ovl_config :: StackerConfig where
  "ovl_config = \<lparr>sc_WorkDir = ''/'', sc_StackerDir = ''/s'', sc_OCIDir = ''/oci'', sc_RootFSDir = ''/r'', sc_Debug = False,
     sc_StorageType = ''overlay'', sc_SourceDateEpoch = None\<rparr>"

definition ovl_world :: "unit world" where
  "ovl_world = \<lparr>w_fs = [(''/r'', Dir), (''/r/base'', Dir), (''/r/base/overlay'', Dir), (''/r/sha256_a'', Dir), (''/r/sha256_a/overlay'', Dir)],
     w_cwd = ''/'', w_ext = ()\<rparr>"

definition ovl_sample :: overlayMetadata where
  "ovl_sample = newOverlayMetadata\<lparr>om_BuiltLayers := [''base''], om_Manifests := [(\<lparr>lt_Type = ''tar'', lt_Verity = False\<rparr>,
     zero_manifest\<lparr>man_Layers := [zero_descriptor\<lparr>desc_Digest := ''sha256:a''\<rparr>, zero_descriptor\<lparr>desc_Digest := ''sha256:b''\<rparr>]\<rparr>)]\<rparr>"

lemma lxc_rootfs_layers_witness:
  "\<exists>lower. lower \<noteq> [] \<and> (tag_lowerdirs ovl_sample ovl_config ovl_world = [] \<or> lower = tag_lowerdirs ovl_sample ovl_config ovl_world) \<and>
     strings_Split ''overlayfs:/r/base/overlay:/r/sha256_a/overlay:/r/app/overlay'' '':'' =
       ''overlayfs'' # rev lower @ [path_Join [sc_RootFSDir ovl_config, ''app'', ''overlay'']]"
proof (rule lxc_rootfs_layers [where w' = ovl_world])
  show "lxcRootfsString ovl_sample ovl_config ''app'' ovl_world =
      (Inr ''overlayfs:/r/base/overlay:/r/sha256_a/overlay:/r/app/overlay'', ovl_world)" by code_simp
qed (simp_all add: ovl_config_def ovl_sample_def newOverlayMetadata_def)

section \<open>Temporary snapshots\<close>

text \<open>
  The cleanup of a temporary snapshot does not remove it: \<^verbatim>\<open>TemporaryWritableSnapshot\<close> gives
  \<^verbatim>\<open>Delete\<close> the full path of the directory it made, and \<^verbatim>\<open>Delete\<close> puts the roots directory before
  it once more. The directory is still there after the cleanup.
\<close>

theorem snapshot_cleanup_leaks:
  assumes "os_MkdirTemp (sc_RootFSDir (ov_config o')) pre u = (Inr dir, u')"
    and R: "clean_abs (sc_RootFSDir (ov_config o'))" and dir: "dir = path_Join [sc_RootFSDir (ov_config o'), name]" "plain name"
    and there: "lnode (w_fs w) dir = Some n"
    and unmount: "\<And>p v. w_fs (snd (sy_Unmount oc p v)) = w_fs v \<and> w_cwd (snd (sy_Unmount oc p v)) = w_cwd v"
    and st: "straight w (path_Join [sc_RootFSDir (ov_config o'), dir])"
  shows "lnode (w_fs (snd (snapshot_cleanup oc o' dir w))) dir = Some n"
proof -
  let ?R = "sc_RootFSDir (ov_config o')"
  have cd: "clean_abs dir" using clean_abs_Join [OF R dir(2)] dir(1) by simp
  let ?d = "path_Join [?R, dir]"
  have d: "?d = ?R @ dir" by (rule path_Join_abs_abs [OF R cd])
  have abs: "filepath_Abs cwd (?R @ dir) = ?R @ dir" for cwd
  proof -
    have "filepath_IsAbs (?R @ dir)" using R by (auto simp: clean_abs_def filepath_IsAbs_def strings_HasPrefix_def)
    moreover have "path_Clean (?R @ dir) = ?R @ dir"
    proof -
      have "filepath_IsAbs (strings_Join [?R, dir] ''/'')" "?R \<noteq> []" "dir \<noteq> []"
        using R cd by (auto simp: clean_abs_def filepath_IsAbs_def strings_HasPrefix_def)
      then show ?thesis using path_Clean_idem_abs [of "strings_Join [?R, dir] ''/''"] d by (simp add: path_Join_def)
    qed
    ultimately show ?thesis by (simp add: filepath_Abs_def)
  qed
  obtain r v where v: "sy_Unmount oc (path_Join [dir, ''rootfs'']) w = (r, v)" by force
  with unmount [of "path_Join [dir, ''rootfs'']" w] have vf: "w_fs v = w_fs w" "w_cwd v = w_cwd w" by simp_all
  have key: "w_key v ?d = ?R @ dir"
    using st unfolding straight_def w_key_def vf d abs by (simp add: phys_straight)
  have R2: "?R \<noteq> []" using R by (auto simp: clean_abs_def filepath_IsAbs_def strings_HasPrefix_def)
  have "\<not> under (?R @ dir) dir"
  proof
    assume "under (?R @ dir) dir"
    then have "length (?R @ dir) \<le> length dir \<or> ?R @ dir = ''/''"
      by (auto simp: under_def dest: prefix_length_le)
    with R2 cd show False by (cases "?R"; cases dir) (auto simp: clean_abs_def filepath_IsAbs_def strings_HasPrefix_def)
  qed
  moreover have "dir \<noteq> ''/''" using cd by (simp add: clean_abs_def)
  moreover have "w_fs (snd (snapshot_cleanup oc o' dir w)) = remove_under (?R @ dir) (w_fs w)"
    by (simp add: snapshot_cleanup_def io_bind_def io_try_def v overlay_Delete_def io_wrap_def os_RemoveAll_def key vf io_ret_def)
  ultimately show ?thesis using there by (simp add: lnode_remove_under)
qed

section \<open>Unpacking\<close>

text \<open>
  When the extraction of a tar layer fails, nothing is left of the directory it was
  extracted to, so that a later run does not take a partial layer for an unpacked one.
\<close>

theorem failed_unpack_leaves_nothing:
  assumes fail: "tar_UnpackLayer oc extractDir uncompressed v = (Inl e, v')"
    and "fs_ExtractSingle oc (desc_MediaType l) = None"
    and "desc_MediaType l = mt_ImageLayer oc \<or> desc_MediaType l = mt_ImageLayerGzip oc"
    and "hasDirEntries extractDir w = (Inr False, w)" "oc_OpenLayout oc ociDir w = (Inr (), u)"
    and "oc_GetBlob oc ociDir (desc_Digest l) u = (Inr compressed, v)" "gz_NewReader oc compressed = Inr uncompressed"
  shows "\<exists>w'. unpackOne oc l ociDir extractDir w = (Inl e, w') \<and>
     (\<forall>k. under (w_key v' extractDir) k \<longrightarrow> map_of (w_fs w') k = None)"
  using assms
  by (auto simp: unpackOne_def io_bind_def io_try_def io_res_def io_err_def os_RemoveAll_def map_of_remove_under)

section \<open>Extended attributes\<close>

text \<open>What the xattr package promises: listing, and removing one attribute of one path.\<close>

definition xattr_laws :: "('x, 'm) oci_ops \<Rightarrow> ('x \<Rightarrow> string \<Rightarrow> string list) \<Rightarrow> bool" where
  "xattr_laws oc attrs =
     ((\<forall>p w. xa_LList oc p w = (Inr (attrs (w_ext w) p), w)) \<and>
      (\<forall>p a w. \<exists>x. xa_LRemove oc p a w = (Inr (), w\<lparr>w_ext := x\<rparr>) \<and>
        attrs x p = filter (\<lambda>b. b \<noteq> a) (attrs (w_ext w) p) \<and> (\<forall>q. q \<noteq> p \<longrightarrow> attrs x q = attrs (w_ext w) q)))"

definition kept_attr :: "string \<Rightarrow> bool" where
  "kept_attr a = (\<not> strings_Contains a overlay_match \<or> strings_HasSuffix a overlay_opaque)"

text \<open>
  Before a layer is packed the attributes that overlayfs left on its files are removed, the
  marks of opaque directories excepted; nothing else is, and other files keep theirs.
\<close>

theorem strip_overlay_attrs:
  assumes laws: "xattr_laws oc attrs"
  shows "\<exists>x. stripOverlayAttrs oc p w = (Inr (), w\<lparr>w_ext := x\<rparr>) \<and>
     attrs x p = filter kept_attr (attrs (w_ext w) p) \<and> (\<forall>q. q \<noteq> p \<longrightarrow> attrs x q = attrs (w_ext w) q)"
proof -
  let ?body = "\<lambda>attr. if \<not> strings_Contains attr overlay_match then io_ret ()
         else if strings_HasSuffix attr overlay_opaque then io_ret ()
         else io_bind (io_try (xa_LRemove oc p attr)) (\<lambda>r.
           case r of Inl e \<Rightarrow> io_err (Errorf ''%s: failed to remove attr %s: %v'' [p, attr]) | Inr _ \<Rightarrow> io_ret ())"
  have loop: "\<exists>x. io_each ?body as v = (Inr (), v\<lparr>w_ext := x\<rparr>) \<and>
      attrs x p = filter (\<lambda>b. kept_attr b \<or> b \<notin> set as) (attrs (w_ext v) p) \<and> (\<forall>q. q \<noteq> p \<longrightarrow> attrs x q = attrs (w_ext v) q)"
    for as and v :: "'a world"
  proof (induction as arbitrary: v)
    case Nil
    have "v = v\<lparr>w_ext := w_ext v\<rparr>" by simp
    then show ?case by (intro exI [of _ "w_ext v"]) simp
  next
    case (Cons a as)
    show ?case
    proof (cases "kept_attr a")
      case True
      then have "io_each ?body (a # as) v = io_each ?body as v"
        by (auto simp: kept_attr_def io_bind_def io_ret_def)
      moreover have "(kept_attr b \<or> b \<notin> set (a # as)) = (kept_attr b \<or> b \<notin> set as)" for b using True by auto
      ultimately show ?thesis using Cons.IH [of v] by simp
    next
      case False
      obtain x1 where x1: "xa_LRemove oc p a v = (Inr (), v\<lparr>w_ext := x1\<rparr>)"
        "attrs x1 p = filter (\<lambda>b. b \<noteq> a) (attrs (w_ext v) p)" "\<forall>q. q \<noteq> p \<longrightarrow> attrs x1 q = attrs (w_ext v) q"
        using laws unfolding xattr_laws_def by blast
      have "io_each ?body (a # as) v = io_each ?body as (v\<lparr>w_ext := x1\<rparr>)"
        using False x1(1) by (simp add: kept_attr_def io_bind_def io_try_def io_ret_def)
      moreover have "filter (\<lambda>b. kept_attr b \<or> b \<notin> set as) (filter (\<lambda>b. b \<noteq> a) xs) =
          filter (\<lambda>b. kept_attr b \<or> b \<notin> set (a # as)) xs" for xs
        using False by (auto intro!: filter_cong)
      ultimately show ?thesis using Cons.IH [of "v\<lparr>w_ext := x1\<rparr>"] x1(2,3) by auto
    qed
  qed
  have "stripOverlayAttrs oc p w = io_each ?body (attrs (w_ext w) p) w"
    using laws by (simp add: stripOverlayAttrs_def io_bind_def xattr_laws_def)
  moreover have "filter (\<lambda>b. kept_attr b \<or> b \<notin> set xs) xs = filter kept_attr xs" for xs by (auto intro!: filter_cong)
  ultimately show ?thesis using loop [of "attrs (w_ext w) p" w] by simp
qed

section \<open>Repacking\<close>

text \<open>
  What the JSON of the metadata file keeps: the built layers in their order, the mark, and which layer
  types each map has. \<^verbatim>\<open>LayerType\<close> writes a key as type, plus sign and verity, and splits at plus signs to
  read it, so this holds when no type has a plus sign itself, and what was read has no such type.
\<close>

definition plain_types :: "overlayMetadata \<Rightarrow> bool" where
  "plain_types ovl = (\<forall>lt \<in> fst ` set (om_Manifests ovl) \<union> fst ` set (om_Configs ovl) \<union> fst ` set (om_OverlayDirLayers ovl).
     CHR ''+'' \<notin> set (lt_Type lt))"

definition same_metadata :: "overlayMetadata \<Rightarrow> overlayMetadata \<Rightarrow> bool" where
  "same_metadata a b =
     (om_BuiltLayers a = om_BuiltLayers b \<and> om_HasBuiltOCIOutput a = om_HasBuiltOCIOutput b \<and>
      fst ` set (om_Manifests a) = fst ` set (om_Manifests b) \<and> fst ` set (om_Configs a) = fst ` set (om_Configs b) \<and>
      fst ` set (om_OverlayDirLayers a) = fst ` set (om_OverlayDirLayers b))"

definition json_laws :: "ovl_json \<Rightarrow> bool" where
  "json_laws oj =
     ((\<forall>x s. oj_Marshal oj x = Inr s \<and> plain_types x \<longrightarrow> (\<exists>y. oj_Unmarshal oj s = Inr y \<and> same_metadata y x)) \<and>
      (\<forall>s y. oj_Unmarshal oj s = Inr y \<longrightarrow> plain_types y))"

lemma write_read_metadata:
  assumes "json_laws oj" "ovl_write oj ovl config tag w = (Inr (), w')" "plain_types ovl"
  shows "\<exists>ovl'. readOverlayMetadata oj (sc_RootFSDir config) tag w' = (Inr ovl', w') \<and> same_metadata ovl' ovl"
proof -
  obtain content where c: "oj_Marshal oj ovl = Inr content" "os_WriteFile (metadataFile (sc_RootFSDir config) tag) content 420 w = (Inr (), w')"
    using assms(2) by (auto simp: ovl_write_def io_simps)
  with assms(1,3) obtain y where "oj_Unmarshal oj content = Inr y" "same_metadata y ovl" unfolding json_laws_def by blast
  with write_then_read [OF c(2)] show ?thesis
    by (simp add: readOverlayMetadata_def io_bind_def io_wrap_def io_res_def)
qed

lemma read_metadata_plain:
  assumes "json_laws oj" "readOverlayMetadata oj root tag w = (Inr ovl, w')" shows "plain_types ovl"
proof -
  from assms(2) obtain content where "oj_Unmarshal oj content = Inr ovl"
    by (auto simp: readOverlayMetadata_def io_simps)
  with assms(1) show ?thesis unfolding json_laws_def by blast
qed

lemma read_metadata_same: "readOverlayMetadata oj root tag w = (r, w') \<Longrightarrow> w' = w"
  by (auto simp: readOverlayMetadata_def io_bind_def io_wrap_def io_res_def os_ReadFile_def split: sum.splits)

lemma ReadDir_same: "os_ReadDir p w = (r, w') \<Longrightarrow> w' = w"
  by (auto simp: os_ReadDir_def split: sum.splits)

text \<open>
  A layer has something to add to the images: contents in its directory, or none and the mark
  that an earlier build has made its layer already.
\<close>

definition layer_pending :: "ovl_json \<Rightarrow> StackerConfig \<Rightarrow> string \<Rightarrow> 'x world \<Rightarrow> bool" where
  "layer_pending oj config name w =
     (case fst (os_ReadDir (path_Join [sc_RootFSDir config, name, ''overlay'']) w) of
        Inl _ \<Rightarrow> False
      | Inr ents \<Rightarrow> ents \<noteq> [] \<or>
          (case fst (readOverlayMetadata oj (sc_RootFSDir config) name w) of Inl _ \<Rightarrow> False | Inr ovl \<Rightarrow> om_HasBuiltOCIOutput ovl))"

text \<open>Some of these layers has, when they are packed one after the other.\<close>

fun some_pending ::
  "('x, 'm) oci_ops \<Rightarrow> ovl_json \<Rightarrow> StackerConfig \<Rightarrow> LayerType list \<Rightarrow> 'm list \<Rightarrow> string list \<Rightarrow> 'x world \<Rightarrow> bool" where
  "some_pending oc oj config lts ms [] w = False"
| "some_pending oc oj config lts ms (b # rest) w =
     (layer_pending oj config b w \<or>
      (case repack_built oc oj config lts (ms, False) b w of
         (Inl _, _) \<Rightarrow> False
       | (Inr (ms', _), w') \<Rightarrow> some_pending oc oj config lts ms' rest w'))"

lemma generateLayer_pending:
  assumes "generateLayer oc oj config ms name lts w = (Inr (ms', d), w')"
  shows "d = layer_pending oj config name w"
  using assms
  by (auto simp: generateLayer_def layer_pending_def Let_def io_simps dest: read_metadata_same ReadDir_same split: if_splits sum.splits)

lemma generateLayer_False: "generateLayer oc oj config ms name lts w = (Inr (ms', False), w') \<Longrightarrow> w' = w \<and> ms' = ms"
  by (auto simp: generateLayer_def Let_def io_simps dest!: read_metadata_same ReadDir_same split: if_splits)

lemma repack_built_pending:
  assumes "repack_built oc oj config lts (ms, b) name w = (Inr (ms', b'), w')"
  shows "b' = (b \<or> layer_pending oj config name w)"
    "repack_built oc oj config lts (ms, False) name w = (Inr (ms', layer_pending oj config name w), w')"
proof -
  obtain t d v where g: "generateLayer oc oj config ms name lts w = (Inr (t, d), v)"
    using assms by (auto simp: repack_built_def io_simps)
  let ?mark = "io_bind (readOverlayMetadata oj (sc_RootFSDir config) name) (\<lambda>ovl. io_bind (record_images oc ovl (zip lts t)) (\<lambda>ovl.
    io_bind (ovl_write oj (ovl\<lparr>om_HasBuiltOCIOutput := True\<rparr>) config name) (\<lambda>_. io_ret (t, True))))"
  have eq: "repack_built oc oj config lts (ms, c) name w = (if d then ?mark v else (Inr (t, c), v))" for c
    using g by (simp add: repack_built_def io_bind_def io_ret_def)
  have d: "d = layer_pending oj config name w" by (rule generateLayer_pending [OF g])
  have mark: "?mark v = (Inr (ms', b'), w') \<Longrightarrow> b'" by (auto simp: io_simps)
  show "b' = (b \<or> layer_pending oj config name w)" using assms mark unfolding eq d [symmetric] by (auto split: if_splits)
  show "repack_built oc oj config lts (ms, False) name w = (Inr (ms', layer_pending oj config name w), w')"
    using assms mark unfolding eq d [symmetric] by (auto split: if_splits)
qed

lemma repack_fold_pending:
  assumes "io_fold (repack_built oc oj config lts) (ms, b) bls w = (Inr (ms', b'), w')"
  shows "b' = (b \<or> some_pending oc oj config lts ms bls w)"
  using assms
proof (induction bls arbitrary: ms b w)
  case (Cons x bls)
  then obtain t c v where t: "repack_built oc oj config lts (ms, b) x w = (Inr (t, c), v)"
    "io_fold (repack_built oc oj config lts) (t, c) bls v = (Inr (ms', b'), w')" by (auto simp: io_simps)
  from repack_built_pending [OF t(1)] Cons.IH [OF t(2)] show ?case by simp
qed (simp add: io_simps)

lemma io_fold_length:
  assumes "io_fold f s xs w = (Inr s', w')" "\<And>s x v s' v'. f s x v = (Inr s', v') \<Longrightarrow> length (g s') = Suc (length (g s))"
  shows "length (g s') = length (g s) + length xs"
  using assms(1)
proof (induction xs arbitrary: s w)
  case (Cons x xs)
  then obtain t v where "f s x w = (Inr t, v)" "io_fold f t xs v = (Inr s', w')" by (auto simp: io_simps)
  with Cons.IH assms(2) show ?case by fastforce
qed (simp add: io_simps)

lemma io_fold_length_list:
  assumes "io_fold f s xs w = (Inr s', w')" "\<And>s x v s' v'. f s x v = (Inr s', v') \<Longrightarrow> length s' = Suc (length s)"
  shows "length s' = length s + length xs"
  using io_fold_length [where g = id, OF assms(1)] assms(2) by simp

lemma generateLayer_length:
  assumes "generateLayer oc oj config ms name lts w = (Inr (ms', b), w')" "length ms = length lts"
  shows "length ms' = length lts"
proof -
  have built: "length ms' = length lts" if "io_fold (add_built oc ovl) [] (zip lts ms) v = (Inr ms', v')" for ovl v v'
  proof -
    have "length s' = Suc (length s)" if "add_built oc ovl s x u = (Inr s', u')" for s x u s' u'
      using that by (auto simp: add_built_def io_simps Let_def split: if_splits prod.splits)
    with io_fold_length_list [OF that] show ?thesis using assms(2) by simp
  qed
  moreover have "length ms' = length lts" if "io_fold (add_blob oc config dir h) ([], []) (zip lts ms) v = (Inr (ms', d), v')" for dir h d v v'
  proof -
    have "length (fst s') = Suc (length (fst s))" if "add_blob oc config dir h s x u = (Inr s', u')" for s x u s' u'
      using that by (auto simp: add_blob_def io_simps split: prod.splits if_splits)
    with io_fold_length [where g = fst, OF that] show ?thesis using assms(2) by simp
  qed
  ultimately show ?thesis
    using assms by (auto simp: generateLayer_def Let_def io_simps split: if_splits)
qed

lemma commit_fresh:
  assumes "io_fold (commit_image oc config name) ovl lms w = (Inr ovl', w')"
  shows "om_BuiltLayers ovl' = om_BuiltLayers ovl \<and> om_HasBuiltOCIOutput ovl' = om_HasBuiltOCIOutput ovl \<and>
    om_OverlayDirLayers ovl' = om_OverlayDirLayers ovl \<and>
    fst ` set (om_Manifests ovl') = fst ` set (om_Manifests ovl) \<union> fst ` set lms \<and>
    fst ` set (om_Configs ovl') = fst ` set (om_Configs ovl) \<union> fst ` set lms"
  using assms
proof (induction lms arbitrary: ovl w)
  case (Cons lm lms)
  then obtain t v where t: "commit_image oc config name ovl lm w = (Inr t, v)" "io_fold (commit_image oc config name) t lms v = (Inr ovl', w')"
    by (auto simp: io_simps)
  from t(1) obtain man conf where "t = ovl\<lparr>om_Manifests := map_put (fst lm) man (om_Manifests ovl),
      om_Configs := map_put (fst lm) conf (om_Configs ovl)\<rparr>"
    by (auto simp: commit_image_def record_images_def io_simps split: prod.splits)
  then have "om_BuiltLayers t = om_BuiltLayers ovl \<and> om_HasBuiltOCIOutput t = om_HasBuiltOCIOutput ovl \<and>
      om_OverlayDirLayers t = om_OverlayDirLayers ovl \<and> fst ` set (om_Manifests t) = insert (fst lm) (fst ` set (om_Manifests ovl)) \<and>
      fst ` set (om_Configs t) = insert (fst lm) (fst ` set (om_Configs ovl))"
    by (simp add: map_put_keys)
  with Cons.IH [OF t(2)] show ?case by auto
qed (simp add: io_simps)

lemma mutators_length:
  assumes "io_fold (new_mutator oc config name) [] lts v = (Inr m1, w1)"
    and "io_fold (add_overlay_dirs oc config name ovl) [] (zip lts m1) w1 = (Inr m2, w2)"
    and "io_fold (repack_built oc oj config lts) (m2, False) bls w2 = (Inr (m3, b3), w3)"
  shows "length m3 = length lts"
proof -
  have "length s' = Suc (length s)" if "new_mutator oc config name s x u = (Inr s', u')" for s x u s' u'
    using that by (fastforce simp: new_mutator_def io_simps neq_Nil_conv split: list.splits)
  with io_fold_length_list [OF assms(1)] have "length m1 = length lts" by simp
  moreover have "length s' = Suc (length s)" if "add_overlay_dirs oc config name ovl s x u = (Inr s', u')" for s x u s' u'
    using that by (auto simp: add_overlay_dirs_def io_simps split: prod.splits option.splits)
  with io_fold_length_list [OF assms(2)] have "length m2 = length (zip lts m1)" by simp
  ultimately have "length m2 = length lts" by simp
  then have "length (fst (m3, b3)) = length lts"
    using io_fold_invariant [OF assms(3), of "\<lambda>s _. length (fst s) = length lts"]
    by (fastforce simp: repack_built_def io_simps split: if_splits prod.splits dest: generateLayer_length)
  then show ?thesis by simp
qed


section \<open>The base in the output\<close>

text \<open>
  The search for a base in the output ends whenever the built bases do not form a cycle of
  build-only layers, whatever the depth of the chain.
\<close>

theorem first_base_ends:
  assumes chain: "\<And>nm l tag l'. LookupLayerDefinition sfm nm = Some l \<Longrightarrow> is_Type (lay_From l) = BuiltLayer \<Longrightarrow>
      ParseTag (lay_From l) = Inr tag \<Longrightarrow> LookupLayerDefinition sfm tag = Some l' \<Longrightarrow> lay_BuildOnly l' \<Longrightarrow> depth tag < (depth nm :: nat)"
  shows "FindFirstBaseInOutput name sfm \<noteq> None"
proof -
  have "first_base sfm nm l \<noteq> None" if "LookupLayerDefinition sfm nm = Some l" for nm l
    using that
  proof (induction "depth nm" arbitrary: nm l rule: less_induct)
    case less
    show ?case
    proof (cases "is_Type (lay_From l) = BuiltLayer")
      case True
      show ?thesis
      proof (cases "ParseTag (lay_From l)")
        case (Inr tag)
        show ?thesis
        proof (cases "LookupLayerDefinition sfm tag")
          case (Some l')
          then show ?thesis
            using less.hyps [OF chain [OF less.prems True Inr Some] Some] True Inr
            by (subst first_base.simps) auto
        qed (subst first_base.simps, use True Inr in simp)
      qed (subst first_base.simps, use True in simp)
    qed (subst first_base.simps, simp)
  qed
  then show ?thesis by (auto simp: FindFirstBaseInOutput_def split: option.splits)
qed

definition found_ok :: "StackerFiles \<Rightarrow> Layer \<Rightarrow> (string \<times> Layer \<times> bool) res \<Rightarrow> bool" where
  "found_ok sfm b r =
     (\<forall>tag l. r = Inr (tag, l, True) \<longrightarrow>
        LookupLayerDefinition sfm tag = Some l \<and>
        (\<not> lay_BuildOnly l \<and> is_Type (lay_From b) = BuiltLayer \<or>
         IsContainersImageLayer (is_Type (lay_From l)) \<and> is_Type (lay_From l) \<noteq> BuiltLayer))"

lemma first_base_spec:
  assumes "first_base sfm nm b = Some r" "LookupLayerDefinition sfm nm = Some b"
  shows "found_ok sfm b r"
proof -
  have "LookupLayerDefinition sfm nm = Some b \<longrightarrow> found_ok sfm b r"
    using assms(1)
  proof (rule first_base.raw_induct [rotated])
    fix f sfm nm b r
    assume IH: "\<And>sfm nm b r. f sfm nm b = Some r \<Longrightarrow> LookupLayerDefinition sfm nm = Some b \<longrightarrow> found_ok sfm b r"
      and body: "(if is_Type (lay_From b) \<noteq> BuiltLayer then
           Some (Inr (if IsContainersImageLayer (is_Type (lay_From b)) then (nm, b, True) else ([], zero_layer, False)))
         else (case ParseTag (lay_From b) of
             Inl e \<Rightarrow> Some (Inl e)
           | Inr tag \<Rightarrow>
               (case LookupLayerDefinition sfm tag of
                  None \<Rightarrow> Some (Inl (Errorf ''missing base layer: %s?'' [tag]))
                | Some base' \<Rightarrow> if \<not> lay_BuildOnly base' then Some (Inr (tag, base', True)) else f sfm tag base'))) = Some r"
    show "LookupLayerDefinition sfm nm = Some b \<longrightarrow> found_ok sfm b r"
    proof
      assume l: "LookupLayerDefinition sfm nm = Some b"
      show "found_ok sfm b r"
      proof (cases "is_Type (lay_From b) = BuiltLayer")
        case False
        with body l show ?thesis by (auto simp: found_ok_def split: if_splits)
      next
        case True
        show ?thesis
        proof (cases "ParseTag (lay_From b)")
          case (Inl e)
          with True body show ?thesis by (auto simp: found_ok_def)
        next
          case (Inr tag)
          show ?thesis
          proof (cases "LookupLayerDefinition sfm tag")
            case None
            with True Inr body show ?thesis by (auto simp: found_ok_def)
          next
            case (Some l')
            show ?thesis
            proof (cases "lay_BuildOnly l'")
              case False
              with True Inr Some body show ?thesis by (auto simp: found_ok_def)
            next
              case on: True
              with True Inr Some body have "f sfm tag l' = Some r" by simp
              with IH Some have "found_ok sfm l' r" by blast
              then show ?thesis using True by (auto simp: found_ok_def)
            qed
          qed
        qed
      qed
    qed
  qed
  with assms(2) show ?thesis by blast
qed

text \<open>
  A base that is found is a layer of the stacker files under the name that is returned, and it
  is in the output or comes from an image: the layer asked for itself only in the second case.
\<close>

theorem first_base_found:
  assumes "FindFirstBaseInOutput name sfm = Some (Inr (tag, l, True))"
  shows "LookupLayerDefinition sfm tag = Some l \<and>
     (\<not> lay_BuildOnly l \<and> (\<exists>m. LookupLayerDefinition sfm name = Some m \<and> is_Type (lay_From m) = BuiltLayer) \<or>
      IsContainersImageLayer (is_Type (lay_From l)) \<and> is_Type (lay_From l) \<noteq> BuiltLayer)"
proof -
  obtain b where b: "LookupLayerDefinition sfm name = Some b" "first_base sfm name b = Some (Inr (tag, l, True))"
    using assms unfolding FindFirstBaseInOutput_def by (cases "LookupLayerDefinition sfm name") simp_all
  from first_base_spec [OF b(2,1)] b(1) show ?thesis unfolding found_ok_def by blast
qed

section \<open>Copying images\<close>

text \<open>What umoci promises of the index of a layout: it is read as it was written.\<close>

definition index_law :: "('x, 'm) oci_ops \<Rightarrow> bool" where
  "index_law oc = (\<forall>dir ds w w'. oc_PutIndex oc dir ds w = (Inr (), w') \<longrightarrow> fst (oc_GetIndex oc dir w') = Inr ds)"

text \<open>
  After an image is copied into a local layout, every manifest of its index has a name:
  what the copy left untagged is gone, so that a collection finds it unreferenced.
\<close>

theorem image_copy_tags_all:
  assumes "index_law oc" "ImageCopy oc opts w = (Inr (), w')"
    and "localRefParser oc (ic_Dest opts) = Inr dest" "ref_Transport dest = ''oci''"
  shows "\<exists>dir ds. strings_SplitN (ic_Dest opts) '':'' 3 ! 1 = dir \<and> fst (oc_GetIndex oc dir w') = Inr ds \<and>
     (\<forall>d \<in> set ds. \<exists>name. map_of (desc_Annotations d) (an_RefName oc) = Some name \<and> name \<noteq> [])"
proof -
  obtain ds v where put: "oc_PutIndex oc (strings_SplitN (ic_Dest opts) '':'' 3 ! 1) (tagged oc ds) v = (Inr (), w')"
    using assms(2-4) unfolding ImageCopy_def by (auto simp: io_simps Let_def split: if_splits)
  then have "fst (oc_GetIndex oc (strings_SplitN (ic_Dest opts) '':'' 3 ! 1) w') = Inr (tagged oc ds)"
    using assms(1) by (auto simp: index_law_def)
  moreover have "\<exists>name. map_of (desc_Annotations d) (an_RefName oc) = Some name \<and> name \<noteq> []" if "d \<in> set (tagged oc ds)" for d
    using that by (auto simp: tagged_def split: option.splits)
  ultimately show ?thesis by blast
qed

section \<open>Witnesses\<close>

text \<open>Stand-ins for the libraries: the world outside is the attributes of files and one index.\<close>

type_synonym sample_ext = "(string \<times> string list) list \<times> Descriptor list"

definition sample_oci :: "(sample_ext, unit) oci_ops" where
  "sample_oci = \<lparr>oc_OpenLayout = (\<lambda>_. io_ret ()), oc_LookupManifest = (\<lambda>_ _. io_ret zero_manifest),
     oc_LookupConfig = (\<lambda>_ _. io_ret zero_image), oc_UpdateImageConfig = (\<lambda>_ _ _ _. io_ret zero_descriptor),
     oc_NewImage = (\<lambda>_ _ _. io_ret ()), oc_PutBlob = (\<lambda>_ b. io_ret (''sha256:'' @ b, 1)), oc_GetBlob = (\<lambda>_ _. io_ret ''gz''),
     oc_ResolveReference = (\<lambda>_ _. io_ret [zero_descriptor]), oc_UpdateReference = (\<lambda>_ _ _. io_ret ()),
     oc_GetIndex = (\<lambda>_ w. (Inr (snd (w_ext w)), w)), oc_PutIndex = (\<lambda>_ ds w. (Inr (), w\<lparr>w_ext := (fst (w_ext w), ds)\<rparr>)),
     oc_Encoded = Inr, oc_parse_ref = (\<lambda>s. Some (\<lambda>t. Inr \<lparr>ref_Transport = s, ref_Text = t\<rparr>)),
     oc_CopyImage = (\<lambda>_ _ _. io_ret ()), oc_NewPolicyContext = Inr (), oc_Now = io_ret 0, mu_New = (\<lambda>_ _. io_ret ()),
     mu_AddExisting = (\<lambda>_ _ _ _. io_ret ()), mu_Add = (\<lambda>_ _ b _ _ _. io_ret ((), zero_descriptor\<lparr>desc_Digest := b\<rparr>)),
     mu_Set = (\<lambda>_ _ _ _. io_ret ()), mu_Commit = (\<lambda>_. io_ret ((), zero_descriptor)), mu_Manifest = (\<lambda>_. io_ret zero_manifest),
     mu_Config = (\<lambda>_. io_ret zero_image), fs_Make = (\<lambda>_ _ _ _. io_ret (''fs'', ''m'', [])), fs_ExtractSingle = (\<lambda>_. None),
     tar_GenerateInsertLayer = (\<lambda>_ _. io_ret ''tar''), tar_UnpackLayer = (\<lambda>_ _. io_err (Ext ''short read'')), gz_NewReader = Inr,
     xa_LList = (\<lambda>p w. (Inr (map_get [] (fst (w_ext w)) p), w)),
     xa_LRemove = (\<lambda>p a w. (Inr (), w\<lparr>w_ext := (map_put p (filter (\<lambda>b. b \<noteq> a) (map_get [] (fst (w_ext w)) p)) (fst (w_ext w)), snd (w_ext w))\<rparr>)),
     sy_Mount = (\<lambda>_ _ _ _. io_ret ()), sy_Unmount = (\<lambda>_. io_ret ()), sy_Mknod = (\<lambda>_. io_ret ()), sy_Statfs_Type = (\<lambda>_. io_ret 0),
     sy_IsPermission = (\<lambda>_. False),
     mt_types = \<lparr>mt_squashfs_base = ''sq'', mt_squashfs_gzip = ''sq+gz'', mt_squashfs_zstd = ''sq+zs'', mt_erofs_base = ''er'',
       mt_erofs_lz4hc = ''er+hc'', mt_erofs_lz4 = ''er+lz'', mt_erofs_zstd = ''er+zs'', mt_layer_gzip = ''tar+gz'', mt_layer = ''tar'',
       mt_verity_annotation = ''root''\<rparr>,
     mt_ImageLayer = ''tar'', mt_ImageLayerGzip = ''tar+gz'', an_RefName = ''ref'', an_VerityRootHash = ''root''\<rparr>"

definition sample_json :: ovl_json where
  "sample_json = \<lparr>oj_Marshal = (\<lambda>x. if x = newOverlayMetadata then Inr ''{}'' else Inl (Ext ''json'')),
     oj_Unmarshal = (\<lambda>s. if s = ''{}'' then Inr newOverlayMetadata else Inl (Ext ''json''))\<rparr>"

definition ovl_world2 :: "sample_ext world" where
  "ovl_world2 = \<lparr>w_fs = [(''/r'', Dir), (''/r/a'', Dir), (''/r/a/overlay'', Dir), (''/r/a/overlay_metadata.json'', File ''{}'' 420 (0, 0)),
     (''/r/temp-snapshot-a-0'', Dir)], w_cwd = ''/'', w_ext = ([(''f'', [''user.overlay.origin'', ''user.overlay.opaque'', ''user.x''])], [])\<rparr>"

lemma snapshot_cleanup_leaks_witness:
  "lnode (w_fs (snd (snapshot_cleanup sample_oci (NewOverlay ovl_config) ''/r/temp-snapshot-a-0'' ovl_world2))) ''/r/temp-snapshot-a-0'' = Some Dir"
proof (rule snapshot_cleanup_leaks)
  let ?u = "ovl_world2\<lparr>w_fs := [(''/r'', Dir)]\<rparr>"
  show "os_MkdirTemp (sc_RootFSDir (ov_config (NewOverlay ovl_config))) ''temp-snapshot-a-'' ?u =
      (Inr ''/r/temp-snapshot-a-0'', ?u\<lparr>w_fs := [(''/r'', Dir), (''/r/temp-snapshot-a-0'', Dir)]\<rparr>)" by code_simp
  show "clean_abs (sc_RootFSDir (ov_config (NewOverlay ovl_config)))" by code_simp
  show "''/r/temp-snapshot-a-0'' = path_Join [sc_RootFSDir (ov_config (NewOverlay ovl_config)), ''temp-snapshot-a-0'']" by code_simp
  show "plain ''temp-snapshot-a-0''" by code_simp
  show "lnode (w_fs ovl_world2) ''/r/temp-snapshot-a-0'' = Some Dir" by code_simp
  show "w_fs (snd (sy_Unmount sample_oci p v)) = w_fs v \<and> w_cwd (snd (sy_Unmount sample_oci p v)) = w_cwd v" for p v
    by (simp add: sample_oci_def io_ret_def)
  show "straight ovl_world2 (path_Join [sc_RootFSDir (ov_config (NewOverlay ovl_config)), ''/r/temp-snapshot-a-0''])" by code_simp
qed

lemma failed_unpack_leaves_nothing_witness:
  "\<exists>w'. unpackOne sample_oci (zero_descriptor\<lparr>desc_MediaType := ''tar''\<rparr>) ''/oci'' ''/r/a/overlay'' ovl_world2 = (Inl (Ext ''short read''), w') \<and>
     (\<forall>k. under (w_key ovl_world2 ''/r/a/overlay'') k \<longrightarrow> map_of (w_fs w') k = None)"
proof (rule failed_unpack_leaves_nothing)
  show "hasDirEntries ''/r/a/overlay'' ovl_world2 = (Inr False, ovl_world2)" by code_simp
  show "tar_UnpackLayer sample_oci ''/r/a/overlay'' ''gz'' ovl_world2 = (Inl (Ext ''short read''), ovl_world2)"
    by (simp add: sample_oci_def io_err_def)
qed (simp_all add: sample_oci_def io_ret_def zero_descriptor_def)

lemma strip_overlay_attrs_witness:
  "\<exists>x. stripOverlayAttrs sample_oci ''f'' ovl_world2 = (Inr (), ovl_world2\<lparr>w_ext := x\<rparr>) \<and>
     map_get [] (fst x) ''f'' = filter kept_attr (map_get [] (fst (w_ext ovl_world2)) ''f'') \<and>
     (\<forall>q. q \<noteq> ''f'' \<longrightarrow> map_get [] (fst x) q = map_get [] (fst (w_ext ovl_world2)) q)"
proof -
  have "xattr_laws sample_oci (\<lambda>x. map_get [] (fst x))"
    by (auto simp: xattr_laws_def sample_oci_def map_get_def split: option.splits)
  from strip_overlay_attrs [OF this] show ?thesis .
qed

text \<open>
  A layer \<open>a\<close> on the built layer \<open>b\<close>, which has contents that are not packed yet. The JSON of four
  metadata values is tabulated.
\<close>

definition sample_tar :: LayerType where
  "sample_tar = \<lparr>lt_Type = ''tar'', lt_Verity = False\<rparr>"

definition sample_metas :: "(string \<times> overlayMetadata) list" where
  "sample_metas =
     (let one = newOverlayMetadata\<lparr>om_Manifests := [(sample_tar, zero_manifest)], om_Configs := [(sample_tar, zero_image)]\<rparr>
      in [(''{}'', newOverlayMetadata), (''on b'', newOverlayMetadata\<lparr>om_BuiltLayers := [''b'']\<rparr>), (''images'', one),
          (''rendered'', one\<lparr>om_HasBuiltOCIOutput := True\<rparr>)])"

definition table_json :: ovl_json where
  "table_json = \<lparr>oj_Marshal = (\<lambda>x. case List.find (\<lambda>e. snd e = x) sample_metas of Some e \<Rightarrow> Inr (fst e) | None \<Rightarrow> Inl (Ext ''json'')),
     oj_Unmarshal = (\<lambda>s. case map_of sample_metas s of Some x \<Rightarrow> Inr x | None \<Rightarrow> Inl (Ext ''json''))\<rparr>"

definition repack_world :: "sample_ext world" where
  "repack_world = \<lparr>w_fs = [(''/r'', Dir), (''/r/a'', Dir), (''/r/a/overlay'', Dir), (''/r/a/overlay_metadata.json'', File ''on b'' 420 (0, 0)),
     (''/r/b'', Dir), (''/r/b/overlay'', Dir), (''/r/b/overlay/f'', File ''x'' 420 (0, 0)), (''/r/b/overlay_metadata.json'', File ''{}'' 420 (0, 0))],
     w_cwd = ''/'', w_ext = ([], [])\<rparr>"

lemma table_laws: "json_laws table_json"
proof -
  have distinct: "distinct (map fst sample_metas)" by (simp add: sample_metas_def Let_def)
  have plain: "plain_types y" if "(s, y) \<in> set sample_metas" for s y
    using that by (auto simp: sample_metas_def plain_types_def newOverlayMetadata_def sample_tar_def Let_def)
  have "oj_Unmarshal table_json s = Inr x" if "oj_Marshal table_json x = Inr s" for x s
  proof -
    from that obtain e where e: "List.find (\<lambda>e. snd e = x) sample_metas = Some e" "s = fst e"
      by (auto simp: table_json_def split: option.splits)
    then have "e \<in> set sample_metas" "snd e = x" by (auto simp: find_Some_iff)
    with e(2) distinct have "map_of sample_metas s = Some x" by (metis map_of_is_SomeI prod.collapse)
    then show ?thesis by (simp add: table_json_def)
  qed
  moreover have "plain_types y" if "oj_Unmarshal table_json s = Inr y" for s y
    using that plain by (auto simp: table_json_def dest: map_of_SomeD split: option.splits)
  ultimately show ?thesis by (auto simp: json_laws_def same_metadata_def)
qed


definition chain_sfm :: StackerFiles where
  "chain_sfm = [(''/s.yaml'', \<lparr>sf_AfterSubstitutions = [], sf_internal =
     [(''app'', zero_layer\<lparr>lay_From := \<lparr>is_Type = ''built'', is_Url = [], is_Tag = ''base'', is_Insecure = False\<rparr>\<rparr>),
      (''base'', zero_layer\<lparr>lay_From := \<lparr>is_Type = ''docker'', is_Url = ''docker://alpine'', is_Tag = [], is_Insecure = False\<rparr>, lay_BuildOnly := True\<rparr>)],
     sf_FileOrder = [], sf_buildConfig = None, sf_path = ''/s.yaml'', sf_ReferenceDirectory = ''/''\<rparr>)]"

lemma first_base_ends_witness: "FindFirstBaseInOutput ''app'' chain_sfm \<noteq> None"
proof (rule first_base_ends [where depth = "\<lambda>nm. if nm = ''app'' then 1 else 0"])
  fix nm l tag l'
  assume "LookupLayerDefinition chain_sfm nm = Some l" "is_Type (lay_From l) = BuiltLayer" "ParseTag (lay_From l) = Inr tag"
  then show "(if tag = ''app'' then 1 else 0) < (if nm = ''app'' then 1 else 0 :: nat)"
    by (auto simp: LookupLayerDefinition_def Stackerfile_Get_def chain_sfm_def ParseTag_def layer_kind_defs split: if_splits)
qed

lemma first_base_found_witness:
  "\<exists>l. LookupLayerDefinition chain_sfm ''base'' = Some l \<and>
     (\<not> lay_BuildOnly l \<and> (\<exists>m. LookupLayerDefinition chain_sfm ''app'' = Some m \<and> is_Type (lay_From m) = BuiltLayer) \<or>
      IsContainersImageLayer (is_Type (lay_From l)) \<and> is_Type (lay_From l) \<noteq> BuiltLayer)"
proof -
  let ?l = "zero_layer\<lparr>lay_From := \<lparr>is_Type = ''docker'', is_Url = ''docker://alpine'', is_Tag = [], is_Insecure = False\<rparr>, lay_BuildOnly := True\<rparr>"
  have "FindFirstBaseInOutput ''app'' chain_sfm = Some (Inr (''base'', ?l, True))"
    by (simp add: FindFirstBaseInOutput_def LookupLayerDefinition_def Stackerfile_Get_def chain_sfm_def first_base.simps ParseTag_def
        layer_kind_defs IsContainersImageLayer_def)
  from first_base_found [OF this] show ?thesis by blast
qed

lemma image_copy_tags_all_witness:
  "\<exists>dir ds. strings_SplitN (ic_Dest (copy_opts ''docker://a'' ''oci:/oci:a'')) '':'' 3 ! 1 = dir \<and>
     fst (oc_GetIndex sample_oci dir ovl_world2) = Inr ds \<and>
     (\<forall>d \<in> set ds. \<exists>name. map_of (desc_Annotations d) (an_RefName sample_oci) = Some name \<and> name \<noteq> [])"
proof (rule image_copy_tags_all)
  show "index_law sample_oci" by (simp add: index_law_def sample_oci_def)
  show "ImageCopy sample_oci (copy_opts ''docker://a'' ''oci:/oci:a'') ovl_world2 = (Inr (), ovl_world2)" by code_simp
  show "localRefParser sample_oci (ic_Dest (copy_opts ''docker://a'' ''oci:/oci:a'')) = Inr \<lparr>ref_Transport = ''oci'', ref_Text = ''/oci:a''\<rparr>"
    by code_simp
qed simp

end
