(* ===== verification/Storage_Setup.thy ===== *)
theory Storage_Setup
  imports Overlay
begin

text \<open>
  Choosing and opening the storage, preparing the host for it, and the locks that keep two runs
  apart: \<^verbatim>\<open>pkg/stacker/storage.go\<close>, \<^verbatim>\<open>pkg/storage/unpriv-setup.go\<close>,
  \<^verbatim>\<open>pkg/overlay/unpriv-setup.go\<close> and \<^verbatim>\<open>pkg/stacker/lock.go\<close>. The system call behind a lock and
  the number of an inode are parameters.
\<close>

section \<open>The storage type\<close>

definition storageTypeFile :: string where
  "storageTypeFile = ''storage.type''"

definition openStorage :: "('x, 'm) oci_ops \<Rightarrow> string \<Rightarrow> StackerConfig \<Rightarrow> string \<Rightarrow> ('x, overlay) io" where
  "openStorage oc tmpdir c storageType =
     (if storageType = ''overlay'' then io_bind (overlay_Check oc tmpdir c) (\<lambda>_. io_ret (NewOverlay c))
      else io_err (Errorf ''unknown storage type %s'' [storageType]))"

fun any_overlay :: "string \<Rightarrow> (string \<times> node) list \<Rightarrow> ('x, bool) io" where
  "any_overlay roots [] = io_ret False"
| "any_overlay roots ((name, _) # ents) =
     io_bind (io_try (os_Stat (path_Join [roots, name, ''overlay'']))) (\<lambda>st.
       case st of Inr _ \<Rightarrow> io_ret True | Inl _ \<Rightarrow> any_overlay roots ents)"

definition tryToDetectStorageType :: "StackerConfig \<Rightarrow> ('x, string) io" where
  "tryToDetectStorageType c =
     io_bind (io_try (os_Stat (path_Join [sc_StackerDir c, ''btrfs.loop'']))) (\<lambda>st.
       case st of
         Inr _ \<Rightarrow> io_ret ''btrfs''
       | Inl _ \<Rightarrow>
           io_bind (io_try (os_ReadDir (sc_RootFSDir c))) (\<lambda>ents.
             case ents of
               Inl e \<Rightarrow> if \<not> os_IsNotExist e then io_err (Wrapf e (couldnt ''read roots dir'') []) else io_ret []
             | Inr ents \<Rightarrow>
                 if length ents \<le> 1 then io_ret []
                 else io_bind (any_overlay (sc_RootFSDir c) ents) (\<lambda>found.
                   io_ret (if found then ''overlay'' else ''btrfs''))))"

definition check_type :: "StackerConfig \<Rightarrow> string \<Rightarrow> ('x, unit) io" where
  "check_type c storageType =
     (if storageType \<noteq> sc_StorageType c then
        io_err (Errorf ''previous storage type %s not compatible with requested storage %s'' [storageType, sc_StorageType c])
      else io_ret ())"

definition errorOnStorageTypeSwitch :: "StackerConfig \<Rightarrow> ('x, unit) io" where
  "errorOnStorageTypeSwitch c =
     io_bind (io_try (os_ReadFile (path_Join [sc_StackerDir c, storageTypeFile]))) (\<lambda>content.
       case content of
         Inl e \<Rightarrow>
           if \<not> os_IsNotExist e then io_err (Wrapf e (couldnt ''read storage type'') [])
           else io_bind (tryToDetectStorageType c) (\<lambda>storageType.
             if storageType = [] then io_ret () else check_type c storageType)
       | Inr storageType \<Rightarrow> check_type c storageType)"

section \<open>Locks\<close>

text \<open>What the kernel does for an open file: the descriptor that \<^verbatim>\<open>os.Create\<close> has opened, its lock, its
  inode.\<close>

record ('x, 'h) lock_ops =
  lk_Fd :: "string \<Rightarrow> ('x, 'h) io"
  lk_Flock :: "'h \<Rightarrow> ('x, unit) io"
  lk_Ino :: "'h \<Rightarrow> ('x, nat) io"
  lk_Close :: "'h \<Rightarrow> ('x, unit) io"

text \<open>One line of \<open>/proc/locks\<close>: the process that holds the lock on the inode, if the line is about it.\<close>

definition lock_line :: "nat \<Rightarrow> string \<Rightarrow> string option res" where
  "lock_line ino line =
     (if length line = 0 then Inr None
      else
        (let fields = strings_Fields line in
         if length fields < 8 then Inl (Errorf ''invalid lock file entry %s'' [line])
         else
           (let entries = strings_Split (fields ! 5) '':'' in
            if length entries \<noteq> 3 then Inl (Errorf ''invalid lock file field %s'' [fields ! 5])
            else (case strconv_ParseUint_base (entries ! 2) 10 64 of
                Inl e \<Rightarrow> Inl (Wrapf e ''invalid ino %s'' [entries ! 2])
              | Inr n \<Rightarrow> Inr (if ino \<noteq> n then None else Some (fields ! 4))))))"

fun lock_owner :: "nat \<Rightarrow> string list \<Rightarrow> string option res" where
  "lock_owner ino [] = Inr None"
| "lock_owner ino (line # lines) =
     rbind (lock_line ino line) (\<lambda>r. case r of Some pid \<Rightarrow> Inr (Some pid) | None \<Rightarrow> lock_owner ino lines)"

text \<open>The code always returns an error: who holds the lock, or why that is not known.\<close>

definition findLock :: "nat \<Rightarrow> ('x, go_error) io" where
  "findLock ino =
     io_bind (io_try (os_ReadFile ''/proc/locks'')) (\<lambda>content.
       case content of
         Inl e \<Rightarrow> io_ret (Wrapf e ''failed to read locks file'' [])
       | Inr text \<Rightarrow>
           (case lock_owner ino (strings_Split text [CHR 0x0A]) of
              Inl e \<Rightarrow> io_ret e
            | Inr None \<Rightarrow> io_ret (Errorf (couldnt ''find who owns the lock'') [])
            | Inr (Some pid) \<Rightarrow>
                io_bind (io_try (os_ReadFile (path_Join [''/proc'', pid, ''cmdline'']))) (\<lambda>content.
                  case content of
                    Inl _ \<Rightarrow> io_ret (Errorf ''lock owned by pid %s'' [pid])
                  | Inr cmd \<Rightarrow>
                      io_ret (Errorf ''lock owned by pid %s (%s)'' [pid, map (\<lambda>c. if c = CHR 0x00 then CHR '' '' else c) cmd]))))"

definition acquireLock :: "('x, 'h) lock_ops \<Rightarrow> string \<Rightarrow> ('x, 'h) io" where
  "acquireLock lk p =
     io_bind (io_wrap (couldnt ''create lockfile %s'') [p] (io_bind (os_WriteFile p [] 438) (\<lambda>_. lk_Fd lk p))) (\<lambda>lockfile.
     io_bind (io_try (lk_Flock lk lockfile)) (\<lambda>lockErr.
       case lockErr of
         Inr _ \<Rightarrow> io_ret lockfile
       | Inl e \<Rightarrow>
           io_bind (io_try (lk_Ino lk lockfile)) (\<lambda>fi.
           io_bind (io_try (lk_Close lk lockfile)) (\<lambda>_.
             case fi of
               Inl e' \<Rightarrow> io_err (Wrapf e' (couldnt ''lock or stat lockfile %s'') [p])
             | Inr ino \<Rightarrow> io_bind (findLock ino) (\<lambda>owner. io_err (Wrapf e (couldnt ''acquire lock on %s: %v'') [p]))))))"

definition lockPath :: string where
  "lockPath = ''.lock''"

record 'h StackerLocks =
  sl_stackerDir :: "'h option"
  sl_rootsDir :: "'h option"

definition close_lock :: "('x, 'h) lock_ops \<Rightarrow> 'h option \<Rightarrow> ('x, unit) io" where
  "close_lock lk f = (case f of None \<Rightarrow> io_ret () | Some h \<Rightarrow> io_bind (io_try (lk_Close lk h)) (\<lambda>_. io_ret ()))"

definition Unlock :: "('x, 'h) lock_ops \<Rightarrow> 'h StackerLocks \<Rightarrow> ('x, 'h StackerLocks) io" where
  "Unlock lk ls =
     io_bind (close_lock lk (sl_stackerDir ls)) (\<lambda>_.
     io_bind (close_lock lk (sl_rootsDir ls)) (\<lambda>_.
       io_ret (ls\<lparr>sl_stackerDir := None, sl_rootsDir := None\<rparr>)))"

definition lock :: "('x, 'h) lock_ops \<Rightarrow> StackerConfig \<Rightarrow> ('x, 'h StackerLocks) io" where
  "lock lk config =
     io_bind (acquireLock lk (path_Join [sc_StackerDir config, lockPath])) (\<lambda>h1.
     io_bind (io_try (acquireLock lk (path_Join [sc_RootFSDir config, lockPath]))) (\<lambda>r.
       case r of
         Inl e \<Rightarrow> io_bind (Unlock lk \<lparr>sl_stackerDir = Some h1, sl_rootsDir = None\<rparr>) (\<lambda>_. io_err e)
       | Inr h2 \<Rightarrow> io_ret \<lparr>sl_stackerDir = Some h1, sl_rootsDir = Some h2\<rparr>))"

definition NewStorage ::
  "('x, 'm) oci_ops \<Rightarrow> ('x, 'h) lock_ops \<Rightarrow> string \<Rightarrow> StackerConfig \<Rightarrow> ('x, overlay \<times> 'h StackerLocks) io" where
  "NewStorage oc lk tmpdir c =
     io_bind (os_MkdirAll (sc_RootFSDir c) 493) (\<lambda>_.
     io_bind (errorOnStorageTypeSwitch c) (\<lambda>_.
     io_bind (io_wrap (couldnt ''make stacker dir'') [] (os_MkdirAll (sc_StackerDir c) 493)) (\<lambda>_.
     io_bind (io_wrap (couldnt ''make rootfs dir'') [] (os_MkdirAll (sc_RootFSDir c) 493)) (\<lambda>_.
     io_bind (io_wrap (couldnt ''write storage type'') []
       (os_WriteFile (path_Join [sc_StackerDir c, storageTypeFile]) (sc_StorageType c) 420)) (\<lambda>_.
     io_bind (openStorage oc tmpdir c (sc_StorageType c)) (\<lambda>s.
     io_bind (lock lk c) (\<lambda>locks.
       io_ret (s, locks))))))))"

section \<open>Unprivileged setup\<close>

definition wrap64 :: "int \<Rightarrow> int" where
  "wrap64 i = (i + 2 ^ 63) mod 2 ^ 64 - 2 ^ 63"

lemma wrap64_code [code]:
  "wrap64 i = (if - 9223372036854775808 \<le> i \<and> i < 9223372036854775808 then i else (i + 2 ^ 63) mod 2 ^ 64 - 2 ^ 63)"
  by (simp add: wrap64_def)

text \<open>A line of \<open>/etc/subuid\<close>: the name has an entry already (\<^const>\<open>None\<close>), or the new highest end.\<close>

definition subid_line :: "string \<Rightarrow> string \<Rightarrow> int \<Rightarrow> string \<Rightarrow> int option res" where
  "subid_line file name maxAlloc line =
     (if line = [] then Inr (Some maxAlloc)
      else
        (let parts = strings_Split line '':'' in
         if hd parts = name then Inr None
         else if length parts \<noteq> 3 then Inl (Errorf ''invalid %s entry: %s'' [file, line])
         else (case strconv_Atoi (parts ! 1) of
             Inl e \<Rightarrow> Inl (Wrapf e ''invalid %s entry: %s'' [file, line])
           | Inr thisAlloc \<Rightarrow>
               (case strconv_Atoi (parts ! 2) of
                  Inl e \<Rightarrow> Inl (Wrapf e ''invalid %s entry: %s'' [file, line])
                | Inr len \<Rightarrow>
                    Inr (Some (if wrap64 (thisAlloc + len) > maxAlloc then wrap64 (thisAlloc + len) else maxAlloc))))))"

fun subid_lines :: "string \<Rightarrow> string \<Rightarrow> int \<Rightarrow> string list \<Rightarrow> int option res" where
  "subid_lines file name maxAlloc [] = Inr (Some maxAlloc)"
| "subid_lines file name maxAlloc (line # lines) =
     rbind (subid_line file name maxAlloc line) (\<lambda>r.
       case r of None \<Rightarrow> Inr None | Some m \<Rightarrow> subid_lines file name m lines)"

definition next_subid :: "int \<Rightarrow> int \<Rightarrow> int" where
  "next_subid maxAlloc currentId =
     (if maxAlloc \<le> currentId \<and> currentId < wrap64 (maxAlloc + 65536) then wrap64 (maxAlloc + 65536) else maxAlloc)"

definition addSpecificEntries :: "string \<Rightarrow> string \<Rightarrow> int \<Rightarrow> ('x, unit) io" where
  "addSpecificEntries file name currentId =
     io_bind (io_try (os_ReadFile file)) (\<lambda>r.
       case r of
         Inl e \<Rightarrow>
           if \<not> os_IsNotExist e then io_err (Wrapf e (couldnt ''read %s'') [file])
           else io_wrap (couldnt ''write %s'') [file]
             (os_WriteFile file (name @ '':'' @ fmt_d (next_subid 100000 currentId) @ '':65536'' @ [CHR 0x0A]) 420)
       | Inr content \<Rightarrow>
           io_bind (io_res (subid_lines file name 100000 (strings_Split content [CHR 0x0A]))) (\<lambda>m.
             case m of
               None \<Rightarrow> io_ret ()
             | Some maxAlloc \<Rightarrow>
                 io_wrap (couldnt ''write %s'') [file]
                   (os_WriteFile file (content @ name @ '':'' @ fmt_d (next_subid maxAlloc currentId) @ '':65536'' @ [CHR 0x0A]) 420)))"

definition addEtcEntriesIfNecessary :: "string \<Rightarrow> int \<Rightarrow> int \<Rightarrow> ('x, unit) io" where
  "addEtcEntriesIfNecessary username uid gid =
     io_bind (addSpecificEntries ''/etc/subuid'' username uid) (\<lambda>_. addSpecificEntries ''/etc/subgid'' username gid)"

text \<open>The warnings about missing helper programs are log output.\<close>

definition UidmapSetup :: "string \<Rightarrow> int \<Rightarrow> int \<Rightarrow> ('x, unit) io" where
  "UidmapSetup username uid gid = addEtcEntriesIfNecessary username uid gid"

definition overlay_UnprivSetup :: "('x, 'm) oci_ops \<Rightarrow> string \<Rightarrow> StackerConfig \<Rightarrow> int \<Rightarrow> int \<Rightarrow> ('x, unit) io" where
  "overlay_UnprivSetup oc tmpdir config uid gid = overlay_Check oc tmpdir config"

definition UnprivSetup :: "('x, 'm) oci_ops \<Rightarrow> string \<Rightarrow> StackerConfig \<Rightarrow> string \<Rightarrow> int \<Rightarrow> int \<Rightarrow> ('x, unit) io" where
  "UnprivSetup oc tmpdir c username uid gid =
     io_bind (UidmapSetup username uid gid) (\<lambda>_.
       if sc_StorageType c = ''overlay'' then overlay_UnprivSetup oc tmpdir c uid gid
       else io_err (Errorf ''unknown storage type %s'' [sc_StorageType c]))"

section \<open>Lemmas\<close>

lemma wrap64_id: "- (2 ^ 63) \<le> i \<Longrightarrow> i < 2 ^ 63 \<Longrightarrow> wrap64 i = i"
  by (simp add: wrap64_def)

text \<open>The range of ids that a line of the file gives away.\<close>

definition subid_range :: "string \<Rightarrow> (int \<times> int) option" where
  "subid_range line =
     (let parts = strings_Split line '':'' in
      if line = [] \<or> length parts \<noteq> 3 then None
      else (case (strconv_Atoi (parts ! 1), strconv_Atoi (parts ! 2)) of
          (Inr start, Inr len) \<Rightarrow> Some (start, len)
        | _ \<Rightarrow> None))"

text \<open>The end of the range is a number well inside the type \<^verbatim>\<open>int\<close> of Go.\<close>

definition subid_fits :: "string \<Rightarrow> bool" where
  "subid_fits line = (case subid_range line of None \<Rightarrow> True | Some (start, len) \<Rightarrow> - (2 ^ 63) \<le> start + len \<and> start + len < 2 ^ 62)"

lemma subid_line_Some:
  assumes "subid_line file name m line = Inr (Some m')" and small: "subid_fits line"
  shows "m \<le> m' \<and> (\<forall>start len. subid_range line = Some (start, len) \<longrightarrow> start + len \<le> m') \<and>
    (m' = m \<or> (\<exists>start len. subid_range line = Some (start, len) \<and> m' = start + len))"
proof (cases "subid_range line")
  case None
  with assms(1) show ?thesis
    by (auto simp: subid_line_def subid_range_def Let_def split: if_splits sum.splits)
next
  case (Some r)
  obtain start len where r: "r = (start, len)" by force
  with small Some have "wrap64 (start + len) = start + len" by (intro wrap64_id) (auto simp: subid_fits_def)
  with assms(1) Some r show ?thesis
    by (auto simp: subid_line_def subid_range_def Let_def split: if_splits sum.splits)
qed

lemma subid_lines_Some:
  assumes "subid_lines file name m lines = Inr (Some m')"
    and "\<forall>line \<in> set lines. subid_fits line" "m < 2 ^ 62"
  shows "m \<le> m' \<and> m' < 2 ^ 62 \<and> (\<forall>line \<in> set lines. \<forall>start len. subid_range line = Some (start, len) \<longrightarrow> start + len \<le> m')"
  using assms
proof (induction lines arbitrary: m)
  case (Cons line lines)
  then obtain m1 where m1: "subid_line file name m line = Inr (Some m1)" "subid_lines file name m1 lines = Inr (Some m')"
    by (auto simp: res_simps split: option.splits)
  have line: "m \<le> m1 \<and> m1 < 2 ^ 62 \<and> (\<forall>start len. subid_range line = Some (start, len) \<longrightarrow> start + len \<le> m1)"
    using subid_line_Some [OF m1(1)] Cons.prems(2,3) by (auto simp: subid_fits_def)
  then have "m1 \<le> m' \<and> m' < 2 ^ 62 \<and> (\<forall>line \<in> set lines. \<forall>start len. subid_range line = Some (start, len) \<longrightarrow> start + len \<le> m')"
    using Cons.IH [OF m1(2)] Cons.prems(2) by simp
  with line show ?case by fastforce
qed auto

lemma subid_lines_fresh:
  assumes "subid_lines file name m lines = Inr None"
  shows "\<exists>line \<in> set lines. line \<noteq> [] \<and> hd (strings_Split line '':'') = name"
  using assms
  by (induction lines arbitrary: m)
    (auto simp: res_simps subid_line_def Let_def split: if_splits option.splits sum.splits)

lemma next_subid_free:
  assumes "100000 \<le> maxAlloc" "maxAlloc < 2 ^ 62" "end \<le> maxAlloc"
  shows "100000 \<le> next_subid maxAlloc i \<and> \<not> (next_subid maxAlloc i \<le> i \<and> i < next_subid maxAlloc i + 65536) \<and>
    {start ..< end} \<inter> {next_subid maxAlloc i ..< next_subid maxAlloc i + 65536} = {}"
proof -
  have "wrap64 (maxAlloc + 65536) = maxAlloc + 65536" using assms by (intro wrap64_id) auto
  then show ?thesis using assms by (auto simp: next_subid_def)
qed

lemma findLock_ext: "w_ext (snd (findLock n w)) = w_ext w"
  by (auto simp: findLock_def io_bind_def io_try_def io_ret_def os_ReadFile_def split: sum.splits option.splits)

lemma os_WriteFile_ext: "w_ext (snd (os_WriteFile p s perm w)) = w_ext w"
  by (simp add: os_WriteFile_def split: sum.splits)

lemma io_wrap_ext: "w_ext (snd (io_wrap f args m w)) = w_ext (snd (m w))"
  by (auto simp: io_wrap_def split: prod.splits sum.splits)

text \<open>What one attempt to take a lock does, for the laws of \<^verbatim>\<open>flock\<close>.\<close>

definition flock_laws :: "('x, 'h) lock_ops \<Rightarrow> ('x \<Rightarrow> 'h set) \<Rightarrow> bool" where
  "flock_laws lk held \<longleftrightarrow>
     (\<forall>p w r w'. lk_Fd lk p w = (r, w') \<longrightarrow> held (w_ext w') = held (w_ext w) \<and> (\<forall>h. r = Inr h \<longrightarrow> h \<notin> held (w_ext w))) \<and>
     (\<forall>h w r w'. lk_Flock lk h w = (r, w') \<longrightarrow>
        held (w_ext w') = (if r = Inr () then insert h (held (w_ext w)) else held (w_ext w))) \<and>
     (\<forall>h w. held (w_ext (snd (lk_Close lk h w))) = held (w_ext w) - {h}) \<and>
     (\<forall>h w. held (w_ext (snd (lk_Ino lk h w))) = held (w_ext w))"

lemma flock_lawsD:
  assumes "flock_laws lk held"
  shows "lk_Fd lk p w = (r, w') \<Longrightarrow> held (w_ext w') = held (w_ext w) \<and> (\<forall>h. r = Inr h \<longrightarrow> h \<notin> held (w_ext w))"
    and "lk_Flock lk h w = (s, w') \<Longrightarrow> held (w_ext w') = (if s = Inr () then insert h (held (w_ext w)) else held (w_ext w))"
    and "lk_Close lk h w = (s, w') \<Longrightarrow> held (w_ext w') = held (w_ext w) - {h}"
    and "lk_Ino lk h w = (i, w') \<Longrightarrow> held (w_ext w') = held (w_ext w)"
proof -
  note laws = assms [unfolded flock_laws_def]
  show "lk_Fd lk p w = (r, w') \<Longrightarrow> held (w_ext w') = held (w_ext w) \<and> (\<forall>h. r = Inr h \<longrightarrow> h \<notin> held (w_ext w))"
    by (rule laws [THEN conjunct1, rule_format])
  show "lk_Flock lk h w = (s, w') \<Longrightarrow> held (w_ext w') = (if s = Inr () then insert h (held (w_ext w)) else held (w_ext w))"
    by (rule laws [THEN conjunct2, THEN conjunct1, rule_format])
  show "lk_Close lk h w = (s, w') \<Longrightarrow> held (w_ext w') = held (w_ext w) - {h}"
    using laws [THEN conjunct2, THEN conjunct2, THEN conjunct1, rule_format, of h w] by simp
  show "lk_Ino lk h w = (i, w') \<Longrightarrow> held (w_ext w') = held (w_ext w)"
    using laws [THEN conjunct2, THEN conjunct2, THEN conjunct2, rule_format, of h w] by simp
qed

lemma create_lockfile_held:
  assumes laws: "flock_laws lk held"
    and run: "io_wrap f args (io_bind (os_WriteFile p [] perm) (\<lambda>_. lk_Fd lk p)) w = (r, w')"
  shows "held (w_ext w') = held (w_ext w) \<and> (\<forall>h. r = Inr h \<longrightarrow> h \<notin> held (w_ext w))"
proof -
  obtain u v where u: "os_WriteFile p [] perm w = (u, v)" by force
  then have v: "w_ext v = w_ext w" using os_WriteFile_ext [of p "[]" perm w] by simp
  obtain s v' where s: "lk_Fd lk p v = (s, v')" by force
  note fd = flock_lawsD(1) [OF laws s]
  show ?thesis using run u s fd v
    by (cases u; cases s) (auto simp: io_wrap_def io_bind_def)
qed

lemma acquireLock_held:
  assumes laws: "flock_laws lk held" and run: "acquireLock lk p w = (r, w')"
  shows "case r of Inr h \<Rightarrow> h \<notin> held (w_ext w) \<and> held (w_ext w') = insert h (held (w_ext w))
    | Inl _ \<Rightarrow> held (w_ext w') = held (w_ext w)"
proof -
  let ?create = "io_wrap (couldnt ''create lockfile %s'') [p] (io_bind (os_WriteFile p [] 438) (\<lambda>_. lk_Fd lk p))"
  obtain u v where u: "?create w = (u, v)" by force
  note created = create_lockfile_held [OF laws u]
  show ?thesis
  proof (cases u)
    case (Inl e)
    with u run have "r = Inl e" "w' = v" by (simp_all add: acquireLock_def io_bind_def)
    with created show ?thesis by simp
  next
    case (Inr h)
    obtain l v1 where l: "lk_Flock lk h v = (l, v1)" by force
    obtain i v2 where i: "lk_Ino lk h v1 = (i, v2)" by force
    obtain c v3 where c: "lk_Close lk h v2 = (c, v3)" by force
    note step = flock_lawsD(2) [OF laws l] flock_lawsD(4) [OF laws i] flock_lawsD(3) [OF laws c]
    have run': "(case l of Inr _ \<Rightarrow> io_ret h v1
        | Inl e \<Rightarrow> (case i of Inl e' \<Rightarrow> io_err (Wrapf e' (couldnt ''lock or stat lockfile %s'') [p]) v3
            | Inr ino \<Rightarrow> io_bind (findLock ino) (\<lambda>owner. io_err (Wrapf e (couldnt ''acquire lock on %s: %v'') [p])) v3)) = (r, w')"
      using run u Inr l i c by (simp add: acquireLock_def io_bind_def io_try_def split: sum.splits)
    show ?thesis
    proof (cases l)
      case (Inr x)
      then show ?thesis using run' step(1) created \<open>u = Inr h\<close> by (auto simp: io_ret_def)
    next
      case (Inl e)
      have "\<exists>e'. r = Inl e' \<and> w_ext w' = w_ext v3"
      proof (cases i)
        case (Inl e')
        then show ?thesis using run' \<open>l = Inl e\<close> by (auto simp: io_err_def)
      next
        case (Inr ino)
        obtain owner v4 where o: "findLock ino v3 = (owner, v4)" by force
        then have "w_ext v4 = w_ext v3" using findLock_ext [of ino v3] by simp
        then show ?thesis using run' Inr o \<open>l = Inl e\<close> by (cases owner) (auto simp: io_err_def io_bind_def)
      qed
      then show ?thesis using step created Inl \<open>u = Inr h\<close> by auto
    qed
  qed
qed

section \<open>Properties\<close>

text \<open>
  C13. When an entry is added for a user that has none, the old text of the file stays in front of
  it, its range of ids overlaps no range that the file gives away already, and the range does not
  contain the user's own id, as long as the numbers of the file are not close to the largest integer.
\<close>

theorem subid_range_free:
  assumes run: "addSpecificEntries file name currentId w = (Inr (), w')"
    and old: "os_ReadFile file w = (Inr content, w)" and lines: "strings_Split content [CHR 0x0A] = lines"
    and fits: "\<forall>line \<in> set lines. subid_fits line"
    and fresh: "\<forall>line \<in> set lines. line \<noteq> [] \<longrightarrow> hd (strings_Split line '':'') \<noteq> name"
  shows "\<exists>new. os_ReadFile file w' = (Inr (content @ name @ '':'' @ fmt_d new @ '':65536'' @ [CHR 0x0A]), w') \<and>
     100000 \<le> new \<and> \<not> (new \<le> currentId \<and> currentId < new + 65536) \<and>
     (\<forall>line \<in> set lines. \<forall>start len. subid_range line = Some (start, len) \<longrightarrow>
        {start ..< start + len} \<inter> {new ..< new + 65536} = {})"
proof -
  have "subid_lines file name 100000 lines \<noteq> Inr None" using subid_lines_fresh fresh by blast
  then obtain maxAlloc where m: "subid_lines file name 100000 lines = Inr (Some maxAlloc)"
    and w': "os_WriteFile file (content @ name @ '':'' @ fmt_d (next_subid maxAlloc currentId) @ '':65536'' @ [CHR 0x0A]) 420 w = (Inr (), w')"
    using run old lines by (auto simp: addSpecificEntries_def io_simps split: option.splits)
  have M: "100000 \<le> maxAlloc \<and> maxAlloc < 2 ^ 62 \<and>
      (\<forall>line \<in> set lines. \<forall>start len. subid_range line = Some (start, len) \<longrightarrow> start + len \<le> maxAlloc)"
    using subid_lines_Some [OF m fits] by simp
  show ?thesis
    using write_then_read [OF w'] M next_subid_free [of maxAlloc] by (intro exI [of _ "next_subid maxAlloc currentId"]) blast
qed

lemma subid_range_free_witness:
  "\<exists>new w'. os_ReadFile ''/f'' (w' :: unit world) = (Inr ((''u:100000:65536'' @ [CHR 0x0A]) @ ''v'' @ '':'' @ fmt_d new @ '':65536'' @ [CHR 0x0A]), w') \<and>
     {100000 ..< 165536} \<inter> {new ..< new + 65536} = {} \<and> \<not> (new \<le> 165536 \<and> 165536 < new + 65536)"
proof -
  let ?old = "''u:100000:65536'' @ [CHR 0x0A]"
  let ?w = "\<lparr>w_fs = [(''/f'', File ?old 420 (0, 0))], w_cwd = ''/'', w_ext = ()\<rparr> :: unit world"
  have split: "strings_Split ?old [CHR 0x0A] = [''u:100000:65536'', []]" by code_simp
  have parts: "strings_Split ''u:100000:65536'' '':'' = [''u'', ''100000'', ''65536'']" by code_simp
  have nums: "strconv_Atoi ''100000'' = Inr 100000" "strconv_Atoi ''65536'' = Inr 65536"
    by (simp_all add: strconv_Atoi_def strconv_ParseInt_def digit_val_def)
  have max: "subid_lines ''/f'' ''v'' 100000 [''u:100000:65536'', []] = Inr (Some 165536)"
    by (simp add: subid_line_def parts nums wrap64_code)
  have range: "subid_range ''u:100000:65536'' = Some (100000, 65536)" "subid_range [] = None"
    by (simp_all add: subid_range_def parts nums)
  have old: "os_ReadFile ''/f'' ?w = (Inr ?old, ?w)" by code_simp
  let ?new = "?old @ ''v'' @ '':'' @ fmt_d (next_subid 165536 165536) @ '':65536'' @ [CHR 0x0A]"
  have "os_WriteFile ''/f'' s 420 ?w = (Inr (), \<lparr>w_fs = [(''/f'', File s 420 (0, 0))], w_cwd = ''/'', w_ext = ()\<rparr>)" for s
    by code_simp
  then obtain w' where "os_WriteFile ''/f'' ?new 420 ?w = (Inr (), w')" by blast
  then have run: "addSpecificEntries ''/f'' ''v'' 165536 ?w = (Inr (), w')"
    using old split max by (simp add: addSpecificEntries_def io_bind_def io_try_def io_wrap_def io_res_def)
  show ?thesis
    using subid_range_free [OF run old split] parts range by (auto simp: subid_fits_def)
qed

text \<open>
  A storage that was opened has left its type on disk: opening with the same type passes
  the check again and any other type is refused, as long as nothing else has been written.
\<close>

theorem storage_type_kept:
  assumes "os_WriteFile (path_Join [sc_StackerDir c, storageTypeFile]) (sc_StorageType c) 420 w = (Inr (), w')"
    and "sc_StackerDir c' = sc_StackerDir c"
  shows "errorOnStorageTypeSwitch c' w' =
     (if sc_StorageType c' = sc_StorageType c then Inr ()
      else Inl (Errorf ''previous storage type %s not compatible with requested storage %s'' [sc_StorageType c, sc_StorageType c']), w')"
  using write_then_read [OF assms(1)] assms(2)
  by (auto simp: errorOnStorageTypeSwitch_def io_bind_def io_try_def check_type_def io_ret_def io_err_def)

lemma storage_type_kept_witness:
  "\<exists>w'. errorOnStorageTypeSwitch
       \<lparr>sc_WorkDir = [], sc_StackerDir = ''/s'', sc_OCIDir = [], sc_RootFSDir = [], sc_Debug = False, sc_StorageType = ''btrfs'',
        sc_SourceDateEpoch = None\<rparr> w' =
     (Inl (Errorf ''previous storage type %s not compatible with requested storage %s'' [''overlay'', ''btrfs'']), w' :: unit world)"
proof -
  let ?c = "\<lparr>sc_WorkDir = [], sc_StackerDir = ''/s'', sc_OCIDir = [], sc_RootFSDir = [], sc_Debug = False, sc_StorageType = ''overlay'',
    sc_SourceDateEpoch = None\<rparr>"
  let ?w = "\<lparr>w_fs = [(''/s'', Dir)], w_cwd = ''/'', w_ext = ()\<rparr>"
  have "os_WriteFile (path_Join [sc_StackerDir ?c, storageTypeFile]) (sc_StorageType ?c) 420 ?w =
      (Inr (), \<lparr>w_fs = [(''/s'', Dir), (''/s/storage.type'', File ''overlay'' 420 (0, 0))], w_cwd = ''/'', w_ext = ()\<rparr>)" by code_simp
  from storage_type_kept [OF this, of "?c\<lparr>sc_StorageType := ''btrfs''\<rparr>"] show ?thesis by auto
qed

text \<open>
  C10. Taking the locks is all or nothing: either exactly the two lock files are held on top of what
  was held before, or the call fails and every lock that it took on the way is given back.
\<close>

theorem lock_all_or_nothing:
  assumes laws: "flock_laws lk held" and run: "lock lk c w = (r, w')"
  shows "case r of
      Inr ls \<Rightarrow> \<exists>h1 h2. ls = \<lparr>sl_stackerDir = Some h1, sl_rootsDir = Some h2\<rparr> \<and> h1 \<noteq> h2 \<and>
        h1 \<notin> held (w_ext w) \<and> h2 \<notin> held (w_ext w) \<and> held (w_ext w') = held (w_ext w) \<union> {h1, h2}
    | Inl _ \<Rightarrow> held (w_ext w') = held (w_ext w)"
proof -
  obtain u v where u: "acquireLock lk (path_Join [sc_StackerDir c, lockPath]) w = (u, v)" by force
  obtain s v1 where s: "acquireLock lk (path_Join [sc_RootFSDir c, lockPath]) v = (s, v1)" by force
  note held = acquireLock_held [OF laws u] acquireLock_held [OF laws s]
  show ?thesis
  proof (cases u)
    case (Inl e)
    with run u held show ?thesis by (auto simp: lock_def io_bind_def)
  next
    case (Inr h1)
    obtain cl v2 where cl: "lk_Close lk h1 v1 = (cl, v2)" by force
    note closed = flock_lawsD(3) [OF laws cl]
    show ?thesis
    proof (cases s)
      case (Inr h2)
      with run u \<open>u = Inr h1\<close> s held show ?thesis by (auto simp: lock_def io_bind_def io_try_def io_ret_def)
    next
      case (Inl e)
      with run u \<open>u = Inr h1\<close> s held cl closed show ?thesis
        by (auto simp: lock_def io_bind_def io_try_def io_ret_def io_err_def Unlock_def close_lock_def)
    qed
  qed
qed

text \<open>A kernel that numbers its descriptors and keeps at most two locks.\<close>

definition sample_locks :: "(nat list, nat) lock_ops" where
  "sample_locks = \<lparr>
     lk_Fd = (\<lambda>p w. (Inr (Suc (fold max (w_ext w) 0)), w)),
     lk_Flock = (\<lambda>h w. if length (w_ext w) < 2 then (Inr (), w\<lparr>w_ext := h # w_ext w\<rparr>)
                        else (Inl (Ext ''resource temporarily unavailable''), w)),
     lk_Ino = (\<lambda>h w. (Inr 7, w)),
     lk_Close = (\<lambda>h w. (Inr (), w\<lparr>w_ext := removeAll h (w_ext w)\<rparr>))\<rparr>"

lemma fold_max_least: "h \<in> set xs \<or> h \<le> m \<Longrightarrow> h \<le> fold max xs (m :: nat)"
  by (induction xs arbitrary: m) (auto simp: le_max_iff_disj)

lemma sample_locks_lawful: "flock_laws sample_locks set"
  unfolding flock_laws_def sample_locks_def
  using fold_max_least [of "Suc (fold max xs 0)" xs 0 for xs] by (auto split: if_splits)

definition lock_config :: StackerConfig where
  "lock_config = \<lparr>sc_WorkDir = ''/'', sc_StackerDir = ''/s'', sc_OCIDir = ''/oci'', sc_RootFSDir = ''/r'', sc_Debug = False,
     sc_StorageType = ''overlay'', sc_SourceDateEpoch = None\<rparr>"

definition lock_world :: "nat list world" where
  "lock_world = \<lparr>w_fs = [(''/s'', Dir), (''/r'', Dir)], w_cwd = ''/'', w_ext = []\<rparr>"

lemma lock_all_or_nothing_witness:
  "\<exists>ls w'. lock sample_locks lock_config lock_world = (Inr ls, w') \<and> set (w_ext w') = {1, 2}"
proof -
  have run: "lock sample_locks lock_config lock_world = (Inr \<lparr>sl_stackerDir = Some 1, sl_rootsDir = Some 2\<rparr>,
      \<lparr>w_fs = [(''/s'', Dir), (''/r'', Dir), (''/s/.lock'', File [] 438 (0, 0)), (''/r/.lock'', File [] 438 (0, 0))], w_cwd = ''/'', w_ext = [2, 1]\<rparr>)"
    by code_simp
  then show ?thesis using lock_all_or_nothing [OF sample_locks_lawful run] by (auto simp: lock_world_def)
qed

end
