(* ===== verification/Container.thy ===== *)
theory Container
  imports Overlay
begin

text \<open>
  Containers: \<^verbatim>\<open>pkg/container/container.go\<close>, \<^verbatim>\<open>userns.go\<close> and \<^verbatim>\<open>idmap/idmap.go\<close>,
  \<^verbatim>\<open>pkg/embed-exec/embed-exec.go\<close>, \<^verbatim>\<open>pkg/test/cover.go\<close>, the container parts of
  \<^verbatim>\<open>pkg/stacker/build.go\<close>, and \<^verbatim>\<open>pkg/stacker/grab.go\<close>. liblxc, external processes, memory files and
  the id maps of incus are parameters (\<open>host_ops\<close>); what the code does to them, and in which order, is
  the model. What goes to the log or the terminal is left out.
\<close>

section \<open>The host\<close>

record idmap_entry =
  ie_IsUID :: bool
  ie_IsGID :: bool
  ie_HostID :: int
  ie_NSID :: int
  ie_MapRange :: int

text \<open>
  \<open>'c\<close> is a container of liblxc, \<open>'f\<close> a memory file. \<open>ho_Run\<close> is \<^verbatim>\<open>exec.Command(...).Run()\<close>: the program,
  its arguments, its environment (\<^const>\<open>None\<close>: inherited) and whether it reads the standard input.
\<close>

record ('x, 'c, 'f) host_ops =
  lx_VersionAtLeast :: "nat \<Rightarrow> nat \<Rightarrow> nat \<Rightarrow> bool"
  lx_NewContainer :: "string \<Rightarrow> string \<Rightarrow> ('x, 'c) io"
  lx_Name :: "'c \<Rightarrow> string"
  lx_SetLogLevel :: "'c \<Rightarrow> string \<Rightarrow> ('x, unit) io"
  lx_SetLogFile :: "'c \<Rightarrow> string \<Rightarrow> ('x, unit) io"
  lx_SetConfigItem :: "'c \<Rightarrow> string \<Rightarrow> string \<Rightarrow> ('x, unit) io"
  lx_SaveConfigFile :: "'c \<Rightarrow> string \<Rightarrow> ('x, unit) io"
  lx_Release :: "'c \<Rightarrow> ('x, unit) io"
  ho_uuid :: "('x, string) io"
  ho_tmpdir :: string
  ho_env :: "(string \<times> string) list"
  ho_Run :: "string \<Rightarrow> string list \<Rightarrow> (string \<times> string) list option \<Rightarrow> bool \<Rightarrow> ('x, unit) io"
  ho_Output :: "string \<Rightarrow> string list \<Rightarrow> ('x, string) io"
  em_Open :: "string \<Rightarrow> ('x, string) io"
  mf_Create :: "('x, 'f) io"
  mf_Write :: "'f \<Rightarrow> string \<Rightarrow> ('x, unit) io"
  mf_Fd :: "'f \<Rightarrow> nat"
  mf_Close :: "'f \<Rightarrow> ('x, unit) io"
  ho_Euid :: int
  ho_User :: "(string \<times> string \<times> string) res"
  ho_Hostname :: "string res"
  im_System :: "string \<Rightarrow> ('x, idmap_entry list option) io"
  im_AddSafe :: "idmap_entry list \<Rightarrow> idmap_entry \<Rightarrow> idmap_entry list res"

text \<open>Two more functions of \<^verbatim>\<open>os\<close>; the random name of a temporary file is the first free one.\<close>

definition os_Truncate :: "string \<Rightarrow> ('x, unit) io" where
  "os_Truncate p =
     io_bind (os_Stat p) (\<lambda>n. case n of File _ perm _ \<Rightarrow> os_WriteFile p [] perm | _ \<Rightarrow> io_err EISDIR)"

definition os_CreateTemp :: "string \<Rightarrow> string \<Rightarrow> ('x, string) io" where
  "os_CreateTemp dir pre =
     (if CHR ''/'' \<in> set pre then io_err (Ext ''pattern contains path separator'')
      else io_bind io_get (\<lambda>w.
        let p = path_Join [dir, temp_name (w_fs w) (w_key w dir) pre] in
        io_bind (os_WriteFile p [] 384) (\<lambda>_. io_ret p)))"

section \<open>Commands\<close>

definition InternalStackerDir :: string where "InternalStackerDir = ''/stacker''"
definition LegacyInternalStackerDir :: string where "LegacyInternalStackerDir = ''/.stacker''"
definition BinStacker :: string where "BinStacker = ''bin/stacker''"
definition DefaultShell :: string where "DefaultShell = ''/bin/sh''"
definition CoverageBindPath :: string where "CoverageBindPath = ''/stacker/.coverage''"

definition ReasonableDefaultPath :: string where
  "ReasonableDefaultPath = ''/usr/local/sbin:/usr/local/bin:/usr/sbin:/usr/bin:/sbin:/bin''"

definition IsCoverageEnabled :: "('x, 'c, 'f) host_ops \<Rightarrow> bool" where
  "IsCoverageEnabled ho = (map_of (ho_env ho) ''GOCOVERDIR'' \<noteq> None)"

definition GetCoverageDir :: "('x, 'c, 'f) host_ops \<Rightarrow> string" where
  "GetCoverageDir ho = (case map_of (ho_env ho) ''GOCOVERDIR'' of Some val \<Rightarrow> val | None \<Rightarrow> [])"

text \<open>The path of the program, its arguments, and the memory file that the cleanup closes.\<close>

definition GetCommand :: "('x, 'c, 'f) host_ops \<Rightarrow> string \<Rightarrow> string list \<Rightarrow> ('x, (string \<times> string list) \<times> 'f) io" where
  "GetCommand ho filename args =
     io_bind (WithStack (em_Open ho filename)) (\<lambda>f.
     io_bind (WithStack (mf_Create ho)) (\<lambda>mfd.
     io_bind (io_try (mf_Write ho mfd f)) (\<lambda>r.
       case r of
         Inl e \<Rightarrow> io_bind (io_try (mf_Close ho mfd)) (\<lambda>_. WithStack (io_err e))
       | Inr _ \<Rightarrow> io_ret ((''/proc/self/fd/'' @ fmt_d (int (mf_Fd ho mfd)), args), mfd))))"

section \<open>Containers\<close>

record 'c Container =
  con_sc :: StackerConfig
  con_c :: 'c
  con_displayName :: string

definition container_New :: "('x, 'c, 'f) host_ops \<Rightarrow> StackerConfig \<Rightarrow> string \<Rightarrow> ('x, 'c Container) io" where
  "container_New ho sc name =
     (if \<not> lx_VersionAtLeast ho 2 1 0 then io_err (Errorf ''stacker requires liblxc >= 2.1.0'' [])
      else
        io_bind (WithStack (os_MkdirAll (sc_RootFSDir sc) 493)) (\<lambda>_.
        io_bind (ho_uuid ho) (\<lambda>uuid.
        io_bind (lx_NewContainer ho (name @ ''-'' @ uuid) (sc_RootFSDir sc)) (\<lambda>lxcC.
        io_bind (lx_SetLogLevel ho lxcC ''TRACE'') (\<lambda>_.
        let logFile = sc_StackerDir sc @ ''/lxc-'' @ name @ ''.log'' in
        io_bind (lx_SetLogFile ho lxcC logFile) (\<lambda>_.
        io_bind (os_Truncate logFile) (\<lambda>_.
          io_ret \<lparr>con_sc = sc, con_c = lxcC, con_displayName = name\<rparr>)))))))"

definition SetConfig :: "('x, 'c, 'f) host_ops \<Rightarrow> 'c Container \<Rightarrow> string \<Rightarrow> string \<Rightarrow> ('x, unit) io" where
  "SetConfig ho c name value =
     io_bind (io_try (lx_SetConfigItem ho (con_c c) name value)) (\<lambda>err.
       case err of
         Inl e \<Rightarrow> io_err (Errorf ''failed setting config %s to %s: %v'' [name, value])
       | Inr _ \<Rightarrow> io_ret ())"

text \<open>The order in which \<^verbatim>\<open>range\<close> visits the map is that of the list.\<close>

definition SetConfigs :: "('x, 'c, 'f) host_ops \<Rightarrow> 'c Container \<Rightarrow> (string \<times> string) list \<Rightarrow> ('x, unit) io" where
  "SetConfigs ho c config = io_each (\<lambda>(k, v). SetConfig ho c k v) config"

definition create_opt :: "node res \<Rightarrow> string" where
  "create_opt stat = (case stat of Inr n \<Rightarrow> if node_IsDir n then ''create=dir'' else ''create=file'' | Inl _ \<Rightarrow> ''create=dir'')"

definition mount_entry :: "string \<Rightarrow> string \<Rightarrow> string \<Rightarrow> string \<Rightarrow> string" where
  "mount_entry source dest createOpt extraOpts =
     source @ '' '' @ strings_TrimPrefix dest ''/'' @ '' none rbind,'' @ createOpt @ '','' @ extraOpts @ '' 0 0''"

definition BindMount :: "('x, 'c, 'f) host_ops \<Rightarrow> 'c Container \<Rightarrow> string \<Rightarrow> string \<Rightarrow> string \<Rightarrow> ('x, unit) io" where
  "BindMount ho c source dest extraOpts =
     io_bind (io_try (os_Stat source)) (\<lambda>stat.
       if (case stat of Inl e \<Rightarrow> os_IsNotExist e | Inr _ \<Rightarrow> False) then
         io_err (Errorf ''bind mount source %q does not exist, refusing bind mount: %s'' [source])
       else SetConfig ho c ''lxc.mount.entry'' (mount_entry source dest (create_opt stat) extraOpts))"

text \<open>The errors that the container's own log holds go to stacker's log; what is returned is the first error.\<close>

definition containerError :: "unit res \<Rightarrow> string \<Rightarrow> unit res" where
  "containerError theErr msg = (case theErr of Inr _ \<Rightarrow> Inr () | Inl e \<Rightarrow> Inl (Wrapf e msg []))"

text \<open>The signal that is sent on to the container for a signal that stacker gets.\<close>

definition forward_signal :: "nat \<Rightarrow> nat option" where
  "forward_signal sg = (if sg = 17 then None else if sg = 2 then Some 9 else Some sg)"

definition Execute :: "('x, 'c, 'f) host_ops \<Rightarrow> 'c Container \<Rightarrow> string list \<Rightarrow> bool \<Rightarrow> ('x, unit) io" where
  "Execute ho c args stdin =
     io_bind (os_CreateTemp (ho_tmpdir ho) (''stacker_'' @ lx_Name ho (con_c c) @ ''_run'')) (\<lambda>f.
     io_defer (os_Remove f)
       (io_bind (WithStack (lx_SaveConfigFile ho (con_c c) f)) (\<lambda>_.
        io_defer (os_RemoveAll (path_Join [sc_RootFSDir (con_sc c), con_displayName c, ''overlay'', ''stacker'']))
          (io_bind (GetCommand ho ''lxc-wrapper/lxc-wrapper''
             ([''spawn'', lx_Name ho (con_c c), sc_RootFSDir (con_sc c), f] @ args)) (\<lambda>((binary, cmd), mfd).
           io_defer (mf_Close ho mfd)
             (io_bind (io_try (ho_Run ho binary cmd None stdin)) (\<lambda>cmdErr.
                io_res (containerError cmdErr ''execute failed''))))))))"

definition SaveConfigFile :: "('x, 'c, 'f) host_ops \<Rightarrow> 'c Container \<Rightarrow> string \<Rightarrow> ('x, unit) io" where
  "SaveConfigFile ho c p = lx_SaveConfigFile ho (con_c c) p"

definition container_Close :: "('x, 'c, 'f) host_ops \<Rightarrow> 'c Container \<Rightarrow> ('x, unit) io" where
  "container_Close ho c = lx_Release ho (con_c c)"

section \<open>User namespaces\<close>

definition host_map :: "int \<Rightarrow> int \<Rightarrow> idmap_entry list" where
  "host_map uid gid =
     [\<lparr>ie_IsUID = True, ie_IsGID = False, ie_HostID = uid, ie_NSID = 0, ie_MapRange = 1\<rparr>,
      \<lparr>ie_IsUID = False, ie_IsGID = True, ie_HostID = gid, ie_NSID = 0, ie_MapRange = 1\<rparr>]"

definition resolveIdmapSet :: "('x, 'c, 'f) host_ops \<Rightarrow> string \<times> string \<times> string \<Rightarrow> ('x, idmap_entry list option) io" where
  "resolveIdmapSet ho user =
     (case user of (username, uid, gid) \<Rightarrow>
      io_bind (io_wrap ''failed parsing /etc/sub{u,g}idmap'' [] (im_System ho username)) (\<lambda>idmapSet.
        case idmapSet of
          None \<Rightarrow> io_ret None
        | Some entries \<Rightarrow>
            io_bind (io_wrap (couldnt ''decode uid'') [] (io_res (strconv_Atoi uid))) (\<lambda>uid.
            io_bind (io_wrap (couldnt ''decode gid'') [] (io_res (strconv_Atoi gid))) (\<lambda>gid.
            io_bind (io_res (rfold (\<lambda>s hm. case im_AddSafe ho s hm of
                Inl e \<Rightarrow> Inl (Wrapf e ''failed adding idmap entry: %v'' []) | Inr s' \<Rightarrow> Inr s') entries (host_map uid gid))) (\<lambda>entries.
              io_ret (Some entries))))))"

definition ResolveCurrentIdmapSet :: "('x, 'c, 'f) host_ops \<Rightarrow> ('x, idmap_entry list option) io" where
  "ResolveCurrentIdmapSet ho =
     io_bind (io_wrap (couldnt ''resolve current user'') [] (io_res (ho_User ho))) (\<lambda>currentUser.
       resolveIdmapSet ho currentUser)"

text \<open>The arguments for the entries of one kind, after the letter that announces them.\<close>

definition entry_args :: "idmap_entry \<Rightarrow> string list" where
  "entry_args idm = [fmt_d (ie_NSID idm), fmt_d (ie_HostID idm), fmt_d (ie_MapRange idm)]"

fun kind_args :: "(idmap_entry \<Rightarrow> bool) \<Rightarrow> string \<Rightarrow> bool \<Rightarrow> idmap_entry list \<Rightarrow> string list" where
  "kind_args kind letter wrote [] = []"
| "kind_args kind letter wrote (idm # idms) =
     (if kind idm then (if wrote then [] else [letter]) @ entry_args idm @ kind_args kind letter True idms
      else kind_args kind letter wrote idms)"

definition namespace_args :: "('x, 'c, 'f) host_ops \<Rightarrow> string list \<Rightarrow> ('x, string list) io" where
  "namespace_args ho userCmd =
     (if ho_Euid ho = 0 then io_ret ([''nsexec''] @ [''--''] @ userCmd)
      else io_bind (ResolveCurrentIdmapSet ho) (\<lambda>idmapSet.
        case idmapSet of
          None \<Rightarrow> io_err (Errorf (''no idmap and not root, can'' @ [CHR 0x27] @ ''t run %v'') userCmd)
        | Some entries \<Rightarrow>
            io_ret ([''usernsexec''] @ kind_args ie_IsUID ''u'' False entries @ kind_args ie_IsGID ''g'' False entries @
              [''--''] @ userCmd)))"

definition MaybeRunInNamespace :: "('x, 'c, 'f) host_ops \<Rightarrow> string list \<Rightarrow> ('x, unit) io" where
  "MaybeRunInNamespace ho userCmd =
     (let env = ho_env ho in
      if map_get [] env ''STACKER_REAL_UID'' \<noteq> [] then
        (case userCmd of
           [] \<Rightarrow> io_err (Panic ''index out of range'')
         | prog # args \<Rightarrow> WithStack (ho_Run ho prog args (Some env) True))
      else
        (let env = env @ [(''STACKER_REAL_UID'', fmt_d (ho_Euid ho))] in
         io_bind (namespace_args ho userCmd) (\<lambda>args.
         io_bind (GetCommand ho ''lxc-wrapper/lxc-wrapper'' args) (\<lambda>((binary, cmd), mfd).
           io_defer (mf_Close ho mfd) (WithStack (ho_Run ho binary cmd (Some env) True))))))"

section \<open>The container a layer is built in\<close>

definition generateShellForRunning :: "string list \<Rightarrow> string \<Rightarrow> ('x, unit) io" where
  "generateShellForRunning cmd outFile =
     (case cmd of
        [] \<Rightarrow> io_err (Panic ''index out of range'')
      | first # _ \<Rightarrow>
          (let shebangLine = (if strings_HasPrefix first ''#!'' then [] else ''#!'' @ DefaultShell @ '' -xe'' @ [CHR 0x0A])
           in os_WriteFile outFile (shebangLine @ strings_Join cmd [CHR 0x0A] @ [CHR 0x0A]) 493))"

definition runInternalGoSubcommand :: "('x, 'c, 'f) host_ops \<Rightarrow> StackerConfig \<Rightarrow> string list \<Rightarrow> ('x, unit) io" where
  "runInternalGoSubcommand ho config args =
     io_bind (os_Readlink ''/proc/self/exe'') (\<lambda>binary.
       let cmd = [''--oci-dir'', sc_OCIDir config, ''--roots-dir'', sc_RootFSDir config,
              ''--stacker-dir'', sc_StackerDir config, ''--storage-type'', sc_StorageType config] @
            (if sc_Debug config then [''--debug''] else []) @ [''internal-go''] @ args
       in WithStack (ho_Run ho binary cmd None True))"

definition build_configs :: "(string \<times> string) list" where
  "build_configs =
     [(''lxc.mount.auto'', ''proc:mixed''), (''lxc.autodev'', ''1''), (''lxc.pty.max'', ''1024''),
      (''lxc.mount.entry'', ''none dev/shm tmpfs defaults,create=dir 0 0''), (''lxc.uts.name'', ''stacker''),
      (''lxc.net.0.type'', ''none''), (''lxc.environment'', ''PATH='' @ ReasonableDefaultPath),
      (''lxc.apparmor.allow_incomplete'', ''1'')]"

text \<open>\<open>rootfs_config\<close> is the method \<^verbatim>\<open>GetLXCRootfsConfig\<close> of the storage.\<close>

definition SetupBuildContainerConfig ::
  "('x, 'c, 'f) host_ops \<Rightarrow> StackerConfig \<Rightarrow> (string \<Rightarrow> ('x, string) io) \<Rightarrow> 'c Container \<Rightarrow> string \<Rightarrow> string \<Rightarrow> ('x, unit) io" where
  "SetupBuildContainerConfig ho config rootfs_config c inDir name =
     (let rootfsPivot = path_Join [sc_StackerDir config, ''rootfsPivot''] in
      io_bind (os_MkdirAll rootfsPivot 493) (\<lambda>_.
      io_bind (SetConfig ho c ''lxc.rootfs.mount'' rootfsPivot) (\<lambda>_.
      io_bind (SetConfigs ho c build_configs) (\<lambda>_.
      io_bind (BindMount ho c ''/sys'' ''/sys'' []) (\<lambda>_.
      io_bind (BindMount ho c ''/etc/resolv.conf'' ''/etc/resolv.conf'' []) (\<lambda>_.
      io_bind (os_Readlink ''/proc/self/exe'') (\<lambda>binary.
      io_bind (BindMount ho c binary (path_Join [inDir, ''bin/stacker'']) []) (\<lambda>_.
      io_bind (if IsCoverageEnabled ho then
                 io_bind (io_if (GetCoverageDir ho \<noteq> CoverageBindPath)
                   (BindMount ho c (GetCoverageDir ho) CoverageBindPath ''rw'')) (\<lambda>_.
                 SetConfig ho c ''lxc.environment'' (''GOCOVERDIR='' @ CoverageBindPath))
               else io_ret ()) (\<lambda>_.
      io_bind (rootfs_config name) (\<lambda>rootfs.
      io_bind (SetConfig ho c ''lxc.rootfs.path'' rootfs) (\<lambda>_.
      io_bind (io_try (runInternalGoSubcommand ho config [''check-aa-profile'', ''lxc-container-default-cgns''])) (\<lambda>aa.
        case aa of
          Inl _ \<Rightarrow> SetConfig ho c ''lxc.apparmor.profile'' ''unconfined''
        | Inr _ \<Rightarrow> io_ret ()))))))))))))"

definition mount_imports :: "('x, 'c, 'f) host_ops \<Rightarrow> 'c Container \<Rightarrow> string \<Rightarrow> string \<Rightarrow> ('x, unit) io" where
  "mount_imports ho c importsDir inDir =
     io_bind (io_try (os_Stat importsDir)) (\<lambda>st.
       case st of
         Inr _ \<Rightarrow>
           io_bind (BindMount ho c importsDir (path_Join [inDir, ''imports'']) ''ro'') (\<lambda>_.
             io_if (inDir = LegacyInternalStackerDir) (BindMount ho c importsDir InternalStackerDir ''ro''))
       | Inl _ \<Rightarrow> io_ret ())"

definition set_environment :: "('x, 'c, 'f) host_ops \<Rightarrow> 'c Container \<Rightarrow> (string \<times> string) list \<Rightarrow> ('x, unit) io" where
  "set_environment ho c env =
     io_each (\<lambda>(k, v). io_if (v \<noteq> []) (SetConfig ho c ''lxc.environment'' (k @ ''='' @ v))) env"

definition bind_mounts :: "('x, 'c, 'f) host_ops \<Rightarrow> 'c Container \<Rightarrow> Bind list \<Rightarrow> ('x, unit) io" where
  "bind_mounts ho c binds =
     io_each (\<lambda>bind. io_bind (io_try (BindMount ho c (bind_Source bind) (bind_Dest bind) [])) (\<lambda>r.
       case r of
         Inl _ \<Rightarrow> io_err (Errorf ''failed to bind mount %q at %q: %s'' [bind_Source bind, bind_Dest bind])
       | Inr _ \<Rightarrow> io_ret ())) binds"

text \<open>The environment of the host, as a list of \<open>KEY=value\<close>, goes into the build environment of the layer.\<close>

definition SetupLayerConfig ::
  "('x, 'c, 'f) host_ops \<Rightarrow> StackerConfig \<Rightarrow> 'c Container \<Rightarrow> Layer \<Rightarrow> string \<Rightarrow> string \<Rightarrow> ('x, unit) io" where
  "SetupLayerConfig ho config c l inDir name =
     io_bind (io_res (BuildEnvironment l name (map (\<lambda>(k, v). k @ ''='' @ v) (ho_env ho)))) (\<lambda>env.
     io_bind (mount_imports ho c (path_Join [sc_StackerDir config, ''imports'', name]) inDir) (\<lambda>_.
     io_bind (set_environment ho c env) (\<lambda>_.
       bind_mounts ho c (lay_Binds l))))"

section \<open>Grabbing files out of a layer\<close>

definition grab_commands :: "string \<Rightarrow> string \<Rightarrow> string \<Rightarrow> nat option \<Rightarrow> int \<Rightarrow> int \<Rightarrow> string list list" where
  "grab_commands idestdir source idest mode uid gid =
     (let bcmd = [path_Join [InternalStackerDir, BinStacker], ''internal-go''];
          iDestName = path_Join [idestdir, path_Base source]
      in [bcmd @ [''cp'', source, if idest = [] \<or> drop (length source - 1) source \<noteq> ''/'' then iDestName else idestdir @ ''/'']] @
         (case mode of None \<Rightarrow> [] | Some m \<Rightarrow> [bcmd @ [''chmod'', digits 8 m, iDestName]]) @
         (if uid > 0 then
            [bcmd @ [''chown'', fmt_d uid @ (if gid > 0 then '':'' @ fmt_d gid else []), iDestName]]
          else []))"

definition Grab ::
  "('x, 'c, 'f) host_ops \<Rightarrow> StackerConfig \<Rightarrow> (string \<Rightarrow> ('x, string) io) \<Rightarrow> string \<Rightarrow> string \<Rightarrow> string \<Rightarrow> string \<Rightarrow>
   nat option \<Rightarrow> int \<Rightarrow> int \<Rightarrow> ('x, unit) io" where
  "Grab ho sc rootfs_config name source targetDir idest mode uid gid =
     io_bind (container_New ho sc name) (\<lambda>c.
     io_defer (container_Close ho c)
       (io_bind (SetupBuildContainerConfig ho sc rootfs_config c InternalStackerDir name) (\<lambda>_.
        let idestdir = path_Join [InternalStackerDir, ''grab''] in
        io_bind (BindMount ho c targetDir idestdir []) (\<lambda>_.
        if idest \<noteq> [] \<and> source = [] then io_err (Panic ''slice bounds out of range'')
        else io_each (\<lambda>args. Execute ho c args False) (grab_commands idestdir source idest mode uid gid)))))"

text \<open>A host for the witnesses: it keeps the configuration of its only container as a list of texts.\<close>

definition sample_host :: "(string list, unit, nat) host_ops" where
  "sample_host = \<lparr>lx_VersionAtLeast = (\<lambda>_ _ _. True), lx_NewContainer = (\<lambda>_ _. io_ret ()), lx_Name = (\<lambda>_. ''c''),
     lx_SetLogLevel = (\<lambda>_ _. io_ret ()), lx_SetLogFile = (\<lambda>_ p. os_WriteFile p [] 420),
     lx_SetConfigItem = (\<lambda>_ k v w. (Inr (), w\<lparr>w_ext := w_ext w @ [k @ ''='' @ v]\<rparr>)),
     lx_SaveConfigFile = (\<lambda>_ _. io_ret ()), lx_Release = (\<lambda>_. io_ret ()), ho_uuid = io_ret ''u'', ho_tmpdir = ''/tmp'',
     ho_env = [(''HOME'', ''/root'')], ho_Run = (\<lambda>_ _ _ _. io_ret ()), ho_Output = (\<lambda>_ _. io_ret []), em_Open = (\<lambda>_. io_ret []),
     mf_Create = io_ret 3, mf_Write = (\<lambda>_ _. io_ret ()), mf_Fd = id, mf_Close = (\<lambda>_. io_ret ()), ho_Euid = 0,
     ho_User = Inr (''root'', ''0'', ''0''), ho_Hostname = Inr ''host'', im_System = (\<lambda>_. io_ret None), im_AddSafe = (\<lambda>s e. Inr (e # s))\<rparr>"

end
