(* ===== verification/Storage_Iface.thy ===== *)
theory Storage_Iface
  imports Repack
begin

text \<open>
  The storage interface: \<^verbatim>\<open>pkg/types/storage.go\<close>. The methods are a record of operations,
  \<open>overlay_storage\<close> fills it with the overlay implementation. What the users of the interface rely on
  for its tags is the locale \<open>tag_store\<close>; it is interpreted on the overlay methods, for paths that no
  symbolic link interferes with.
\<close>

section \<open>The interface\<close>

record 'x storage =
  st_Name :: string
  st_Create :: "string \<Rightarrow> ('x, unit) io"
  st_SetupEmptyRootfs :: "string \<Rightarrow> ('x, unit) io"
  st_Snapshot :: "string \<Rightarrow> string \<Rightarrow> ('x, unit) io"
  st_Restore :: "string \<Rightarrow> string \<Rightarrow> ('x, unit) io"
  st_Delete :: "string \<Rightarrow> ('x, unit) io"
  st_Exists :: "string \<Rightarrow> ('x, bool) io"
  st_TemporaryWritableSnapshot :: "string \<Rightarrow> ('x, string \<times> ('x, unit) io) io"
  st_Clean :: "('x, unit) io"
  st_GC :: "('x, unit) io"
  st_Unpack :: "string \<Rightarrow> string \<Rightarrow> ('x, unit) io"
  st_Repack :: "string \<Rightarrow> Layer \<Rightarrow> LayerType list \<Rightarrow> StackerFiles \<Rightarrow> ('x, unit) io"
  st_GetLXCRootfsConfig :: "string \<Rightarrow> ('x, string) io"
  st_TarExtractLocation :: "string \<Rightarrow> string"
  st_SetOverlayDirs :: "string \<Rightarrow> OverlayDir list \<Rightarrow> LayerType list \<Rightarrow> ('x, unit) io"

text \<open>\<open>n\<close> bounds the depth of the directories that are copied, \<open>order\<close> is that of the jobs of \<^verbatim>\<open>Unpack\<close>.\<close>

definition overlay_storage ::
  "nat \<Rightarrow> (Descriptor list \<Rightarrow> Descriptor list) \<Rightarrow> ('x, 'm) oci_ops \<Rightarrow> ovl_json \<Rightarrow> overlay \<Rightarrow> 'x storage" where
  "overlay_storage n order oc oj o' =
     \<lparr>st_Name = overlay_Name o', st_Create = overlay_Create o', st_SetupEmptyRootfs = SetupEmptyRootfs oj o',
      st_Snapshot = Snapshot oc oj o', st_Restore = Restore oc oj o', st_Delete = overlay_Delete o',
      st_Exists = overlay_Exists o', st_TemporaryWritableSnapshot = TemporaryWritableSnapshot oc oj o',
      st_Clean = overlay_Clean o', st_GC = overlay_GC o', st_Unpack = Unpack oc oj order o',
      st_Repack = (\<lambda>name layer. Repack oc oj o' name), st_GetLXCRootfsConfig = GetLXCRootfsConfig oj o',
      st_TarExtractLocation = TarExtractLocation o', st_SetOverlayDirs = SetOverlayDirs n oc oj o'\<rparr>"

section \<open>Directories without links\<close>

text \<open>No symbolic link lies on the path or at its end.\<close>

definition solid :: "'x world \<Rightarrow> string \<Rightarrow> bool" where
  "solid w p = (\<forall>(d, n) \<in> set (w_fs w). node_IsLink n \<longrightarrow> \<not> under d p)"

lemma under_trans: "under a b \<Longrightarrow> under b c \<Longrightarrow> b \<noteq> ''/'' \<Longrightarrow> under a c"
proof -
  assume *: "under a b" "under b c" "b \<noteq> ''/''"
  then have "c = b \<or> prefix (b @ ''/'') c" by (auto simp: under_def)
  then have "prefix b c" by (auto simp: prefix_def)
  with * show "under a c" by (auto simp: under_def intro: prefix_order.trans)
qed

lemma solid_above: "solid w p \<Longrightarrow> under a p \<Longrightarrow> a \<noteq> ''/'' \<Longrightarrow> solid w a"
  unfolding solid_def using under_trans by (fastforce simp: under_def)

lemma solid_straight: "solid w p \<Longrightarrow> clean_abs p \<Longrightarrow> straight w p"
  by (auto simp: solid_def straight_def link_above_None filepath_Abs_def clean_abs_def under_def)

lemma solid_key: "solid w p \<Longrightarrow> clean_abs p \<Longrightarrow> w_key w p = p"
  by (simp add: w_key_straight [OF solid_straight] filepath_Abs_def clean_abs_def)

lemma solid_stat:
  assumes "solid w p" "clean_abs p"
  shows "os_Stat p w = (case lnode (w_fs w) p of None \<Rightarrow> Inl ENOENT | Some n \<Rightarrow> Inr n, w)"
proof -
  have "\<not> node_IsLink n" if "lnode (w_fs w) p = Some n" for n
    using assms that map_of_SomeD [of "w_fs w" p n] by (force simp: solid_def lnode_def clean_abs_def)
  then show ?thesis
    using solid_key [OF assms] by (auto simp: os_Stat_def stat_at_node stat_at_None split: option.splits)
qed

lemma solid_fewer: "solid w p \<Longrightarrow> (\<forall>x \<in> set m. x \<in> set (w_fs w) \<or> snd x = Dir) \<Longrightarrow> solid (w\<lparr>w_fs := m\<rparr>) p"
  by (fastforce simp: solid_def node_IsLink_def split: prod.splits)

text \<open>The directories on the way to a path.\<close>

lemma ancestors_split:
  assumes "clean_abs p" "a \<in> set (ancestors p)"
  shows "under a p \<and> a \<noteq> ''/'' \<and> length a \<le> length p"
proof -
  obtain es where es: "p = slash # strings_Join es ''/''" "es \<noteq> []" "\<And>x. x \<in> set es \<Longrightarrow> plain x"
    using clean_abs_elems [OF assms(1)] by blast
  have elems: "path_elems True p = es" unfolding es(1) using es(2,3) by (intro path_elems_join_plain) auto
  obtain i where i: "i < length es" "a = slash # strings_Join (take (Suc i) es) ''/''"
    using assms(2) by (auto simp: ancestors_def elems Let_def)
  have "take (Suc i) es \<noteq> []" using es(2) by simp
  then have p: "p = a @ concat (map (\<lambda>x. slash # x) (drop (Suc i) es))"
    using Join_append_names [of "take (Suc i) es" "drop (Suc i) es"] i es(1) by simp
  have "strings_Join (take (Suc i) es) ''/'' \<noteq> []"
    using es(2,3) by (cases es) (auto simp: plain_def take_Cons split: nat.splits, (case_tac "take i list"; simp)+)
  with p i show ?thesis by (cases "drop (Suc i) es") (auto simp: under_def)
qed

lemma ancestors_self: "clean_abs p \<Longrightarrow> p \<in> set (ancestors p)"
proof -
  assume "clean_abs p"
  then obtain es where es: "p = slash # strings_Join es ''/''" "es \<noteq> []" "\<And>x. x \<in> set es \<Longrightarrow> plain x"
    using clean_abs_elems by blast
  have "path_elems True p = es" unfolding es(1) using es(2,3) by (intro path_elems_join_plain) auto
  with es show ?thesis by (auto simp: ancestors_def Let_def image_iff intro!: bexI [of _ "length es - 1"])
qed

lemma ancestors_Join:
  assumes "clean_abs d" "plain x"
  shows "set (ancestors (path_Join [d, x])) = insert (path_Join [d, x]) (set (ancestors d))"
proof -
  obtain es where es: "d = slash # strings_Join es ''/''" "es \<noteq> []" "\<And>y. y \<in> set es \<Longrightarrow> plain y"
    using clean_abs_elems [OF assms(1)] by blast
  have d: "path_elems True d = es" unfolding es(1) using es(2,3) by (intro path_elems_join_plain) auto
  have eq: "path_Join [d, x] = slash # strings_Join (es @ [x]) ''/''"
    using es(1,2) path_Join_plain [OF assms] by (simp add: strings_Join_snoc)
  have dx: "path_elems True (path_Join [d, x]) = es @ [x]"
    unfolding eq using es assms(2) by (intro path_elems_join_plain) auto
  show ?thesis
    unfolding ancestors_def d dx Let_def using eq
    by (auto simp: image_iff less_Suc_eq)
qed

text \<open>\<^verbatim>\<open>os.MkdirAll\<close> where no link is in the way: the missing directories, and nothing else.\<close>

lemma mkdir_step_solid:
  assumes "mkdir_step m a = Inr m'" "a \<noteq> ''/''" "\<forall>(d, n) \<in> set m. node_IsLink n \<longrightarrow> \<not> under d a"
  shows "(\<forall>k. lnode m' k = (if k = a then Some Dir else lnode m k)) \<and> (\<forall>x \<in> set m'. x \<in> set m \<or> snd x = Dir)"
proof -
  have "link_above m a = None" using assms(3) by (auto simp: link_above_None under_def)
  then have phys: "phys 40 m a = a" by (rule phys_straight)
  have nolink: "\<not> node_IsLink n" if "lnode m a = Some n" for n
    using assms(2,3) that map_of_SomeD [of m a n] by (force simp: lnode_def)
  show ?thesis
  proof (cases "lnode m a")
    case None
    then have "m' = set_node a Dir m" using assms(1) by (simp add: mkdir_step_def phys stat_at_None)
    with assms(2) show ?thesis by (auto simp: set_node_def dest!: map_put_set [THEN subsetD]) (simp_all add: lnode_def)
  next
    case (Some n)
    then have "n = Dir \<and> m' = m"
      using assms(1) stat_at_node [OF Some nolink [OF Some]] by (cases n) (simp_all add: mkdir_step_def phys)
    with Some show ?thesis by simp
  qed
qed

lemma mkdir_steps_solid:
  assumes "rfold mkdir_step m as = Inr m'" "\<forall>a \<in> set as. a \<noteq> ''/'' \<and> (\<forall>(d, n) \<in> set m. node_IsLink n \<longrightarrow> \<not> under d a)"
  shows "(\<forall>k. lnode m' k = (if k \<in> set as then Some Dir else lnode m k)) \<and> (\<forall>x \<in> set m'. x \<in> set m \<or> snd x = Dir)"
  using assms
proof (induction as arbitrary: m)
  case (Cons a as)
  then obtain m1 where m1: "mkdir_step m a = Inr m1" "rfold mkdir_step m1 as = Inr m'" by (auto simp: res_simps)
  have step: "(\<forall>k. lnode m1 k = (if k = a then Some Dir else lnode m k)) \<and> (\<forall>x \<in> set m1. x \<in> set m \<or> snd x = Dir)"
    using mkdir_step_solid [OF m1(1)] Cons.prems(2) by simp
  then have "\<forall>b \<in> set as. b \<noteq> ''/'' \<and> (\<forall>(d, n) \<in> set m1. node_IsLink n \<longrightarrow> \<not> under d b)"
    using Cons.prems(2) by (force simp: node_IsLink_def)
  from Cons.IH [OF m1(2) this] step show ?case by auto
qed simp

lemma os_MkdirAll_solid:
  assumes "os_MkdirAll p perm w = (Inr (), w')" "clean_abs p" "solid w p"
  shows "\<exists>m. w' = w\<lparr>w_fs := m\<rparr> \<and> (\<forall>k. lnode m k = (if k \<in> set (ancestors p) then Some Dir else lnode (w_fs w) k)) \<and>
    (\<forall>x \<in> set m. x \<in> set (w_fs w) \<or> snd x = Dir)"
proof -
  obtain m where m: "rfold mkdir_step (w_fs w) (ancestors p) = Inr m" "w' = w\<lparr>w_fs := m\<rparr>"
    using assms(1,2) by (auto simp: os_MkdirAll_def filepath_Abs_def clean_abs_def split: sum.splits)
  have "\<forall>a \<in> set (ancestors p). a \<noteq> ''/'' \<and> (\<forall>(d, n) \<in> set (w_fs w). node_IsLink n \<longrightarrow> \<not> under d a)"
    using ancestors_split [OF assms(2)] solid_above [OF assms(3)] unfolding solid_def by blast
  from mkdir_steps_solid [OF m(1) this] m(2) show ?thesis by blast
qed

section \<open>Tags\<close>

text \<open>A history of the tags of a storage, and the set of tags it leaves.\<close>

datatype tag_op = CreateTag string | DeleteTag string

fun run_tags :: "(string \<Rightarrow> ('x, unit) io) \<Rightarrow> (string \<Rightarrow> ('x, unit) io) \<Rightarrow> tag_op \<Rightarrow> ('x, unit) io" where
  "run_tags create delete (CreateTag t) = create t"
| "run_tags create delete (DeleteTag t) = delete t"

fun tag_set :: "string set \<Rightarrow> tag_op \<Rightarrow> string set" where
  "tag_set T (CreateTag t) = insert t T"
| "tag_set T (DeleteTag t) = T - {t}"

fun tag_of :: "tag_op \<Rightarrow> string" where
  "tag_of (CreateTag t) = t"
| "tag_of (DeleteTag t) = t"

locale tag_store =
  fixes create :: "string \<Rightarrow> ('x, unit) io" and exists :: "string \<Rightarrow> ('x, bool) io" and delete :: "string \<Rightarrow> ('x, unit) io"
    and usable :: "string \<Rightarrow> 'x world \<Rightarrow> bool"
  assumes exists_pure: "usable t w \<Longrightarrow> \<exists>b. exists t w = (Inr b, w)"
    and create_usable: "usable t w \<Longrightarrow> usable t' w \<Longrightarrow> create t w = (Inr (), w') \<Longrightarrow> usable t' w'"
    and create_exists: "usable t w \<Longrightarrow> usable t' w \<Longrightarrow> create t w = (Inr (), w') \<Longrightarrow>
      fst (exists t' w') = (if t' = t then Inr True else fst (exists t' w))"
    and delete_usable: "usable t w \<Longrightarrow> usable t' w \<Longrightarrow> delete t w = (Inr (), w') \<Longrightarrow> usable t' w'"
    and delete_exists: "usable t w \<Longrightarrow> usable t' w \<Longrightarrow> delete t w = (Inr (), w') \<Longrightarrow>
      fst (exists t' w') = (if t' = t then Inr False else fst (exists t' w))"
begin

lemma step_usable:
  assumes "usable (tag_of p) w" "usable t w" "run_tags create delete p w = (Inr (), w')"
  shows "usable t w'"
proof (cases p)
  case (CreateTag u)
  then show ?thesis using create_usable [of u w t w'] assms by simp
next
  case (DeleteTag u)
  then show ?thesis using delete_usable [of u w t w'] assms by simp
qed

lemma step_exists:
  assumes "usable (tag_of p) w" "usable t w" "run_tags create delete p w = (Inr (), w')"
  shows "fst (exists t w') = Inr True \<longleftrightarrow> t \<in> tag_set {t. fst (exists t w) = Inr True} p"
proof (cases p)
  case (CreateTag u)
  then show ?thesis using create_exists [of u w t w'] assms by auto
next
  case (DeleteTag u)
  then show ?thesis using delete_exists [of u w t w'] assms by auto
qed

text \<open>A history that succeeds leaves exactly the tags of the set it describes.\<close>

lemma history_exists:
  assumes "io_each (run_tags create delete) ps w = (Inr (), w')" "\<forall>p \<in> set ps. usable (tag_of p) w" "usable t w"
    and "t \<in> T \<longleftrightarrow> fst (exists t w) = Inr True"
  shows "fst (exists t w') = Inr (t \<in> foldl tag_set T ps)"
  using assms
proof (induction ps arbitrary: w T)
  case Nil
  then show ?case using exists_pure [of t w] by auto
next
  case (Cons p ps)
  then obtain w1 where w1: "run_tags create delete p w = (Inr (), w1)" "io_each (run_tags create delete) ps w1 = (Inr (), w')"
    by (auto simp: io_simps)
  have "\<forall>q \<in> set ps. usable (tag_of q) w1" "usable t w1"
    using Cons.prems(2,3) step_usable [OF _ _ w1(1)] by simp_all
  moreover have "t \<in> tag_set T p \<longleftrightarrow> fst (exists t w1) = Inr True"
    using step_exists [OF _ Cons.prems(3) w1(1)] Cons.prems(2,4) by (cases p) auto
  ultimately show ?case using Cons.IH [OF w1(2)] by simp
qed

end

text \<open>The tags of the overlay storage, where nothing but directories is in the way.\<close>

definition tag_usable :: "overlay \<Rightarrow> string \<Rightarrow> 'x world \<Rightarrow> bool" where
  "tag_usable o' t w =
     (clean_abs (sc_RootFSDir (ov_config o')) \<and> plain t \<and>
      solid w (path_Join [sc_RootFSDir (ov_config o'), t, ''overlay'']) \<and>
      solid w (path_Join [sc_RootFSDir (ov_config o'), t, ''rootfs'']))"

lemma plain_names [simp]: "plain ''overlay''" "plain ''rootfs''"
  by (simp_all add: plain_def)

lemma tag_paths:
  assumes "clean_abs root" "plain t" "plain x"
  shows "path_Join [root, t, x] = root @ slash # t @ slash # x"
    "path_Join [root, t, x] = path_Join [path_Join [root, t], x]" "clean_abs (path_Join [root, t, x])"
proof -
  have tag: "clean_abs (path_Join [root, t])" by (rule clean_abs_Join [OF assms(1,2)])
  have "path_Join (root # [t, x]) = root @ concat (map (\<lambda>x. slash # x) [t, x])"
    by (rule path_Join_plains [OF assms(1)]) (use assms(2,3) in auto)
  then show join: "path_Join [root, t, x] = root @ slash # t @ slash # x" by simp
  show eq: "path_Join [root, t, x] = path_Join [path_Join [root, t], x]"
    unfolding join path_Join_plain [OF tag assms(3)] unfolding path_Join_plain [OF assms(1,2)] by simp
  show "clean_abs (path_Join [root, t, x])" unfolding eq by (rule clean_abs_Join [OF tag assms(3)])
qed

lemma tag_solid:
  assumes "tag_usable o' t w"
  shows "solid w (path_Join [sc_RootFSDir (ov_config o'), t])"
proof -
  let ?root = "sc_RootFSDir (ov_config o')"
  have root: "clean_abs ?root" "plain t" and sol: "solid w (path_Join [?root, t, ''overlay''])"
    using assms by (simp_all add: tag_usable_def)
  have "under (path_Join [?root, t]) (path_Join [?root, t, ''overlay''])"
    unfolding tag_paths(1) [OF root plain_names(1)] path_Join_plain [OF root] by (simp add: under_def)
  with sol show ?thesis by (rule solid_above) (use clean_abs_Join [OF root] in \<open>simp add: clean_abs_def\<close>)
qed

lemma overlay_Exists_usable:
  assumes "tag_usable o' t w"
  shows "overlay_Exists o' t w = (Inr (lnode (w_fs w) (path_Join [sc_RootFSDir (ov_config o'), t]) \<noteq> None), w)"
proof -
  have "clean_abs (path_Join [sc_RootFSDir (ov_config o'), t])"
    using assms by (intro clean_abs_Join) (simp_all add: tag_usable_def)
  from solid_stat [OF tag_solid [OF assms] this] show ?thesis
    by (auto simp: overlay_Exists_def io_bind_def io_try_def io_ret_def is_ok_iff split: option.splits)
qed

text \<open>What \<^verbatim>\<open>Create\<close> and \<^verbatim>\<open>Delete\<close> do to the file system.\<close>

lemma overlay_Create_fs:
  assumes "tag_usable o' t w" "overlay_Create o' t w = (Inr (), w')"
  shows "\<exists>m. w' = w\<lparr>w_fs := m\<rparr> \<and> (\<forall>x \<in> set m. x \<in> set (w_fs w) \<or> snd x = Dir) \<and>
    (\<forall>k. lnode m k = (if k \<in> {path_Join [sc_RootFSDir (ov_config o'), t, ''overlay''],
        path_Join [sc_RootFSDir (ov_config o'), t, ''rootfs''], path_Join [sc_RootFSDir (ov_config o'), t]} \<union>
        set (ancestors (sc_RootFSDir (ov_config o'))) then Some Dir else lnode (w_fs w) k))"
proof -
  let ?root = "sc_RootFSDir (ov_config o')"
  have root: "clean_abs ?root" "plain t"
    and sol: "solid w (path_Join [?root, t, ''overlay''])" "solid w (path_Join [?root, t, ''rootfs''])"
    using assms(1) by (simp_all add: tag_usable_def)
  note o_paths = tag_paths [OF root plain_names(1)] and r_paths = tag_paths [OF root plain_names(2)]
  obtain w1 where w1: "os_MkdirAll (path_Join [?root, t, ''overlay'']) 493 w = (Inr (), w1)"
    "os_MkdirAll (path_Join [?root, t, ''rootfs'']) 493 w1 = (Inr (), w')"
    using assms(2) by (auto simp: overlay_Create_def io_simps)
  obtain m1 where m1: "w1 = w\<lparr>w_fs := m1\<rparr>" "\<forall>x \<in> set m1. x \<in> set (w_fs w) \<or> snd x = Dir"
    "\<forall>k. lnode m1 k = (if k \<in> set (ancestors (path_Join [?root, t, ''overlay''])) then Some Dir else lnode (w_fs w) k)"
    using os_MkdirAll_solid [OF w1(1) o_paths(3) sol(1)] by blast
  have "solid w1 (path_Join [?root, t, ''rootfs''])" unfolding m1(1) by (rule solid_fewer [OF sol(2) m1(2)])
  then obtain m where m: "w' = w1\<lparr>w_fs := m\<rparr>" "\<forall>x \<in> set m. x \<in> set m1 \<or> snd x = Dir"
    "\<forall>k. lnode m k = (if k \<in> set (ancestors (path_Join [?root, t, ''rootfs''])) then Some Dir else lnode m1 k)"
    using os_MkdirAll_solid [OF w1(2) r_paths(3)] m1(1) by fastforce
  have anc: "set (ancestors (path_Join [?root, t, x])) =
      insert (path_Join [?root, t, x]) (insert (path_Join [?root, t]) (set (ancestors ?root)))" if "plain x" for x
    unfolding tag_paths(2) [OF root that] ancestors_Join [OF clean_abs_Join [OF root] that] ancestors_Join [OF root] by (rule refl)
  show ?thesis
    using m m1 anc [OF plain_names(1)] anc [OF plain_names(2)] by (intro exI [of _ m]) auto
qed

lemma overlay_Delete_fs:
  assumes "tag_usable o' t w" "overlay_Delete o' t w = (Inr (), w')"
  shows "w' = w\<lparr>w_fs := remove_under (path_Join [sc_RootFSDir (ov_config o'), t]) (w_fs w)\<rparr>"
proof -
  have "clean_abs (path_Join [sc_RootFSDir (ov_config o'), t])"
    using assms(1) by (intro clean_abs_Join) (simp_all add: tag_usable_def)
  from solid_key [OF tag_solid [OF assms(1)] this] assms(2) show ?thesis
    by (simp add: overlay_Delete_def io_wrap_Inr os_RemoveAll_def)
qed

text \<open>Tags are not in each other's way.\<close>

lemma tag_apart:
  assumes "clean_abs root" "plain t" "plain t'" "t \<noteq> t'"
  shows "\<not> under (path_Join [root, t]) (path_Join [root, t'])" "path_Join [root, t'] \<notin> set (ancestors root)"
    "path_Join [root, t'] \<noteq> path_Join [root, t, ''overlay'']" "path_Join [root, t'] \<noteq> path_Join [root, t, ''rootfs'']"
proof -
  have t: "path_Join [root, t] = root @ slash # t" and t': "path_Join [root, t'] = root @ slash # t'"
    using path_Join_plain assms by auto
  note tx = tag_paths(1) [OF assms(1,2)]
  have no: "slash \<notin> set t'" using assms(3) by (simp add: plain_def)
  show "\<not> under (path_Join [root, t]) (path_Join [root, t'])"
  proof
    assume "under (path_Join [root, t]) (path_Join [root, t'])"
    moreover have "root @ slash # t \<noteq> ''/''" using clean_abs_Join [OF assms(1,2)] t by (simp add: clean_abs_def)
    moreover have "\<not> prefix ((root @ slash # t) @ ''/'') (root @ slash # t')" using no by (auto simp: prefix_def)
    ultimately show False using assms(4) unfolding under_def t t' by simp
  qed
  show "path_Join [root, t'] \<notin> set (ancestors root)"
    using ancestors_split [OF assms(1), of "path_Join [root, t']"] unfolding t' by auto
  show "path_Join [root, t'] \<noteq> path_Join [root, t, ''overlay'']" "path_Join [root, t'] \<noteq> path_Join [root, t, ''rootfs'']"
    using no unfolding t' tx [OF plain_names(1)] tx [OF plain_names(2)] by auto
qed

interpretation ovl: tag_store "overlay_Create o'" "overlay_Exists o'" "overlay_Delete o'" "tag_usable o'"
proof (unfold_locales)
  fix t t' and w w' :: "'a world"
  let ?root = "sc_RootFSDir (ov_config o')"
  show "\<exists>b. overlay_Exists o' t w = (Inr b, w)" if "tag_usable o' t w"
    using overlay_Exists_usable [OF that] by blast
  show create_usable: "tag_usable o' t' w'" if "tag_usable o' t w" "tag_usable o' t' w" "overlay_Create o' t w = (Inr (), w')"
    using overlay_Create_fs [OF that(1,3)] that(2) by (auto simp: tag_usable_def intro: solid_fewer)
  show "fst (overlay_Exists o' t' w') = (if t' = t then Inr True else fst (overlay_Exists o' t' w))"
    if *: "tag_usable o' t w" "tag_usable o' t' w" "overlay_Create o' t w = (Inr (), w')"
  proof -
    have root: "clean_abs ?root" "plain t" "plain t'" using *(1,2) by (simp_all add: tag_usable_def)
    have "path_Join [?root, t'] \<noteq> path_Join [?root, t]" if "t' \<noteq> t"
      using tag_apart(1) [OF root] that by (metis under_refl)
    then have "lnode (w_fs w') (path_Join [?root, t']) =
        (if t' = t then Some Dir else lnode (w_fs w) (path_Join [?root, t']))"
      using overlay_Create_fs [OF *(1,3)] tag_apart [OF root] by auto
    then show ?thesis using overlay_Exists_usable [OF *(2)] overlay_Exists_usable [OF create_usable [OF *]] by simp
  qed
  show delete_usable: "tag_usable o' t' w'" if "tag_usable o' t w" "tag_usable o' t' w" "overlay_Delete o' t w = (Inr (), w')"
    using overlay_Delete_fs [OF that(1,3)] that(2) by (auto simp: tag_usable_def remove_under_def intro!: solid_fewer)
  show "fst (overlay_Exists o' t' w') = (if t' = t then Inr False else fst (overlay_Exists o' t' w))"
    if *: "tag_usable o' t w" "tag_usable o' t' w" "overlay_Delete o' t w = (Inr (), w')"
    using overlay_Delete_fs [OF *(1,3)] overlay_Exists_usable [OF *(2)] overlay_Exists_usable [OF delete_usable [OF *]]
      tag_apart [of ?root t t'] clean_abs_Join [of ?root t'] *(1,2)
    by (auto simp: tag_usable_def lnode_remove_under clean_abs_def)
qed

section \<open>Properties\<close>

text \<open>
  C9. The tags of the overlay storage behave as a set of names: after any history of creations and
  deletions that succeeds, a tag exists exactly when the same history on a set leaves its name in.
\<close>

theorem overlay_refines_tag_set:
  assumes "io_each (run_tags (overlay_Create o') (overlay_Delete o')) ps w = (Inr (), w')"
    and "\<forall>p \<in> set ps. tag_usable o' (tag_of p) w" "tag_usable o' t w" "t \<in> T \<longleftrightarrow> fst (overlay_Exists o' t w) = Inr True"
  shows "fst (overlay_Exists o' t w') = Inr (t \<in> foldl tag_set T ps)"
  using assms by (rule ovl.history_exists)

definition tag_overlay :: overlay where
  "tag_overlay = NewOverlay \<lparr>sc_WorkDir = ''/'', sc_StackerDir = ''/s'', sc_OCIDir = ''/oci'', sc_RootFSDir = ''/r'', sc_Debug = False,
     sc_StorageType = ''overlay'', sc_SourceDateEpoch = None\<rparr>"

definition tag_world :: "unit world" where
  "tag_world = \<lparr>w_fs = [(''/r'', Dir), (''/l'', Symlink ''/r'')], w_cwd = ''/'', w_ext = ()\<rparr>"

lemma overlay_refines_tag_set_witness:
  "\<exists>w'. io_each (run_tags (overlay_Create tag_overlay) (overlay_Delete tag_overlay))
        [CreateTag ''a'', CreateTag ''b'', DeleteTag ''a''] tag_world = (Inr (), w') \<and>
      fst (overlay_Exists tag_overlay ''a'' w') = Inr False \<and> fst (overlay_Exists tag_overlay ''b'' w') = Inr True"
proof -
  let ?ps = "[CreateTag ''a'', CreateTag ''b'', DeleteTag ''a'']"
  let ?run = "io_each (run_tags (overlay_Create tag_overlay) (overlay_Delete tag_overlay)) ?ps tag_world"
  have "is_ok (fst ?run)" by code_simp
  then obtain w' where run: "?run = (Inr (), w')" by (cases ?run) (auto simp: is_ok_iff)
  have join: "path_Join [''/r'', ''a'', ''overlay''] = ''/r/a/overlay''" "path_Join [''/r'', ''a'', ''rootfs''] = ''/r/a/rootfs''"
    "path_Join [''/r'', ''b'', ''overlay''] = ''/r/b/overlay''" "path_Join [''/r'', ''b'', ''rootfs''] = ''/r/b/rootfs''"
    by code_simp+
  have abs: "clean_abs ''/r''" by code_simp
  have usable: "tag_usable tag_overlay ''a'' tag_world" "tag_usable tag_overlay ''b'' tag_world"
    by (simp_all add: tag_usable_def tag_overlay_def NewOverlay_def join abs solid_def tag_world_def under_def node_IsLink_def)
      (simp_all add: plain_def prefix_def)
  have "fst (overlay_Exists tag_overlay ''a'' tag_world) = Inr False" "fst (overlay_Exists tag_overlay ''b'' tag_world) = Inr False"
    by code_simp+
  then show ?thesis
    using overlay_refines_tag_set [OF run, of "''a''" "{}"] overlay_refines_tag_set [OF run, of "''b''" "{}"] usable run by simp
qed

end
