(* ===== verification/Import_Files.thy ===== *)
theory Import_Files
  imports Build_Cache Container Storage_Iface
begin

text \<open>
  Importing files into a layer: \<^verbatim>\<open>pkg/stacker/import.go\<close> and \<^verbatim>\<open>pkg/stacker/network.go\<close>. The network,
  the credentials store of containers/image, the directory listings of go-mtree and the comparison
  of equalfile are parameters.
\<close>

section \<open>Libraries\<close>

datatype diff_type = Missing | Modified | Extra | ErrorDifference

text \<open>A difference of go-mtree: its kind, its path, and whether the new entry is a directory.\<close>

record inode_delta =
  dl_Type :: diff_type
  dl_Path :: string
  dl_NewIsDir :: bool

record web_response =
  ht_StatusCode :: nat
  ht_Status :: string
  ht_Body :: string
  ht_BodyErr :: "go_error option"

record ('x, 'd) import_ops =
  im_env :: "('x, 'd) cache_env"
  im_Compare :: "string list \<Rightarrow> 'd \<Rightarrow> 'd \<Rightarrow> inode_delta list res"
  im_CompareReader :: "string \<Rightarrow> string \<Rightarrow> bool res"
  nt_ParseRest :: "string \<Rightarrow> (string \<times> string) res"
  nt_Head :: "string \<Rightarrow> ('x, string \<times> string) io"
  nt_Credentials :: "string \<Rightarrow> ('x, string \<times> string) io"
  nt_Get :: "string \<Rightarrow> string \<Rightarrow> string \<Rightarrow> ('x, web_response) io"

section \<open>Network\<close>

text \<open>
  \<^verbatim>\<open>url.Parse\<close>: the scheme, in lower case; what follows it is taken apart into host and path by
  \<open>nt_ParseRest\<close>.
\<close>

definition between :: "char \<times> char \<Rightarrow> char \<Rightarrow> bool" where
  "between r c = (fst r \<le> c \<and> c \<le> snd r)"

definition is_letter :: "char \<Rightarrow> bool" where
  "is_letter c = list_ex (\<lambda>r. between r c) [(CHR ''a'', CHR ''z''), (CHR ''A'', CHR ''Z'')]"

fun url_getScheme :: "string \<Rightarrow> string \<Rightarrow> (string \<times> string) res" where
  "url_getScheme done [] = Inr ([], rev done)"
| "url_getScheme done (c # cs) =
     (if is_letter c then url_getScheme (c # done) cs
      else if between (CHR ''0'', CHR ''9'') c \<or> c \<in> {CHR ''+'', CHR ''-'', CHR ''.''} then
        (if done = [] then Inr ([], c # cs) else url_getScheme (c # done) cs)
      else if c = CHR '':'' then
        (if done = [] then Inl (Ext ''missing protocol scheme'') else Inr (rev done, cs))
      else Inr ([], rev done @ c # cs))"

definition url_Parse :: "('x, 'd) import_ops \<Rightarrow> string \<Rightarrow> (string \<times> string \<times> string) res" where
  "url_Parse im s =
     rbind (url_getScheme [] s) (\<lambda>(scheme, rest).
     rbind (nt_ParseRest im rest) (\<lambda>(host, path). Inr (strings_ToLower scheme, host, path)))"

definition getHttpFileInfo :: "('x, 'd) import_ops \<Rightarrow> string \<Rightarrow> ('x, string \<times> string) io" where
  "getHttpFileInfo im remoteURL =
     io_bind (io_res (url_Parse im remoteURL)) (\<lambda>(scheme, host, path).
       if scheme \<noteq> ''http'' \<and> scheme \<noteq> ''https'' then
         io_err (Errorf ''cannot obtain content info for non HTTP URL: (%s)'' [remoteURL])
       else nt_Head im remoteURL)"

text \<open>The last byte of a string that is not empty.\<close>

definition last_char :: "string \<Rightarrow> string" where
  "last_char s = drop (length s - 1) s"

definition download_name :: "string \<Rightarrow> string \<Rightarrow> string \<Rightarrow> string" where
  "download_name cacheDir remoteUrl idest =
     (if idest \<noteq> [] \<and> last_char idest \<noteq> ''/'' then path_Join [cacheDir, path_Base idest]
      else path_Join [cacheDir, path_Base remoteUrl])"

definition node_Size :: "node \<Rightarrow> int" where
  "node_Size n = (case n of File c _ _ \<Rightarrow> int (length c) | Symlink t \<Rightarrow> int (length t) | Dir \<Rightarrow> 4096)"

text \<open>What is in the cache already: it is used as it is, or removed.\<close>

definition use_cached ::
  "('x, 'd) import_ops \<Rightarrow> string \<Rightarrow> string \<Rightarrow> string \<Rightarrow> node \<Rightarrow> ('x, bool) io" where
  "use_cached im name remoteHash remoteSize fi =
     (if remoteHash = [] then io_ret True
      else io_bind (HashFile (cx_sha256 (im_env im)) name False) (\<lambda>localHash.
        if strings_TrimPrefix localHash ''sha256:'' = remoteHash then io_ret True
        else if fmt_d (node_Size fi) = remoteSize then io_ret True
        else io_bind (os_RemoveAll name) (\<lambda>_. io_ret False)))"

text \<open>
  The file is created first. It stays when the request cannot be made, and it stays with what was
  received when the body breaks off.
\<close>

definition fetch ::
  "('x, 'd) import_ops \<Rightarrow> string \<Rightarrow> string \<Rightarrow> ('x, unit) io" where
  "fetch im name remoteUrl =
     io_bind (os_WriteFile name [] 420) (\<lambda>_.
     io_bind (io_res (url_Parse im remoteUrl)) (\<lambda>(scheme, host, path).
     io_bind (io_try (nt_Credentials im (host @ path))) (\<lambda>creds.
     let (user, password) = (case creds of Inr up \<Rightarrow> up | Inl _ \<Rightarrow> ([], [])) in
     io_bind (io_try (nt_Get im remoteUrl user password)) (\<lambda>resp.
       case resp of
         Inl e \<Rightarrow> io_bind (os_RemoveAll name) (\<lambda>_. io_err e)
       | Inr resp \<Rightarrow>
           if ht_StatusCode resp \<noteq> 200 then
             io_bind (os_RemoveAll name) (\<lambda>_. io_err (Errorf (couldnt ''download %s: %s'') [remoteUrl, ht_Status resp]))
           else io_bind (os_WriteFile name (ht_Body resp) 420) (\<lambda>_.
             case ht_BodyErr resp of Some e \<Rightarrow> io_err e | None \<Rightarrow> io_ret ())))))"

definition check_download :: "('x, 'd) import_ops \<Rightarrow> string \<Rightarrow> string \<Rightarrow> ('x, unit) io" where
  "check_download im name expectedHash =
     io_bind (HashFile (cx_sha256 (im_env im)) name False) (\<lambda>downloadHash.
       let downloadHash = strings_TrimPrefix downloadHash ''sha256:'' in
       if expectedHash \<noteq> [] \<and> expectedHash \<noteq> downloadHash then
         io_bind (os_RemoveAll name) (\<lambda>_.
           io_err (Errorf ''Downloaded file hash does not match. Expected: %s Actual: %s'' [expectedHash, downloadHash]))
       else io_ret ())"

definition Download ::
  "('x, 'd) import_ops \<Rightarrow> string \<Rightarrow> string \<Rightarrow> string \<Rightarrow> string \<Rightarrow> string \<Rightarrow> string \<Rightarrow> nat option \<Rightarrow> int \<Rightarrow> int \<Rightarrow> ('x, string) io" where
  "Download im cacheDir remoteUrl expectedHash remoteHash remoteSize idest mode uid gid =
     (let name = download_name cacheDir remoteUrl idest in
      io_bind (io_try (os_Stat name)) (\<lambda>st.
      io_bind (case st of
          Inr fi \<Rightarrow> use_cached im name remoteHash remoteSize fi
        | Inl e \<Rightarrow> if \<not> os_IsNotExist e then io_err e else io_ret False) (\<lambda>cached.
        if cached then io_ret name
        else
          io_bind (fetch im name remoteUrl) (\<lambda>_.
          io_bind (check_download im name expectedHash) (\<lambda>_.
          io_bind (case mode of None \<Rightarrow> io_ret () | Some m \<Rightarrow> io_wrap (coudnt ''chmod file %s'') [name] (os_Chmod name m)) (\<lambda>_.
          io_bind (io_wrap (coudnt ''chown file %s'') [] (os_Lchown name uid gid)) (\<lambda>_.
            io_ret name)))))))"

section \<open>Local files\<close>

definition filesDiffer :: "('x, 'd) import_ops \<Rightarrow> string \<Rightarrow> node \<Rightarrow> string \<Rightarrow> node \<Rightarrow> ('x, bool) io" where
  "filesDiffer im p1 info1 p2 info2 =
     (if path_Base p1 \<noteq> path_Base p2 then io_err (Errorf ''comparing files without the same name?'' [])
      else if node_IsLink info1 then
        (if node_IsLink info2 then
           io_bind (os_Readlink p1) (\<lambda>link1. io_bind (os_Readlink p2) (\<lambda>link2. io_ret (link1 \<noteq> link2)))
         else io_err (Errorf ''symlink -> not symlink not supported'' []))
      else if node_Size info1 \<noteq> node_Size info2 then io_ret True
      else if node_IsDir info1 \<noteq> node_IsDir info2 \<or> node_Mode info1 \<noteq> node_Mode info2 then io_ret True
      else
        io_bind (os_ReadFile p1) (\<lambda>f1.
        io_bind (os_ReadFile p2) (\<lambda>f2.
        io_bind (io_res (im_CompareReader im (take (nat (node_Size info1)) f1) (take (nat (node_Size info2)) f2))) (\<lambda>eq.
          io_ret (\<not> eq)))))"

definition verifyImportFileHash :: "('x, 'd) import_ops \<Rightarrow> string \<Rightarrow> string \<Rightarrow> ('x, string) io" where
  "verifyImportFileHash im imp hash =
     io_bind (HashFile (cx_sha256 (im_env im)) imp False) (\<lambda>actualHash.
       let actualHash = strings_TrimPrefix actualHash ''sha256:'' in
       if hash = [] then io_ret actualHash
       else if actualHash \<noteq> strings_ToLower hash then
         io_err (Errorf ''The requested hash of %s import is different than the actual hash: %s != %s'' [imp, hash, actualHash])
       else io_ret actualHash)"

text \<open>Where a directory goes, and where an entry of it goes.\<close>

definition import_dir_dest :: "string \<Rightarrow> string \<Rightarrow> string \<Rightarrow> string" where
  "import_dir_dest imp cacheDir idest =
     (if last_char imp \<noteq> ''/'' then
        (if idest \<noteq> [] \<and> path_Base imp \<noteq> path_Base idest then path_Join [cacheDir, path_Base idest]
         else path_Join [cacheDir, path_Base imp])
      else cacheDir)"

definition import_entry_dest :: "string \<Rightarrow> string \<Rightarrow> string \<Rightarrow> string \<Rightarrow> string" where
  "import_entry_dest imp cacheDir idest p =
     (if last_char imp \<noteq> ''/'' then
        (if idest \<noteq> [] \<and> path_Base imp \<noteq> path_Base idest then
           (if last_char idest \<noteq> ''/'' then path_Join [cacheDir, path_Base idest, p]
            else path_Join [cacheDir, path_Base imp, p])
         else path_Join [cacheDir, path_Base imp, p])
      else path_Join [cacheDir, p])"

definition import_diff ::
  "string \<Rightarrow> string \<Rightarrow> string \<Rightarrow> nat option \<Rightarrow> int \<Rightarrow> int \<Rightarrow> inode_delta \<Rightarrow> ('x, unit) io" where
  "import_diff imp cacheDir idest mode uid gid d =
     (case dl_Type d of
        Missing \<Rightarrow>
          (let p = path_Join [cacheDir, path_Base imp, dl_Path d] in
           io_wrap (couldnt ''remove missing import %s'') [p] (os_RemoveAll p))
      | ErrorDifference \<Rightarrow> io_err (Errorf ''failed to diff %s'' [dl_Path d])
      | _ \<Rightarrow>
          (let srcpath = path_Join [imp, dl_Path d]; destpath = import_entry_dest imp cacheDir idest (dl_Path d) in
           if dl_NewIsDir d then
             io_bind (io_try (os_Lstat destpath)) (\<lambda>fi.
             io_bind (case fi of
                 Inl e \<Rightarrow> if \<not> os_IsNotExist e then WithStack (io_err e) else io_ret ()
               | Inr fi \<Rightarrow> if \<not> node_IsDir fi then WithStack (os_Remove destpath) else io_ret ()) (\<lambda>_.
               WithStack (os_MkdirAll destpath 493)))
           else
             io_bind (WithStack (os_MkdirAll (path_Dir destpath) 493)) (\<lambda>_.
               FileCopy destpath srcpath mode uid gid)))"

definition importFile ::
  "('x, 'd) import_ops \<Rightarrow> string \<Rightarrow> string \<Rightarrow> string \<Rightarrow> string \<Rightarrow> nat option \<Rightarrow> int \<Rightarrow> int \<Rightarrow> ('x, string) io" where
  "importFile im imp cacheDir hash idest mode uid gid =
     io_bind (io_wrap (couldnt ''stat import %s'') [imp] (os_Lstat imp)) (\<lambda>e1.
       if \<not> node_IsDir e1 then
         io_bind (verifyImportFileHash im imp hash) (\<lambda>_.
         let dest = (if idest \<noteq> [] \<and> last_char idest \<noteq> ''/'' then path_Join [cacheDir, path_Base idest]
                     else path_Join [cacheDir, path_Base imp]) in
         io_bind (io_try (os_Stat dest)) (\<lambda>e2.
         io_bind (case e2 of Inl _ \<Rightarrow> io_ret True | Inr e2 \<Rightarrow> filesDiffer im imp e1 dest e2) (\<lambda>needsCopy.
         io_bind (io_if needsCopy (io_wrap (couldnt ''copy import %s'') [imp] (FileCopy dest imp mode uid gid))) (\<lambda>_.
           io_ret dest))))
       else
         (let dest = import_dir_dest imp cacheDir idest in
          io_bind (io_wrap ''failed making cache dir'' [] (os_MkdirAll dest 493)) (\<lambda>_.
          io_bind io_get (\<lambda>w.
          io_bind (io_wrap ''failed walking existing import dir'' [] (io_res (walkImport (im_env im) dest w))) (\<lambda>existing.
          io_bind (io_wrap ''failed walking dir to import'' [] (io_res (walkImport (im_env im) imp w))) (\<lambda>toImport.
          io_bind (io_wrap ''failed mtree comparing %s and %s'' [] (io_res (im_Compare im mtreeKeywords existing toImport))) (\<lambda>diff.
          io_bind (io_each (import_diff imp cacheDir idest mode uid gid) diff) (\<lambda>_.
            io_ret dest))))))))"

section \<open>Any source\<close>

text \<open>\<^verbatim>\<open>digest.SHA256.Validate\<close>: 64 lower-case hexadecimal digits.\<close>

definition sha256_Validate :: "string \<Rightarrow> unit res" where
  "sha256_Validate encoded =
     (if length encoded \<noteq> 64 then Inl (Ext ''invalid checksum digest length'')
      else if \<not> list_all (\<lambda>c. between (CHR ''0'', CHR ''9'') c \<or> between (CHR ''a'', CHR ''f'') c) encoded then
        Inl (Ext ''invalid checksum digest format'')
      else Inr ())"

definition validateHash :: "string \<Rightarrow> unit res" where
  "validateHash hash =
     (if 0 < length hash then
        (case sha256_Validate (strings_ToLower hash) of
           Inl e \<Rightarrow> Inl (Wrapf e ''Given hash %s is not valid'' [hash])
         | Inr _ \<Rightarrow> Inr ())
      else Inr ())"

definition acquireUrl ::
  "('x, 'd) import_ops \<Rightarrow> ('x, 'c, 'f) host_ops \<Rightarrow> StackerConfig \<Rightarrow> 'x storage \<Rightarrow> string \<Rightarrow> string \<Rightarrow> string \<Rightarrow> string \<Rightarrow>
   nat option \<Rightarrow> int \<Rightarrow> int \<Rightarrow> ('x, string \<times> string) io" where
  "acquireUrl im ho c storage i cache expectedHash idest mode uid gid =
     io_bind (io_res (NewDockerishUrl i)) (\<lambda>url.
     io_bind (io_res (validateHash expectedHash)) (\<lambda>_.
       if du_Scheme url = [] then
         io_bind (importFile im i cache expectedHash idest mode uid gid) (\<lambda>p. io_ret (p, []))
       else if du_Scheme url = ''http'' \<or> du_Scheme url = ''https'' then
         io_bind (io_try (getHttpFileInfo im i)) (\<lambda>info.
         let (remoteHash, remoteSize) = (case info of Inr hs \<Rightarrow> hs | Inl _ \<Rightarrow> ([], [])) in
           if expectedHash \<noteq> [] \<and> remoteHash \<noteq> [] \<and> strings_ToLower expectedHash \<noteq> remoteHash then
             io_err (Errorf ''The requested hash of %s import is different than the actual hash: %s != %s'' [i, expectedHash, remoteHash])
           else
             io_bind (Download im cache i expectedHash remoteHash remoteSize idest mode uid gid) (\<lambda>p. io_ret (p, remoteHash)))
       else if du_Scheme url = ''stacker'' then
         (let p = path_Join [cache, path_Base (du_Path url)] in
          io_bind (st_TemporaryWritableSnapshot storage (du_Host url)) (\<lambda>(snap, cleanup).
          io_defer cleanup
            (io_bind (Grab ho c (st_GetLXCRootfsConfig storage) snap (du_Path url) cache idest mode uid gid) (\<lambda>_.
               io_ret (p, [])))))
       else io_err (Errorf ''unsupported url scheme %s'' [i])))"

section \<open>The imports of a layer\<close>

definition CleanImportsDir :: "StackerConfig \<Rightarrow> string \<Rightarrow> Import list \<Rightarrow> BuildCache \<Rightarrow> ('x, unit) io" where
  "CleanImportsDir c name imports cache =
     io_bind (os_RemoveAll (path_Join [sc_StackerDir c, ''imports-copy'', name])) (\<lambda>_.
     io_bind (os_RemoveAll (path_Join [sc_StackerDir c, ''artifacts'', name])) (\<lambda>_.
     let dir = path_Join [sc_StackerDir c, ''imports'', name] in
       case map_of (bc_Cache cache) name of
         None \<Rightarrow> os_RemoveAll dir
       | Some cacheEntry \<Rightarrow>
           io_each (\<lambda>i. io_each (\<lambda>(cached, _).
               io_if (path_Base cached = path_Base (imp_Path i) \<and> cached \<noteq> imp_Path i)
                 (os_RemoveAll (path_Join [dir, path_Base (imp_Path i)]))) (ent_Imports cacheEntry)) imports))"

fun remove_first :: "string \<Rightarrow> string list \<Rightarrow> string list" where
  "remove_first n [] = []"
| "remove_first n (ext # existing) = (if ext = n then existing else ext # remove_first n existing)"

text \<open>
  One import: with a destination it goes to a fresh directory, which becomes an overlay directory.
  The loop carries the old entries not imported again, and the overlay directories.
\<close>

definition import_step ::
  "('x, 'd) import_ops \<Rightarrow> ('x, 'c, 'f) host_ops \<Rightarrow> StackerConfig \<Rightarrow> 'x storage \<Rightarrow> string \<Rightarrow> string \<Rightarrow>
   string list \<times> OverlayDir list \<Rightarrow> Import \<Rightarrow> ('x, string list \<times> OverlayDir list) io" where
  "import_step im ho c storage dir cpdir st i =
     (case st of (existing, overlayDirs) \<Rightarrow>
      io_bind
        (if imp_Dest i \<noteq> [] then
           io_bind (io_wrap (couldnt ''create temp import copy directory'') [] (os_MkdirTemp cpdir [])) (\<lambda>tmpdir.
             if last_char (imp_Dest i) \<noteq> ''/'' \<and> imp_Path i = [] then io_err (Panic ''slice bounds out of range [-1:]'')
             else
               (let dest = (if last_char (imp_Dest i) \<noteq> ''/'' \<and> last_char (imp_Path i) \<noteq> ''/'' then path_Dir (imp_Dest i)
                            else imp_Dest i)
                in io_ret (tmpdir, overlayDirs @ [\<lparr>od_Source = tmpdir, od_Dest = dest\<rparr>])))
         else io_ret (dir, overlayDirs)) (\<lambda>(cache, overlayDirs).
      io_bind (acquireUrl im ho c storage (imp_Path i) cache (imp_Hash i) (imp_Dest i) (imp_Mode i) (imp_Uid i) (imp_Gid i)) (\<lambda>(name, _).
        io_ret (remove_first (path_Base name) existing, overlayDirs))))"

text \<open>The overlay directories are returned; the hashes of downloads only go to the log.\<close>

definition stacker_Import ::
  "('x, 'd) import_ops \<Rightarrow> ('x, 'c, 'f) host_ops \<Rightarrow> StackerConfig \<Rightarrow> 'x storage \<Rightarrow> string \<Rightarrow> Import list \<Rightarrow>
   OverlayDir list \<Rightarrow> ('x, OverlayDir list) io" where
  "stacker_Import im ho c storage name imports overlayDirs =
     io_bind (os_MkdirAll (path_Join [sc_StackerDir c, ''artifacts'', name]) 493) (\<lambda>_.
     let dir = path_Join [sc_StackerDir c, ''imports'', name] in
     io_bind (os_MkdirAll dir 493) (\<lambda>_.
     let cpdir = path_Join [sc_StackerDir c, ''imports-copy'', name] in
     io_bind (os_MkdirAll cpdir 493) (\<lambda>_.
     io_bind (io_wrap (couldnt ''read existing directory'') [] (os_ReadDir dir)) (\<lambda>ents.
     io_bind (io_fold (import_step im ho c storage dir cpdir) (map fst ents, overlayDirs) imports) (\<lambda>(existing, overlayDirs).
     io_bind (io_each (\<lambda>ext. os_RemoveAll (path_Join [dir, ext])) existing) (\<lambda>_.
       io_ret overlayDirs))))))"

end
