(* ===== verification/Import_Props.thy ===== *)
theory Import_Props
  imports Import_Files
begin

text \<open>
  What importing guarantees: the hash of a download and when it is not checked, the overlay
  directories that imports with a destination become, an import that only works once, and a download that breaks off.
\<close>

section \<open>Files that change their mode or owner keep their content\<close>

lemma reown_reads:
  assumes "lnode (w_fs w) k = Some (File c p own)" "k \<noteq> ''/''"
  shows "os_ReadFile x (w\<lparr>w_fs := set_node k (File c p' own') (w_fs w)\<rparr>) =
    (fst (os_ReadFile x w), w\<lparr>w_fs := set_node k (File c p' own') (w_fs w)\<rparr>)"
proof -
  let ?m = "set_node k (File c p' own') (w_fs w)"
  have nl: "\<not> node_IsLink (File c p' own')" by (simp add: node_IsLink_def)
  have link: "no_link (map_of (w_fs w) k)" using assms by (simp add: lnode_def no_link_def node_IsLink_def)
  have "phys 40 ?m y = phys 40 (w_fs w) y" for y unfolding set_node_def by (rule phys_put [OF link nl])
  moreover have "follow 41 ?m y = follow 41 (w_fs w) y" for y by (rule follow_put [OF link nl assms(2)])
  moreover have "lnode ?m y = (if y = k then Some (File c p' own') else lnode (w_fs w) y)" for y using assms by simp
  ultimately show ?thesis
    by (cases "follow 41 (w_fs w) (w_key w x)")
      (simp_all add: os_ReadFile_def read_at_def stat_at_def w_key_def assms(1) del: follow.simps)
qed

lemma read_self: "os_ReadFile x w = (fst (os_ReadFile x w), w)"
  by (simp add: os_ReadFile_def)

lemma chmod_reads:
  assumes "os_Chmod f perm w = (Inr (), w')"
  shows "os_ReadFile x w' = (fst (os_ReadFile x w), w')"
proof -
  obtain k where k: "follow 41 (w_fs w) (w_key w f) = Inr k" using assms by (auto simp: os_Chmod_def split: sum.splits)
  show ?thesis
  proof (cases "lnode (w_fs w) k")
    case (Some n)
    have "k \<noteq> ''/'' \<or> n = Dir" using Some by (auto simp: lnode_def)
    with Some assms k show ?thesis
      by (cases n) (auto simp: os_Chmod_def reown_reads simp del: follow.simps intro: read_self)
  qed (use assms k in \<open>auto simp: os_Chmod_def\<close>)
qed

lemma chown_reads:
  assumes "os_Lchown f uid gid w = (Inr (), w')"
  shows "os_ReadFile x w' = (fst (os_ReadFile x w), w')"
proof (cases "lnode (w_fs w) (w_key w f)")
  case (Some n)
  have "w_key w f \<noteq> ''/'' \<or> n = Dir" using Some by (auto simp: lnode_def)
  with Some assms show ?thesis
    by (cases n) (auto simp: os_Lchown_def Let_def reown_reads intro: read_self)
qed (use assms in \<open>auto simp: os_Lchown_def\<close>)

lemma HashFile_reads:
  assumes "HashFile sha p False w = (Inr h, w')"
  shows "w' = w \<and> (\<exists>c. os_ReadFile p w = (Inr c, w) \<and> h = ''sha256:'' @ sha c)"
proof -
  obtain n where n: "stat_at (w_fs w) (w_key w p) = Inr n"
    and h: "(case n of File c perm _ \<Rightarrow> io_ret (''sha256:'' @ sha (c @ (if False then FileMode_String False perm else [])))
      | _ \<Rightarrow> io_wrap (couldnt ''copy %s for hashing'') [p] (io_err EISDIR)) w = (Inr h, w')"
    using assms unfolding HashFile_def io_bind_Inr io_wrap_Inr os_Stat_eq by metis
  then show ?thesis by (cases n) (auto simp: io_simps read_at_def)
qed

lemma TrimPrefix_sha256 [simp]:
  "strings_TrimPrefix (CHR ''s'' # CHR ''h'' # CHR ''a'' # CHR ''2'' # CHR ''5'' # CHR ''6'' # CHR '':'' # s) ''sha256:'' = s"
  by (simp add: strings_TrimPrefix_def)

section \<open>Properties\<close>

lemma use_cached_True:
  assumes "use_cached im name remoteHash remoteSize n w = (Inr True, w')"
  shows "w' = w \<and> (remoteHash = [] \<or> fmt_d (node_Size n) = remoteSize \<or>
    (\<exists>content. os_ReadFile name w = (Inr content, w) \<and> cx_sha256 (im_env im) content = remoteHash))"
  using assms by (auto simp: use_cached_def io_simps dest!: HashFile_reads split: if_splits)

lemma check_download_ok:
  assumes "check_download im name expectedHash w = (Inr (), w')" "expectedHash \<noteq> []"
  shows "w' = w \<and> (\<exists>content. os_ReadFile name w = (Inr content, w) \<and> cx_sha256 (im_env im) content = expectedHash)"
  using assms by (auto simp: check_download_def io_simps Let_def dest!: HashFile_reads split: if_splits)

text \<open>
  C18. A download that succeeds and has a hash to meet either leaves a file with that hash, or it has
  taken the file that was there, untouched, because the server named no hash, the hash of the file,
  or the size of the file.
\<close>

theorem download_has_hash:
  assumes run: "Download im cacheDir url expectedHash remoteHash remoteSize idest mode uid gid w = (Inr p, w')"
    and hash: "expectedHash \<noteq> []"
  shows "p = download_name cacheDir url idest \<and>
    ((\<exists>content. os_ReadFile p w' = (Inr content, w') \<and> cx_sha256 (im_env im) content = expectedHash) \<or>
     w' = w \<and> (\<exists>n. os_Stat p w = (Inr n, w) \<and>
        (remoteHash = [] \<or> fmt_d (node_Size n) = remoteSize \<or>
         (\<exists>content. os_ReadFile p w = (Inr content, w) \<and> cx_sha256 (im_env im) content = remoteHash))))"
proof -
  let ?name = "download_name cacheDir url idest"
  obtain st where st: "os_Stat ?name w = (st, w)" by (simp add: os_Stat_def)
  obtain cached w1 where cached: "(case st of
        Inr fi \<Rightarrow> use_cached im ?name remoteHash remoteSize fi
      | Inl e \<Rightarrow> if \<not> os_IsNotExist e then io_err e else io_ret False) w = (Inr cached, w1)"
    and rest: "(if cached then io_ret ?name
        else
          io_bind (fetch im ?name url) (\<lambda>_.
          io_bind (check_download im ?name expectedHash) (\<lambda>_.
          io_bind (case mode of None \<Rightarrow> io_ret () | Some m \<Rightarrow> io_wrap (coudnt ''chmod file %s'') [?name] (os_Chmod ?name m)) (\<lambda>_.
          io_bind (io_wrap (coudnt ''chown file %s'') [] (os_Lchown ?name uid gid)) (\<lambda>_.
            io_ret ?name))))) w1 = (Inr p, w')"
    using run st unfolding Download_def Let_def by (auto simp: io_bind_Inr io_try_eq)
  show ?thesis
  proof (cases cached)
    case True
    then obtain n where n: "st = Inr n" using cached by (cases st) (auto simp: io_simps split: if_splits)
    with True cached have "use_cached im ?name remoteHash remoteSize n w = (Inr True, w1)" by simp
    from use_cached_True [OF this] True rest st n show ?thesis by (auto simp: io_simps)
  next
    case False
    then obtain w2 w3 w4 where w: "check_download im ?name expectedHash w2 = (Inr (), w3)"
      "(case mode of None \<Rightarrow> io_ret () | Some m \<Rightarrow> io_wrap (coudnt ''chmod file %s'') [?name] (os_Chmod ?name m)) w3 = (Inr (), w4)"
      "os_Lchown ?name uid gid w4 = (Inr (), w')" "p = ?name"
      using rest by (auto simp: io_simps)
    obtain content where content: "w3 = w2" "os_ReadFile ?name w2 = (Inr content, w2)" "cx_sha256 (im_env im) content = expectedHash"
      using check_download_ok [OF w(1) hash] by blast
    have "os_ReadFile ?name w4 = (fst (os_ReadFile ?name w3), w4)"
    proof (cases mode)
      case None
      with w(2) have "w4 = w3" by (simp add: io_ret_eq)
      then show ?thesis by (metis read_self)
    next
      case (Some m)
      with w(2) show ?thesis by (intro chmod_reads) (simp add: io_wrap_Inr)
    qed
    with chown_reads [OF w(3), of ?name] content w(4) show ?thesis by auto
  qed
qed

text \<open>
  C36. When a file of the right name is in the cache and the server names no hash, the import
  takes the file as it is: the hash that the stacker file asks for is not compared with anything.
\<close>

theorem cached_download_unchecked:
  assumes url: "NewDockerishUrl i = Inr u" "du_Scheme u \<in> {''http'', ''https''}" and valid: "validateHash expectedHash = Inr ()"
    and head: "getHttpFileInfo im i w = (info, w)" "info = Inr ([], remoteSize) \<or> info = Inl e"
    and cached: "os_Stat (download_name cache i idest) w = (Inr n, w)"
  shows "acquireUrl im ho c storage i cache expectedHash idest mode uid gid w = (Inr (download_name cache i idest, []), w)"
proof -
  have "Download im cache i expectedHash [] size' idest mode uid gid w = (Inr (download_name cache i idest), w)" for size'
    using cached by (simp add: Download_def Let_def io_bind_def io_try_def use_cached_def io_ret_def)
  with url valid head show ?thesis
    by (auto simp: acquireUrl_def io_bind_def io_res_def io_try_def io_ret_def Let_def)
qed

text \<open>
  A download that breaks off leaves what was received in the cache, and the next build, when the server names no
  hash, takes this part for the file.
\<close>

theorem interrupted_download_reused:
  assumes name: "name = download_name cacheDir url idest" and new: "os_Stat name w = (Inl ENOENT, w)"
    and made: "os_WriteFile name [] 420 w = (Inr (), w1)"
    and request: "url_Parse im url = Inr (scheme, host, p)" "nt_Credentials im (host @ p) w1 = (Inr (user, password), w2)"
      "nt_Get im url user password w2 = (Inr resp, w3)"
    and resp: "ht_StatusCode resp = 200" "ht_BodyErr resp = Some e"
    and part: "os_WriteFile name (ht_Body resp) 420 w3 = (Inr (), w4)"
  shows "Download im cacheDir url expectedHash remoteHash remoteSize idest mode uid gid w = (Inl e, w4) \<and>
    Download im cacheDir url expectedHash [] remoteSize' idest mode uid gid w4 = (Inr name, w4) \<and>
    os_ReadFile name w4 = (Inr (ht_Body resp), w4)"
proof -
  have "fetch im name url w = (Inl e, w4)"
    using made request resp part by (simp add: fetch_def io_bind_def io_res_def io_try_def io_err_def)
  then have "Download im cacheDir url expectedHash remoteHash remoteSize idest mode uid gid w = (Inl e, w4)"
    using new unfolding name by (simp add: Download_def Let_def io_bind_def io_try_def io_ret_def os_IsNotExist_def)
  moreover have read: "os_ReadFile name w4 = (Inr (ht_Body resp), w4)" using part by (rule write_then_read)
  then obtain n where "os_Stat name w4 = (Inr n, w4)"
    by (cases "stat_at (w_fs w4) (w_key w4 name)") (auto simp: os_ReadFile_def os_Stat_def read_at_def)
  then have "Download im cacheDir url expectedHash [] remoteSize' idest mode uid gid w4 = (Inr name, w4)"
    unfolding name by (simp add: Download_def Let_def io_bind_def io_try_def use_cached_def io_ret_def)
  ultimately show ?thesis using read by blast
qed

text \<open>
  Importing a symbolic link works at most once: when the copy in the cache leads somewhere, the
  comparison with it is an error.
\<close>

theorem reimport_link_fails:
  assumes link: "os_Lstat imp w = (Inr (Symlink t), w)" and hash: "verifyImportFileHash im imp hash w = (Inr h, w)"
    and dest: "os_Stat (path_Join [cacheDir, path_Base imp]) w = (Inr n, w)"
  shows "\<exists>e. importFile im imp cacheDir hash [] mode uid gid w = (Inl e, w)"
proof -
  have "\<not> node_IsLink n"
    using dest follow_end by (auto simp: os_Stat_def stat_at_def res_simps node_IsLink_def simp del: follow.simps split: option.splits node.splits)
  then have "\<exists>e. filesDiffer im imp (Symlink t) (path_Join [cacheDir, path_Base imp]) n w = (Inl e, w)"
    by (simp add: filesDiffer_def node_IsLink_def io_err_def)
  with link hash dest show ?thesis
    by (auto simp: importFile_def io_bind_def io_wrap_def io_try_def node_IsDir_def Let_def)
qed

text \<open>Where the contents of an import with a destination go.\<close>

definition import_dest :: "Import \<Rightarrow> string" where
  "import_dest i = (if last_char (imp_Dest i) \<noteq> ''/'' \<and> last_char (imp_Path i) \<noteq> ''/'' then path_Dir (imp_Dest i) else imp_Dest i)"

lemma import_step_overlays:
  assumes "import_step im ho c storage dir cpdir (existing, ods) i w = (Inr (existing', ods'), w')"
  shows "ods' = (if imp_Dest i = [] then ods else ods @ [OverlayDir.make (od_Source (last ods')) (import_dest i)]) \<and>
    (imp_Dest i \<noteq> [] \<longrightarrow> (\<exists>name. od_Source (last ods') = path_Join [cpdir, name]))"
  using assms
  by (auto simp: import_step_def io_simps import_dest_def os_MkdirTemp_def Let_def OverlayDir.make_def split: if_splits)

lemma import_fold_overlays:
  assumes "io_fold (import_step im ho c storage dir cpdir) (existing, ods) imps w = (Inr (existing', ods'), w')"
  shows "\<exists>new. ods' = ods @ new \<and> map od_Dest new = map import_dest (filter (\<lambda>i. imp_Dest i \<noteq> []) imps) \<and>
    (\<forall>od \<in> set new. \<exists>name. od_Source od = path_Join [cpdir, name])"
  using assms
proof (induction imps arbitrary: existing ods w)
  case (Cons i imps)
  then obtain ex1 ods1 w1 where step: "import_step im ho c storage dir cpdir (existing, ods) i w = (Inr (ex1, ods1), w1)"
    and rest: "io_fold (import_step im ho c storage dir cpdir) (ex1, ods1) imps w1 = (Inr (existing', ods'), w')"
    by (auto simp: io_simps)
  obtain new where new: "ods' = ods1 @ new" "map od_Dest new = map import_dest (filter (\<lambda>i. imp_Dest i \<noteq> []) imps)"
    "\<forall>od \<in> set new. \<exists>name. od_Source od = path_Join [cpdir, name]" using Cons.IH [OF rest] by blast
  show ?case
  proof (cases "imp_Dest i = []")
    case True
    then show ?thesis using import_step_overlays [OF step] new by auto
  next
    case False
    define od where "od = OverlayDir.make (od_Source (last ods1)) (import_dest i)"
    have "ods1 = ods @ [od]" "\<exists>name. od_Source (last ods1) = path_Join [cpdir, name]"
      using import_step_overlays [OF step] False unfolding od_def by simp_all
    then show ?thesis
      using new False by (intro exI [of _ "od # new"]) (auto simp: od_def OverlayDir.make_def)
  qed
qed (auto simp: io_simps)

text \<open>
  C17. After the imports of a layer its overlay directories are the ones it had, followed by one
  for every import with a destination, in order: it comes from a directory of its own below
  \<open>imports-copy\<close> and goes to the destination, or to the directory of it when a file is named.
\<close>

theorem imports_become_overlay_dirs:
  assumes "stacker_Import im ho c storage name imports ods w = (Inr ods', w')"
  shows "\<exists>new. ods' = ods @ new \<and> map od_Dest new = map import_dest (filter (\<lambda>i. imp_Dest i \<noteq> []) imports) \<and>
    (\<forall>od \<in> set new. \<exists>dir. od_Source od = path_Join [path_Join [sc_StackerDir c, ''imports-copy'', name], dir])"
proof -
  obtain existing existing' w1 w2 where
    "io_fold (import_step im ho c storage (path_Join [sc_StackerDir c, ''imports'', name])
       (path_Join [sc_StackerDir c, ''imports-copy'', name])) (existing, ods) imports w1 = (Inr (existing', ods'), w2)"
    using assms by (auto simp: stacker_Import_def io_simps Let_def)
  from import_fold_overlays [OF this] show ?thesis .
qed

section \<open>Witnesses\<close>

text \<open>A network with one page, whose server names no hash.\<close>

definition sample_net :: "(string list, string) import_ops" where
  "sample_net = \<lparr>im_env = sample_cache_env, im_Compare = (\<lambda>_ _ _. Inr []), im_CompareReader = (\<lambda>a b. Inr (a = b)),
     nt_ParseRest = (\<lambda>s. Inr (''h'', s)), nt_Head = (\<lambda>_. io_ret ([], ''1'')), nt_Credentials = (\<lambda>_. io_ret ([], [])),
     nt_Get = (\<lambda>_ _ _. io_ret \<lparr>ht_StatusCode = 200, ht_Status = ''OK'', ht_Body = ''x'', ht_BodyErr = None\<rparr>)\<rparr>"

definition net_world :: "string list world" where
  "net_world = \<lparr>w_fs = [(''/c'', Dir), (''/c/old'', File ''y'' 420 (0, 0)), (''/l'', Symlink ''/c/old''), (''/c/l'', Symlink ''/c/old''), (''/s'', Dir)],
     w_cwd = ''/'', w_ext = []\<rparr>"

definition sample_storage :: "'x storage" where
  "sample_storage = \<lparr>st_Name = ''sample'', st_Create = (\<lambda>_. io_ret ()), st_SetupEmptyRootfs = (\<lambda>_. io_ret ()),
     st_Snapshot = (\<lambda>_ _. io_ret ()), st_Restore = (\<lambda>_ _. io_ret ()), st_Delete = (\<lambda>_. io_ret ()), st_Exists = (\<lambda>_. io_ret True),
     st_TemporaryWritableSnapshot = (\<lambda>s. io_ret (s, io_ret ())), st_Clean = io_ret (), st_GC = io_ret (),
     st_Unpack = (\<lambda>_ _. io_ret ()), st_Repack = (\<lambda>_ _ _ _. io_ret ()), st_GetLXCRootfsConfig = io_ret,
     st_TarExtractLocation = id, st_SetOverlayDirs = (\<lambda>_ _ _. io_ret ())\<rparr>"

lemma download_has_hash_witness:
  "\<exists>w'. Download sample_net ''/c'' ''http://h/f'' ''x'' [] ''1'' [] None 0 0 net_world = (Inr ''/c/f'', w') \<and>
     (\<exists>content. os_ReadFile ''/c/f'' w' = (Inr content, w') \<and> cx_sha256 (im_env sample_net) content = ''x'')"
proof -
  let ?w = "\<lparr>w_fs = w_fs net_world @ [(''/c/f'', File ''x'' 420 (0, 0))], w_cwd = ''/'', w_ext = []\<rparr> :: string list world"
  have run: "Download sample_net ''/c'' ''http://h/f'' ''x'' [] ''1'' [] None 0 0 net_world = (Inr ''/c/f'', ?w)" by code_simp
  have new: "os_Stat ''/c/f'' net_world = (Inl ENOENT, net_world)" by code_simp
  from download_has_hash [OF run] new run show ?thesis by auto
qed

lemma cached_download_unchecked_witness:
  "acquireUrl sample_net sample_host sample_config sample_storage ''http://h/old'' ''/c''
     (replicate 64 CHR ''0'') [] None 0 0 net_world = (Inr (''/c/old'', []), net_world)"
proof -
  have name: "download_name ''/c'' ''http://h/old'' [] = ''/c/old''" by code_simp
  have "acquireUrl sample_net sample_host sample_config sample_storage ''http://h/old'' ''/c''
     (replicate 64 CHR ''0'') [] None 0 0 net_world = (Inr (download_name ''/c'' ''http://h/old'' [], []), net_world)"
  proof (rule cached_download_unchecked)
    show "NewDockerishUrl ''http://h/old'' = Inr \<lparr>du_Scheme = ''http'', du_Host = ''h'', du_Tag = [], du_Path = ''/old''\<rparr>" by code_simp
    show "validateHash (replicate 64 CHR ''0'') = Inr ()" by code_simp
    show "getHttpFileInfo sample_net ''http://h/old'' net_world = (Inr ([], ''1''), net_world)" by code_simp
    show "os_Stat (download_name ''/c'' ''http://h/old'' []) net_world = (Inr (File ''y'' 420 (0, 0)), net_world)" by code_simp
  qed simp_all
  then show ?thesis unfolding name .
qed

lemma reimport_link_fails_witness:
  "\<exists>e. importFile sample_net ''/l'' ''/c'' [] [] None 0 0 net_world = (Inl e, net_world)"
proof (rule reimport_link_fails)
  show "os_Lstat ''/l'' net_world = (Inr (Symlink ''/c/old''), net_world)" by code_simp
  show "verifyImportFileHash sample_net ''/l'' [] net_world = (Inr ''y'', net_world)" by code_simp
  show "os_Stat (path_Join [''/c'', path_Base ''/l'']) net_world = (Inr (File ''y'' 420 (0, 0)), net_world)" by code_simp
qed

definition plain_world :: "string list world" where
  "plain_world = \<lparr>w_fs = [(''/c'', Dir), (''/c/old'', File ''y'' 420 (0, 0)), (''/s'', Dir)], w_cwd = ''/'', w_ext = []\<rparr>"

lemma imports_become_overlay_dirs_witness:
  "\<exists>od w'. stacker_Import sample_net sample_host sample_config sample_storage ''a''
      [\<lparr>imp_Path = ''/c/old'', imp_Hash = [], imp_Dest = ''/etc/new'', imp_Mode = None, imp_Uid = 0, imp_Gid = 0\<rparr>] [] plain_world =
      (Inr [od], w') \<and> od_Dest od = ''/etc''"
proof -
  let ?i = "\<lparr>imp_Path = ''/c/old'', imp_Hash = [], imp_Dest = ''/etc/new'', imp_Mode = None, imp_Uid = 0, imp_Gid = 0\<rparr>"
  have "is_ok (fst (stacker_Import sample_net sample_host sample_config sample_storage ''a'' [?i] [] plain_world))" by code_simp
  then obtain ods w' where run: "stacker_Import sample_net sample_host sample_config sample_storage ''a'' [?i] [] plain_world = (Inr ods, w')"
    by (cases "stacker_Import sample_net sample_host sample_config sample_storage ''a'' [?i] [] plain_world") (auto simp: is_ok_iff)
  have "import_dest ?i = ''/etc''" by code_simp
  with imports_become_overlay_dirs [OF run] run show ?thesis by (auto simp: map_eq_Cons_conv)
qed

end
