(* ===== verification/Thread_Pool.thy ===== *)
theory Thread_Pool
  imports Go_Prelude "HOL-Library.Multiset"
begin

text \<open>
  The pool of workers that unpacks layers: \<^verbatim>\<open>pkg/overlay/pool.go\<close>. \<^verbatim>\<open>Add\<close> and \<^verbatim>\<open>DoneAddingJobs\<close> are
  functions of the pool, a channel with room for 1000 tasks; the workers that \<^verbatim>\<open>Run\<close> starts are a step
  relation, one rule per action of one worker, so that every interleaving is a sequence of steps. A
  task may end with any error. What the workers have run is recorded in \<open>tp_done\<close>, which the code
  does not have.
\<close>

section \<open>The pool\<close>

definition ThreadPoolCancelled :: go_error where
  "ThreadPoolCancelled = Errorf ''thread pool cancelled'' []"

datatype 'f worker = Idle | Running 'f | Exited

record 'f ThreadPool =
  tp_n :: nat
  tp_tasks :: "'f list"
  tp_closed :: bool
  tp_cancelled :: bool
  tp_err :: "go_error option"
  tp_workers :: "'f worker list"
  tp_done :: "('f \<times> go_error option) list"

definition NewThreadPool :: "nat \<Rightarrow> 'f ThreadPool" where
  "NewThreadPool n = \<lparr>tp_n = n, tp_tasks = [], tp_closed = False, tp_cancelled = False, tp_err = None,
     tp_workers = replicate n Idle, tp_done = []\<rparr>"

text \<open>A full channel blocks the caller: \<^const>\<open>None\<close>. A closed one panics.\<close>

definition ThreadPool_Add :: "'f \<Rightarrow> 'f ThreadPool \<Rightarrow> 'f ThreadPool option res" where
  "ThreadPool_Add f tp =
     (if tp_closed tp then Inl (Panic ''send on closed channel'')
      else if 1000 \<le> length (tp_tasks tp) then Inr None
      else Inr (Some (tp\<lparr>tp_tasks := tp_tasks tp @ [f]\<rparr>)))"

definition DoneAddingJobs :: "'f ThreadPool \<Rightarrow> 'f ThreadPool res" where
  "DoneAddingJobs tp =
     (if tp_closed tp then Inl (Panic ''close of closed channel'') else Inr (tp\<lparr>tp_closed := True\<rparr>))"

text \<open>
  One action of the worker \<open>i\<close>: it sees that the pool is cancelled, takes a task, sees that there will
  be no more, or ends its task. When both cases of the \<^verbatim>\<open>select\<close> are ready either is taken.
\<close>

definition set_worker :: "nat \<Rightarrow> 'f worker \<Rightarrow> 'f ThreadPool \<Rightarrow> 'f ThreadPool" where
  "set_worker i s tp = tp\<lparr>tp_workers := (tp_workers tp)[i := s]\<rparr>"

inductive worker_step :: "'f ThreadPool \<Rightarrow> 'f ThreadPool \<Rightarrow> bool" where
  Cancelled: "i < length (tp_workers tp) \<Longrightarrow> tp_workers tp ! i = Idle \<Longrightarrow> tp_cancelled tp \<Longrightarrow>
     worker_step tp (set_worker i Exited tp)"
| Take: "i < length (tp_workers tp) \<Longrightarrow> tp_workers tp ! i = Idle \<Longrightarrow> tp_tasks tp = f # fs \<Longrightarrow>
     worker_step tp (set_worker i (Running f) (tp\<lparr>tp_tasks := fs\<rparr>))"
| NoMore: "i < length (tp_workers tp) \<Longrightarrow> tp_workers tp ! i = Idle \<Longrightarrow> tp_tasks tp = [] \<Longrightarrow> tp_closed tp \<Longrightarrow>
     worker_step tp (set_worker i Exited tp)"
| Ended: "i < length (tp_workers tp) \<Longrightarrow> tp_workers tp ! i = Running f \<Longrightarrow> err = None \<or> err = Some ThreadPoolCancelled \<Longrightarrow>
     worker_step tp (set_worker i Idle (tp\<lparr>tp_done := tp_done tp @ [(f, err)]\<rparr>))"
| Failed: "i < length (tp_workers tp) \<Longrightarrow> tp_workers tp ! i = Running f \<Longrightarrow> e \<noteq> ThreadPoolCancelled \<Longrightarrow>
     worker_step tp (set_worker i Exited (tp\<lparr>tp_err := Some e, tp_cancelled := True, tp_done := tp_done tp @ [(f, Some e)]\<rparr>))"

definition finished :: "'f ThreadPool \<Rightarrow> bool" where
  "finished tp = list_all (\<lambda>w. w = Exited) (tp_workers tp)"

text \<open>A use of the pool as \<^verbatim>\<open>Unpack\<close> makes it: all tasks are added, the channel is closed, then it runs.\<close>

fun add_all :: "'f list \<Rightarrow> 'f ThreadPool \<Rightarrow> 'f ThreadPool option res" where
  "add_all [] tp = rbind (DoneAddingJobs tp) (\<lambda>tp. Inr (Some tp))"
| "add_all (f # fs) tp =
     rbind (ThreadPool_Add f tp) (\<lambda>r. case r of None \<Rightarrow> Inr None | Some tp \<Rightarrow> add_all fs tp)"

section \<open>Lemmas\<close>

text \<open>The tasks that are being run.\<close>

definition running_of :: "'f worker list \<Rightarrow> 'f multiset" where
  "running_of ws = mset (concat (map (\<lambda>w. case w of Running f \<Rightarrow> [f] | _ \<Rightarrow> []) ws))"

definition running :: "'f ThreadPool \<Rightarrow> 'f multiset" where
  "running tp = running_of (tp_workers tp)"

lemma running_of_append: "running_of (ws @ ws') = running_of ws + running_of ws'"
  by (simp add: running_of_def)

lemma list_update_split:
  assumes "i < length ws"
  shows "ws[i := w] = take i ws @ w # drop (Suc i) ws" "ws = take i ws @ ws ! i # drop (Suc i) ws"
  using assms by (simp_all add: upd_conv_take_nth_drop id_take_nth_drop)

lemma running_update:
  assumes "i < length (tp_workers tp)"
  shows "tp_workers tp ! i = Idle \<Longrightarrow> running (set_worker i Exited tp) = running tp"
    and "tp_workers tp ! i = Idle \<Longrightarrow> running (set_worker i (Running f) tp) = add_mset f (running tp)"
    and "tp_workers tp ! i = Running f \<Longrightarrow> running tp = add_mset f (running (set_worker i Idle tp))"
    and "tp_workers tp ! i = Running f \<Longrightarrow> running tp = add_mset f (running (set_worker i Exited tp))"
proof -
  let ?ws = "tp_workers tp"
  have upd: "running (set_worker i w tp) = running_of (take i ?ws) + running_of [w] + running_of (drop (Suc i) ?ws)" for w
    by (simp add: running_def set_worker_def list_update_split(1) [OF assms] running_of_def)
  have old: "running tp = running_of (take i ?ws) + running_of [?ws ! i] + running_of (drop (Suc i) ?ws)"
    unfolding running_def using list_update_split(2) [OF assms] by (metis append_Cons append_Nil running_of_append add.assoc)
  show "?ws ! i = Idle \<Longrightarrow> running (set_worker i Exited tp) = running tp"
    "?ws ! i = Idle \<Longrightarrow> running (set_worker i (Running f) tp) = add_mset f (running tp)"
    "?ws ! i = Running f \<Longrightarrow> running tp = add_mset f (running (set_worker i Idle tp))"
    "?ws ! i = Running f \<Longrightarrow> running tp = add_mset f (running (set_worker i Exited tp))"
    unfolding upd old by (simp_all add: running_of_def)
qed

lemma running_fields [simp]:
  "running (tp\<lparr>tp_tasks := fs\<rparr>) = running tp" "running (tp\<lparr>tp_done := ds\<rparr>) = running tp"
  "running (tp\<lparr>tp_err := e\<rparr>) = running tp" "running (tp\<lparr>tp_cancelled := b\<rparr>) = running tp"
  by (simp_all add: running_def)

lemma set_worker_fields [simp]:
  "tp_tasks (set_worker i s tp) = tp_tasks tp" "tp_closed (set_worker i s tp) = tp_closed tp"
  "tp_cancelled (set_worker i s tp) = tp_cancelled tp" "tp_err (set_worker i s tp) = tp_err tp"
  "tp_done (set_worker i s tp) = tp_done tp" "tp_workers (set_worker i s tp) = (tp_workers tp)[i := s]"
  by (simp_all add: set_worker_def)

text \<open>What holds at every moment: every task is waiting, running or done, and errors are kept.\<close>

definition pool_inv :: "'f list \<Rightarrow> nat \<Rightarrow> 'f ThreadPool \<Rightarrow> bool" where
  "pool_inv fs n tp \<longleftrightarrow>
     mset (tp_tasks tp) + running tp + mset (map fst (tp_done tp)) = mset fs \<and>
     tp_closed tp \<and> length (tp_workers tp) = n \<and>
     (tp_cancelled tp \<longleftrightarrow> tp_err tp \<noteq> None) \<and>
     (\<forall>e. tp_err tp = Some e \<longrightarrow> e \<noteq> ThreadPoolCancelled \<and> Some e \<in> snd ` set (tp_done tp)) \<and>
     (tp_err tp = None \<longrightarrow> (\<forall>(f, r) \<in> set (tp_done tp). r = None \<or> r = Some ThreadPoolCancelled)) \<and>
     (tp_err tp = None \<longrightarrow> Exited \<in> set (tp_workers tp) \<longrightarrow> tp_tasks tp = [])"

lemma worker_step_inv:
  assumes "worker_step tp tp'" "pool_inv fs n tp"
  shows "pool_inv fs n tp'"
  using assms
proof (cases rule: worker_step.cases)
  case (Cancelled i)
  with assms(2) running_update(1) [of i tp] show ?thesis by (auto simp: pool_inv_def)
next
  case (Take i f rest)
  with assms(2) running_update(2) [of i "tp\<lparr>tp_tasks := rest\<rparr>" f] show ?thesis
    by (auto simp: pool_inv_def dest: set_update_subset_insert [THEN subsetD])
next
  case (NoMore i)
  with assms(2) running_update(1) [of i tp] show ?thesis by (auto simp: pool_inv_def)
next
  case (Ended i f err)
  with assms(2) running_update(3) [of i "tp\<lparr>tp_done := tp_done tp @ [(f, err)]\<rparr>" f] show ?thesis
    by (auto simp: pool_inv_def dest: set_update_subset_insert [THEN subsetD])
next
  case (Failed i f e)
  with assms(2) running_update(4) [of i "tp\<lparr>tp_err := Some e, tp_cancelled := True, tp_done := tp_done tp @ [(f, Some e)]\<rparr>" f]
  show ?thesis by (auto simp: pool_inv_def)
qed

lemma worker_steps_inv: "worker_step\<^sup>*\<^sup>* tp tp' \<Longrightarrow> pool_inv fs n tp \<Longrightarrow> pool_inv fs n tp'"
  by (induction rule: rtranclp_induct) (auto intro: worker_step_inv)

text \<open>Every step makes this number smaller.\<close>

fun worker_work :: "'f worker \<Rightarrow> nat" where
  "worker_work Idle = 1"
| "worker_work (Running f) = 2"
| "worker_work Exited = 0"

definition work_left :: "'f ThreadPool \<Rightarrow> nat" where
  "work_left tp = 3 * length (tp_tasks tp) + sum_list (map worker_work (tp_workers tp))"

lemma work_update:
  assumes "i < length ws"
  shows "sum_list (map worker_work (ws[i := w])) + worker_work (ws ! i) = sum_list (map worker_work ws) + worker_work w"
proof -
  have "sum_list (map worker_work ws) =
      sum_list (map worker_work (take i ws)) + worker_work (ws ! i) + sum_list (map worker_work (drop (Suc i) ws))"
    using list_update_split(2) [OF assms] by (metis add.assoc append_Cons append_Nil list.simps(9) map_append sum_list.Cons sum_list_append)
  then show ?thesis by (simp add: list_update_split(1) [OF assms])
qed

lemma worker_step_work: "worker_step tp tp' \<Longrightarrow> work_left tp' < work_left tp"
proof (induction rule: worker_step.induct)
  case (Cancelled i tp)
  then show ?case using work_update [of i "tp_workers tp" Exited] by (simp add: work_left_def)
next
  case (Take i tp f fs)
  then show ?case using work_update [of i "tp_workers tp" "Running f"] by (simp add: work_left_def)
next
  case (NoMore i tp)
  then show ?case using work_update [of i "tp_workers tp" Exited] by (simp add: work_left_def)
next
  case (Ended i tp f err)
  then show ?case using work_update [of i "tp_workers tp" Idle] by (simp add: work_left_def)
next
  case (Failed i tp f e)
  then show ?case using work_update [of i "tp_workers tp" Exited] by (simp add: work_left_def)
qed

lemma worker_steps_work: "(worker_step ^^ k) tp tp' \<Longrightarrow> k + work_left tp' \<le> work_left tp"
  by (induction k arbitrary: tp') (auto dest: worker_step_work, fastforce dest: worker_step_work)

text \<open>A pool that is not finished can go on.\<close>

lemma worker_progress:
  assumes "tp_closed tp" "\<not> finished tp"
  shows "\<exists>tp'. worker_step tp tp'"
proof -
  obtain i where i: "i < length (tp_workers tp)" "tp_workers tp ! i \<noteq> Exited"
    using assms(2) by (auto simp: finished_def list_all_length)
  show ?thesis
  proof (cases "tp_workers tp ! i")
    case Idle
    show ?thesis
    proof (cases "tp_tasks tp")
      case Nil
      then show ?thesis using worker_step.NoMore [OF i(1) Idle] assms(1) by blast
    next
      case (Cons f fs)
      then show ?thesis using worker_step.Take [OF i(1) Idle] by blast
    qed
  next
    case (Running f)
    then show ?thesis using worker_step.Ended [OF i(1) Running, of None] by blast
  qed (use i in simp)
qed

text \<open>Where a run starts.\<close>

lemma add_all_start:
  assumes "add_all fs tp = Inr (Some tp')"
  shows "tp' = tp\<lparr>tp_tasks := tp_tasks tp @ fs, tp_closed := True\<rparr>"
  using assms
  by (induction fs tp rule: add_all.induct)
    (auto simp: DoneAddingJobs_def ThreadPool_Add_def res_simps split: if_splits option.splits)

lemma start_inv:
  assumes "add_all fs (NewThreadPool n) = Inr (Some tp)"
  shows "pool_inv fs n tp" "work_left tp = 3 * length fs + n"
proof -
  have "running_of (replicate n Idle) = {#}" by (induction n) (simp_all add: running_of_def)
  then show "pool_inv fs n tp"
    unfolding add_all_start [OF assms] by (auto simp: NewThreadPool_def pool_inv_def running_def)
  have "sum_list (map worker_work (replicate n Idle)) = n" by (induction n) simp_all
  then show "work_left tp = 3 * length fs + n"
    unfolding add_all_start [OF assms] by (simp add: NewThreadPool_def work_left_def)
qed

section \<open>Properties\<close>

text \<open>
  C14. Whatever the order in which the workers act: when all of them have ended, a result without
  an error means that every task was run exactly once and none failed; an error is that of a task
  that was run, and no task was run more often than it was added.
\<close>

theorem thread_pool_result:
  assumes start: "add_all fs (NewThreadPool n) = Inr (Some tp)" and "0 < n"
    and run: "worker_step\<^sup>*\<^sup>* tp tp'" and ended: "finished tp'"
  shows "case tp_err tp' of
      None \<Rightarrow> mset (map fst (tp_done tp')) = mset fs \<and>
        (\<forall>(f, r) \<in> set (tp_done tp'). r = None \<or> r = Some ThreadPoolCancelled)
    | Some e \<Rightarrow> e \<noteq> ThreadPoolCancelled \<and> (\<exists>f. (f, Some e) \<in> set (tp_done tp')) \<and>
        mset (map fst (tp_done tp')) \<subseteq># mset fs"
proof -
  have inv: "pool_inv fs n tp'" by (rule worker_steps_inv [OF run start_inv(1) [OF start]])
  have exited: "set (tp_workers tp') \<subseteq> {Exited}" using ended by (auto simp: finished_def list_all_iff)
  moreover have "tp_workers tp' \<noteq> []" using inv \<open>0 < n\<close> by (auto simp: pool_inv_def)
  ultimately have "Exited \<in> set (tp_workers tp')" by (cases "tp_workers tp'") auto
  moreover have "running tp' = {#}"
    using exited unfolding running_def by (induction "tp_workers tp'" arbitrary: tp') (auto simp: running_of_def)
  ultimately show ?thesis
  proof (cases "tp_err tp'")
    case None
    then show ?thesis using inv \<open>Exited \<in> _\<close> \<open>running tp' = {#}\<close> by (auto simp: pool_inv_def)
  next
    case (Some e)
    then have "e \<noteq> ThreadPoolCancelled" "Some e \<in> snd ` set (tp_done tp')"
      and fs: "mset (tp_tasks tp') + mset (map fst (tp_done tp')) = mset fs"
      using inv \<open>running tp' = {#}\<close> by (auto simp: pool_inv_def)
    moreover have "mset (map fst (tp_done tp')) \<subseteq># mset fs" unfolding fs [symmetric] by simp
    moreover obtain f where "(f, Some e) \<in> set (tp_done tp')" using calculation(2) by (auto simp: image_iff)
    ultimately show ?thesis using Some by auto
  qed
qed

text \<open>
  C15. The pool always comes to an end: a run has at most three steps for every task and one for
  every worker, and it never stops before all workers have ended.
\<close>

theorem thread_pool_ends:
  assumes start: "add_all fs (NewThreadPool n) = Inr (Some tp)" and run: "(worker_step ^^ k) tp tp'"
  shows "k \<le> 3 * length fs + n \<and> (finished tp' \<or> (\<exists>tp''. worker_step tp' tp''))"
proof -
  have "worker_step\<^sup>*\<^sup>* tp tp'" using run by (simp add: relpowp_imp_rtranclp)
  then have "pool_inv fs n tp'" using worker_steps_inv start_inv(1) [OF start] by blast
  then show ?thesis
    using worker_steps_work [OF run] start_inv(2) [OF start] worker_progress [of tp'] by (auto simp: pool_inv_def)
qed

text \<open>
  More tasks than the channel has room for are never run: adding them before the workers
  are started blocks for ever.
\<close>

theorem thread_pool_full:
  "add_all fs (NewThreadPool n) = Inr None \<longleftrightarrow> 1000 < length fs"
proof -
  have "add_all fs tp = Inr None \<longleftrightarrow> 1000 < length (tp_tasks tp) + length fs"
    if "\<not> tp_closed tp" "length (tp_tasks tp) \<le> 1000" for tp :: "'a ThreadPool"
    using that
    by (induction fs tp rule: add_all.induct) (auto simp: DoneAddingJobs_def ThreadPool_Add_def split: option.splits)
  from this [of "NewThreadPool n"] show ?thesis by (simp add: NewThreadPool_def)
qed

section \<open>Witnesses\<close>

text \<open>One task and one worker.\<close>

definition sample_pool :: "nat list \<Rightarrow> nat worker \<Rightarrow> (nat \<times> go_error option) list \<Rightarrow> nat ThreadPool" where
  "sample_pool fs s ds = \<lparr>tp_n = 1, tp_tasks = fs, tp_closed = True, tp_cancelled = False, tp_err = None, tp_workers = [s], tp_done = ds\<rparr>"

lemma sample_pool_start: "add_all [7] (NewThreadPool 1) = Inr (Some (sample_pool [7] Idle []))"
  by code_simp

lemma sample_pool_steps:
  "worker_step (sample_pool [7] Idle []) (sample_pool [] (Running 7) [])"
  "worker_step (sample_pool [] (Running 7) []) (sample_pool [] Idle [(7, None)])"
  "worker_step (sample_pool [] Idle [(7, None)]) (sample_pool [] Exited [(7, None)])"
  using worker_step.Take [of 0 "sample_pool [7] Idle []" 7 "[]"]
    worker_step.Ended [of 0 "sample_pool [] (Running 7) []" 7 None]
    worker_step.NoMore [of 0 "sample_pool [] Idle [(7, None)]"]
  by (simp_all add: sample_pool_def set_worker_def)

lemma thread_pool_result_witness:
  "mset (map fst (tp_done (sample_pool [] Exited [(7, None)]))) = mset [7]"
proof -
  have run: "worker_step\<^sup>*\<^sup>* (sample_pool [7] Idle []) (sample_pool [] Exited [(7, None)])"
    using sample_pool_steps by (meson converse_rtranclp_into_rtranclp rtranclp.rtrancl_refl)
  have "finished (sample_pool [] Exited [(7, None)])" by (simp add: finished_def sample_pool_def)
  from thread_pool_result [OF sample_pool_start _ run this] show ?thesis by (simp add: sample_pool_def)
qed

lemma thread_pool_ends_witness:
  "(1 :: nat) \<le> 3 * length [7 :: nat] + 1 \<and>
   (finished (sample_pool [] (Running 7) []) \<or> (\<exists>tp''. worker_step (sample_pool [] (Running 7) []) tp''))"
  by (rule thread_pool_ends [OF sample_pool_start]) (simp add: sample_pool_steps(1) relcompp_apply)

end
