(* ===== verification/Build.thy ===== *)
theory Build
  imports Import_Files Storage_Setup Dag
begin

text \<open>
  Building: \<^verbatim>\<open>pkg/stacker/base.go\<close> (the base of a layer), \<^verbatim>\<open>pkg/stacker/build.go\<close> (layers, files and
  their images), \<^verbatim>\<open>pkg/stacker/git.go\<close> and \<^verbatim>\<open>pkg/stacker/api.go\<close>. This puts the other components
  together: what is built is read by \<open>Stackerfile\<close> and ordered by \<open>Dag\<close>, its files come from
  \<open>Import_Files\<close>, its cache is \<open>Build_Cache\<close>, its root file system is the storage, its commands run
  in a \<open>Container\<close>. The libraries are parameters, collected in \<open>build_env\<close>. A deferred call is an
  \<open>io_defer\<close> around everything that follows it in its function.
\<close>

section \<open>State\<close>

record BuildArgs =
  ba_Config :: StackerConfig
  ba_NoCache :: bool
  ba_SubstituteFile :: string
  ba_Substitute :: "string list"
  ba_OnRunFailure :: string
  ba_LayerTypes :: "LayerType list"
  ba_OrderOnly :: bool
  ba_HashRequired :: bool
  ba_SetupOnly :: bool
  ba_AnnotationsNamespace :: string

record Builder =
  bu_builtStackerfiles :: StackerFiles
  bu_opts :: BuildArgs

text \<open>
  \<open>be_stack\<close> bounds the recursion over files and over bases, \<open>be_files\<close> parses stacker files,
  \<open>be_Version\<close> is the version stamped into the program. A library file is a layout directory.
\<close>

record ('x, 'd, 'm, 'c, 'f, 'h) build_env =
  be_stack :: nat
  be_files :: sf_env
  be_import :: "('x, 'd) import_ops"
  be_oci :: "('x, 'm) oci_ops"
  be_host :: "('x, 'c, 'f) host_ops"
  be_lock :: "('x, 'h) lock_ops"
  be_storage :: "overlay \<Rightarrow> 'x storage"
  be_CreateLayout :: "string \<Rightarrow> ('x, unit) io"
  be_GC :: "string \<Rightarrow> ('x, unit) io"
  be_SubstituteMap :: "string \<Rightarrow> (string \<times> string) list res"
  be_Version :: string

record 'x BaseLayerOpts =
  bo_Config :: StackerConfig
  bo_Name :: string
  bo_Layer :: Layer
  bo_Storage :: "'x storage"

section \<open>The base of a layer\<close>

definition ErrEmptyLayers :: go_error where
  "ErrEmptyLayers = Ext ''empty layers''"

definition base_copy_opts :: "string \<Rightarrow> string \<Rightarrow> string \<Rightarrow> Layer \<Rightarrow> ImageCopyOpts" where
  "base_copy_opts toImport cacheDir tag layer =
     (copy_opts toImport (''oci:'' @ cacheDir @ '':'' @ tag))
       \<lparr>ic_SrcSkipTLS := is_Insecure (lay_From layer),
        ic_OverrideOS := (case lay_OS layer of None \<Rightarrow> [] | Some os \<Rightarrow> os),
        ic_OverrideArch := (case lay_Arch layer of None \<Rightarrow> [] | Some a \<Rightarrow> a)\<rparr>"

definition importContainersImage :: "('x, 'm) oci_ops \<Rightarrow> Layer \<Rightarrow> StackerConfig \<Rightarrow> ('x, unit) io" where
  "importContainersImage oc layer config =
     io_bind (io_res (ContainersImageURL (lay_From layer))) (\<lambda>toImport.
     io_bind (io_res (ParseTag (lay_From layer))) (\<lambda>tag.
     let cacheDir = path_Join [sc_StackerDir config, ''layer-bases'', ''oci''] in
     io_bind (os_MkdirAll cacheDir 493) (\<lambda>_.
     io_defer (oc_OpenLayout oc cacheDir)
       (io_wrap (couldnt ''import base layer %s'') [tag] (ImageCopy oc (base_copy_opts toImport cacheDir tag layer))))))"

definition GetBase ::
  "('x, 'd, 'm, 'c, 'f, 'h) build_env \<Rightarrow> 'x BaseLayerOpts \<Rightarrow> ('x, unit) io" where
  "GetBase be o' =
     (let ty = is_Type (lay_From (bo_Layer o')) in
      if ty = BuiltLayer \<or> ty = ScratchLayer then io_ret ()
      else if ty = TarLayer then
        (let cacheDir = path_Join [sc_StackerDir (bo_Config o'), ''layer-bases''] in
         io_bind (os_MkdirAll cacheDir 493) (\<lambda>_.
         io_bind (acquireUrl (be_import be) (be_host be) (bo_Config o') (bo_Storage o') (is_Url (lay_From (bo_Layer o'))) cacheDir
           [] [] None (-1) (-1)) (\<lambda>_. io_ret ())))
      else if ty = OCILayer \<or> ty = DockerLayer then importContainersImage (be_oci be) (bo_Layer o') (bo_Config o')
      else io_err (Errorf ''unknown layer type: %v'' [ty]))"

definition unpackTar :: "('x, 'm) oci_ops \<Rightarrow> string \<Rightarrow> string \<Rightarrow> ('x, unit) io" where
  "unpackTar oc destDir tar =
     io_bind (io_wrap (couldnt ''open %s'') [tar] (os_ReadFile tar)) (\<lambda>content.
       let uncompressed = (case gz_NewReader oc content of Inr s \<Rightarrow> s | Inl _ \<Rightarrow> content) in
       tar_UnpackLayer oc destDir uncompressed)"

definition setupTarRootfs :: "('x, 'm) oci_ops \<Rightarrow> 'x BaseLayerOpts \<Rightarrow> ('x, unit) io" where
  "setupTarRootfs oc o' =
     unpackTar oc (st_TarExtractLocation (bo_Storage o') (bo_Name o'))
       (path_Join [path_Join [sc_StackerDir (bo_Config o'), ''layer-bases''], path_Base (is_Url (lay_From (bo_Layer o')))])"

definition setupContainersImageRootfs :: "'x BaseLayerOpts \<Rightarrow> ('x, unit) io" where
  "setupContainersImageRootfs o' =
     io_bind (io_res (ParseTag (lay_From (bo_Layer o')))) (\<lambda>cacheTag. st_Unpack (bo_Storage o') cacheTag (bo_Name o'))"

text \<open>
  One step of unwrapping an error of \<^verbatim>\<open>pkg/errors\<close>: \<^verbatim>\<open>WithStack\<close> gives the error it was made of,
  \<^verbatim>\<open>Wrapf\<close> only loses its stack trace and keeps the message around it.
\<close>

definition unwrapped_not_exist :: "go_error \<Rightarrow> bool" where
  "unwrapped_not_exist e = (case e of Wrapf e' msg args \<Rightarrow> msg = [] \<and> os_IsNotExist e' | _ \<Rightarrow> False)"

definition setup_base :: "('x, 'm) oci_ops \<Rightarrow> 'x BaseLayerOpts \<Rightarrow> ('x, unit) io" where
  "setup_base oc o' =
     (let from = lay_From (bo_Layer o'); s = bo_Storage o'; name = bo_Name o' in
      if is_Type from = BuiltLayer then st_Restore s (is_Tag from) name
      else
        io_bind (st_Create s name) (\<lambda>_.
          if is_Type from = ScratchLayer then st_SetupEmptyRootfs s name
          else if is_Type from = TarLayer then
            io_bind (st_SetupEmptyRootfs s name) (\<lambda>_. setupTarRootfs oc o')
          else if is_Type from = OCILayer \<or> is_Type from = DockerLayer then
            io_bind (io_try (setupContainersImageRootfs o')) (\<lambda>r.
              case r of
                Inl e \<Rightarrow> if errors_Is e ErrEmptyLayers then st_SetupEmptyRootfs s name else io_err e
              | Inr _ \<Rightarrow> io_ret ())
          else io_err (Errorf ''unknown layer type: %v'' [is_Type from])))"

definition SetupRootfs :: "('x, 'm) oci_ops \<Rightarrow> 'x BaseLayerOpts \<Rightarrow> ('x, unit) io" where
  "SetupRootfs oc o' =
     io_bind (io_try (st_Delete (bo_Storage o') (bo_Name o'))) (\<lambda>err.
       case err of
         Inl e \<Rightarrow> if \<not> unwrapped_not_exist e then io_err e else setup_base oc o'
       | Inr _ \<Rightarrow> setup_base oc o')"

section \<open>Versions and annotations\<close>

definition GitVersionAnnotation :: string where "GitVersionAnnotation = ''.stacker.git_version''"
definition StackerContentsAnnotation :: string where "StackerContentsAnnotation = ''.stacker.stacker_yaml''"
definition StackerVersionAnnotation :: string where "StackerVersionAnnotation = ''.stacker.stacker_version''"

definition getGitVersionAnnotation :: "string \<Rightarrow> string" where
  "getGitVersionAnnotation namespace = namespace @ GitVersionAnnotation"

definition getStackerContentsAnnotation :: "string \<Rightarrow> string" where
  "getStackerContentsAnnotation namespace = namespace @ StackerContentsAnnotation"

definition getStackerVersionAnnotation :: "string \<Rightarrow> string" where
  "getStackerVersionAnnotation namespace = namespace @ StackerVersionAnnotation"

definition gitHash :: "('x, 'c, 'f) host_ops \<Rightarrow> string \<Rightarrow> bool \<Rightarrow> ('x, string) io" where
  "gitHash ho p short =
     io_bind (ho_Output ho ''git'' (if short then [''-C'', p, ''rev-parse'', ''--short'', ''HEAD''] else [''-C'', p, ''rev-parse'', ''HEAD'']))
       (\<lambda>output. io_ret (strings_TrimSpace output))"

definition GitVersion :: "('x, 'c, 'f) host_ops \<Rightarrow> string \<Rightarrow> ('x, string) io" where
  "GitVersion ho p =
     io_bind (io_try (ho_Output ho ''git'' [''-C'', p, ''describe'', ''--tags''])) (\<lambda>described.
     io_bind (case described of Inr output \<Rightarrow> io_ret (strings_TrimSpace output) | Inl _ \<Rightarrow> gitHash ho p False) (\<lambda>vers.
     io_bind (ho_Output ho ''git'' [''-C'', p, ''status'', ''--porcelain'', ''--untracked-files=no'']) (\<lambda>output.
       io_ret (if output = [] then vers else vers @ ''-dirty''))))"

section \<open>The image configuration\<close>

definition image_env :: "Layer \<Rightarrow> string list \<Rightarrow> string list" where
  "image_env l env =
     (let env' = env @ map (\<lambda>(k, v). k @ ''='' @ v) (lay_Environment l);
          pathSet = ((\<exists>kv \<in> set (lay_Environment l). fst kv = ''PATH'') \<or> (\<exists>s \<in> set env'. strings_HasPrefix s ''PATH=''))
      in if pathSet then env' else env' @ [''PATH='' @ ReasonableDefaultPath])"

definition put_all :: "(string \<times> 'v) list \<Rightarrow> (string \<times> 'v) list \<Rightarrow> (string \<times> 'v) list" where
  "put_all new m = fold (\<lambda>(k, v). map_put k v) new m"

text \<open>The configuration of an image, after the labels that a command of the layer has generated.\<close>

definition layer_config :: "Layer \<Rightarrow> (string \<times> string) list \<Rightarrow> Image \<Rightarrow> Image" where
  "layer_config l generated img =
     img\<lparr>img_Env := image_env l (img_Env img),
         img_Cmd := (if lay_FullCommand l \<noteq> None then None else lay_Cmd l),
         img_Entrypoint := (if lay_FullCommand l \<noteq> None then lay_FullCommand l else lay_Entrypoint l),
         img_Volumes := img_Volumes img @ filter (\<lambda>v. v \<notin> set (img_Volumes img)) (remdups (lay_Volumes l)),
         img_Labels := put_all (lay_Labels l) (put_all generated (img_Labels img)),
         img_WorkingDir := (if lay_WorkingDir l \<noteq> [] then lay_WorkingDir l else img_WorkingDir img),
         img_User := (if lay_RuntimeUser l \<noteq> [] then lay_RuntimeUser l else img_User img)\<rparr>"

text \<open>\<^verbatim>\<open>*l.Arch\<close> and \<^verbatim>\<open>*l.OS\<close> panic when they are nil.\<close>

definition image_meta :: "Layer \<Rightarrow> int \<Rightarrow> string \<Rightarrow> Image \<Rightarrow> Image res" where
  "image_meta l created author img =
     (case (lay_Arch l, lay_OS l) of
        (Some arch, Some os) \<Rightarrow>
          Inr (img\<lparr>img_Created := Some created, img_Architecture := arch, img_OS := os, img_Author := author\<rparr>)
      | _ \<Rightarrow> Inl (Panic ''invalid memory address or nil pointer dereference''))"

definition image_annotations ::
  "string \<Rightarrow> string \<Rightarrow> string \<Rightarrow> Stackerfile \<Rightarrow> Layer \<Rightarrow> (string \<times> string) list \<Rightarrow> (string \<times> string) list" where
  "image_annotations ns version gitVersion sf l annotations =
     (let a1 = put_all (lay_Annotations l) annotations;
          a2 = (if gitVersion \<noteq> [] then map_put (getGitVersionAnnotation ns) gitVersion a1 else a1)
      in map_put (getStackerVersionAnnotation ns) version
           (map_put (getStackerContentsAnnotation ns) (sf_AfterSubstitutions sf) a2))"

definition in_dir :: "Layer \<Rightarrow> string" where
  "in_dir l = (if lay_WasLegacyImport l then LegacyInternalStackerDir else InternalStackerDir)"

text \<open>
  The labels that \<open>generate_labels\<close> writes, for everything that follows (\<open>rest\<close>): the snapshot, the
  directory and the container are given back at the end of the calling function.
\<close>

definition with_generated_labels ::
  "('x, 'd, 'm, 'c, 'f, 'h) build_env \<Rightarrow> StackerConfig \<Rightarrow> 'x storage \<Rightarrow> Layer \<Rightarrow> string \<Rightarrow>
   ((string \<times> string) list \<Rightarrow> ('x, unit) io) \<Rightarrow> ('x, unit) io" where
  "with_generated_labels be config s l name rest =
     io_bind (st_TemporaryWritableSnapshot s name) (\<lambda>(writable, cleanup).
     io_defer cleanup
       (io_bind (io_wrap ''failed to create oci-labels tempdir'' []
          (os_MkdirTemp (sc_StackerDir config) (''oci-labels-'' @ name @ ''-''))) (\<lambda>dir.
        io_defer (os_RemoveAll dir)
          (io_bind (container_New (be_host be) config writable) (\<lambda>c.
           io_defer (container_Close (be_host be) c)
             (io_bind (SetupBuildContainerConfig (be_host be) config (st_GetLXCRootfsConfig s) c (in_dir l) writable) (\<lambda>_.
              let labelInDir = path_Join [in_dir l, ''oci-labels'']; script = ''.stacker-run.sh'' in
              io_bind (BindMount (be_host be) c dir labelInDir []) (\<lambda>_.
              io_bind (generateShellForRunning (case lay_GenerateLabels l of None \<Rightarrow> [] | Some cmd \<Rightarrow> cmd) (path_Join [dir, script])) (\<lambda>_.
              io_bind (Execute (be_host be) c [path_Join [labelInDir, script]] False) (\<lambda>_.
              io_bind (io_wrap ''failed to read %s'' [dir] (os_ReadDir dir)) (\<lambda>ents.
              io_bind (io_fold (\<lambda>labels (n, _).
                 if n = ''.stacker-run.sh'' then io_ret labels
                 else io_bind (io_wrap (couldnt ''read label %s'') [n] (os_ReadFile (path_Join [dir, n]))) (\<lambda>content.
                   io_ret (labels @ [(n, content)]))) [] ents) (\<lambda>labels.
                rest labels))))))))))))"

definition updateOCIConfigForOutput ::
  "('x, 'd, 'm, 'c, 'f, 'h) build_env \<Rightarrow> BuildArgs \<Rightarrow> Stackerfile \<Rightarrow> 'x storage \<Rightarrow> LayerType \<Rightarrow> Layer \<Rightarrow> string \<Rightarrow> ('x, unit) io" where
  "updateOCIConfigForOutput be opts sf s layerType l name =
     (let oc = be_oci be; config = ba_Config opts; oci = sc_OCIDir config; layerName = LayerName layerType name in
      io_bind (oc_ResolveReference oc oci layerName) (\<lambda>descPaths.
      case descPaths of
        [] \<Rightarrow> io_err (Panic ''index out of range [0] with length 0'')
      | desc # _ \<Rightarrow>
        io_bind (io_wrap ''mutator failed'' [] (mu_New oc oci desc)) (\<lambda>mutator.
        io_bind (mu_Config oc mutator) (\<lambda>img.
        let rest = (\<lambda>generated.
          let img1 = layer_config l generated img in
          io_bind (if map_get [] (ho_env (be_host be)) ''SUDO_USER'' = []
                   then io_res (rbind (ho_User (be_host be)) (\<lambda>u. Inr (fst u)))
                   else io_ret (map_get [] (ho_env (be_host be)) ''SUDO_USER'')) (\<lambda>username.
          io_bind (io_res (ho_Hostname (be_host be))) (\<lambda>host.
          io_bind (case sc_SourceDateEpoch config of Some epoch \<Rightarrow> io_ret epoch | None \<Rightarrow> oc_Now oc) (\<lambda>created.
          let author = (if sc_SourceDateEpoch config \<noteq> None then ''stacker'' else username @ ''@'' @ host) in
          io_bind (io_res (image_meta l created author img1)) (\<lambda>img2.
          io_bind (mu_Manifest oc mutator) (\<lambda>manifest.
          io_bind (io_try (GitVersion (be_host be) (sf_ReferenceDirectory sf))) (\<lambda>git.
          let gitVersion = (case git of Inr v \<Rightarrow> v | Inl _ \<Rightarrow> []);
              annotations = image_annotations (ba_AnnotationsNamespace opts) (be_Version be) gitVersion sf l (man_Annotations manifest);
              history = \<lparr>hi_Created = created, hi_CreatedBy = ''stacker build'', hi_Author = author, hi_EmptyLayer = True\<rparr> in
          io_bind (mu_Set oc mutator img2 annotations history) (\<lambda>mutator.
          io_bind (mu_Commit oc mutator) (\<lambda>(_, newRoot).
            oc_UpdateReference oc oci layerName newRoot)))))))))
        in case lay_GenerateLabels l of
             Some (cmd # cmds) \<Rightarrow> with_generated_labels be config s l name rest
           | _ \<Rightarrow> rest []))))"

section \<open>Building a layer\<close>

text \<open>What a cache hit is used for: \<^const>\<open>True\<close> when there is nothing left to build.\<close>

definition use_cache_entry ::
  "('x, 'd, 'm, 'c, 'f, 'h) build_env \<Rightarrow> BuildArgs \<Rightarrow> 'x storage \<Rightarrow> string \<Rightarrow> Layer \<Rightarrow> CacheEntry \<Rightarrow> ('x, bool) io" where
  "use_cache_entry be opts s name l cacheEntry =
     (if lay_BuildOnly l then
        io_bind (io_if (ent_Name cacheEntry \<noteq> name) (st_Snapshot s (ent_Name cacheEntry) name)) (\<lambda>_. io_ret True)
      else
        io_bind (io_fold (\<lambda>foundCount layerType.
            case map_of (ent_Manifests cacheEntry) layerType of
              None \<Rightarrow> io_ret foundCount
            | Some blob \<Rightarrow>
                io_bind (oc_UpdateReference (be_oci be) (sc_OCIDir (ba_Config opts)) (LayerName layerType name) blob) (\<lambda>_.
                  io_ret (Suc foundCount))) 0 (ba_LayerTypes opts)) (\<lambda>foundCount.
          io_ret (foundCount = length (ba_LayerTypes opts))))"

text \<open>The commands of a layer; after a failure the command for that case runs, and the failure stays.\<close>

definition run_layer ::
  "('x, 'd, 'm, 'c, 'f, 'h) build_env \<Rightarrow> BuildArgs \<Rightarrow> 'c Container \<Rightarrow> string \<Rightarrow> Layer \<Rightarrow> ('x, unit) io" where
  "run_layer be opts c name l =
     (case lay_Run l of
        Some (cmd # cmds) \<Rightarrow>
          io_bind (generateShellForRunning (cmd # cmds)
            (path_Join [sc_StackerDir (ba_Config opts), ''imports'', name, ''.stacker-run.sh''])) (\<lambda>_.
          io_bind (io_try (Execute (be_host be) c [path_Join [in_dir l, ''imports'', ''.stacker-run.sh'']] False)) (\<lambda>r.
            case r of
              Inr _ \<Rightarrow> io_ret ()
            | Inl e \<Rightarrow>
                io_bind (if ba_OnRunFailure opts \<noteq> [] then io_bind (io_try (Execute (be_host be) c [ba_OnRunFailure opts] True)) (\<lambda>_. io_ret ())
                         else io_ret ()) (\<lambda>_.
                  io_err (Errorf ''run commands failed for image %q in %q: %s'' [name]))))
      | _ \<Rightarrow> io_ret ())"

text \<open>The images of a layer, and its entry in the cache.\<close>

definition output_layer ::
  "('x, 'd, 'm, 'c, 'f, 'h) build_env \<Rightarrow> BuildArgs \<Rightarrow> Stackerfile \<Rightarrow> StackerFiles \<Rightarrow> 'x storage \<Rightarrow> BuildCache \<Rightarrow> string \<Rightarrow> Layer \<Rightarrow>
   ('x, BuildCache) io" where
  "output_layer be opts sf built s cache name l =
     (if lay_BuildOnly l then
        (case ba_LayerTypes opts of
           [] \<Rightarrow> io_err (Panic ''index out of range [0] with length 0'')
         | lt # _ \<Rightarrow> Put (be_stack be) (im_env (be_import be)) name [(lt, zero_descriptor)] cache)
      else
        io_bind (st_Repack s name l (ba_LayerTypes opts) built) (\<lambda>_.
        io_bind (io_fold (\<lambda>manifests layerType.
            io_bind (updateOCIConfigForOutput be opts sf s layerType l name) (\<lambda>_.
            io_bind (oc_ResolveReference (be_oci be) (sc_OCIDir (ba_Config opts)) (LayerName layerType name)) (\<lambda>descPaths.
              case descPaths of
                [] \<Rightarrow> io_err (Panic ''index out of range [0] with length 0'')
              | desc # _ \<Rightarrow> io_ret (map_put layerType desc manifests)))) [] (ba_LayerTypes opts)) (\<lambda>manifests.
          Put (be_stack be) (im_env (be_import be)) name manifests cache)))"

text \<open>What comes before the decision to build: the files of the layer, its base, and the cache.\<close>

definition prepare_layer ::
  "('x, 'd, 'm, 'c, 'f, 'h) build_env \<Rightarrow> BuildArgs \<Rightarrow> Stackerfile \<Rightarrow> 'x storage \<Rightarrow> BuildCache \<Rightarrow> string \<Rightarrow> ('x, Layer \<times> bool) io" where
  "prepare_layer be opts sf s cache name =
     (case Stackerfile_Get sf name of
        None \<Rightarrow> io_err (Errorf ''%s not present in stackerfile?'' [name])
      | Some l \<Rightarrow>
          if ba_SetupOnly opts \<and> is_Type (lay_From l) = BuiltLayer then
            io_err (Errorf ''no built type layers (%s) allowed in setup mode'' [name])
          else
            io_bind (CleanImportsDir (ba_Config opts) name (lay_Imports l) cache) (\<lambda>_.
            io_bind (stacker_Import (be_import be) (be_host be) (ba_Config opts) s name (lay_Imports l) (lay_OverlayDirs l)) (\<lambda>ods.
            let l = l\<lparr>lay_OverlayDirs := ods\<rparr> in
            io_bind (GetBase be \<lparr>bo_Config = ba_Config opts, bo_Name = name, bo_Layer = l, bo_Storage = s\<rparr>) (\<lambda>_.
            io_bind io_get (\<lambda>w.
            io_bind (io_res (Lookup (be_stack be) (im_env (be_import be)) cache w name)) (\<lambda>hit.
            io_bind (case hit of
                Some cacheEntry \<Rightarrow> if lay_Binds l = [] then use_cache_entry be opts s name l cacheEntry else io_ret False
              | None \<Rightarrow> io_ret False) (\<lambda>cached.
              io_ret (l, cached))))))))"

text \<open>
  The layers of a file, one after the other. A container is given back when the whole file has been
  built, so the rest of the loop is inside its \<open>io_defer\<close>.
\<close>

fun build_layers ::
  "('x, 'd, 'm, 'c, 'f, 'h) build_env \<Rightarrow> BuildArgs \<Rightarrow> Stackerfile \<Rightarrow> StackerFiles \<Rightarrow> 'x storage \<Rightarrow> string list \<Rightarrow> BuildCache \<Rightarrow>
   ('x, BuildCache) io" where
  "build_layers be opts sf built s [] cache =
     io_bind (be_GC be (sc_OCIDir (ba_Config opts))) (\<lambda>_. io_ret cache)"
| "build_layers be opts sf built s (name # names) cache =
     io_bind (prepare_layer be opts sf s cache name) (\<lambda>(l, cached).
       if cached then build_layers be opts sf built s names cache
       else
         io_bind (SetupRootfs (be_oci be) \<lparr>bo_Config = ba_Config opts, bo_Name = name, bo_Layer = l, bo_Storage = s\<rparr>) (\<lambda>_.
         io_bind (st_SetOverlayDirs s name (lay_OverlayDirs l) (ba_LayerTypes opts)) (\<lambda>_.
         io_bind (container_New (be_host be) (ba_Config opts) name) (\<lambda>c.
         io_defer (container_Close (be_host be) c)
           (io_bind (SetupBuildContainerConfig (be_host be) (ba_Config opts) (st_GetLXCRootfsConfig s) c (in_dir l) name) (\<lambda>_.
            io_bind (SetupLayerConfig (be_host be) (ba_Config opts) c l (in_dir l) name) (\<lambda>_.
            if ba_SetupOnly opts then
              io_bind (io_wrap ''error saving config file for %s'' [name]
                (SaveConfigFile (be_host be) c (path_Join [sc_RootFSDir (ba_Config opts), name, ''lxc.conf'']))) (\<lambda>_.
                build_layers be opts sf built s names cache)
            else
              io_bind (run_layer be opts c name l) (\<lambda>_.
              io_bind (output_layer be opts sf built s cache name l) (\<lambda>cache.
                build_layers be opts sf built s names cache)))))))))"

section \<open>Building files\<close>

definition open_output :: "('x, 'd, 'm, 'c, 'f, 'h) build_env \<Rightarrow> string \<Rightarrow> ('x, unit) io" where
  "open_output be ociDir =
     io_bind (io_try (os_Stat ociDir)) (\<lambda>st.
       case st of
         Inr n \<Rightarrow>
           if \<not> node_IsDir n then io_err (Errorf ''parameter oci-dir=%q exists but is not a directory.'' [ociDir])
           else
             io_bind (PathExists (path_Join [ociDir, ''index.json''])) (\<lambda>index.
               if \<not> index then io_err (Errorf ''parameter oci-dir=%q exists but does not look like an OCI Layout.'' [ociDir])
               else io_wrap ''could not open OCI layout at %q'' [ociDir] (oc_OpenLayout (be_oci be) ociDir))
       | Inl _ \<Rightarrow> io_wrap ''could not create layout at %q'' [ociDir] (be_CreateLayout be ociDir))"

text \<open>Stacker files are read from the file system as it is then.\<close>

definition files_in :: "sf_env \<Rightarrow> 'x world \<Rightarrow> sf_env" where
  "files_in env w = env\<lparr>env_Getwd := Inr (w_cwd w), env_ReadFile := (\<lambda>p. fst (os_ReadFile p w))\<rparr>"

definition build_substitutions :: "BuildArgs \<Rightarrow> string list" where
  "build_substitutions opts = ba_Substitute opts @ Substitutions (ba_Config opts)"

definition check_layer_names :: "string list \<Rightarrow> unit res" where
  "check_layer_names order =
     rcheck (\<lambda>name. if strings_Contains name '':'' then
         Inl (Errorf ''using ':' in the layer name (%s) is forbidden due to overlay constraints'' [name]) else Inr ()) order"

definition build_file ::
  "('x, 'd, 'm, 'c, 'f, 'h) build_env \<Rightarrow> 'x storage \<Rightarrow> Builder \<Rightarrow> string \<Rightarrow> ('x, Builder) io" where
  "build_file be s b file =
     (let opts = bu_opts b; config = ba_Config opts in
      io_bind (io_if (ba_NoCache opts) (os_RemoveAll (sc_StackerDir config))) (\<lambda>_.
      io_bind io_get (\<lambda>w.
      io_bind (io_res (NewStackerfile (files_in (be_files be) w) file (ba_HashRequired opts) (build_substitutions opts))) (\<lambda>sf.
      io_bind (io_res (DependencyOrder (be_stack be) sf (bu_builtStackerfiles b))) (\<lambda>order.
      io_bind (io_res (check_layer_names order)) (\<lambda>_.
      io_bind (open_output be (sc_OCIDir config)) (\<lambda>_.
      let b' = b\<lparr>bu_builtStackerfiles := map_put file sf (bu_builtStackerfiles b)\<rparr> in
      io_bind (OpenCache (im_env (be_import be)) config (bu_builtStackerfiles b')) (\<lambda>buildCache.
      io_bind (build_layers be opts sf (bu_builtStackerfiles b') s order buildCache) (\<lambda>_.
        io_ret b')))))))))"

definition substitutionExists :: "string \<Rightarrow> string list \<Rightarrow> string option" where
  "substitutionExists key subs = List.find (\<lambda>sub. strings_HasPrefix sub (key @ ''='')) subs"

text \<open>\<^verbatim>\<open>log.Fatalf\<close> ends the program: an error here.\<close>

definition NewBuilder :: "('x, 'd, 'm, 'c, 'f, 'h) build_env \<Rightarrow> BuildArgs \<Rightarrow> ('x, Builder) io" where
  "NewBuilder be opts =
     io_bind
       (if ba_SubstituteFile opts \<noteq> [] then
          io_bind (io_wrap ''unable to read substitute-file:%s'' [ba_SubstituteFile opts] (os_ReadFile (ba_SubstituteFile opts))) (\<lambda>bytes.
          io_bind (io_wrap ''unable to unmarshal substitute-file:%s'' [ba_SubstituteFile opts] (io_res (be_SubstituteMap be bytes))) (\<lambda>yamlMap.
            io_ret (opts\<lparr>ba_Substitute := fold (\<lambda>(k, v) subs.
              if substitutionExists k subs \<noteq> None then subs else subs @ [k @ ''='' @ v]) yamlMap (ba_Substitute opts)\<rparr>)))
        else io_ret opts) (\<lambda>opts.
       io_ret \<lparr>bu_builtStackerfiles = [], bu_opts = opts\<rparr>)"

definition BuildMultiple ::
  "('x, 'd, 'm, 'c, 'f, 'h) build_env \<Rightarrow> ('g, 'n, Stackerfile) graph_ops \<Rightarrow> Builder \<Rightarrow> string list \<Rightarrow> ('x, Builder) io" where
  "BuildMultiple be ops b paths =
     (let opts = bu_opts b in
      io_bind (NewStorage (be_oci be) (be_lock be) (ho_tmpdir (be_host be)) (ba_Config opts)) (\<lambda>(o', locks).
      io_defer (io_bind (Unlock (be_lock be) locks) (\<lambda>_. io_ret ()))
        (io_bind io_get (\<lambda>w.
         io_bind (io_res (NewStackerFiles (be_stack be) (files_in (be_files be) w) paths (ba_HashRequired opts) (build_substitutions opts))) (\<lambda>stackerFiles.
         io_bind (io_res (NewStackerFilesDAG ops (w_cwd w) stackerFiles)) (\<lambda>dag.
         io_bind (io_res (StackerFilesDAG_Sort ops dag)) (\<lambda>sortedPaths.
         io_bind (io_res (rcheck (\<lambda>p. rbind (GetStackerFile ops dag p) (\<lambda>sf. rbind (Prerequisites (w_cwd w) sf) (\<lambda>_. Inr ()))) sortedPaths)) (\<lambda>_.
           if ba_OrderOnly opts then io_ret b
           else io_fold (build_file be (be_storage be o')) b sortedPaths))))))))"

end
