(* ===== verification/Publish.thy ===== *)
theory Publish
  imports Build
begin

text \<open>
  Publishing images: \<^verbatim>\<open>pkg/stacker/publisher.go\<close>. The publisher reads the stacker files again, with
  a made up value for every substitution it has not been given, looks each layer up in the build
  cache, and copies its images to a registry or to another layout. The libraries are those of
  \<open>build_env\<close>.
\<close>

section \<open>State\<close>

record PublishArgs =
  pa_Config :: StackerConfig
  pa_ShowOnly :: bool
  pa_SubstituteFile :: string
  pa_Substitute :: "string list"
  pa_Tags :: "string list"
  pa_Url :: string
  pa_Username :: string
  pa_Password :: string
  pa_Force :: bool
  pa_SkipTLS :: bool
  pa_LayerTypes :: "LayerType list"
  pa_Images :: "string list"

record Publisher =
  pu_stackerfiles :: StackerFiles
  pu_opts :: PublishArgs

text \<open>\<^verbatim>\<open>log.Fatalf\<close> ends the program: an error here.\<close>

definition NewPublisher :: "('x, 'd, 'm, 'c, 'f, 'h) build_env \<Rightarrow> PublishArgs \<Rightarrow> ('x, Publisher) io" where
  "NewPublisher be opts =
     io_bind
       (if pa_SubstituteFile opts \<noteq> [] then
          io_bind (io_wrap ''unable to read substitute-file:%s'' [pa_SubstituteFile opts] (os_ReadFile (pa_SubstituteFile opts))) (\<lambda>bytes.
          io_bind (io_wrap ''unable to unmarshal substitute-file:%s'' [pa_SubstituteFile opts] (io_res (be_SubstituteMap be bytes))) (\<lambda>yamlMap.
            io_ret (opts\<lparr>pa_Substitute := pa_Substitute opts @ map (\<lambda>(k, v). k @ ''='' @ v) yamlMap\<rparr>)))
        else io_ret opts) (\<lambda>opts.
       io_ret \<lparr>pu_stackerfiles = [], pu_opts = opts\<rparr>)"

section \<open>Destinations\<close>

definition dest_url :: "string \<Rightarrow> string \<Rightarrow> string \<Rightarrow> string \<Rightarrow> string res" where
  "dest_url ty url name layerTypeTag =
     (if ty = DockerLayer then Inr (strings_TrimRight url ''/'' @ ''/'' @ name @ '':'' @ layerTypeTag)
      else if ty = OCILayer then Inr (url @ '':'' @ name @ ''_'' @ layerTypeTag)
      else Inl (Errorf (''can'' @ [CHR 0x27] @ ''t save layers to destination type: %s'') [ty]))"

definition publish_copy :: "PublishArgs \<Rightarrow> string \<Rightarrow> string \<Rightarrow> ImageCopyOpts" where
  "publish_copy opts layerName destUrl =
     (copy_opts (''oci:'' @ sc_OCIDir (pa_Config opts) @ '':'' @ layerName) destUrl)
       \<lparr>ic_DestUsername := pa_Username opts, ic_DestPassword := pa_Password opts,
        ic_SrcSkipTLS := True, ic_DestSkipTLS := pa_SkipTLS opts\<rparr>"

section \<open>Publishing a file\<close>

definition publish_image ::
  "('x, 'm) oci_ops \<Rightarrow> PublishArgs \<Rightarrow> ImageSource \<Rightarrow> string \<Rightarrow> string \<Rightarrow> LayerType \<Rightarrow> ('x, unit) io" where
  "publish_image oc opts isrc name tag layerType =
     (let layerTypeTag = LayerName layerType tag; layerName = LayerName layerType name in
      io_bind (io_res (dest_url (is_Type isrc) (pa_Url opts) name layerTypeTag)) (\<lambda>destUrl.
        if pa_ShowOnly opts then io_ret ()
        else ImageCopy oc (publish_copy opts layerName destUrl)))"

definition publish_layer ::
  "('x, 'd, 'm, 'c, 'f, 'h) build_env \<Rightarrow> PublishArgs \<Rightarrow> ImageSource \<Rightarrow> BuildCache \<Rightarrow> Stackerfile \<Rightarrow> string \<Rightarrow> ('x, unit) io" where
  "publish_layer be opts isrc buildCache sf name =
     (case Stackerfile_Get sf name of
        None \<Rightarrow> io_err (Errorf ''layer cannot be found in stackerfile: %s'' [name])
      | Some l \<Rightarrow>
          if lay_BuildOnly l then io_ret ()
          else if 0 < length (pa_Images opts) \<and> name \<notin> set (pa_Images opts) then io_ret ()
          else
            io_bind io_get (\<lambda>w.
            io_bind (io_res (Lookup (be_stack be) (im_env (be_import be)) buildCache w name)) (\<lambda>hit.
              if hit = None \<and> \<not> pa_Force opts then
                io_err (Errorf ''layer needs to be rebuilt before publishing: %s'' [name])
              else
                io_each (\<lambda>tag. io_each (publish_image (be_oci be) opts isrc name tag) (pa_LayerTypes opts)) (pa_Tags opts))))"

definition publish_file :: "('x, 'd, 'm, 'c, 'f, 'h) build_env \<Rightarrow> Publisher \<Rightarrow> string \<Rightarrow> ('x, unit) io" where
  "publish_file be p file =
     (let opts = pu_opts p in
      io_bind io_get (\<lambda>w.
      let absPath = filepath_Abs (w_cwd w) file in
      case map_of (pu_stackerfiles p) absPath of
        None \<Rightarrow> io_err (Errorf ''could not find entry for %s(%s) in stackerfiles'' [absPath, file])
      | Some sf \<Rightarrow>
          io_bind (oc_OpenLayout (be_oci be) (sc_OCIDir (pa_Config opts))) (\<lambda>_.
          io_bind (OpenCache (im_env (be_import be)) (pa_Config opts) (pu_stackerfiles p)) (\<lambda>buildCache.
          if length (pa_Tags opts) = 0 then
            io_err (Errorf (''can'' @ [CHR 0x27] @ ''t save OCI images in %s since list of tags is empty'' @ [CHR 0x0A]) [file])
          else
            io_bind (io_res (NewImageSource (pa_Url opts))) (\<lambda>isrc.
              io_each (publish_layer be opts isrc buildCache sf) (sf_FileOrder sf))))))"

section \<open>Reading the files\<close>

text \<open>
  The text of an error, as \<^verbatim>\<open>Error()\<close> gives it: the format with its arguments (arguments that the
  model leaves out of an error print as nothing; \<^verbatim>\<open>%q\<close> puts its argument between quotes).
\<close>

fun fmt_Sprintf :: "string \<Rightarrow> string list \<Rightarrow> string" where
  "fmt_Sprintf [] args = []"
| "fmt_Sprintf (c # cs) args =
     (if c \<noteq> CHR ''%'' then c # fmt_Sprintf cs args
      else (case cs of
          [] \<Rightarrow> ''%!(NOVERB)''
        | v # cs' \<Rightarrow>
            if v = CHR ''%'' then v # fmt_Sprintf cs' args
            else (case args of
                [] \<Rightarrow> fmt_Sprintf cs' []
              | a # as \<Rightarrow> (if v = CHR ''q'' then [CHR 0x22] @ a @ [CHR 0x22] else a) @ fmt_Sprintf cs' as)))"

fun go_Error :: "go_error \<Rightarrow> string" where
  "go_Error (Errorf msg args) = fmt_Sprintf msg args"
| "go_Error (Wrapf e msg args) = (if msg = [] then go_Error e else fmt_Sprintf msg args @ '': '' @ go_Error e)"
| "go_Error (Ext msg) = msg"
| "go_Error (Panic msg) = msg"
| "go_Error (Unmodelled msg) = msg"

fun is_crash :: "go_error \<Rightarrow> bool" where
  "is_crash (Panic msg) = True"
| "is_crash (Unmodelled msg) = True"
| "is_crash (Wrapf e msg args) = is_crash e"
| "is_crash e = False"

text \<open>What the first group captures in the leftmost match.\<close>

definition re_FindGroup1 :: "regex \<Rightarrow> string \<Rightarrow> string option" where
  "re_FindGroup1 r s =
     (case re_find r s 0 of
        None \<Rightarrow> None
      | Some (_, _, caps) \<Rightarrow> (case map_of caps 1 of None \<Rightarrow> None | Some (i, j) \<Rightarrow> Some (take (j - i) (drop i s))))"

definition missing_re :: regex where
  "missing_re =
     (case regexp_Compile ''no value for substitution (.*)'' of Inr r \<Rightarrow> r | Inl _ \<Rightarrow> Eps)"

definition missing_name :: "go_error \<Rightarrow> string option" where
  "missing_name e = (if is_crash e then None else re_FindGroup1 missing_re (go_Error e))"

text \<open>A retry is a recursive call; the first number bounds the stack for them.\<close>

fun readStackerFiles ::
  "nat \<Rightarrow> nat \<Rightarrow> sf_env \<Rightarrow> PublishArgs \<Rightarrow> string list \<Rightarrow> (StackerFiles \<times> PublishArgs) res" where
  "readStackerFiles 0 n env opts paths = Inl (Panic ''stack overflow'')"
| "readStackerFiles (Suc k) n env opts paths =
     (case NewStackerFiles n env paths False (pa_Substitute opts @ Substitutions (pa_Config opts)) of
        Inr sfm \<Rightarrow> Inr (sfm, opts)
      | Inl e \<Rightarrow>
          (case missing_name e of
             None \<Rightarrow> Inl e
           | Some name \<Rightarrow>
               readStackerFiles k n env (opts\<lparr>pa_Substitute := pa_Substitute opts @ [name @ ''=dummy'']\<rparr>) paths))"

definition PublishMultiple :: "('x, 'd, 'm, 'c, 'f, 'h) build_env \<Rightarrow> Publisher \<Rightarrow> string list \<Rightarrow> ('x, Publisher) io" where
  "PublishMultiple be p paths =
     io_bind (os_Stat (sc_OCIDir (pa_Config (pu_opts p)))) (\<lambda>_.
     io_bind io_get (\<lambda>w.
     io_bind (io_res (readStackerFiles (be_stack be) (be_stack be) (files_in (be_files be) w) (pu_opts p) paths)) (\<lambda>(sfm, opts).
     let p' = \<lparr>pu_stackerfiles = sfm, pu_opts = opts\<rparr> in
     io_bind (io_each (publish_file be p') paths) (\<lambda>_. io_ret p'))))"

end
