(* ===== verification/Cli.thy ===== *)
theory Cli
  imports Publish Convert
begin

text \<open>
  The commands that build, publish and convert: \<^verbatim>\<open>build.go\<close>, \<^verbatim>\<open>recursive-build.go\<close>, \<^verbatim>\<open>publish.go\<close>,
  \<^verbatim>\<open>convert.go\<close> and \<^verbatim>\<open>validate.go\<close> in \<^verbatim>\<open>cmd/stacker\<close>. The command line is parsed by urfave/cli; what its
  context answers is the record \<open>cli_ctx\<close>, an argument. The flags that the commands declare are data.
\<close>

section \<open>Contexts and flags\<close>

record cli_ctx =
  cx_Bool :: "string \<Rightarrow> bool"
  cx_String :: "string \<Rightarrow> string"
  cx_StringSlice :: "string \<Rightarrow> string list"
  cx_IsSet :: "string \<Rightarrow> bool"
  cx_Args :: "string list"

text \<open>An argument, empty when there are not so many; what a flag reads as after \<^verbatim>\<open>ctx.Set\<close>.\<close>

definition cx_Arg :: "cli_ctx \<Rightarrow> nat \<Rightarrow> string" where
  "cx_Arg ctx i = (if i < length (cx_Args ctx) then cx_Args ctx ! i else [])"

definition cx_Set :: "string \<Rightarrow> string \<Rightarrow> cli_ctx \<Rightarrow> cli_ctx" where
  "cx_Set name v ctx = ctx\<lparr>cx_String := (cx_String ctx)(name := v), cx_IsSet := (cx_IsSet ctx)(name := True)\<rparr>"

text \<open>A flag: its name, its other names, and what it reads as when it is not given.\<close>

datatype flag_value = BoolFlag | StringFlag string | StringSliceFlag "string list"

record flag =
  fl_Name :: string
  fl_Aliases :: "string list"
  fl_Value :: flag_value

definition bool_flag :: "string \<Rightarrow> flag" where
  "bool_flag name = \<lparr>fl_Name = name, fl_Aliases = [], fl_Value = BoolFlag\<rparr>"

definition string_flag :: "string \<Rightarrow> string \<Rightarrow> flag" where
  "string_flag name v = \<lparr>fl_Name = name, fl_Aliases = [], fl_Value = StringFlag v\<rparr>"

definition slice_flag :: "string \<Rightarrow> string list \<Rightarrow> flag" where
  "slice_flag name vs = \<lparr>fl_Name = name, fl_Aliases = [], fl_Value = StringSliceFlag vs\<rparr>"

definition with_aliases :: "string list \<Rightarrow> flag \<Rightarrow> flag" where
  "with_aliases names f = f\<lparr>fl_Aliases := names\<rparr>"

definition initCommonBuildFlags :: "flag list" where
  "initCommonBuildFlags =
     [bool_flag ''no-cache'', slice_flag ''substitute'' [], string_flag ''substitute-file'' [], string_flag ''on-run-failure'' [],
      bool_flag ''shell-fail'', slice_flag ''layer-type'' [''tar''], with_aliases [''no-squashfs-verity''] (bool_flag ''no-verity''),
      bool_flag ''require-hash'', bool_flag ''order-only'', string_flag ''annotations-namespace'' ''io.stackeroci'']"

definition initBuildFlags :: "flag list" where
  "initBuildFlags = initCommonBuildFlags @ [with_aliases [''f''] (string_flag ''stacker-file'' ''stacker.yaml'')]"

definition stackerFilePathRegex :: string where
  "stackerFilePathRegex = [CHR 0x5C] @ ''/stacker.yaml$''"

definition initRecursiveBuildFlags :: "flag list" where
  "initRecursiveBuildFlags =
     initCommonBuildFlags @
     [with_aliases [''p''] (string_flag ''stacker-file-pattern'' stackerFilePathRegex), with_aliases [''d''] (string_flag ''search-dir'' ''.'')]"

definition publish_flags :: "flag list" where
  "publish_flags =
     [with_aliases [''f''] (string_flag ''stacker-file'' ''stacker.yaml''), with_aliases [''p''] (string_flag ''stacker-file-pattern'' stackerFilePathRegex),
      string_flag ''substitute-file'' [], with_aliases [''d''] (string_flag ''search-dir'' []), string_flag ''url'' [],
      string_flag ''username'' [], string_flag ''password'' [], bool_flag ''skip-tls'', slice_flag ''tag'' [],
      slice_flag ''substitute'' [], bool_flag ''show-only'', bool_flag ''force'', slice_flag ''layer-type'' [''tar''],
      slice_flag ''image'' []]"

definition initConvertFlags :: "flag list" where
  "initConvertFlags =
     [with_aliases [''i''] (string_flag ''docker-file'' ''Dockerfile''), with_aliases [''o''] (string_flag ''output-file'' ''stacker.yaml''),
      with_aliases [''s''] (string_flag ''substitute-file'' ''stacker-subs.yaml'')]"

section \<open>Validation\<close>

definition validateRootsDirName :: "string \<Rightarrow> unit res" where
  "validateRootsDirName rootsDir =
     (if strings_Contains rootsDir '':'' then
        Inl (Errorf (''using '' @ [CHR 0x27] @ '':'' @ [CHR 0x27] @
          '' in the name of --roots-dir (%s) is forbidden due to overlay constraints'') [rootsDir])
      else Inr ())"

definition validateBuildFailureFlags :: "cli_ctx \<Rightarrow> cli_ctx res" where
  "validateBuildFailureFlags ctx =
     (if cx_Bool ctx ''shell-fail'' then
        (let askedFor = cx_String ctx ''on-run-failure'' in
         if askedFor \<noteq> [] \<and> askedFor \<noteq> DefaultShell then
           Inl (Errorf ''--shell-fail is incompatible with --on-run-failure=%s'' [askedFor])
         else Inr (cx_Set ''on-run-failure'' DefaultShell ctx))
      else Inr ctx)"

definition validateLayerTypeFlags :: "cli_ctx \<Rightarrow> unit res" where
  "validateLayerTypeFlags ctx =
     (let layerTypes = cx_StringSlice ctx ''layer-type'' in
      if length layerTypes = 0 then Inl (Errorf ''must specify at least one output --layer-type'' [])
      else rcheck (\<lambda>layerType.
        if layerType = ''tar'' then Inr ()
        else if layerType = ''squashfs'' then Inr ()
        else if layerType = ''erofs'' then Inr ()
        else Inl (Errorf ''unknown layer type: %s'' [layerType])) layerTypes)"

definition validateFileSearchFlags :: "cli_ctx \<Rightarrow> ('x, cli_ctx) io" where
  "validateFileSearchFlags ctx =
     io_bind io_get (\<lambda>w.
     let ctx = (if cx_String ctx ''search-dir'' = ''.'' then cx_Set ''search-dir'' (w_cwd w) ctx else ctx) in
     io_bind (os_Lstat (cx_String ctx ''search-dir'')) (\<lambda>_.
     io_bind (io_res (regexp_Compile (cx_String ctx ''stacker-file-pattern''))) (\<lambda>_.
       io_ret ctx)))"

section \<open>Building\<close>

definition shouldShowProgress :: "bool \<Rightarrow> cli_ctx \<Rightarrow> bool" where
  "shouldShowProgress isTerminal ctx =
     (if cx_Bool ctx ''no-progress'' then False else if cx_Bool ctx ''progress'' then True else isTerminal)"

definition beforeBuild :: "cli_ctx \<Rightarrow> ('x, cli_ctx) io" where
  "beforeBuild ctx =
     io_bind (io_res (validateBuildFailureFlags ctx)) (\<lambda>ctx.
     io_bind (io_res (validateLayerTypeFlags ctx)) (\<lambda>_.
       io_ret ctx))"

definition newBuildArgs :: "StackerConfig \<Rightarrow> cli_ctx \<Rightarrow> BuildArgs res" where
  "newBuildArgs config ctx =
     rbind (NewLayerTypes (cx_StringSlice ctx ''layer-type'') (\<not> cx_Bool ctx ''no-verity'')) (\<lambda>layerTypes.
       Inr \<lparr>ba_Config = config, ba_NoCache = cx_Bool ctx ''no-cache'', ba_SubstituteFile = cx_String ctx ''substitute-file'',
         ba_Substitute = cx_StringSlice ctx ''substitute'', ba_OnRunFailure = cx_String ctx ''on-run-failure'',
         ba_LayerTypes = layerTypes, ba_OrderOnly = cx_Bool ctx ''order-only'', ba_HashRequired = cx_Bool ctx ''require-hash'',
         ba_SetupOnly = False, ba_AnnotationsNamespace = cx_String ctx ''annotations-namespace''\<rparr>)"

definition doBuild ::
  "('x, 'd, 'm, 'c, 'f, 'h) build_env \<Rightarrow> ('g, 'n, Stackerfile) graph_ops \<Rightarrow> StackerConfig \<Rightarrow> cli_ctx \<Rightarrow> ('x, unit) io" where
  "doBuild be dag config ctx =
     io_bind (io_res (newBuildArgs config ctx)) (\<lambda>args.
     io_bind (NewBuilder be args) (\<lambda>builder.
     io_bind (BuildMultiple be dag builder [cx_String ctx ''stacker-file'']) (\<lambda>_. io_ret ())))"

definition beforeRecursiveBuild :: "cli_ctx \<Rightarrow> ('x, cli_ctx) io" where
  "beforeRecursiveBuild ctx =
     io_bind (io_res (validateBuildFailureFlags ctx)) (\<lambda>ctx.
     io_bind (io_res (validateLayerTypeFlags ctx)) (\<lambda>_.
       validateFileSearchFlags ctx))"

definition doRecursiveBuild ::
  "('x, 'd, 'm, 'c, 'f, 'h) build_env \<Rightarrow> ('g, 'n, Stackerfile) graph_ops \<Rightarrow> StackerConfig \<Rightarrow> cli_ctx \<Rightarrow> ('x, unit) io" where
  "doRecursiveBuild be dag config ctx =
     io_bind (io_res (newBuildArgs config ctx)) (\<lambda>args.
     io_bind (FindFiles (cx_String ctx ''search-dir'') (cx_String ctx ''stacker-file-pattern'')) (\<lambda>stackerFiles.
     io_bind (NewBuilder be args) (\<lambda>builder.
     io_bind (BuildMultiple be dag builder stackerFiles) (\<lambda>_. io_ret ()))))"

section \<open>Publishing and converting\<close>

definition beforePublish :: "cli_ctx \<Rightarrow> ('x, cli_ctx) io" where
  "beforePublish ctx =
     io_bind (if length (cx_String ctx ''search-dir'') \<noteq> 0 then validateFileSearchFlags ctx else io_ret ctx) (\<lambda>ctx.
       let username = cx_String ctx ''username''; password = cx_String ctx ''password'' in
       if (username = []) \<noteq> (password = []) then
         io_err (Errorf (''supply both username and password, or none of them, current values: '' @
           [CHR 0x27] @ ''%s'' @ [CHR 0x27] @ '' '' @ [CHR 0x27] @ ''%s'' @ [CHR 0x27]) [username, password])
       else if length (cx_String ctx ''url'') = 0 then
         io_err (Errorf ''--url is a mandatory argument for publishing'' [])
       else io_ret ctx)"

definition newPublishArgs :: "StackerConfig \<Rightarrow> cli_ctx \<Rightarrow> PublishArgs res" where
  "newPublishArgs config ctx =
     rbind (NewLayerTypes (cx_StringSlice ctx ''layer-type'') (\<not> cx_Bool ctx ''no-verity'')) (\<lambda>layerTypes.
       Inr \<lparr>pa_Config = config, pa_ShowOnly = cx_Bool ctx ''show-only'', pa_SubstituteFile = cx_String ctx ''substitute-file'',
         pa_Substitute = cx_StringSlice ctx ''substitute'', pa_Tags = cx_StringSlice ctx ''tag'', pa_Url = cx_String ctx ''url'',
         pa_Username = cx_String ctx ''username'', pa_Password = cx_String ctx ''password'', pa_Force = cx_Bool ctx ''force'',
         pa_SkipTLS = cx_Bool ctx ''skip-tls'', pa_LayerTypes = layerTypes, pa_Images = cx_StringSlice ctx ''image''\<rparr>)"

definition doPublish :: "('x, 'd, 'm, 'c, 'f, 'h) build_env \<Rightarrow> StackerConfig \<Rightarrow> cli_ctx \<Rightarrow> ('x, unit) io" where
  "doPublish be config ctx =
     io_bind (io_res (newPublishArgs config ctx)) (\<lambda>args.
     io_bind (if 0 < length (cx_String ctx ''search-dir'')
         then FindFiles (cx_String ctx ''search-dir'') (cx_String ctx ''stacker-file-pattern'')
         else io_ret [cx_String ctx ''stacker-file'']) (\<lambda>stackerFiles.
     io_bind (NewPublisher be args) (\<lambda>publisher.
     io_bind (PublishMultiple be publisher stackerFiles) (\<lambda>_. io_ret ()))))"

definition newConvertArgs :: "cli_ctx \<Rightarrow> ConvertArgs" where
  "newConvertArgs ctx =
     \<lparr>ca_InputFile = cx_String ctx ''docker-file'', ca_OutputFile = cx_String ctx ''output-file'',
      ca_SubstituteFile = cx_String ctx ''substitute-file''\<rparr>"

text \<open>\<^verbatim>\<open>log.Fatalf\<close> ends the program with status 1, as the error that is returned here does.\<close>

definition doConvert :: "'x convert_env \<Rightarrow> cli_ctx \<Rightarrow> ('x, unit) io" where
  "doConvert cv ctx = io_wrap ''conversion failed: %e'' [] (Convert cv (newConvertArgs ctx))"

end
