(* ===== verification/Commands.thy ===== *)
theory Commands
  imports Build
begin

text \<open>
  The other commands of \<^verbatim>\<open>cmd/stacker\<close>: \<^verbatim>\<open>check.go\<close>, \<^verbatim>\<open>chroot.go\<close>, \<^verbatim>\<open>clean.go\<close>, \<^verbatim>\<open>gc.go\<close>, \<^verbatim>\<open>grab.go\<close>,
  \<^verbatim>\<open>inspect.go\<close>, \<^verbatim>\<open>internal_go.go\<close> and \<^verbatim>\<open>unpriv-setup.go\<close>, with \<^verbatim>\<open>pkg/stacker/check.go\<close>. Their arguments
  are those the command line gives; \<open>arg args i\<close> is \<^verbatim>\<open>ctx.Args().Get(i)\<close>. What only they call of the
  outside is the record \<open>tool_ops\<close>. An action returns \<^term>\<open>Some n\<close> when it ends the program with status \<open>n\<close>.
\<close>

section \<open>Parameters\<close>

record 'x tool_ops =
  tl_Uname :: "(string \<times> string \<times> string) res"
  tl_LookPath :: "string \<Rightarrow> string res"
  tl_XattrList :: "string \<Rightarrow> ('x, string list) io"
  tl_Gettid :: int
  tl_Mount :: "string \<Rightarrow> string \<Rightarrow> string \<Rightarrow> ('x, unit) io"
  tl_Umount :: "string \<Rightarrow> ('x, unit) io"
  tl_ListReferences :: "string \<Rightarrow> ('x, string list) io"
  tl_FromDescriptor :: "string \<Rightarrow> Descriptor \<Rightarrow> ('x, string \<times> Image) io"
  tl_HumanBytes :: "int \<Rightarrow> string"
  tl_MarshalIndent :: "Image \<Rightarrow> string res"
  tl_MediaTypeImageConfig :: string

definition arg :: "string list \<Rightarrow> nat \<Rightarrow> string" where
  "arg args i = (if i < length args then args ! i else [])"

definition wrong_args :: go_error where
  "wrong_args = Errorf ''wrong number of args'' []"

text \<open>\<open>io_defer\<close> of \<^verbatim>\<open>locks.Unlock()\<close>, which has no result.\<close>

definition with_storage ::
  "('x, 'd, 'm, 'c, 'f, 'h) build_env \<Rightarrow> StackerConfig \<Rightarrow> ('x storage \<Rightarrow> ('x, 'a) io) \<Rightarrow> ('x, 'a) io" where
  "with_storage be config body =
     io_bind (NewStorage (be_oci be) (be_lock be) (ho_tmpdir (be_host be)) config) (\<lambda>(o', locks).
       io_defer (io_bind (Unlock (be_lock be) locks) (\<lambda>_. io_ret ())) (body (be_storage be o')))"

section \<open>Checking the host\<close>

definition KernelInfo :: "'x tool_ops \<Rightarrow> string res" where
  "KernelInfo tool = rbind (tl_Uname tool) (\<lambda>(sysname, release, version). Inr (sysname @ '' '' @ release @ '' '' @ version))"

definition fstypeMap :: "(int \<times> string) list" where
  "fstypeMap =
     [(0xadf5, ''ADFS''), (0xadff, ''AFFS''), (0x5346414F, ''AFS''), (0x0187, ''AUTOFS''), (0x73757245, ''CODA''),
      (0x28cd3d45, ''CRAMFS''), (0x453dcd28, ''CRAMFS_WEND''), (0x64626720, ''DEBUGFS''), (0x73636673, ''SECURITYFS''),
      (0xf97cff8c, ''SELINUX''), (0x43415d53, ''SMACK''), (0x858458f6, ''RAMFS''), (0x01021994, ''TMPFS''),
      (0x958458f6, ''HUGETLBFS''), (0x73717368, ''SQUASHFS''), (0xf15f, ''ECRYPTFS''), (0x414A53, ''EFS''),
      (0xE0F5E1E2, ''EROFS_V1''), (0xEF53, ''EXT2''), (0xabba1974, ''XENFS''), (0x9123683E, ''BTRFS''),
      (0x3434, ''NILFS''), (0xF2F52010, ''F2FS''), (0xf995e849, ''HPFS''), (0x9660, ''ISOFS''), (0x72b6, ''JFFS2''),
      (0x58465342, ''XFS''), (0x6165676C, ''PSTOREFS''), (0xde5e81e4, ''EFIVARFS''), (0x00c0ffee, ''HOSTFS''),
      (0x794c7630, ''OVERLAYFS''), (0x137F, ''MINIX''), (0x138F, ''MINIX2''), (0x2468, ''MINIX2''), (0x2478, ''MINIX22''),
      (0x4d5a, ''MINIX3''), (0x4d44, ''MSDOS''), (0x564c, ''NCP''), (0x6969, ''NFS''), (0x7461636f, ''OCFS2''),
      (0x9fa1, ''OPENPROM''), (0x002f, ''QNX4''), (0x68191122, ''QNX6''), (0x6B414653, ''AFS_FS''),
      (0x52654973, ''REISERFS''), (0x517B, ''SMB''), (0x27e0eb, ''CGROUP''), (0x63677270, ''CGROUP2''),
      (0x7655821, ''RDTGROUP''), (0x57AC6E9D, ''STACK_END''), (0x74726163, ''TRACEFS''), (0x01021997, ''V9FS''),
      (0x62646576, ''BDEVFS''), (0x64646178, ''DAXFS''), (0x42494e4d, ''BINFMTFS''), (0x1cd1, ''DEVPTS''),
      (0x6c6f6f70, ''BINDERFS''), (0xBAD1DEA, ''FUTEXFS''), (0x50495045, ''PIPEFS''), (0x9fa0, ''PROC''),
      (0x534F434B, ''SOCKFS''), (0x62656572, ''SYSFS''), (0x9fa2, ''USBDEVICE''), (0x11307854, ''MTD_INODE_FS''),
      (0x09041934, ''ANON_INODE_FS''), (0x73727279, ''BTRFS_TEST''), (0x6e736673, ''NSFS''), (0xcafe4a11, ''BPF_FS''),
      (0x5a3c69f0, ''AAFS''), (0x5a4f4653, ''ZONEFS''), (0x15013346, ''UDF''), (0x13661366, ''BALLOON_KVM''),
      (0x58295829, ''ZSMALLOC''), (0x444d4142, ''DMA_BUF''), (0x454d444d, ''DEVMEM''), (0x33, ''Z3FOLD''),
      (0xc7571590, ''PPC_CMM''), (0x5345434d, ''SECRETMEM''), (0x6a656a62, ''SHIFTFS'')]"

definition fstype_name :: "int \<Rightarrow> string" where
  "fstype_name ty = (case map_of fstypeMap ty of Some fstype \<Rightarrow> fstype | None \<Rightarrow> ''unknown'')"

definition MountInfo :: "('x, 'm) oci_ops \<Rightarrow> string \<Rightarrow> ('x, string) io" where
  "MountInfo oc p =
     io_bind (sy_Statfs_Type oc p) (\<lambda>ty. io_ret (fstype_name ty @ ''('' @ fmt_x ty @ '')''))"

definition checkForCap :: "'x tool_ops \<Rightarrow> string \<Rightarrow> string \<Rightarrow> ('x, unit) io" where
  "checkForCap tool f cap =
     io_bind (io_try (tl_XattrList tool f)) (\<lambda>r.
       case r of
         Inl _ \<Rightarrow> io_err (Errorf ''could not read caps of %s'' [f])
       | Inr caps \<Rightarrow> if cap \<in> set caps then io_ret () else io_err (Errorf ''no security cap'' []))"

text \<open>Bit 23 of a \<^verbatim>\<open>FileMode\<close> is \<^verbatim>\<open>ModeSetuid\<close>; the permission bits that \<^verbatim>\<open>0111\<close> selects are 0, 3 and 6.\<close>

definition verifyNewUIDMap :: "'x tool_ops \<Rightarrow> ('x, unit) io" where
  "verifyNewUIDMap tool =
     io_bind (io_wrap ''newuidmap not found in path'' [] (io_res (tl_LookPath tool ''newuidmap''))) (\<lambda>binFile.
     io_bind (io_wrap (couldnt ''stat file: %s'') [binFile] (os_Stat binFile)) (\<lambda>fileInfo.
       if \<not> (mode_bit (node_Mode fileInfo) 0 \<or> mode_bit (node_Mode fileInfo) 3 \<or> mode_bit (node_Mode fileInfo) 6) then
         io_err (Errorf ''%s is not executable'' [binFile])
       else if mode_bit (node_Mode fileInfo) 23 then io_ret ()
       else io_wrap ''%s does not have either setuid-root or security caps'' [binFile]
              (checkForCap tool binFile ''security.capability'')))"

definition doCheck :: "'x tool_ops \<Rightarrow> ('x, 'm) oci_ops \<Rightarrow> string \<Rightarrow> StackerConfig \<Rightarrow> ('x, unit) io" where
  "doCheck tool oc tmpdir config =
     io_bind (io_wrap (couldnt ''get kernel info'') [] (io_res (KernelInfo tool))) (\<lambda>kernel.
     io_bind (io_wrap (couldnt ''create rootfs dir for testing'') [] (os_MkdirAll (sc_RootFSDir config) 448)) (\<lambda>_.
     io_bind (io_wrap ''%s: unable to evaluate path for symlinks'' [sc_RootFSDir config]
       (filepath_EvalSymlinks (sc_RootFSDir config))) (\<lambda>evalp.
       if evalp \<noteq> sc_RootFSDir config then
         io_err (Errorf ''%s: roots dir (--roots-dir) path uses symbolic links, use %q instead'' [sc_RootFSDir config, evalp])
       else
         io_bind (io_wrap (''%s: '' @ couldnt ''get fs type'') [sc_RootFSDir config] (MountInfo oc (sc_RootFSDir config))) (\<lambda>fstype.
           if fstype = ''NFS(6969)'' then
             io_err (Errorf ''roots dir (--roots-dir) path %s is not supported on NFS.'' [sc_RootFSDir config])
           else
             io_bind (verifyNewUIDMap tool) (\<lambda>_.
               if sc_StorageType config = ''overlay'' then overlay_Check oc tmpdir config
               else io_err (Errorf ''invalid storage type %v'' [sc_StorageType config]))))))"

section \<open>Running a command in a layer\<close>

definition doChroot ::
  "('x, 'd, 'm, 'c, 'f, 'h) build_env \<Rightarrow> StackerConfig \<Rightarrow> string \<Rightarrow> string list \<Rightarrow> string list \<Rightarrow> ('x, unit) io" where
  "doChroot be config file substitutions args =
     with_storage be config (\<lambda>s.
       let tag = arg args 0; cmd = [if 1 < length args then arg args 1 else DefaultShell] in
       io_bind (io_try (os_Stat file)) (\<lambda>st.
         case st of
           Inl e \<Rightarrow>
             if \<not> os_IsNotExist e then io_err (Wrapf e (couldnt ''access %s'') [file])
             else io_bind (container_New (be_host be) config tag) (\<lambda>c.
                    io_defer (container_Close (be_host be) c) (Execute (be_host be) c cmd True))
         | Inr _ \<Rightarrow>
             io_bind io_get (\<lambda>w.
             io_bind (io_res (NewStackerfile (files_in (be_files be) w) file False substitutions)) (\<lambda>sf.
             io_bind (if tag = [] then
                        (case sf_FileOrder sf of
                           [] \<Rightarrow> io_err (Panic ''index out of range [0] with length 0'')
                         | first # _ \<Rightarrow> io_ret first)
                      else io_ret tag) (\<lambda>tag.
             case Stackerfile_Get sf tag of
               None \<Rightarrow> io_err (Errorf ''no layer %s in stackerfile'' [tag])
             | Some layer \<Rightarrow>
                 io_bind (st_TemporaryWritableSnapshot s tag) (\<lambda>(name, cleanup).
                 io_defer cleanup
                   (io_bind (container_New (be_host be) config name) (\<lambda>c.
                    io_defer (container_Close (be_host be) c)
                      (io_bind (SetupBuildContainerConfig (be_host be) config (st_GetLXCRootfsConfig s) c InternalStackerDir name) (\<lambda>_.
                       io_bind (SetupLayerConfig (be_host be) config c layer InternalStackerDir name) (\<lambda>_.
                         Execute (be_host be) c cmd True)))))))))))"

section \<open>Cleaning up\<close>

text \<open>The storage is cleaned under its locks; a failure to clean is remembered, the rest goes on.\<close>

definition clean_roots :: "('x, 'd, 'm, 'c, 'f, 'h) build_env \<Rightarrow> StackerConfig \<Rightarrow> ('x, bool) io" where
  "clean_roots be config =
     io_bind (io_try (os_Stat (sc_RootFSDir config))) (\<lambda>st.
       if (case st of Inl e \<Rightarrow> os_IsNotExist e | Inr _ \<Rightarrow> False) then io_ret False
       else
         io_bind (NewStorage (be_oci be) (be_lock be) (ho_tmpdir (be_host be)) config) (\<lambda>(o', locks).
         io_bind (io_try (st_Clean (be_storage be o'))) (\<lambda>r.
         io_bind (Unlock (be_lock be) locks) (\<lambda>_.
           io_ret (\<not> is_ok r)))))"

definition doClean :: "('x, 'd, 'm, 'c, 'f, 'h) build_env \<Rightarrow> StackerConfig \<Rightarrow> ('x, unit) io" where
  "doClean be config =
     io_bind (clean_roots be config) (\<lambda>fail.
     io_bind (io_try (os_RemoveAll (sc_OCIDir config))) (\<lambda>r.
     let fail = (fail \<or> \<not> is_ok r) in
     io_bind (io_try (os_RemoveAll (sc_StackerDir config))) (\<lambda>r.
     let fail = (fail \<or> (case r of Inl e \<Rightarrow> \<not> os_IsNotExist e | Inr _ \<Rightarrow> False)) in
       if fail then io_err (Errorf ''cleaning failed'' []) else io_ret ())))"

definition doGC :: "('x, 'd, 'm, 'c, 'f, 'h) build_env \<Rightarrow> StackerConfig \<Rightarrow> ('x, unit) io" where
  "doGC be config = with_storage be config st_GC"

section \<open>Looking into images\<close>

definition doGrab :: "('x, 'd, 'm, 'c, 'f, 'h) build_env \<Rightarrow> StackerConfig \<Rightarrow> string list \<Rightarrow> ('x, unit) io" where
  "doGrab be config args =
     with_storage be config (\<lambda>s.
       case strings_SplitN (arg args 0) '':'' 2 of
         [tag, path] \<Rightarrow>
           io_bind (st_TemporaryWritableSnapshot s tag) (\<lambda>(name, cleanup).
           io_defer cleanup
             (io_bind io_get (\<lambda>w.
                Grab (be_host be) config (st_GetLXCRootfsConfig s) name path (w_cwd w) [] None (-1) (-1))))
       | _ \<Rightarrow> io_err (Errorf ''invalid grab argument: %s'' [arg args 0]))"

definition line :: "string \<Rightarrow> string" where
  "line s = s @ [CHR 0x0A]"

text \<open>What is printed of a layer; the first 12 characters of its digest must be there.\<close>

definition layer_line :: "('x, 'm) oci_ops \<Rightarrow> 'x tool_ops \<Rightarrow> nat \<times> Descriptor \<Rightarrow> string res" where
  "layer_line oc tool il =
     (case il of (i, l) \<Rightarrow>
        rbind (oc_Encoded oc (desc_Digest l)) (\<lambda>digest.
          if length digest < 12 then Inl (Panic ''slice bounds out of range'')
          else Inr (line (CHR 0x09 # ''layer '' @ digits 10 i @ '': '' @ take 12 digest @ ''... ('' @ tl_HumanBytes tool (desc_Size l) @
                 '', '' @ desc_MediaType l @ '')''))))"

definition renderManifest :: "('x, 'm) oci_ops \<Rightarrow> 'x tool_ops \<Rightarrow> string \<Rightarrow> string \<Rightarrow> ('x, string) io" where
  "renderManifest oc tool oci name =
     io_bind (oc_LookupManifest oc oci name) (\<lambda>man.
     io_bind (io_res (rmap (layer_line oc tool) (List.enumerate 0 (man_Layers man)))) (\<lambda>layers.
     let annotations = (if man_Annotations man \<noteq> [] then
           line ''Annotations:'' @ concat (map (\<lambda>(k, v). line (''  '' @ k @ '': '' @ v)) (man_Annotations man)) else []) in
     io_bind (tl_FromDescriptor tool oci (man_Config man)) (\<lambda>(mediaType, config).
       if mediaType \<noteq> tl_MediaTypeImageConfig tool then io_err (Errorf ''bad image config type: %s'' [mediaType])
       else io_bind (io_res (tl_MarshalIndent tool config)) (\<lambda>pretty.
         io_ret (line name @ concat layers @ annotations @ line ''Image config:'' @ line pretty)))))"

definition doInspect :: "('x, 'm) oci_ops \<Rightarrow> 'x tool_ops \<Rightarrow> StackerConfig \<Rightarrow> string list \<Rightarrow> ('x, string) io" where
  "doInspect oc tool config args =
     io_bind (oc_OpenLayout oc (sc_OCIDir config)) (\<lambda>_.
       if arg args 0 \<noteq> [] then renderManifest oc tool (sc_OCIDir config) (arg args 0)
       else
         io_bind (tl_ListReferences tool (sc_OCIDir config)) (\<lambda>tags.
           io_fold (\<lambda>out t. io_bind (renderManifest oc tool (sc_OCIDir config) t) (\<lambda>text. io_ret (out @ text))) [] tags))"

section \<open>Commands for stacker itself\<close>

text \<open>\<open>n\<close> bounds the depth of the directories that are copied.\<close>

definition doCP :: "nat \<Rightarrow> string list \<Rightarrow> ('x, unit) io" where
  "doCP n args = (if length args \<noteq> 2 then io_err wrong_args else CopyThing n (arg args 0) (arg args 1))"

definition doChmod :: "string list \<Rightarrow> ('x, unit) io" where
  "doChmod args = (if length args \<noteq> 2 then io_err wrong_args else lib_Chmod (arg args 0) (arg args 1))"

definition doChown :: "string list \<Rightarrow> ('x, unit) io" where
  "doChown args = (if length args \<noteq> 2 then io_err wrong_args else lib_Chown (arg args 0) (arg args 1))"

definition doImageCopy :: "('x, 'm) oci_ops \<Rightarrow> string list \<Rightarrow> ('x, unit) io" where
  "doImageCopy oc args =
     (if length args \<noteq> 2 then io_err wrong_args else ImageCopy oc (copy_opts (arg args 0) (arg args 1)))"

definition doTestsuiteCheckOverlay :: "('x, 'm) oci_ops \<Rightarrow> string \<Rightarrow> StackerConfig \<Rightarrow> ('x, int option) io" where
  "doTestsuiteCheckOverlay oc tmpdir config =
     io_bind (io_wrap (couldnt ''make rootfs dir for testsuite check'') [] (os_MkdirAll (sc_RootFSDir config) 493)) (\<lambda>_.
     io_bind (io_try (overlay_Check oc tmpdir config)) (\<lambda>r.
       io_ret (case r of Inl _ \<Rightarrow> Some 50 | Inr _ \<Rightarrow> None)))"

definition doCheckAAProfile :: "'x tool_ops \<Rightarrow> string list \<Rightarrow> ('x, int option) io" where
  "doCheckAAProfile tool args =
     (let toCheck = arg args 0;
          aaControlFile = ''/proc/'' @ fmt_d (tl_Gettid tool) @ ''/attr/current'' in
      io_bind (io_try (os_WriteFile aaControlFile (''changeprofile '' @ toCheck) 0)) (\<lambda>r.
        case r of
          Inl e \<Rightarrow> if os_IsNotExist e then io_ret (Some 52) else WithStack (io_err e)
        | Inr _ \<Rightarrow>
            io_bind (WithStack (os_ReadFile aaControlFile)) (\<lambda>content.
              if strings_TrimSpace content \<noteq> toCheck @ '' (enforce)'' then
                io_err (Errorf ''profile mismatch got %s expected %s'' [content, toCheck])
              else io_ret None)))"

definition doAtomfsMount :: "'x tool_ops \<Rightarrow> StackerConfig \<Rightarrow> string list \<Rightarrow> ('x, unit) io" where
  "doAtomfsMount tool config args =
     (if length args \<noteq> 2 then io_err (Errorf ''wrong number of args for mount'' [])
      else tl_Mount tool (sc_OCIDir config) (arg args 0) (arg args 1))"

definition doAtomfsUmount :: "'x tool_ops \<Rightarrow> string list \<Rightarrow> ('x, unit) io" where
  "doAtomfsUmount tool args =
     (if length args \<noteq> 1 then io_err (Errorf ''wrong number of args for umount'' []) else tl_Umount tool (arg args 0))"

text \<open>Which of them runs, by the arguments of \<^verbatim>\<open>internal-go\<close>; for any others the library prints its help.\<close>

definition internal_go ::
  "nat \<Rightarrow> ('x, 'm) oci_ops \<Rightarrow> 'x tool_ops \<Rightarrow> string \<Rightarrow> StackerConfig \<Rightarrow> string list \<Rightarrow> ('x, int option) io option" where
  "internal_go n oc tool tmpdir config args =
     (let ok = (\<lambda>m. Some (io_bind m (\<lambda>_. io_ret None))) in
      if arg args 0 = ''cp'' then ok (doCP n (drop 1 args))
      else if arg args 0 = ''chmod'' then ok (doChmod (drop 1 args))
      else if arg args 0 = ''chown'' then ok (doChown (drop 1 args))
      else if arg args 0 = ''check-aa-profile'' then Some (doCheckAAProfile tool (drop 1 args))
      else if arg args 0 = ''testsuite-check-overlay'' then Some (doTestsuiteCheckOverlay oc tmpdir config)
      else if arg args 0 = ''copy'' then ok (doImageCopy oc (drop 1 args))
      else if arg args 0 = ''atomfs'' \<and> arg args 1 = ''mount'' then ok (doAtomfsMount tool config (drop 2 args))
      else if arg args 0 = ''atomfs'' \<and> arg args 1 = ''umount'' then ok (doAtomfsUmount tool (drop 2 args))
      else None)"

section \<open>Preparing the host for a user\<close>

definition beforeUnprivSetup :: "string \<Rightarrow> string \<Rightarrow> string \<Rightarrow> unit res" where
  "beforeUnprivSetup uid gid username =
     (if uid = [] then Inl (Errorf ''please specify --uid or run unpriv-setup with sudo'' [])
      else if gid = [] then Inl (Errorf ''please specify --gid or run unpriv-setup with sudo'' [])
      else if username = [] then Inl (Errorf ''please specify --username or run unpriv-setup with sudo'' [])
      else Inr ())"

text \<open>\<^verbatim>\<open>os.Chown\<close> follows links; the owners of directories are not part of the file system.\<close>

definition os_Chown :: "string \<Rightarrow> int \<Rightarrow> int \<Rightarrow> ('x, unit) io" where
  "os_Chown p uid gid w =
     (case follow 41 (w_fs w) (w_key w p) of
        Inl e \<Rightarrow> (Inl e, w)
      | Inr k \<Rightarrow> (case lnode (w_fs w) k of
            None \<Rightarrow> (Inl ENOENT, w)
          | Some (File c perm (u, g)) \<Rightarrow>
              (Inr (), w\<lparr>w_fs := set_node k (File c perm (if uid = -1 then u else uid, if gid = -1 then g else gid)) (w_fs w)\<rparr>)
          | Some _ \<Rightarrow> (Inr (), w)))"

definition recursiveChown :: "string \<Rightarrow> int \<Rightarrow> int \<Rightarrow> ('x, unit) io" where
  "recursiveChown dir uid gid =
     io_bind (os_Lstat dir) (\<lambda>_.
     io_bind io_get (\<lambda>w.
       io_each (\<lambda>(p, info). os_Chown p uid gid) (walk_tree (Suc (length (w_fs w))) (w_fs w) (w_key w dir) dir)))"

definition doUnprivSetup ::
  "('x, 'm) oci_ops \<Rightarrow> string \<Rightarrow> StackerConfig \<Rightarrow> string \<Rightarrow> string \<Rightarrow> string \<Rightarrow> ('x, unit) io" where
  "doUnprivSetup oc tmpdir config uid gid username =
     io_bind (io_try (os_Stat (sc_StackerDir config))) (\<lambda>st.
       case st of
         Inr _ \<Rightarrow> io_err (Errorf ''stacker dir %s already exists, aborting setup'' [sc_StackerDir config])
       | Inl _ \<Rightarrow>
           io_bind (io_wrap (couldnt ''convert uid %s'') [uid] (io_res (strconv_Atoi uid))) (\<lambda>uid.
           io_bind (io_wrap (couldnt ''convert gid %s'') [gid] (io_res (strconv_Atoi gid))) (\<lambda>gid.
           io_bind (os_MkdirAll (sc_StackerDir config) 493) (\<lambda>_.
           io_bind (os_MkdirAll (sc_RootFSDir config) 493) (\<lambda>_.
           io_bind (UnprivSetup oc tmpdir config username uid gid) (\<lambda>_.
           io_bind (recursiveChown (sc_StackerDir config) uid gid) (\<lambda>_.
             recursiveChown (sc_RootFSDir config) uid gid)))))))"

end
