(* ===== verification/Stacker_Log.thy ===== *)
theory Stacker_Log
  imports Go_Os
begin

text \<open>
  The log: \<^verbatim>\<open>pkg/log/log.go\<close>. An entry of apex/log is a record; the sentinel field that marks
  stacker's own entries holds the address of a variable of the package: here the value \<open>Sentinel\<close>, which
  nothing else has (the variable has no size, so Go would allow another one at the same address). Where the text goes to is a parameter.
\<close>

datatype field_value = Sentinel | Value string

datatype log_level = DebugLevel | InfoLevel | WarnLevel | ErrorLevel | FatalLevel

record log_entry =
  le_Level :: log_level
  le_Message :: string
  le_Timestamp :: string
  le_Fields :: "(string \<times> field_value) list"

type_synonym 'x log_handler = "log_entry \<Rightarrow> ('x, unit) io"

definition addStackerLogSentinel :: "log_entry \<Rightarrow> log_entry" where
  "addStackerLogSentinel e = e\<lparr>le_Fields := map_put ''isStacker'' Sentinel (le_Fields e)\<rparr>"

definition isStackerLog :: "log_entry \<Rightarrow> bool" where
  "isStackerLog e = (map_of (le_Fields e) ''isStacker'' = Some Sentinel)"

definition filterer_HandleLog :: "'x log_handler \<Rightarrow> 'x log_handler" where
  "filterer_HandleLog underlying e =
     (if \<not> isStackerLog e then io_ret ()
      else underlying (e\<lparr>le_Fields := map_delete ''isStacker'' (le_Fields e)\<rparr>))"

text \<open>The names of the fields, sorted, and the text of one of them.\<close>

definition field_names :: "log_entry \<Rightarrow> string list" where
  "field_names e = sort (remdups (map fst (le_Fields e)))"

definition field_text :: "log_entry \<Rightarrow> string \<Rightarrow> string" where
  "field_text e name = (case map_of (le_Fields e) name of Some (Value v) \<Rightarrow> v | _ \<Rightarrow> [])"

definition TextHandler_HandleLog :: "(string \<Rightarrow> ('x, unit) io) \<Rightarrow> bool \<Rightarrow> 'x log_handler" where
  "TextHandler_HandleLog out timestamp e =
     io_bind (io_if timestamp (out (le_Timestamp e @ '' ''))) (\<lambda>_.
     io_bind (out (le_Message e)) (\<lambda>_.
     io_bind (io_each (\<lambda>name. out ('' '' @ name @ ''='' @ field_text e name)) (field_names e)) (\<lambda>_.
       out [CHR 0x0A])))"

text \<open>
  What the package logs: entries at or above the level that was set go to the handler. The level of
  an entry is that of the function (\<^verbatim>\<open>Debugf\<close>, \<^verbatim>\<open>Infof\<close>, \<^verbatim>\<open>Warnf\<close>, \<^verbatim>\<open>Errorf\<close>, \<^verbatim>\<open>Fatalf\<close>).
\<close>

definition level_rank :: "log_level \<Rightarrow> nat" where
  "level_rank l = (case l of DebugLevel \<Rightarrow> 0 | InfoLevel \<Rightarrow> 1 | WarnLevel \<Rightarrow> 2 | ErrorLevel \<Rightarrow> 3 | FatalLevel \<Rightarrow> 4)"

definition FilterNonStackerLogs :: "'x log_handler \<Rightarrow> log_level \<Rightarrow> 'x log_handler" where
  "FilterNonStackerLogs handler level e =
     (if level_rank (le_Level e) < level_rank level then io_ret () else filterer_HandleLog handler e)"

definition stacker_log :: "'x log_handler \<Rightarrow> log_level \<Rightarrow> string \<Rightarrow> string \<Rightarrow> ('x, unit) io" where
  "stacker_log installed level now msg =
     installed (addStackerLogSentinel \<lparr>le_Level = level, le_Message = msg, le_Timestamp = now, le_Fields = []\<rparr>)"

text \<open>Entries that are not stacker's are dropped; its own come out as one line, without the sentinel.\<close>

lemma foreign_dropped: "map_of (le_Fields e) ''isStacker'' \<noteq> Some Sentinel \<Longrightarrow> FilterNonStackerLogs h level e w = (Inr (), w)"
  by (simp add: FilterNonStackerLogs_def filterer_HandleLog_def isStackerLog_def io_ret_def)

lemma io_bind_ret: "io_bind (io_ret a) f = f a"
  by (rule ext) simp

lemma stacker_line:
  assumes "level_rank level \<le> level_rank l"
  shows "stacker_log (FilterNonStackerLogs (TextHandler_HandleLog out False) level) l now msg =
    io_bind (out msg) (\<lambda>_. out [CHR 0x0A])"
  using assms
  by (simp add: stacker_log_def FilterNonStackerLogs_def filterer_HandleLog_def isStackerLog_def addStackerLogSentinel_def
      TextHandler_HandleLog_def field_names_def map_delete_def io_if_def io_each_def io_bind_ret)

end
