(* ===== verification/Stacker_Main.thy ===== *)
theory Stacker_Main
  imports Cli Commands Stacker_Log
begin

text \<open>
  The program: \<^verbatim>\<open>cmd/stacker/main.go\<close>. Before a command runs, the configuration is made of the
  configuration file and the global flags, and the program starts itself again in a user namespace
  unless it is there already. \<open>stacker_main\<close> gives the status the process ends with. urfave/cli, which
  splits the command line, the yaml package and the terminal are parameters (\<open>main_env\<close>).
\<close>

section \<open>Flags\<close>

definition chroot_flags :: "flag list" where
  "chroot_flags = [with_aliases [''f''] (string_flag ''stacker-file'' ''stacker.yaml''), slice_flag ''substitute'' []]"

definition clean_flags :: "flag list" where
  "clean_flags = [bool_flag ''all'']"

definition unpriv_flags :: "(string \<times> string) list \<Rightarrow> flag list" where
  "unpriv_flags env =
     [string_flag ''uid'' (map_get [] env ''SUDO_UID''), string_flag ''gid'' (map_get [] env ''SUDO_GID''),
      string_flag ''username'' (map_get [] env ''SUDO_USER'')]"

definition app_flags :: "string \<Rightarrow> bool \<Rightarrow> flag list" where
  "app_flags configDir isTerminal =
     [string_flag ''work-dir'' [], string_flag ''stacker-dir'' ''.stacker'', string_flag ''oci-dir'' ''oci'',
      string_flag ''roots-dir'' ''roots'', string_flag ''config'' (path_Join [configDir, ''conf.yaml'']), bool_flag ''debug'',
      with_aliases [''q''] (bool_flag ''quiet''), string_flag ''log-file'' [], bool_flag ''log-timestamp'',
      string_flag ''storage-type'' ''overlay'', bool_flag ''internal-userns''] @
     (if isTerminal then [bool_flag ''no-progress''] else [bool_flag ''progress''])"

section \<open>Parameters\<close>

text \<open>
  \<open>mn_Parse\<close> gives the context of the program, the command, and the context of the command;
  \<open>mn_Help\<close> the status for a command line that names none; \<open>mn_ExitCode\<close> that of a program that
  was run and failed.
\<close>

record ('x, 'd, 'm, 'c, 'f, 'h, 'g, 'n) main_env =
  mn_build :: "('x, 'd, 'm, 'c, 'f, 'h) build_env"
  mn_dag :: "('g, 'n, Stackerfile) graph_ops"
  mn_convert :: "'x convert_env"
  mn_tools :: "'x tool_ops"
  mn_config :: "string \<Rightarrow> StackerConfig \<Rightarrow> StackerConfig res"
  mn_HomeDir :: "string res"
  mn_depth :: nat
  mn_Parse :: "string list \<Rightarrow> (cli_ctx \<times> string \<times> cli_ctx) res"
  mn_Help :: "string \<Rightarrow> int"
  mn_ExitCode :: "go_error \<Rightarrow> int option"

definition config_dir :: "(string \<times> string) list \<Rightarrow> string res \<Rightarrow> string" where
  "config_dir env home =
     (let configDir = map_get [] env ''XDG_CONFIG_HOME'' in
      if configDir = [] then
        path_Join [case home of Inr homeDir \<Rightarrow> homeDir | Inl _ \<Rightarrow> ''/home/user'', ''.config'', ''stacker'']
      else configDir)"

section \<open>Configuration\<close>

definition zero_config :: StackerConfig where
  "zero_config = \<lparr>sc_WorkDir = [], sc_StackerDir = [], sc_OCIDir = [], sc_RootFSDir = [], sc_Debug = False,
     sc_StorageType = [], sc_SourceDateEpoch = None\<rparr>"

text \<open>One of the three directories: what it is so far, and the flag for it.\<close>

definition resolve_dir :: "cli_ctx \<Rightarrow> string \<Rightarrow> string \<Rightarrow> string \<Rightarrow> string" where
  "resolve_dir ctx workDir flag dir =
     (if dir = [] \<or> cx_IsSet ctx flag then
        (if workDir \<noteq> [] \<and> \<not> cx_IsSet ctx flag then path_Join [workDir, cx_String ctx flag] else cx_String ctx flag)
      else dir)"

definition resolve_dirs :: "cli_ctx \<Rightarrow> StackerConfig \<Rightarrow> StackerConfig" where
  "resolve_dirs ctx config =
     (let workDir = (if sc_WorkDir config = [] \<or> cx_IsSet ctx ''work-dir'' then cx_String ctx ''work-dir'' else sc_WorkDir config) in
      config\<lparr>sc_WorkDir := workDir,
        sc_StackerDir := resolve_dir ctx workDir ''stacker-dir'' (sc_StackerDir config),
        sc_OCIDir := resolve_dir ctx workDir ''oci-dir'' (sc_OCIDir config),
        sc_RootFSDir := resolve_dir ctx workDir ''roots-dir'' (sc_RootFSDir config)\<rparr>)"

definition absolute_dirs :: "string \<Rightarrow> StackerConfig \<Rightarrow> StackerConfig" where
  "absolute_dirs cwd config =
     config\<lparr>sc_StackerDir := filepath_Abs cwd (sc_StackerDir config), sc_OCIDir := filepath_Abs cwd (sc_OCIDir config),
       sc_RootFSDir := filepath_Abs cwd (sc_RootFSDir config)\<rparr>"

text \<open>A configuration file that cannot be read is not an error, one that cannot be parsed is.\<close>

definition read_config ::
  "('x, 'd, 'm, 'c, 'f, 'h, 'g, 'n) main_env \<Rightarrow> string \<Rightarrow> StackerConfig \<Rightarrow> ('x, StackerConfig) io" where
  "read_config me path config =
     io_bind (io_try (os_ReadFile path)) (\<lambda>r.
       case r of Inr content \<Rightarrow> io_res (mn_config me content config) | Inl _ \<Rightarrow> io_ret config)"

definition source_date_epoch :: "string \<Rightarrow> int option res" where
  "source_date_epoch sde =
     (if sde = [] then Inr None
      else (case strconv_ParseInt sde 64 of
          Inl _ \<Rightarrow> Inl (Errorf ''invalid SOURCE_DATE_EPOCH value %q: %v'' [sde])
        | Inr epoch \<Rightarrow> Inr (Some epoch)))"

text \<open>The owner of the cache file of an earlier run; owners of directories are not kept.\<close>

definition check_owner :: "int \<Rightarrow> string \<Rightarrow> ('x, unit) io" where
  "check_owner euid cacheFile =
     io_bind (io_try (os_Stat cacheFile)) (\<lambda>fi.
       case fi of
         Inl e \<Rightarrow> if \<not> os_IsNotExist e then io_err e else io_ret ()
       | Inr (File c perm (uid, gid)) \<Rightarrow>
           if euid \<noteq> uid then io_err (Errorf ''previous run of stacker found with uid %d'' [fmt_d uid]) else io_ret ()
       | Inr _ \<Rightarrow> io_ret ())"

definition configure ::
  "('x, 'd, 'm, 'c, 'f, 'h, 'g, 'n) main_env \<Rightarrow> cli_ctx \<Rightarrow> ('x, StackerConfig) io" where
  "configure me ctx =
     (let config = zero_config\<lparr>sc_Debug := cx_Bool ctx ''debug''\<rparr> in
      if cx_Bool ctx ''debug'' \<and> cx_Bool ctx ''quiet'' then
        io_err (Errorf (''debug and quiet don'' @ [CHR 0x27] @ ''t make sense together'') [])
      else
        io_bind (read_config me (cx_String ctx ''config'') config) (\<lambda>config.
        let config = resolve_dirs ctx config in
        io_bind (io_res (validateRootsDirName (sc_RootFSDir config))) (\<lambda>_.
        io_bind io_get (\<lambda>w.
        let config = (absolute_dirs (w_cwd w) config)\<lparr>sc_StorageType := cx_String ctx ''storage-type''\<rparr> in
        io_bind (io_res (source_date_epoch (map_get [] (ho_env (be_host (mn_build me))) ''SOURCE_DATE_EPOCH''))) (\<lambda>epoch.
        let config = (case epoch of None \<Rightarrow> config | Some t \<Rightarrow> config\<lparr>sc_SourceDateEpoch := Some t\<rparr>) in
        io_bind (check_owner (ho_Euid (be_host (mn_build me))) (CacheFile config)) (\<lambda>_.
        io_bind (io_if (cx_String ctx ''log-file'' \<noteq> []) (io_wrap ''failed to access %v'' []
          (os_WriteFile (cx_String ctx ''log-file'') [] 438))) (\<lambda>_.
          io_ret config)))))))"

text \<open>The log of a run: what is logged, and where the text goes: to \<open>err\<close>, or to the file that is named.\<close>

definition logLevel :: "cli_ctx \<Rightarrow> log_level" where
  "logLevel ctx = (if cx_Bool ctx ''debug'' then DebugLevel else if cx_Bool ctx ''quiet'' then FatalLevel else InfoLevel)"

definition app_log :: "(string \<Rightarrow> ('x, unit) io) \<Rightarrow> (string \<Rightarrow> string \<Rightarrow> ('x, unit) io) \<Rightarrow> cli_ctx \<Rightarrow> 'x log_handler" where
  "app_log err out ctx =
     FilterNonStackerLogs
       (TextHandler_HandleLog (if cx_String ctx ''log-file'' = [] then err else out (cx_String ctx ''log-file'')) (cx_Bool ctx ''log-timestamp''))
       (logLevel ctx)"

section \<open>Starting again in a namespace\<close>

definition shouldSkipInternalUserns :: "cli_ctx \<Rightarrow> bool" where
  "shouldSkipInternalUserns ctx =
     (if length (cx_Args ctx) < 1 then True
      else
        (let arg0 = cx_Arg ctx 0 in
         if arg0 = ''internal-go'' \<and> cx_Arg ctx 1 = ''testsuite-check-overlay'' then False
         else arg0 = ''unpriv-setup'' \<or> arg0 = ''internal-go''))"

text \<open>\<^verbatim>\<open>append(cmd[:2], cmd[1:]...)\<close> doubles the second element, which the flag then replaces.\<close>

definition reexec_args :: "string \<Rightarrow> string list \<Rightarrow> string list" where
  "reexec_args binary osArgs =
     (let cmd = osArgs[0 := binary]; cmd = take 2 cmd @ drop 1 cmd in cmd[1 := ''--internal-userns''])"

fun errors_Cause :: "go_error \<Rightarrow> go_error" where
  "errors_Cause (Wrapf e msg args) = errors_Cause e"
| "errors_Cause e = e"

text \<open>The status; a panic ends a Go program with 2.\<close>

definition stackerResult :: "('x, 'd, 'm, 'c, 'f, 'h, 'g, 'n) main_env \<Rightarrow> unit res \<Rightarrow> int" where
  "stackerResult me r =
     (case r of
        Inr _ \<Rightarrow> 0
      | Inl e \<Rightarrow>
          if is_panic e then 2
          else (case mn_ExitCode me (errors_Cause e) of Some code \<Rightarrow> code | None \<Rightarrow> 1))"

text \<open>What runs before a command: the configuration, and the status if the program ends here.\<close>

definition app_Before ::
  "('x, 'd, 'm, 'c, 'f, 'h, 'g, 'n) main_env \<Rightarrow> cli_ctx \<Rightarrow> string list \<Rightarrow> ('x, StackerConfig \<times> int option) io" where
  "app_Before me ctx osArgs =
     io_bind (configure me ctx) (\<lambda>config.
       if \<not> cx_Bool ctx ''internal-userns'' \<and> \<not> shouldSkipInternalUserns ctx \<and> length osArgs > 1 then
         io_bind (os_Readlink ''/proc/self/exe'') (\<lambda>binary.
         io_bind (io_try (MaybeRunInNamespace (be_host (mn_build me)) (reexec_args binary osArgs))) (\<lambda>r.
           io_ret (config, Some (stackerResult me r))))
       else io_ret (config, None))"

section \<open>Commands\<close>

text \<open>A command: what it does before, with the context it leaves, and its action.\<close>

definition action :: "('x, unit) io \<Rightarrow> ('x, int option) io" where
  "action m = io_bind m (\<lambda>_. io_ret None)"

definition command ::
  "('x, 'd, 'm, 'c, 'f, 'h, 'g, 'n) main_env \<Rightarrow> StackerConfig \<Rightarrow> string \<Rightarrow> cli_ctx \<Rightarrow> ('x, int option) io option" where
  "command me config name ctx =
     (let be = mn_build me; ho = be_host be; oc = be_oci be; args = cx_Args ctx in
      if name = ''build'' then Some (io_bind (beforeBuild ctx) (\<lambda>ctx. action (doBuild be (mn_dag me) config ctx)))
      else if name = ''recursive-build'' then
        Some (io_bind (beforeRecursiveBuild ctx) (\<lambda>ctx. action (doRecursiveBuild be (mn_dag me) config ctx)))
      else if name = ''convert'' then Some (action (doConvert (mn_convert me) ctx))
      else if name = ''publish'' then Some (io_bind (beforePublish ctx) (\<lambda>ctx. action (doPublish be config ctx)))
      else if name = ''chroot'' \<or> name = ''exec'' then
        Some (action (doChroot be config (cx_String ctx ''f'') (cx_StringSlice ctx ''substitute'') args))
      else if name = ''clean'' then Some (action (doClean be config))
      else if name = ''inspect'' then Some (io_bind (doInspect oc (mn_tools me) config args) (\<lambda>_. io_ret None))
      else if name = ''grab'' then Some (action (doGrab be config args))
      else if name = ''internal-go'' then internal_go (mn_depth me) oc (mn_tools me) (ho_tmpdir ho) config args
      else if name = ''unpriv-setup'' then
        Some (io_bind (io_res (beforeUnprivSetup (cx_String ctx ''uid'') (cx_String ctx ''gid'') (cx_String ctx ''username''))) (\<lambda>_.
          action (doUnprivSetup oc (ho_tmpdir ho) config (cx_String ctx ''uid'') (cx_String ctx ''gid'') (cx_String ctx ''username''))))
      else if name = ''gc'' then Some (action (doGC be config))
      else if name = ''check'' then Some (action (doCheck (mn_tools me) oc (ho_tmpdir ho) config))
      else None)"

text \<open>\<^verbatim>\<open>main_embed.go\<close> and \<^verbatim>\<open>main_noembed.go\<close> set the same value.\<close>

definition hasEmbedded :: "bool \<Rightarrow> bool" where
  "hasEmbedded skipembed = (if skipembed then True else True)"

definition stacker_main ::
  "('x, 'd, 'm, 'c, 'f, 'h, 'g, 'n) main_env \<Rightarrow> bool \<Rightarrow> string list \<Rightarrow> ('x, int) io" where
  "stacker_main me skipembed osArgs =
     (if \<not> hasEmbedded skipembed then io_ret 2
      else
        (case mn_Parse me osArgs of
           Inl e \<Rightarrow> io_ret (stackerResult me (Inl e))
         | Inr (app, name, ctx) \<Rightarrow>
             io_bind (io_try (app_Before me app osArgs)) (\<lambda>r.
               case r of
                 Inl e \<Rightarrow> io_ret (stackerResult me (Inl e))
               | Inr (config, Some code) \<Rightarrow> io_ret code
               | Inr (config, None) \<Rightarrow>
                   (case command me config name ctx of
                      None \<Rightarrow> io_ret (mn_Help me name)
                    | Some m \<Rightarrow>
                        io_bind (io_try m) (\<lambda>r.
                          case r of
                            Inl e \<Rightarrow> io_ret (stackerResult me (Inl e))
                          | Inr (Some code) \<Rightarrow> io_ret code
                          | Inr None \<Rightarrow> io_ret (stackerResult me (Inr ())))))))"

end
