(* ===== verification/Build_Props.thy ===== *)
theory Build_Props
  imports Build Import_Props Overlay_Props
begin

text \<open>
  What is proved of builds: the order of the files, the names of the layers, when a layer is taken
  from the cache, the root file system a layer starts from, the substitutions, the configuration of
  its container and of its image.
\<close>

section \<open>Files\<close>

lemma build_file_parts:
  fixes w :: "'x world"
  assumes "build_file be s b f w = (Inr b', w')"
  shows "\<exists>(w1 :: 'x world) w3 w4 sf order cache cache'.
    NewStackerfile (files_in (be_files be) w1) f (ba_HashRequired (bu_opts b)) (build_substitutions (bu_opts b)) = Inr sf \<and>
    DependencyOrder (be_stack be) sf (bu_builtStackerfiles b) = Inr order \<and> check_layer_names order = Inr () \<and>
    build_layers be (bu_opts b) sf (map_put f sf (bu_builtStackerfiles b)) s order cache w3 = (Inr cache', w4) \<and>
    b' = b\<lparr>bu_builtStackerfiles := map_put f sf (bu_builtStackerfiles b)\<rparr>"
  using assms unfolding build_file_def Let_def by (clarsimp simp: io_simps) blast

lemma check_layer_names_iff: "check_layer_names order = Inr () \<longleftrightarrow> (\<forall>name \<in> set order. CHR '':'' \<notin> set name)"
  by (auto simp: check_layer_names_def res_simps)

text \<open>The layers of the files built so far, in the order of the building.\<close>

definition built_ok :: "Builder \<Rightarrow> bool" where
  "built_ok b \<longleftrightarrow> (\<forall>(p, sf) \<in> set (bu_builtStackerfiles b). \<forall>name \<in> fst ` set (sf_internal sf). CHR '':'' \<notin> set name)"

lemma build_file_ok:
  fixes w :: "'x world"
  assumes "build_file be s b f w = (Inr b', w')" "yaml_keeps_keys (be_files be)" "built_ok b"
  shows "built_ok b'"
proof -
  obtain w1 :: "'x world" and sf order where
    sf: "NewStackerfile (files_in (be_files be) w1) f (ba_HashRequired (bu_opts b)) (build_substitutions (bu_opts b)) = Inr sf"
    and order: "DependencyOrder (be_stack be) sf (bu_builtStackerfiles b) = Inr order" "check_layer_names order = Inr ()"
    and b': "b' = b\<lparr>bu_builtStackerfiles := map_put f sf (bu_builtStackerfiles b)\<rparr>"
    using build_file_parts [OF assms(1)] by blast
  have "yaml_keeps_keys (files_in (be_files be) w1)" using assms(2) by (simp add: yaml_keeps_keys_def files_in_def)
  from NewStackerfile_match [OF sf this] have "layers_match sf" .
  with order_lists_layers [OF order(1)] have "set order = fst ` set (sf_internal sf)" by (simp add: layers_match_def)
  with order(2) have "\<forall>name \<in> fst ` set (sf_internal sf). CHR '':'' \<notin> set name" by (simp add: check_layer_names_iff)
  with assms(3) show "built_ok b'" unfolding built_ok_def b' by (auto dest!: map_put_set [THEN subsetD])
qed

lemma build_files_built:
  assumes "io_fold (build_file be s) b ps w = (Inr b', w')" "distinct ps" "set ps \<inter> fst ` set (bu_builtStackerfiles b) = {}"
  shows "map fst (bu_builtStackerfiles b') = map fst (bu_builtStackerfiles b) @ ps"
  using assms
proof (induction ps arbitrary: b w)
  case (Cons p ps)
  then obtain b1 w1 where b1: "build_file be s b p w = (Inr b1, w1)" "io_fold (build_file be s) b1 ps w1 = (Inr b', w')"
    by (auto simp: io_simps)
  from b1(1) obtain sf where "b1 = b\<lparr>bu_builtStackerfiles := map_put p sf (bu_builtStackerfiles b)\<rparr>"
    using build_file_parts by blast
  then have "map fst (bu_builtStackerfiles b1) = map fst (bu_builtStackerfiles b) @ [p]"
    using Cons.prems(3) by (simp add: map_put_new)
  moreover have "set ps \<inter> fst ` set (bu_builtStackerfiles b1) = {}"
    using Cons.prems(2,3) \<open>b1 = _\<close> by (auto simp: map_put_keys)
  ultimately show ?case using Cons.IH [OF b1(2)] Cons.prems(2) by simp
qed (simp add: io_simps)

lemma snd_io_bind_ret: "snd (io_bind m (\<lambda>_. io_ret ()) w) = snd (m w)"
  by (simp add: io_bind_def io_ret_def split: prod.split sum.split)

text \<open>
  The order in which \<^verbatim>\<open>BuildMultiple\<close> builds is an order of all files read, the ones named and the
  ones they require, in which every file comes after the files it requires.
\<close>

lemma BuildMultiple_parts:
  fixes w :: "'x world"
  assumes "BuildMultiple be ops b paths w = (Inr b', w')"
  shows "\<exists>(w1 :: 'x world) o' locks sfm dag order w2.
    NewStorage (be_oci be) (be_lock be) (ho_tmpdir (be_host be)) (ba_Config (bu_opts b)) w = (Inr (o', locks), w1) \<and>
    NewStackerFiles (be_stack be) (files_in (be_files be) w1) paths (ba_HashRequired (bu_opts b)) (build_substitutions (bu_opts b)) = Inr sfm \<and>
    NewStackerFilesDAG ops (w_cwd w1) sfm = Inr dag \<and> StackerFilesDAG_Sort ops dag = Inr order \<and>
    (if ba_OrderOnly (bu_opts b) then io_ret b else io_fold (build_file be (be_storage be o')) b order) w1 = (Inr b', w2) \<and>
    w' = snd (Unlock (be_lock be) locks w2)"
proof -
  from assms obtain o' locks v where v: "NewStorage (be_oci be) (be_lock be) (ho_tmpdir (be_host be)) (ba_Config (bu_opts b)) w = (Inr (o', locks), v)"
    and body: "io_defer (io_bind (Unlock (be_lock be) locks) (\<lambda>_. io_ret ()))
        (io_bind io_get (\<lambda>w.
         io_bind (io_res (NewStackerFiles (be_stack be) (files_in (be_files be) w) paths (ba_HashRequired (bu_opts b)) (build_substitutions (bu_opts b)))) (\<lambda>stackerFiles.
         io_bind (io_res (NewStackerFilesDAG ops (w_cwd w) stackerFiles)) (\<lambda>dag.
         io_bind (io_res (StackerFilesDAG_Sort ops dag)) (\<lambda>sortedPaths.
         io_bind (io_res (rcheck (\<lambda>p. rbind (GetStackerFile ops dag p) (\<lambda>sf. rbind (Prerequisites (w_cwd w) sf) (\<lambda>_. Inr ()))) sortedPaths)) (\<lambda>_.
           if ba_OrderOnly (bu_opts b) then io_ret b
           else io_fold (build_file be (be_storage be o')) b sortedPaths)))))) v = (Inr b', w')"
    unfolding BuildMultiple_def Let_def by (rule io_bind_pairE)
  from body v show ?thesis
    by (clarsimp simp: io_defer_def io_simps snd_io_bind_ret split: prod.split_asm split del: if_split)
qed

text \<open>
  C1. When \<^verbatim>\<open>BuildMultiple\<close> succeeds, what it has done after taking its locks is to build, one after the
  other, every file that the given files need, directly or through other files: each once, none before a
  file it requires. Then it has given the locks back. The builder has kept the files in this order.
\<close>

theorem build_multiple_order:
  fixes w :: "'x world"
  assumes "graph_laws ops nds edg valid" "BuildMultiple be ops b paths w = (Inr b', w')"
    and "\<not> ba_OrderOnly (bu_opts b)" "bu_builtStackerfiles b = []"
  shows "\<exists>(w1 :: 'x world) w2 o' locks sfm order.
    NewStorage (be_oci be) (be_lock be) (ho_tmpdir (be_host be)) (ba_Config (bu_opts b)) w = (Inr (o', locks), w1) \<and>
    NewStackerFiles (be_stack be) (files_in (be_files be) w1) paths (ba_HashRequired (bu_opts b)) (build_substitutions (bu_opts b)) = Inr sfm \<and>
    io_fold (build_file be (be_storage be o')) b order w1 = (Inr b', w2) \<and> w' = snd (Unlock (be_lock be) locks w2) \<and>
    distinct order \<and> set order = fst ` set sfm \<and> filepath_Abs (w_cwd w1) ` set paths \<subseteq> set order \<and>
    (\<forall>p sf ps q. (p, sf) \<in> set sfm \<and> Prerequisites (w_cwd w1) sf = Inr ps \<and> q \<in> set ps \<longrightarrow> before order q p) \<and>
    map fst (bu_builtStackerfiles b') = order"
proof -
  obtain w1 w2 :: "'x world" and o' locks sfm dag order where
    storage: "NewStorage (be_oci be) (be_lock be) (ho_tmpdir (be_host be)) (ba_Config (bu_opts b)) w = (Inr (o', locks), w1)" and parts:
    "NewStackerFiles (be_stack be) (files_in (be_files be) w1) paths (ba_HashRequired (bu_opts b)) (build_substitutions (bu_opts b)) = Inr sfm"
    "NewStackerFilesDAG ops (w_cwd w1) sfm = Inr dag" "StackerFilesDAG_Sort ops dag = Inr order"
    "io_fold (build_file be (be_storage be o')) b order w1 = (Inr b', w2)" "w' = snd (Unlock (be_lock be) locks w2)"
    using BuildMultiple_parts [OF assms(2)] assms(3) by auto
  from stacker_graph.files_order [OF stacker_graph.intro [OF assms(1)] parts(2)] parts(3)
  have order: "distinct order" "set order = fst ` set sfm"
    "\<forall>p sf ps q. (p, sf) \<in> set sfm \<and> Prerequisites (w_cwd w1) sf = Inr ps \<and> q \<in> set ps \<longrightarrow> before order q p" by auto
  have "filepath_Abs (w_cwd w1) ` set paths \<subseteq> set order"
    using NewStackerFiles_closed [OF _ parts(1)] order(2) by (auto simp: files_in_def files_closed_def)
  moreover have "map fst (bu_builtStackerfiles b') = order" using build_files_built [OF parts(4) order(1)] assms(4) by simp
  ultimately show ?thesis using order parts(1,4,5) storage by (intro exI conjI) simp_all
qed

text \<open>
  C33. No layer of a file that was built has a colon in its name: the mount options of overlayfs,
  in which the colon separates directories, cannot be misread.
\<close>

theorem built_names_no_colon:
  assumes "BuildMultiple be ops b paths w = (Inr b', w')" "yaml_keeps_keys (be_files be)" "bu_builtStackerfiles b = []"
  shows "\<forall>(p, sf) \<in> set (bu_builtStackerfiles b'). \<forall>name \<in> fst ` set (sf_internal sf). CHR '':'' \<notin> set name"
proof -
  obtain w1 o' order w2 where
    "(if ba_OrderOnly (bu_opts b) then io_ret b else io_fold (build_file be (be_storage be o')) b order) w1 = (Inr b', w2)"
    using BuildMultiple_parts [OF assms(1)] by blast
  moreover have "built_ok b" using assms(3) by (simp add: built_ok_def)
  moreover have "built_ok b'" if "io_fold (build_file be (be_storage be o')) b order w1 = (Inr b', w2)"
    using that by (rule io_fold_invariant [where I = "\<lambda>b _. built_ok b"])
      (auto intro: build_file_ok [OF _ assms(2)] \<open>built_ok b\<close>)
  ultimately have "built_ok b'" by (auto simp: io_simps split: if_splits)
  then show ?thesis by (simp add: built_ok_def)
qed

section \<open>Layers\<close>

lemma found_count:
  assumes "io_fold (\<lambda>foundCount layerType.
      case map_of ms layerType of None \<Rightarrow> io_ret foundCount
      | Some blob \<Rightarrow> io_bind (upd layerType blob) (\<lambda>_. io_ret (Suc foundCount))) n lts w = (Inr n', w')"
  shows "n' = n + length (filter (\<lambda>lt. map_of ms lt \<noteq> None) lts)"
  using assms
proof (induction lts arbitrary: n w)
  case (Cons lt lts)
  then show ?case by (cases "map_of ms lt") (force simp: io_simps)+
qed (simp add: io_simps)

lemma filter_all_length: "length (filter P xs) = length xs \<Longrightarrow> \<forall>x \<in> set xs. P x"
  by (metis filter_id_conv length_filter_less less_irrefl)

text \<open>
  C6. A layer is left out of a build only if the cache has an entry for it, it has no bind mounts, and
  it is build-only or the entry has an image of every output type.
\<close>

theorem cached_layer_complete:
  fixes w :: "'x world"
  assumes "prepare_layer be opts sf s cache name w = (Inr (l, True), w')"
  shows "\<exists>(w1 :: 'x world) ent. Lookup (be_stack be) (im_env (be_import be)) cache w1 name = Inr (Some ent) \<and> lay_Binds l = [] \<and>
    (lay_BuildOnly l \<or> (\<forall>lt \<in> set (ba_LayerTypes opts). map_of (ent_Manifests ent) lt \<noteq> None))"
proof -
  from assms obtain l0 where l0: "Stackerfile_Get sf name = Some l0"
    by (cases "Stackerfile_Get sf name") (simp_all add: prepare_layer_def io_simps)
  with assms obtain w1 w2 hit where hit: "Lookup (be_stack be) (im_env (be_import be)) cache w1 name = Inr hit"
    "(case hit of Some cacheEntry \<Rightarrow> if lay_Binds l = [] then use_cache_entry be opts s name l cacheEntry else io_ret False
       | None \<Rightarrow> io_ret False) w1 = (Inr True, w2)"
    by (auto simp: prepare_layer_def io_simps Let_def split: if_split_asm)
  from hit(2) obtain ent where ent: "hit = Some ent" "lay_Binds l = []" "use_cache_entry be opts s name l ent w1 = (Inr True, w2)"
    by (auto simp: io_simps split: option.split_asm if_split_asm)
  have "\<forall>lt \<in> set (ba_LayerTypes opts). map_of (ent_Manifests ent) lt \<noteq> None" if "\<not> lay_BuildOnly l"
  proof -
    from ent(3) that obtain n where "io_fold (\<lambda>foundCount layerType.
        case map_of (ent_Manifests ent) layerType of None \<Rightarrow> io_ret foundCount
        | Some blob \<Rightarrow> io_bind (oc_UpdateReference (be_oci be) (sc_OCIDir (ba_Config opts)) (LayerName layerType name) blob)
            (\<lambda>_. io_ret (Suc foundCount))) 0 (ba_LayerTypes opts) w1 = (Inr n, w2)" "n = length (ba_LayerTypes opts)"
      by (auto simp: use_cache_entry_def io_simps)
    from found_count [OF this(1)] this(2)
    have "length (filter (\<lambda>lt. map_of (ent_Manifests ent) lt \<noteq> None) (ba_LayerTypes opts)) = length (ba_LayerTypes opts)" by simp
    then show ?thesis by (rule filter_all_length)
  qed
  with hit(1) ent show ?thesis by blast
qed

text \<open>
  The script that runs the commands of a layer has exactly these commands as its lines, after
  a first line that names the shell unless the first command does.
\<close>

theorem layer_script_lines:
  assumes "generateShellForRunning cmds out w = (Inr (), w')" "\<forall>c \<in> set cmds. CHR 0x0A \<notin> set c"
  shows "\<exists>content. os_ReadFile out w' = (Inr content, w') \<and>
    strings_Split content [CHR 0x0A] =
      (if strings_HasPrefix (hd cmds) ''#!'' then [] else [''#!/bin/sh -xe'']) @ cmds @ [[]]"
proof -
  obtain c cs where cmds: "cmds = c # cs" using assms(1) by (cases cmds) (auto simp: generateShellForRunning_def io_simps)
  let ?lines = "(if strings_HasPrefix c ''#!'' then [] else [''#!/bin/sh -xe'']) @ cmds"
  let ?content = "strings_Join (?lines @ [[]]) [CHR 0x0A]"
  have "?content = (if strings_HasPrefix c ''#!'' then [] else ''#!'' @ DefaultShell @ '' -xe'' @ [CHR 0x0A]) @
      strings_Join cmds [CHR 0x0A] @ [CHR 0x0A]"
    using strings_Join_snoc [of cmds "[]"] by (simp add: cmds DefaultShell_def)
  then have "os_WriteFile out ?content 493 w = (Inr (), w')"
    using assms(1) by (simp add: generateShellForRunning_def cmds Let_def)
  then have "os_ReadFile out w' = (Inr ?content, w')" by (rule write_then_read)
  moreover have "strings_Split ?content [CHR 0x0A] = ?lines @ [[]]"
    using assms(2) by (intro strings_Join_Split) (auto split: if_splits)
  ultimately show ?thesis by (simp add: cmds)
qed

section \<open>Substitutions\<close>

lemma substitutionExists_None: "substitutionExists k subs = None \<longleftrightarrow> (\<forall>s \<in> set subs. \<not> strings_HasPrefix s (k @ ''=''))"
  by (auto simp: substitutionExists_def find_None_iff)

lemma other_key_prefix:
  assumes "CHR ''='' \<notin> set k" "CHR ''='' \<notin> set k'" "k \<noteq> k'"
  shows "\<not> strings_HasPrefix (k' @ ''='' @ v) (k @ ''='')"
proof
  assume "strings_HasPrefix (k' @ ''='' @ v) (k @ ''='')"
  then obtain r where "k' @ ''='' @ v = k @ ''='' @ r" by (auto simp: strings_HasPrefix_def prefix_def)
  then have "takeWhile (\<lambda>c. c \<noteq> CHR ''='') (k' @ ''='' @ v) = takeWhile (\<lambda>c. c \<noteq> CHR ''='') (k @ ''='' @ r)" by simp
  moreover have "takeWhile (\<lambda>c. c \<noteq> CHR ''='') (x @ ''='' @ y) = x" if "CHR ''='' \<notin> set x" for x y
    using that by (induction x) auto
  ultimately show False using assms by simp
qed

lemma file_substitutions:
  assumes "distinct (map fst m)" "\<forall>(k, v) \<in> set m. CHR ''='' \<notin> set k"
  shows "fold (\<lambda>(k, v) subs. if substitutionExists k subs \<noteq> None then subs else subs @ [k @ ''='' @ v]) m subs =
    subs @ map (\<lambda>(k, v). k @ ''='' @ v) (filter (\<lambda>(k, _). substitutionExists k subs = None) m)"
  using assms
proof (induction m arbitrary: subs)
  case (Cons kv m)
  obtain k v where kv: "kv = (k, v)" by force
  have "substitutionExists k' (subs @ [k @ ''='' @ v]) = None \<longleftrightarrow> substitutionExists k' subs = None" if "(k', v') \<in> set m" for k' v'
    using Cons.prems that other_key_prefix [of k' k v] by (force simp: kv substitutionExists_None)
  then have "filter (\<lambda>(k', _). substitutionExists k' (subs @ [k @ ''='' @ v]) = None) m =
      filter (\<lambda>(k', _). substitutionExists k' subs = None) m"
    by (intro filter_cong) auto
  with Cons show ?case by (simp add: kv)
qed simp

text \<open>
  The substitutions of a builder are those of the command line, in their order, followed by
  those of the substitute file whose name the command line does not give.
\<close>

theorem new_builder_substitutions:
  assumes "NewBuilder be opts w = (Inr b, w')" "ba_SubstituteFile opts \<noteq> []"
    and "os_ReadFile (ba_SubstituteFile opts) w = (Inr bytes, w)" "be_SubstituteMap be bytes = Inr m"
    and "distinct (map fst m)" "\<forall>(k, v) \<in> set m. CHR ''='' \<notin> set k"
  shows "bu_builtStackerfiles b = [] \<and> ba_Substitute (bu_opts b) = ba_Substitute opts @
    map (\<lambda>(k, v). k @ ''='' @ v) (filter (\<lambda>(k, _). substitutionExists k (ba_Substitute opts) = None) m)"
  using assms(1-4) file_substitutions [OF assms(5,6)]
  by (auto simp: NewBuilder_def io_simps io_wrap_Inr io_bind_run)

section \<open>The image configuration\<close>

lemma map_of_put_all: "map_of (put_all new m) = map_of m ++ map_of (rev new)"
  unfolding put_all_def by (induction new arbitrary: m) (auto simp: map_add_def fun_eq_iff split: prod.splits option.splits)

text \<open>
  C35. The configuration of an image. Its environment is the one of the base, then the variables of the
  layer, and the default search path after them exactly when none of these sets \<open>PATH\<close>. Command and entry point
  are those of the layer, even where it has none, and those of the base are gone; \<^verbatim>\<open>full_command\<close>
  takes the place of both. The working directory and the user are those of the layer if it has any. A label
  has the value of the layer, else the generated one, else the one of the base; volumes are added. The rest
  stays.
\<close>

theorem image_config_of_layer:
  "let c = layer_config l generated img; env = img_Env img @ map (\<lambda>(k, v). k @ ''='' @ v) (lay_Environment l) in
   img_Env c = (if \<exists>s \<in> set env. strings_HasPrefix s ''PATH='' then env else env @ [''PATH='' @ ReasonableDefaultPath]) \<and>
   (img_Cmd c, img_Entrypoint c) =
     (case lay_FullCommand l of None \<Rightarrow> (lay_Cmd l, lay_Entrypoint l) | Some args \<Rightarrow> (None, Some args)) \<and>
   img_WorkingDir c = (if lay_WorkingDir l = [] then img_WorkingDir img else lay_WorkingDir l) \<and>
   img_User c = (if lay_RuntimeUser l = [] then img_User img else lay_RuntimeUser l) \<and>
   map_of (img_Labels c) = map_of (img_Labels img) ++ map_of (rev generated) ++ map_of (rev (lay_Labels l)) \<and>
   set (img_Volumes c) = set (img_Volumes img) \<union> set (lay_Volumes l) \<and>
   c\<lparr>img_Env := img_Env img, img_Cmd := img_Cmd img, img_Entrypoint := img_Entrypoint img, img_WorkingDir := img_WorkingDir img,
     img_User := img_User img, img_Labels := img_Labels img, img_Volumes := img_Volumes img\<rparr> = img"
proof -
  let ?env = "img_Env img @ map (\<lambda>(k, v). k @ ''='' @ v) (lay_Environment l)"
  have "\<exists>s \<in> set ?env. strings_HasPrefix s ''PATH=''" if "kv \<in> set (lay_Environment l)" "fst kv = ''PATH''" for kv
  proof -
    from that obtain v where "(''PATH'', v) \<in> set (lay_Environment l)" by (metis prod.collapse)
    then have "''PATH='' @ v \<in> set ?env" by force
    then show ?thesis by (rule bexI [rotated]) (simp add: strings_HasPrefix_def)
  qed
  then have "image_env l (img_Env img) =
      (if \<exists>s \<in> set ?env. strings_HasPrefix s ''PATH='' then ?env else ?env @ [''PATH='' @ ReasonableDefaultPath])"
    unfolding image_env_def Let_def by (intro if_cong) blast+
  then show ?thesis
    by (simp add: layer_config_def Let_def map_of_put_all Un_commute set_eq_iff split: option.split) blast
qed

section \<open>The container of a layer\<close>

text \<open>
  liblxc appends to its configuration: \<open>items\<close> reads the items set so far off the world, and setting
  one leaves files alone.
\<close>

definition keeps_items :: "('x, 'c, 'f) host_ops \<Rightarrow> ('x \<Rightarrow> (string \<times> string) list) \<Rightarrow> bool" where
  "keeps_items ho items \<longleftrightarrow>
     (\<forall>c k v w w'. lx_SetConfigItem ho c k v w = (Inr (), w') \<longrightarrow>
        w_fs w' = w_fs w \<and> w_cwd w' = w_cwd w \<and> items (w_ext w') = items (w_ext w) @ [(k, v)])"

definition adds_items :: "('x \<Rightarrow> (string \<times> string) list) \<Rightarrow> (string \<times> string) list \<Rightarrow> 'x world \<Rightarrow> 'x world \<Rightarrow> bool" where
  "adds_items items kvs w w' \<longleftrightarrow> w_fs w' = w_fs w \<and> w_cwd w' = w_cwd w \<and> items (w_ext w') = items (w_ext w) @ kvs"

lemma adds_items_Nil [simp]: "adds_items items [] w w"
  by (simp add: adds_items_def)

lemma adds_items_trans: "adds_items items xs w w1 \<Longrightarrow> adds_items items ys w1 w2 \<Longrightarrow> adds_items items (xs @ ys) w w2"
  by (simp add: adds_items_def)

lemma stat_same: "w_fs w' = w_fs w \<Longrightarrow> w_cwd w' = w_cwd w \<Longrightarrow> stat_of p w' = stat_of p w"
  by (simp add: stat_of_def os_Stat_def w_key_def)

lemma SetConfig_adds:
  assumes "keeps_items ho items" "SetConfig ho c k v w = (Inr (), w')"
  shows "adds_items items [(k, v)] w w'"
proof -
  from assms(2) have "lx_SetConfigItem ho (con_c c) k v w = (Inr (), w')"
    by (cases "lx_SetConfigItem ho (con_c c) k v w"; cases "fst (lx_SetConfigItem ho (con_c c) k v w)")
      (auto simp: SetConfig_def io_bind_def io_try_def io_ret_def io_err_def)
  with assms(1) show ?thesis unfolding keeps_items_def adds_items_def by blast
qed

definition bind_item :: "'x world \<Rightarrow> string \<Rightarrow> string \<Rightarrow> string \<Rightarrow> string \<times> string" where
  "bind_item w source dest extra = (''lxc.mount.entry'', mount_entry source dest (create_opt (stat_of source w)) extra)"

lemma BindMount_adds:
  assumes "keeps_items ho items" "BindMount ho c source dest extra w = (Inr (), w')"
  shows "adds_items items [bind_item w source dest extra] w w' \<and> stat_of source w \<noteq> Inl ENOENT"
proof -
  have "os_Stat source w = (stat_of source w, w)" by (simp add: stat_of_def os_Stat_def)
  with assms(2) have "SetConfig ho c (fst (bind_item w source dest extra)) (snd (bind_item w source dest extra)) w = (Inr (), w')"
    and "stat_of source w \<noteq> Inl ENOENT"
    by (auto simp: BindMount_def io_try_def io_bind_def io_err_def bind_item_def os_IsNotExist_def split: if_split_asm sum.split_asm)
  with SetConfig_adds [OF assms(1)] show ?thesis by fastforce
qed

text \<open>A loop whose rounds each add items that depend only on the files.\<close>

lemma io_each_adds:
  assumes "io_each f xs w = (Inr (), w')"
    and "\<And>x v v'. x \<in> set xs \<Longrightarrow> w_fs v = w_fs w \<Longrightarrow> w_cwd v = w_cwd w \<Longrightarrow> f x v = (Inr (), v') \<Longrightarrow>
      adds_items items (g x) v v' \<and> P x"
  shows "adds_items items (concat (map g xs)) w w' \<and> (\<forall>x \<in> set xs. P x)"
  using assms
proof (induction xs arbitrary: w)
  case (Cons x xs)
  then obtain v where v: "f x w = (Inr (), v)" "io_each f xs v = (Inr (), w')" by (auto simp: io_simps)
  have x: "adds_items items (g x) w v" "P x" using Cons.prems(2) [OF _ refl refl v(1)] by simp_all
  then have same: "w_fs v = w_fs w" "w_cwd v = w_cwd w" by (simp_all add: adds_items_def)
  have "adds_items items (concat (map g xs)) v w' \<and> (\<forall>x \<in> set xs. P x)"
    by (rule Cons.IH [OF v(2)]) (use Cons.prems(2) same in auto)
  with x show ?case using adds_items_trans [OF x(1)] by auto
qed simp

text \<open>What the three parts add.\<close>

definition imports_items :: "'x world \<Rightarrow> string \<Rightarrow> string \<Rightarrow> (string \<times> string) list" where
  "imports_items w dir inDir =
     (if is_ok (stat_of dir w)
      then [bind_item w dir (path_Join [inDir, ''imports'']) ''ro''] @
        (if inDir = LegacyInternalStackerDir then [bind_item w dir InternalStackerDir ''ro''] else [])
      else [])"

lemma bind_item_same: "w_fs v = w_fs w \<Longrightarrow> w_cwd v = w_cwd w \<Longrightarrow> bind_item v = bind_item w"
  by (intro ext) (simp add: bind_item_def stat_same [of v w])

lemma mount_imports_adds:
  assumes "keeps_items ho items" "mount_imports ho c dir inDir w = (Inr (), w')"
  shows "adds_items items (imports_items w dir inDir) w w'"
proof -
  have run: "(case stat_of dir w of Inr _ \<Rightarrow>
      io_bind (BindMount ho c dir (path_Join [inDir, ''imports'']) ''ro'') (\<lambda>_.
        io_if (inDir = LegacyInternalStackerDir) (BindMount ho c dir InternalStackerDir ''ro'')) | Inl _ \<Rightarrow> io_ret ()) w = (Inr (), w')"
    using assms(2) by (simp add: mount_imports_def io_bind_def io_try_def stat_of_def os_Stat_def)
  show ?thesis
  proof (cases "stat_of dir w")
    case (Inr n)
    with run obtain v where v: "BindMount ho c dir (path_Join [inDir, ''imports'']) ''ro'' w = (Inr (), v)"
      "io_if (inDir = LegacyInternalStackerDir) (BindMount ho c dir InternalStackerDir ''ro'') v = (Inr (), w')"
      by (auto simp: io_simps)
    note first = conjunct1 [OF BindMount_adds [OF assms(1) v(1)]]
    then have same: "bind_item v = bind_item w" by (auto simp: adds_items_def intro: bind_item_same)
    have "adds_items items (if inDir = LegacyInternalStackerDir then [bind_item w dir InternalStackerDir ''ro''] else []) v w'"
      using v(2) BindMount_adds [OF assms(1), of c dir InternalStackerDir "''ro''" v w'] same
      by (auto simp: io_if_def io_simps)
    from adds_items_trans [OF first this] Inr show ?thesis by (simp add: imports_items_def is_ok_iff)
  next
    case (Inl e)
    with run show ?thesis by (auto simp: imports_items_def io_simps is_ok_iff)
  qed
qed

lemma set_environment_adds:
  assumes "keeps_items ho items" "set_environment ho c env w = (Inr (), w')"
  shows "adds_items items (map (\<lambda>(k, v). (''lxc.environment'', k @ ''='' @ v)) (filter (\<lambda>(k, v). v \<noteq> []) env)) w w'"
proof -
  have "adds_items items (concat (map (\<lambda>(k, v). if v \<noteq> [] then [(''lxc.environment'', k @ ''='' @ v)] else []) env)) w w' \<and>
      (\<forall>x \<in> set env. True)"
    by (rule io_each_adds [OF assms(2) [unfolded set_environment_def]])
      (auto simp: io_if_def io_simps split: if_split_asm intro: SetConfig_adds [OF assms(1)])
  moreover have "concat (map (\<lambda>(k, v). if v \<noteq> [] then [(''lxc.environment'', k @ ''='' @ v)] else []) env) =
      map (\<lambda>(k, v). (''lxc.environment'', k @ ''='' @ v)) (filter (\<lambda>(k, v). v \<noteq> []) env)"
    by (induction env) auto
  ultimately show ?thesis by simp
qed

lemma bind_mounts_adds:
  assumes "keeps_items ho items" "bind_mounts ho c binds w = (Inr (), w')"
  shows "adds_items items (map (\<lambda>b. bind_item w (bind_Source b) (bind_Dest b) []) binds) w w' \<and>
    (\<forall>b \<in> set binds. stat_of (bind_Source b) w \<noteq> Inl ENOENT)"
proof -
  have "adds_items items (concat (map (\<lambda>b. [bind_item w (bind_Source b) (bind_Dest b) []]) binds)) w w' \<and>
      (\<forall>b \<in> set binds. stat_of (bind_Source b) w \<noteq> Inl ENOENT)"
  proof (rule io_each_adds [OF assms(2) [unfolded bind_mounts_def]])
    fix b v v' assume v: "w_fs v = w_fs w" "w_cwd v = w_cwd w"
      and run: "io_bind (io_try (BindMount ho c (bind_Source b) (bind_Dest b) [])) (\<lambda>r.
         case r of Inl _ \<Rightarrow> io_err (Errorf ''failed to bind mount %q at %q: %s'' [bind_Source b, bind_Dest b])
         | Inr _ \<Rightarrow> io_ret ()) v = (Inr (), v')"
    from run have "BindMount ho c (bind_Source b) (bind_Dest b) [] v = (Inr (), v')"
      by (cases "BindMount ho c (bind_Source b) (bind_Dest b) [] v"; cases "fst (BindMount ho c (bind_Source b) (bind_Dest b) [] v)")
        (auto simp: io_bind_def io_try_def io_err_def io_ret_def)
    from BindMount_adds [OF assms(1) this] bind_item_same [OF v] stat_same [OF v]
    show "adds_items items [bind_item w (bind_Source b) (bind_Dest b) []] v v' \<and> stat_of (bind_Source b) w \<noteq> Inl ENOENT" by simp
  qed
  moreover have "concat (map (\<lambda>b. [f b]) bs) = map f bs" for f :: "Bind \<Rightarrow> string \<times> string" and bs by (induction bs) auto
  ultimately show ?thesis by simp
qed

text \<open>
  C16. What setting a layer up adds to the configuration of its container: the directory of its
  imports, read-only, where there is one; every variable of its build environment that is not empty;
  and its bind mounts, each of something that is there. Nothing else, and in this order.
\<close>

theorem layer_container_config:
  assumes "keeps_items ho items" "SetupLayerConfig ho config c l inDir name w = (Inr (), w')"
  shows "\<exists>env. BuildEnvironment l name (map (\<lambda>(k, v). k @ ''='' @ v) (ho_env ho)) = Inr env \<and>
    adds_items items
      (imports_items w (path_Join [sc_StackerDir config, ''imports'', name]) inDir @
       map (\<lambda>(k, v). (''lxc.environment'', k @ ''='' @ v)) (filter (\<lambda>(k, v). v \<noteq> []) env) @
       map (\<lambda>b. bind_item w (bind_Source b) (bind_Dest b) []) (lay_Binds l)) w w' \<and>
    (\<forall>b \<in> set (lay_Binds l). stat_of (bind_Source b) w \<noteq> Inl ENOENT)"
proof -
  from assms(2) obtain env w1 w2 where env: "BuildEnvironment l name (map (\<lambda>(k, v). k @ ''='' @ v) (ho_env ho)) = Inr env"
    and parts: "mount_imports ho c (path_Join [sc_StackerDir config, ''imports'', name]) inDir w = (Inr (), w1)"
      "set_environment ho c env w1 = (Inr (), w2)" "bind_mounts ho c (lay_Binds l) w2 = (Inr (), w')"
    by (auto simp: SetupLayerConfig_def io_simps)
  note m = mount_imports_adds [OF assms(1) parts(1)] and e = set_environment_adds [OF assms(1) parts(2)]
    and b = bind_mounts_adds [OF assms(1) parts(3)]
  from adds_items_trans [OF m e] have same: "w_fs w2 = w_fs w" "w_cwd w2 = w_cwd w" by (simp_all add: adds_items_def)
  show ?thesis
    using env adds_items_trans [OF m adds_items_trans [OF e conjunct1 [OF b]]] conjunct2 [OF b]
    by (simp add: bind_item_same [OF same] stat_same [OF same])
qed

section \<open>The root file system\<close>

lemma Delete_no_error: "overlay_Delete o' t w = (Inr (), snd (overlay_Delete o' t w))"
  by (simp add: overlay_Delete_def io_wrap_def os_RemoveAll_def)

lemma SetupRootfs_scratch:
  assumes "is_Type (lay_From (bo_Layer bo)) = ScratchLayer" "bo_Storage bo = overlay_storage n order oc' oj o'"
    and "SetupRootfs oc bo w = (Inr (), w')"
  shows "\<exists>w1 w2. overlay_Delete o' (bo_Name bo) w = (Inr (), w1) \<and> overlay_Create o' (bo_Name bo) w1 = (Inr (), w2) \<and>
    SetupEmptyRootfs oj o' (bo_Name bo) w2 = (Inr (), w')"
proof -
  define w1 where "w1 = snd (overlay_Delete o' (bo_Name bo) w)"
  have del: "overlay_Delete o' (bo_Name bo) w = (Inr (), w1)" unfolding w1_def by (rule Delete_no_error)
  with assms have "setup_base oc bo w1 = (Inr (), w')"
    by (simp add: SetupRootfs_def overlay_storage_def io_bind_def io_try_def)
  with assms(1,2) del show ?thesis
    by (auto simp: setup_base_def overlay_storage_def Let_def io_simps layer_kind_defs split: if_split_asm)
qed

lemma metadata_path:
  assumes "clean_abs root" "plain t"
  shows "metadataFile root t = path_Join [path_Join [root, t], ''overlay_metadata.json'']" "clean_abs (metadataFile root t)"
    "metadataFile root t = root @ slash # t @ slash # ''overlay_metadata.json''"
proof -
  have p: "plain ''overlay_metadata.json''" by (simp add: plain_def)
  show "metadataFile root t = path_Join [path_Join [root, t], ''overlay_metadata.json'']" "clean_abs (metadataFile root t)"
    "metadataFile root t = root @ slash # t @ slash # ''overlay_metadata.json''"
    unfolding metadataFile_def using tag_paths [OF assms p] by simp_all
qed

text \<open>How the paths of a tag lie to each other.\<close>

lemma tag_layout:
  assumes root: "clean_abs root" "plain t"
  shows "k \<in> set (ancestors root) \<Longrightarrow> \<not> under (path_Join [root, t]) k"
    "under (path_Join [root, t]) (path_Join [root, t, ''overlay''])" "under (path_Join [root, t]) (path_Join [root, t, ''rootfs''])"
    "under (path_Join [root, t]) (metadataFile root t)"
    "metadataFile root t \<notin> {path_Join [root, t, ''overlay''], path_Join [root, t, ''rootfs''], path_Join [root, t]}"
    "metadataFile root t \<noteq> ''/''" "\<not> under (path_Join [root, t]) ''/''"
proof -
  let ?tag = "path_Join [root, t]"
  note meta = metadata_path [OF root] and tag = path_Join_plain [OF root]
  note o_path = tag_paths(1) [OF root plain_names(1)] and r_path = tag_paths(1) [OF root plain_names(2)]
  have under_tag: "under ?tag k \<longleftrightarrow> k = ?tag \<or> prefix (?tag @ ''/'') k" for k
    using clean_abs_Join [OF root] by (auto simp: under_def clean_abs_def)
  show "k \<in> set (ancestors root) \<Longrightarrow> \<not> under ?tag k"
    using ancestors_split [OF root(1), of k] tag unfolding under_tag by (auto simp: prefix_def)
  show "under ?tag (path_Join [root, t, ''overlay''])" "under ?tag (path_Join [root, t, ''rootfs''])" "under ?tag (metadataFile root t)"
    unfolding under_tag unfolding tag o_path r_path meta(3) by simp_all
  show "metadataFile root t \<notin> {path_Join [root, t, ''overlay''], path_Join [root, t, ''rootfs''], ?tag}"
    unfolding tag o_path r_path meta(3) by simp
  show "metadataFile root t \<noteq> ''/''" using meta(2) by (simp add: clean_abs_def)
  show "\<not> under ?tag ''/''" using clean_abs_Join [OF root] unfolding under_tag unfolding tag
    by (auto simp: clean_abs_def prefix_def Cons_eq_append_conv)
qed

lemma write_new_file:
  assumes "solid w p" "clean_abs p" "lnode (w_fs w) p = None" "os_WriteFile p c perm w = (Inr (), w')"
  shows "w' = w\<lparr>w_fs := set_node p (File c perm (0, 0)) (w_fs w)\<rparr>"
  using assms(3,4) solid_key [OF assms(1,2)]
  by (auto simp: os_WriteFile_def write_at_def follow_41 split: sum.split_asm if_split_asm)

text \<open>
  C34. Setting up a layer that starts from scratch leaves nothing of an earlier build: below the
  directory of its tag there are the two empty directories and fresh metadata. Other than that only the
  directories on the way to the storage can be new.
\<close>

theorem scratch_rootfs_fresh:
  assumes "SetupRootfs oc bo w = (Inr (), w')" "is_Type (lay_From (bo_Layer bo)) = ScratchLayer"
    and "bo_Storage bo = overlay_storage n order oc' oj o'" "tag_usable o' (bo_Name bo) w"
    and "solid w (metadataFile (sc_RootFSDir (ov_config o')) (bo_Name bo))"
  shows "\<exists>content. oj_Marshal oj newOverlayMetadata = Inr content \<and>
    (\<forall>k. under (path_Join [sc_RootFSDir (ov_config o'), bo_Name bo]) k \<longrightarrow> lnode (w_fs w') k =
      (if k \<in> {path_Join [sc_RootFSDir (ov_config o'), bo_Name bo], path_Join [sc_RootFSDir (ov_config o'), bo_Name bo, ''overlay''],
          path_Join [sc_RootFSDir (ov_config o'), bo_Name bo, ''rootfs'']} then Some Dir
       else if k = metadataFile (sc_RootFSDir (ov_config o')) (bo_Name bo) then Some (File content 420 (0, 0)) else None)) \<and>
    (\<forall>k. \<not> under (path_Join [sc_RootFSDir (ov_config o'), bo_Name bo]) k \<longrightarrow> lnode (w_fs w') k =
      (if k \<in> set (ancestors (sc_RootFSDir (ov_config o'))) then Some Dir else lnode (w_fs w) k))"
proof -
  let ?root = "sc_RootFSDir (ov_config o')" and ?t = "bo_Name bo"
  let ?tag = "path_Join [?root, ?t]" and ?meta = "metadataFile ?root ?t"
  obtain w1 w2 where w1: "overlay_Delete o' ?t w = (Inr (), w1)" and w2: "overlay_Create o' ?t w1 = (Inr (), w2)"
    and w3: "SetupEmptyRootfs oj o' ?t w2 = (Inr (), w')"
    using SetupRootfs_scratch [OF assms(2,3,1)] by blast
  have root: "clean_abs ?root" "plain ?t" using assms(4) by (simp_all add: tag_usable_def)
  note meta = metadata_path(2) [OF root] and lay = tag_layout [OF root]
  have usable1: "tag_usable o' ?t w1" by (rule ovl.delete_usable [OF assms(4) assms(4) w1])
  have fs1: "w1 = w\<lparr>w_fs := remove_under ?tag (w_fs w)\<rparr>" by (rule overlay_Delete_fs [OF assms(4) w1])
  obtain m where m: "w2 = w1\<lparr>w_fs := m\<rparr>" "\<forall>x \<in> set m. x \<in> set (w_fs w1) \<or> snd x = Dir"
    "\<And>k. lnode m k = (if k \<in> {path_Join [?root, ?t, ''overlay''], path_Join [?root, ?t, ''rootfs''], ?tag} \<union> set (ancestors ?root)
       then Some Dir else lnode (w_fs w1) k)"
    using overlay_Create_fs [OF usable1 w2] by blast
  have gone: "lnode (w_fs w1) k = (if under ?tag k then None else lnode (w_fs w) k)" if "k \<noteq> ''/''" for k
    using that by (simp add: fs1 lnode_remove_under)
  obtain content where content: "oj_Marshal oj newOverlayMetadata = Inr content" "os_WriteFile ?meta content 420 w2 = (Inr (), w')"
    using w3 by (auto simp: SetupEmptyRootfs_def ovl_write_def io_simps)
  have "solid w1 ?meta" unfolding fs1 by (rule solid_fewer [OF assms(5)]) (auto simp: remove_under_def)
  then have "solid w2 ?meta" unfolding m(1) using m(2) by (rule solid_fewer)
  moreover have "lnode (w_fs w2) ?meta = None"
    using lay gone [OF lay(6)] by (auto simp: m(1) m(3))
  ultimately have w': "w' = w2\<lparr>w_fs := set_node ?meta (File content 420 (0, 0)) (w_fs w2)\<rparr>"
    using meta content(2) by (intro write_new_file)
  have node: "lnode (w_fs w') k = (if k = ?meta then Some (File content 420 (0, 0)) else lnode m k)" for k
    using lay(6) by (simp add: w' m(1))
  have in_tag: "lnode (w_fs w') k = (if k \<in> {?tag, path_Join [?root, ?t, ''overlay''], path_Join [?root, ?t, ''rootfs'']} then Some Dir
      else if k = ?meta then Some (File content 420 (0, 0)) else None)" if "under ?tag k" for k
  proof -
    have "k \<noteq> ''/''" using lay(7) that by auto
    from gone [OF this] that lay(1,5) show ?thesis unfolding node m(3) by auto
  qed
  have off_tag: "lnode (w_fs w') k = (if k \<in> set (ancestors ?root) then Some Dir else lnode (w_fs w) k)" if "\<not> under ?tag k" for k
  proof (cases "k = ''/''")
    case True
    then show ?thesis by (simp add: lnode_def)
  next
    case False
    from gone [OF False] that lay(2-4) show ?thesis unfolding node m(3) by auto
  qed
  show ?thesis using content(1) in_tag off_tag by blast
qed

section \<open>Witnesses\<close>

text \<open>Libraries that do nothing, on a world with one stacker file, which has no layers.\<close>

definition build_oci :: "(string list, unit) oci_ops" where
  "build_oci = \<lparr>oc_OpenLayout = (\<lambda>_. io_ret ()), oc_LookupManifest = (\<lambda>_ _. io_ret zero_manifest),
     oc_LookupConfig = (\<lambda>_ _. io_ret zero_image), oc_UpdateImageConfig = (\<lambda>_ _ _ _. io_ret zero_descriptor),
     oc_NewImage = (\<lambda>_ _ _. io_ret ()), oc_PutBlob = (\<lambda>_ b. io_ret (b, 1)), oc_GetBlob = (\<lambda>_ _. io_ret []),
     oc_ResolveReference = (\<lambda>_ _. io_ret [zero_descriptor]), oc_UpdateReference = (\<lambda>_ _ _. io_ret ()),
     oc_GetIndex = (\<lambda>_. io_ret []), oc_PutIndex = (\<lambda>_ _. io_ret ()),
     oc_Encoded = Inr, oc_parse_ref = (\<lambda>s. None),
     oc_CopyImage = (\<lambda>_ _ _. io_ret ()), oc_NewPolicyContext = Inr (), oc_Now = io_ret 0, mu_New = (\<lambda>_ _. io_ret ()),
     mu_AddExisting = (\<lambda>_ _ _ _. io_ret ()), mu_Add = (\<lambda>_ _ b _ _ _. io_ret ((), zero_descriptor)),
     mu_Set = (\<lambda>_ _ _ _. io_ret ()), mu_Commit = (\<lambda>_. io_ret ((), zero_descriptor)), mu_Manifest = (\<lambda>_. io_ret zero_manifest),
     mu_Config = (\<lambda>_. io_ret zero_image), fs_Make = (\<lambda>_ _ _ _. io_ret (''fs'', ''m'', [])), fs_ExtractSingle = (\<lambda>_. None),
     tar_GenerateInsertLayer = (\<lambda>_ _. io_ret ''tar''), tar_UnpackLayer = (\<lambda>_ _. io_ret ()), gz_NewReader = Inr,
     xa_LList = (\<lambda>_. io_ret []), xa_LRemove = (\<lambda>_ _. io_ret ()),
     sy_Mount = (\<lambda>_ _ _ _. io_ret ()), sy_Unmount = (\<lambda>_. io_ret ()), sy_Mknod = (\<lambda>_. io_ret ()), sy_Statfs_Type = (\<lambda>_. io_ret 0),
     sy_IsPermission = (\<lambda>_. False),
     mt_types = \<lparr>mt_squashfs_base = ''sq'', mt_squashfs_gzip = ''sq+gz'', mt_squashfs_zstd = ''sq+zs'', mt_erofs_base = ''er'',
       mt_erofs_lz4hc = ''er+hc'', mt_erofs_lz4 = ''er+lz'', mt_erofs_zstd = ''er+zs'', mt_layer_gzip = ''tar+gz'', mt_layer = ''tar'',
       mt_verity_annotation = ''root''\<rparr>,
     mt_ImageLayer = ''tar'', mt_ImageLayerGzip = ''tar+gz'', an_RefName = ''ref'', an_VerityRootHash = ''root''\<rparr>"

definition build_locks :: "(string list, nat) lock_ops" where
  "build_locks = \<lparr>lk_Fd = (\<lambda>_. io_ret 3), lk_Flock = (\<lambda>_. io_ret ()), lk_Ino = (\<lambda>_. io_ret 0), lk_Close = (\<lambda>_. io_ret ())\<rparr>"

definition sample_build :: "(string list, string, unit, unit, nat, nat) build_env" where
  "sample_build = \<lparr>be_stack = 2,
     be_files = (sample_env [])\<lparr>env_layers := (\<lambda>lms. Inr (map (\<lambda>k. (k, sample_layer)) (remdups (map fst lms))))\<rparr>,
     be_import = sample_net, be_oci = build_oci, be_host = sample_host, be_lock = build_locks, be_storage = (\<lambda>_. sample_storage :: string list storage),
     be_CreateLayout = (\<lambda>_. io_ret ()), be_GC = (\<lambda>_. io_ret ()), be_SubstituteMap = (\<lambda>_. Inr []), be_Version = ''1''\<rparr>"

definition sample_builder :: Builder where
  "sample_builder = \<lparr>bu_builtStackerfiles = [], bu_opts = \<lparr>ba_Config = sample_config, ba_NoCache = False, ba_SubstituteFile = [],
     ba_Substitute = [], ba_OnRunFailure = [], ba_LayerTypes = [\<lparr>lt_Type = ''tar'', lt_Verity = False\<rparr>], ba_OrderOnly = False, ba_HashRequired = False,
     ba_SetupOnly = False, ba_AnnotationsNamespace = ''io''\<rparr>\<rparr>"

definition build_world :: "string list world" where
  "build_world = \<lparr>w_fs = [(''/s.yaml'', File [] 420 (0, 0)), (''/tmp'', Dir)],
     w_cwd = ''/'', w_ext = []\<rparr>"



definition sb_file :: Stackerfile where
  "sb_file = \<lparr>sf_AfterSubstitutions = [], sf_internal = [], sf_FileOrder = [], sf_buildConfig = Some [],
     sf_path = ''/s.yaml'', sf_ReferenceDirectory = ''/''\<rparr>"

lemma sb_substitute: "substitute [] (build_substitutions (bu_opts sample_builder)) = Inr []"
proof -
  have "build_substitutions (bu_opts sample_builder) = map (\<lambda>(k, v). k @ CHR ''='' # v)
      [(''STACKER_ROOTFS_DIR'', ''/r''), (''STACKER_STACKER_DIR'', ''/s''), (''STACKER_OCI_DIR'', ''/oci''), (''STACKER_WORK_DIR'', ''/'')]"
    by (simp add: build_substitutions_def sample_builder_def sample_config_def Substitutions_def)
  then show ?thesis
    using substitute_spec [of "[(''STACKER_ROOTFS_DIR'', ''/r''), (''STACKER_STACKER_DIR'', ''/s''), (''STACKER_OCI_DIR'', ''/oci''), (''STACKER_WORK_DIR'', ''/'')]" "[]"]
    by (simp add: subs_ok_def name_ok_def literal_char_def render_all_def)
qed

lemma sb_read:
  assumes "w_cwd w = ''/''" "fst (os_ReadFile ''/s.yaml'' w) = Inr []"
  shows "NewStackerfile (files_in (be_files sample_build) w) ''/s.yaml'' False (build_substitutions (bu_opts sample_builder)) = Inr sb_file"
proof -
  have abs: "filepath_Abs ''/'' ''/s.yaml'' = ''/s.yaml''" "path_Dir ''/s.yaml'' = ''/''" by code_simp+
  have url: "du_Scheme (dockerish ''/s.yaml'') = []" by (simp add: scheme_cut)
  show ?thesis
    using assms sb_substitute abs url
    by (simp add: NewStackerfile_def files_in_def sample_build_def sample_env_def read_stackerfile_def section_step_def
        parseLayers_def check_directives_def as_mapslice_def Let_def sb_file_def)
qed

lemma sb_files:
  assumes "w_cwd w = ''/''" "fst (os_ReadFile ''/s.yaml'' w) = Inr []"
  shows "NewStackerFiles 2 (files_in (be_files sample_build) w) [''/s.yaml''] False (build_substitutions (bu_opts sample_builder)) =
    Inr [(''/s.yaml'', sb_file)]"
proof -
  have "filepath_Abs ''/'' ''/s.yaml'' = ''/s.yaml''" by code_simp
  with sb_read [OF assms] assms(1) show ?thesis
    by (simp add: numeral_2_eq_2 Prerequisites_def buildPrerequisites_def Let_def sb_file_def)
      (simp add: files_in_def check_unique_def all_names_def unique_step_def)
qed

lemma sb_dag: "\<exists>dg. NewStackerFilesDAG lg_ops ''/'' [(''/s.yaml'', sb_file)] = Inr dg \<and> StackerFilesDAG_Sort lg_ops dg = Inr [''/s.yaml''] \<and>
    GetStackerFile lg_ops dg ''/s.yaml'' = Inr sb_file"
proof -
  have pre: "Prerequisites ''/'' sb_file = Inr []" by (simp add: Prerequisites_def buildPrerequisites_def sb_file_def)
  then have "\<exists>dg. NewStackerFilesDAG lg_ops ''/'' [(''/s.yaml'', sb_file)] = Inr dg"
    by (simp add: NewStackerFilesDAG_def to_res_def NewDAG_def AddVertex_def lg_ops_def add_file_deps_def file_at_def Let_def)
  then obtain dg where dg: "NewStackerFilesDAG lg_ops ''/'' [(''/s.yaml'', sb_file)] = Inr dg" ..
  obtain order where order: "StackerFilesDAG_Sort lg_ops dg = Inr order" "distinct order" "set order = fst ` set [(''/s.yaml'', sb_file)]"
    "\<forall>p \<in> set order. GetStackerFile lg_ops dg p = Inr (file_at [(''/s.yaml'', sb_file)] p)"
    using stacker_graph.files_order [OF stacker_graph.intro [OF lg_laws] dg] by blast
  from order(2,3) have "order = [''/s.yaml'']" by (cases order; cases "tl order") auto
  then show ?thesis using dg order(1,4) by (auto simp: file_at_def)
qed

definition sb_world :: "string list world" where
  "sb_world = build_world\<lparr>w_fs := w_fs build_world @ [(''/r'', Dir), (''/s'', Dir), (''/s/storage.type'', File ''overlay'' 420 (0, 0)),
     (''/s/.lock'', File [] 438 (0, 0)), (''/r/.lock'', File [] 438 (0, 0))]\<rparr>"

text \<open>Taking the locks and opening the storage, with any stacker file there.\<close>

definition start_world :: "string \<Rightarrow> string list world" where
  "start_world c = build_world\<lparr>w_fs := [(''/s.yaml'', File c 420 (0, 0)), (''/tmp'', Dir)]\<rparr>"

definition locked_world :: "string \<Rightarrow> string list world" where
  "locked_world c = (start_world c)\<lparr>w_fs := w_fs (start_world c) @ [(''/r'', Dir), (''/s'', Dir), (''/s/storage.type'', File ''overlay'' 420 (0, 0)),
     (''/s/.lock'', File [] 438 (0, 0)), (''/r/.lock'', File [] 438 (0, 0))]\<rparr>"

lemma locked_storage: "NewStorage build_oci build_locks ''/tmp'' sample_config (start_world c) =
   (Inr (NewOverlay sample_config, \<lparr>sl_stackerDir = Some 3, sl_rootsDir = Some 3\<rparr>), locked_world c)"
  by code_simp

lemma sb_storage: "NewStorage build_oci build_locks ''/tmp'' sample_config build_world =
   (Inr (NewOverlay sample_config, \<lparr>sl_stackerDir = Some 3, sl_rootsDir = Some 3\<rparr>), sb_world)"
proof -
  have "build_world = start_world []" "sb_world = locked_world []"
    by (simp_all add: start_world_def locked_world_def sb_world_def build_world_def)
  then show ?thesis using locked_storage [of "[]"] by simp
qed

lemma sb_cache: "OpenCache sample_cache_env sample_config [(''/s.yaml'', sb_file)] sb_world =
    (Inr (fresh_cache sample_config [(''/s.yaml'', sb_file)]), sb_world)"
  by code_simp
lemma sb_open: "os_Stat ''/oci'' sb_world = (Inl ENOENT, sb_world)" by code_simp

lemma sb_world_read: "w_cwd sb_world = ''/''" "os_ReadFile ''/s.yaml'' sb_world = (Inr [], sb_world)"
  by code_simp+

lemma sb_run: "\<exists>b' w'. BuildMultiple sample_build lg_ops sample_builder [''/s.yaml''] build_world = (Inr b', w')"
proof -
  obtain dg where dg: "NewStackerFilesDAG lg_ops ''/'' [(''/s.yaml'', sb_file)] = Inr dg"
    "StackerFilesDAG_Sort lg_ops dg = Inr [''/s.yaml'']" "GetStackerFile lg_ops dg ''/s.yaml'' = Inr sb_file"
    using sb_dag by blast
  have read: "fst (os_ReadFile ''/s.yaml'' sb_world) = Inr []" using sb_world_read by simp
  have order: "DependencyOrder 2 sb_file [] = Inr []" by code_simp
  have pre: "Prerequisites ''/'' sb_file = Inr []" by (simp add: Prerequisites_def buildPrerequisites_def sb_file_def)
  let ?opts = "bu_opts sample_builder"
  have opts: "ba_Config ?opts = sample_config" "\<not> ba_NoCache ?opts" "\<not> ba_HashRequired ?opts" "\<not> ba_OrderOnly ?opts"
    "bu_builtStackerfiles sample_builder = []" "sc_OCIDir sample_config = ''/oci''"
    by (simp_all add: sample_builder_def sample_config_def)
  have be: "be_stack sample_build = 2" "be_oci sample_build = build_oci" "be_lock sample_build = build_locks"
    "be_GC sample_build d = io_ret ()" "be_CreateLayout sample_build d = io_ret ()" "im_env (be_import sample_build) = sample_cache_env"
    "ho_tmpdir (be_host sample_build) = ''/tmp''" for d
    by (simp_all add: sample_build_def sample_net_def sample_host_def)
  have out: "open_output sample_build ''/oci'' sb_world = (Inr (), sb_world)"
    by (simp add: open_output_def io_bind_def io_try_def sb_open be) (simp add: io_wrap_def io_ret_def)
  have layers: "build_layers sample_build opts sf fs s [] cache w = (Inr cache, w)" for opts sf fs s cache w
    by (simp add: be) (simp add: io_ret_def)
  have one: "build_file sample_build s sample_builder ''/s.yaml'' sb_world =
      (Inr (sample_builder\<lparr>bu_builtStackerfiles := [(''/s.yaml'', sb_file)]\<rparr>), sb_world)" for s
    using sb_read [OF sb_world_read(1) read] order sb_cache
      out layers
    by (simp add: build_file_def opts be Let_def io_if_def check_layer_names_def io_bind_run)
      (simp add: io_ret_def)
  show ?thesis
    using sb_files [OF sb_world_read(1) read] dg pre one sb_storage sb_world_read(1)
    by (simp add: BuildMultiple_def opts be Let_def io_bind_run io_defer_def split: prod.split) (simp add: io_ret_def)
qed

lemma build_multiple_order_witness:
  "\<exists>b' w'. BuildMultiple sample_build lg_ops sample_builder [''/s.yaml''] build_world = (Inr b', w') \<and>
    map fst (bu_builtStackerfiles b') = [''/s.yaml'']"
proof -
  obtain b' w' where run: "BuildMultiple sample_build lg_ops sample_builder [''/s.yaml''] build_world = (Inr b', w')"
    using sb_run by blast
  have opts: "\<not> ba_OrderOnly (bu_opts sample_builder)" "bu_builtStackerfiles sample_builder = []" "ba_Config (bu_opts sample_builder) = sample_config"
    "\<not> ba_HashRequired (bu_opts sample_builder)" by (simp_all add: sample_builder_def)
  have be: "be_stack sample_build = 2" "be_oci sample_build = build_oci" "be_lock sample_build = build_locks"
    "ho_tmpdir (be_host sample_build) = ''/tmp''" by (simp_all add: sample_build_def sample_host_def)
  from build_multiple_order [OF lg_laws run opts(1,2)] obtain sfm order where sfm:
    "NewStackerFiles 2 (files_in (be_files sample_build) sb_world) [''/s.yaml''] False (build_substitutions (bu_opts sample_builder)) = Inr sfm"
    "distinct order" "set order = fst ` set sfm" "map fst (bu_builtStackerfiles b') = order"
    by (auto simp: be opts sb_storage)
  have "sfm = [(''/s.yaml'', sb_file)]" using sfm(1) sb_files [OF sb_world_read(1)] sb_world_read(2) by simp
  with sfm(2-4) have "map fst (bu_builtStackerfiles b') = [''/s.yaml'']"
    by (cases order; cases "tl order") auto
  with run show ?thesis by (intro exI conjI)
qed

lemma built_names_no_colon_witness:
  "\<exists>b' w'. BuildMultiple sample_build lg_ops sample_builder [''/s.yaml''] build_world = (Inr b', w') \<and>
    (\<forall>(p, sf) \<in> set (bu_builtStackerfiles b'). \<forall>name \<in> fst ` set (sf_internal sf). CHR '':'' \<notin> set name)"
proof -
  obtain b' w' where run: "BuildMultiple sample_build lg_ops sample_builder [''/s.yaml''] build_world = (Inr b', w')"
    using sb_run by blast
  have "yaml_keeps_keys (be_files sample_build)" "bu_builtStackerfiles sample_builder = []"
    by (simp_all add: yaml_keeps_keys_def sample_build_def sample_builder_def comp_def image_image)
  from built_names_no_colon [OF run this] run show ?thesis by blast
qed

lemma layer_script_lines_witness:
  "\<exists>w' content. generateShellForRunning [''a'', ''b''] ''/f'' (build_world) = (Inr (), w') \<and>
     os_ReadFile ''/f'' w' = (Inr content, w') \<and> strings_Split content [CHR 0x0A] = [''#!/bin/sh -xe'', ''a'', ''b'', []]"
proof -
  have "is_ok (fst (generateShellForRunning [''a'', ''b''] ''/f'' (build_world)))" by code_simp
  then obtain w' where run: "generateShellForRunning [''a'', ''b''] ''/f'' (build_world) = (Inr (), w')"
    by (cases "generateShellForRunning [''a'', ''b''] ''/f'' (build_world)") (auto simp: is_ok_iff)
  from layer_script_lines [OF run] run show ?thesis by (simp add: strings_HasPrefix_def)
qed

lemma new_builder_substitutions_witness:
  "\<exists>b w'. NewBuilder (sample_build\<lparr>be_SubstituteMap := (\<lambda>_. Inr [(''A'', ''1''), (''B'', ''2'')])\<rparr>)
      ((bu_opts sample_builder)\<lparr>ba_SubstituteFile := ''/s.yaml'', ba_Substitute := [''A=0'']\<rparr>) sb_world = (Inr b, w') \<and>
    ba_Substitute (bu_opts b) = [''A=0'', ''B=2'']"
proof -
  let ?be = "sample_build\<lparr>be_SubstituteMap := (\<lambda>_. Inr [(''A'', ''1''), (''B'', ''2'')])\<rparr>"
  let ?opts = "(bu_opts sample_builder)\<lparr>ba_SubstituteFile := ''/s.yaml'', ba_Substitute := [''A=0'']\<rparr>"
  have "\<exists>b w'. NewBuilder ?be ?opts sb_world = (Inr b, w')"
    using sb_world_read(2) by (simp add: NewBuilder_def io_wrap_def io_bind_def io_ret_def io_res_def)
  then obtain b w' where run: "NewBuilder ?be ?opts sb_world = (Inr b, w')" by blast
  have "ba_Substitute (bu_opts b) = [''A=0'', ''B=2'']"
    using new_builder_substitutions [OF run, of "[]" "[(''A'', ''1''), (''B'', ''2'')]"] sb_world_read(2)
    by (simp add: substitutionExists_def strings_HasPrefix_def)
  with run show ?thesis by blast
qed

definition config_layer :: Layer where
  "config_layer = sample_layer\<lparr>lay_FullCommand := Some [''/bin/app''], lay_Labels := [(''a'', ''1'')], lay_Environment := [(''PATH'', ''/opt'')],
     lay_RuntimeUser := ''app''\<rparr>"

lemma image_config_of_layer_witness:
  "let c = layer_config config_layer [(''a'', ''0''), (''b'', ''2'')] (zero_image\<lparr>img_Cmd := Some [''sh''], img_WorkingDir := ''/home''\<rparr>) in
   img_Env c = [''PATH=/opt''] \<and> map_of (img_Labels c) ''a'' = Some ''1'' \<and> img_Cmd c = None \<and>
   img_Entrypoint c = Some [''/bin/app''] \<and> img_WorkingDir c = ''/home'' \<and> img_User c = ''app''"
  using image_config_of_layer [of config_layer "[(''a'', ''0''), (''b'', ''2'')]"
      "zero_image\<lparr>img_Cmd := Some [''sh''], img_WorkingDir := ''/home''\<rparr>"]
  by (simp add: Let_def config_layer_def sample_layer_def zero_image_def strings_HasPrefix_def)

text \<open>The command of a base is lost also when the layer names none.\<close>

lemma base_command_lost: "img_Cmd (layer_config sample_layer [] (zero_image\<lparr>img_Cmd := Some [''sh'']\<rparr>)) = None"
  by (simp add: layer_config_def sample_layer_def)

definition bind_layer :: Layer where
  "bind_layer = sample_layer\<lparr>lay_BuildEnv := [(''A'', ''1'')], lay_Binds := [\<lparr>bind_Source = ''/tmp'', bind_Dest = ''/t''\<rparr>]\<rparr>"

fun pairs :: "string list \<Rightarrow> (string \<times> string) list" where
  "pairs (k # v # kvs) = pairs kvs @ [(k, v)]"
| "pairs _ = []"

definition item_host :: "(string list, unit, nat) host_ops" where
  "item_host = sample_host\<lparr>lx_SetConfigItem := (\<lambda>_ k v w. (Inr (), w\<lparr>w_ext := k # v # w_ext w\<rparr>))\<rparr>"

definition item_container :: "unit Container" where
  "item_container = \<lparr>con_sc = sample_config, con_c = (), con_displayName = ''a''\<rparr>"

lemma layer_container_config_witness:
  "\<exists>w'. SetupLayerConfig item_host sample_config item_container bind_layer InternalStackerDir ''a'' build_world = (Inr (), w') \<and>
    pairs (w_ext w') = [(''lxc.environment'', ''A=1''), (''lxc.environment'', ''STACKER_LAYER_NAME=a''),
      (''lxc.mount.entry'', ''/tmp t none rbind,create=dir, 0 0'')]"
proof -
  have law: "keeps_items item_host pairs" by (auto simp: keeps_items_def item_host_def)
  let ?run = "SetupLayerConfig item_host sample_config item_container bind_layer InternalStackerDir ''a'' build_world"
  have "is_ok (fst ?run)" by code_simp
  then obtain w' where run: "?run = (Inr (), w')" by (cases ?run) (auto simp: is_ok_iff)
  have env: "BuildEnvironment bind_layer ''a'' (map (\<lambda>(k, v). k @ ''='' @ v) (ho_env item_host)) = Inr [(''A'', ''1''), (''STACKER_LAYER_NAME'', ''a'')]"
    by code_simp
  have items: "imports_items build_world (path_Join [sc_StackerDir sample_config, ''imports'', ''a'']) InternalStackerDir = []"
    "map (\<lambda>b. bind_item build_world (bind_Source b) (bind_Dest b) []) (lay_Binds bind_layer) =
      [(''lxc.mount.entry'', ''/tmp t none rbind,create=dir, 0 0'')]"
    by code_simp+
  have "adds_items pairs [(''lxc.environment'', ''A=1''), (''lxc.environment'', ''STACKER_LAYER_NAME=a''),
      (''lxc.mount.entry'', ''/tmp t none rbind,create=dir, 0 0'')] build_world w'"
    using layer_container_config [OF law run] unfolding env items by simp
  with run show ?thesis by (simp add: adds_items_def build_world_def)
qed

lemma cached_layer_complete_witness:
  "\<exists>c w l w'. prepare_layer sample_build (bu_opts sample_builder) (snd (hd sample_sfm)) sample_storage c ''a'' w = (Inr (l, True), w') \<and>
    lay_Binds l = []"
proof -
  let ?put = "Put 1 sample_cache_env ''a'' [(\<lparr>lt_Type = ''tar'', lt_Verity = False\<rparr>, sample_desc)] (fresh_cache sample_config sample_sfm)
    (cache_world\<lparr>w_fs := (''/f'', File ''x'' 420 (0, 0)) # w_fs cache_world\<rparr>)"
  let ?prep = "\<lambda>c. prepare_layer sample_build (bu_opts sample_builder) (snd (hd sample_sfm)) sample_storage c ''a''"
  let ?hit = "\<lambda>r. case r of (Inr (_, True), _) \<Rightarrow> True | _ \<Rightarrow> False"
  have "case ?put of (Inr c, w) \<Rightarrow> ?hit (?prep c w) | _ \<Rightarrow> False" by code_simp
  then obtain c w where hit: "?hit (?prep c w)" by (cases ?put; cases "fst ?put") auto
  obtain r w' where rw: "?prep c w = (r, w')" by force
  with hit obtain l where "r = Inr (l, True)" by (auto split: sum.split_asm bool.split_asm)
  with rw have run: "?prep c w = (Inr (l, True), w')" by simp
  from cached_layer_complete [OF run] run show ?thesis by blast
qed

lemma scratch_rootfs_fresh_witness:
  "\<exists>w'. SetupRootfs build_oci \<lparr>bo_Config = ov_config tag_overlay, bo_Name = ''a'', bo_Layer = cached_layer,
      bo_Storage = overlay_storage 1 id build_oci sample_json tag_overlay\<rparr>
      \<lparr>w_fs = [(''/r'', Dir), (''/r/a'', Dir), (''/r/a/old'', File [] 420 (0, 0))], w_cwd = ''/'', w_ext = []\<rparr> = (Inr (), w') \<and>
    lnode (w_fs w') ''/r/a/old'' = None \<and> lnode (w_fs w') ''/r/a/overlay'' = Some Dir"
proof -
  let ?bo = "\<lparr>bo_Config = ov_config tag_overlay, bo_Name = ''a'', bo_Layer = cached_layer,
      bo_Storage = overlay_storage 1 id build_oci sample_json tag_overlay\<rparr>"
  let ?w = "\<lparr>w_fs = [(''/r'', Dir), (''/r/a'', Dir), (''/r/a/old'', File [] 420 (0, 0))], w_cwd = ''/'', w_ext = []\<rparr> :: string list world"
  have "is_ok (fst (SetupRootfs build_oci ?bo ?w))" by code_simp
  then obtain w' where run: "SetupRootfs build_oci ?bo ?w = (Inr (), w')"
    by (cases "SetupRootfs build_oci ?bo ?w") (auto simp: is_ok_iff)
  have join: "path_Join [''/r'', ''a'', ''overlay''] = ''/r/a/overlay''" "path_Join [''/r'', ''a'', ''rootfs''] = ''/r/a/rootfs''"
    "path_Join [''/r'', ''a''] = ''/r/a''" "metadataFile ''/r'' ''a'' = ''/r/a/overlay_metadata.json''"
    by code_simp+
  have root: "sc_RootFSDir (ov_config tag_overlay) = ''/r''" by (simp add: tag_overlay_def NewOverlay_def)
  have "clean_abs ''/r''" by code_simp
  then have usable: "tag_usable tag_overlay ''a'' ?w"
    by (simp add: tag_usable_def root join solid_def node_IsLink_def) (simp add: plain_def)
  have "solid ?w (metadataFile (sc_RootFSDir (ov_config tag_overlay)) ''a'')" by (simp add: solid_def node_IsLink_def)
  with scratch_rootfs_fresh [OF run, of 1 id build_oci sample_json tag_overlay] usable
  have "lnode (w_fs w') ''/r/a/old'' = None \<and> lnode (w_fs w') ''/r/a/overlay'' = Some Dir"
    by (auto simp: root join under_def cached_layer_def)
  with run show ?thesis by blast
qed

end
