(* ===== verification/Publish_Props.thy ===== *)
theory Publish_Props
  imports Publish Build_Props
begin

text \<open>
  What is proved of publishing: which images go where, that destinations do not collide in a
  registry, how missing substitutions are made up, and when that does not end.
\<close>

section \<open>The name in the error\<close>

abbreviation newline :: char where "newline \<equiv> CHR 0x0A"

definition missing_text :: string where "missing_text = ''no value for substitution ''"

lemma missing_re_eq: "missing_re = seq_of (map Lit missing_text @ [Grp 1 (seq_of [Star (Cls True [(newline, newline)])])])"
proof -
  let ?star = "Star (Cls True [(newline, newline)])"
  have "re_parse [] [] [] 0 (missing_text @ ''(.*)'') = re_parse [] [] (rev (map Lit missing_text)) 0 ''(.*)''"
    using re_parse_lits [of missing_text "[]" "[]" "[]" 0 "''(.*)''"] by (simp add: missing_text_def literal_char_def)
  also have "\<dots> = Inr (seq_of (map Lit missing_text @ [Grp 1 (seq_of [?star])]))"
    by (subst re_parse.simps, simp add: strings_HasPrefix_def, subst re_parse.simps, simp, subst re_parse.simps,
        simp add: is_rep_def, subst re_parse.simps, simp)
  finally show ?thesis by (simp add: missing_re_def regexp_Compile_def missing_text_def)
qed

lemma missing_re_at_start:
  "re_FindGroup1 missing_re (missing_text @ v) = Some (takeWhile (\<lambda>c. c \<noteq> newline) v)"
proof -
  let ?s = "missing_text @ v" and ?n = "length missing_text"
  let ?k = "length (takeWhile (\<lambda>c. c \<noteq> newline) v)"
  have cls: "in_class True [(newline, newline)] = (\<lambda>c. c \<noteq> newline)" by (auto simp: in_class_def)
  have star: "rmatch (Star (Cls True [(newline, newline)])) ?s (?n, []) =
      map (\<lambda>m. (?n + m, [])) (rev [0..<Suc ?k])"
    using iter_class [of ?s ?n "Suc (length ?s - ?n)" True "[(newline, newline)]" "[]"] unfolding cls by (simp del: iter.simps upt_Suc)
  have "rmatch missing_re ?s (0, []) = rmatch (seq_of [Grp 1 (seq_of [Star (Cls True [(newline, newline)])])]) ?s (?n, [])"
    unfolding missing_re_eq rmatch_lits by simp
  also have "\<dots> = map (\<lambda>m. (?n + m, [(1, ?n, ?n + m)])) (rev [0..<Suc ?k])"
    using star by (simp add: comp_def case_prod_beta del: upt_Suc rmatch.simps(6))
  finally have "rmatch missing_re ?s (0, []) = (?n + ?k, [(1, ?n, ?n + ?k)]) # map (\<lambda>m. (?n + m, [(1, ?n, ?n + m)])) (rev [0..<?k])"
    by simp
  then have "re_find missing_re ?s 0 = Some (0, ?n + ?k, [(1, ?n, ?n + ?k)])"
    by (intro re_find_Some) auto
  moreover have "take ?k v = takeWhile (\<lambda>c. c \<noteq> newline) v" by (rule takeWhile_eq_take [symmetric])
  ultimately show ?thesis by (simp add: re_FindGroup1_def)
qed

lemma missing_name_eq:
  "missing_name (Errorf ''no value for substitution %s'' [v]) = Some (takeWhile (\<lambda>c. c \<noteq> newline) v)"
  using missing_re_at_start [of v] by (simp add: missing_name_def missing_text_def)


section \<open>What is published\<close>

text \<open>The layers of a file that are published, and the copies made of them.\<close>

definition published :: "PublishArgs \<Rightarrow> Stackerfile \<Rightarrow> string list" where
  "published opts sf =
     filter (\<lambda>name. (case Stackerfile_Get sf name of Some l \<Rightarrow> \<not> lay_BuildOnly l | None \<Rightarrow> False) \<and>
       (pa_Images opts = [] \<or> name \<in> set (pa_Images opts))) (sf_FileOrder sf)"

definition image_copy :: "PublishArgs \<Rightarrow> string \<Rightarrow> string \<Rightarrow> string \<times> LayerType \<Rightarrow> ImageCopyOpts" where
  "image_copy opts ty name j =
     (case j of (tag, lt) \<Rightarrow>
        publish_copy opts (LayerName lt name)
          (case dest_url ty (pa_Url opts) name (LayerName lt tag) of Inr u \<Rightarrow> u | Inl _ \<Rightarrow> []))"

definition layer_copies :: "PublishArgs \<Rightarrow> string \<Rightarrow> string \<Rightarrow> ImageCopyOpts list" where
  "layer_copies opts ty name =
     (if pa_ShowOnly opts then [] else map (image_copy opts ty name) (List.product (pa_Tags opts) (pa_LayerTypes opts)))"

lemma io_each_append: "io_each f (xs @ ys) w = io_bind (io_each f xs) (\<lambda>_. io_each f ys) w"
  by (induction xs arbitrary: w) (auto simp: io_bind_def split: prod.splits sum.splits)

lemma io_each_cong: "(\<And>x v. x \<in> set xs \<Longrightarrow> f x v = g x v) \<Longrightarrow> io_each f xs w = io_each g xs w"
  by (induction xs arbitrary: w) (auto simp: io_bind_def split: prod.splits sum.splits)

lemma io_each_map: "io_each f (map g xs) w = io_each (\<lambda>x. f (g x)) xs w"
  by (induction xs arbitrary: w) (auto simp: io_bind_def split: prod.splits sum.splits)

lemma io_each_concat: "io_each (\<lambda>x. io_each f (g x)) xs w = io_each f (concat (map g xs)) w"
  by (induction xs arbitrary: w) (auto simp: io_each_append io_bind_def split: prod.splits sum.splits)

lemma io_each_one: "io_each f [x] w = f x w"
  by (auto simp: io_bind_def split: prod.splits sum.splits)

lemma io_each_nothing: "(\<And>x v. f x v = (Inr (), v)) \<Longrightarrow> io_each f xs w = (Inr (), w)"
  by (induction xs) (auto simp: io_bind_def)

lemma NewImageSource_type: "NewImageSource s = Inr i \<Longrightarrow> is_Type i = DockerLayer \<or> is_Type i = OCILayer"
  by (auto simp: NewImageSource_def split: if_splits)

lemma publish_image_eq:
  assumes "is_Type isrc = DockerLayer \<or> is_Type isrc = OCILayer"
  shows "publish_image oc opts isrc name tag lt w =
    io_each (ImageCopy oc) (if pa_ShowOnly opts then [] else [image_copy opts (is_Type isrc) name (tag, lt)]) w"
proof -
  have "is_ok (dest_url (is_Type isrc) (pa_Url opts) name (LayerName lt tag))"
    using assms by (auto simp: dest_url_def)
  then obtain u where "dest_url (is_Type isrc) (pa_Url opts) name (LayerName lt tag) = Inr u"
    by (auto simp: is_ok_iff)
  then show ?thesis
    by (simp add: publish_image_def Let_def image_copy_def io_each_one io_ret_def [of "()" w] del: io_each_Cons)
qed

lemma product_concat: "List.product xs ys = concat (map (\<lambda>x. map (Pair x) ys) xs)"
  by (induction xs) auto

lemma publish_images_eq:
  assumes "is_Type isrc = DockerLayer \<or> is_Type isrc = OCILayer"
  shows "io_each (\<lambda>tag. io_each (publish_image oc opts isrc name tag) (pa_LayerTypes opts)) (pa_Tags opts) w =
    io_each (ImageCopy oc) (layer_copies opts (is_Type isrc) name) w"
proof -
  let ?f = "\<lambda>tag lt. if pa_ShowOnly opts then [] else [image_copy opts (is_Type isrc) name (tag, lt)]"
  have "io_each (\<lambda>tag. io_each (publish_image oc opts isrc name tag) (pa_LayerTypes opts)) (pa_Tags opts) w =
      io_each (\<lambda>tag. io_each (ImageCopy oc) (concat (map (?f tag) (pa_LayerTypes opts)))) (pa_Tags opts) w"
    unfolding io_each_concat [symmetric] by (intro io_each_cong publish_image_eq assms)
  also have "\<dots> = io_each (ImageCopy oc) (concat (map (\<lambda>tag. concat (map (?f tag) (pa_LayerTypes opts))) (pa_Tags opts))) w"
    by (rule io_each_concat)
  also have "concat (map (\<lambda>tag. concat (map (?f tag) (pa_LayerTypes opts))) (pa_Tags opts)) = layer_copies opts (is_Type isrc) name"
    by (simp add: layer_copies_def product_concat map_concat comp_def)
  finally show ?thesis .
qed

text \<open>A layer that is not to be published leaves the world alone; one that is, is found in the cache.\<close>

lemma publish_layer_Inr:
  assumes "publish_layer be opts isrc cache sf name w = (Inr u, w')"
    and ty: "is_Type isrc = DockerLayer \<or> is_Type isrc = OCILayer"
    and name: "name \<in> set (sf_FileOrder sf)"
  shows "if name \<in> set (published opts sf)
    then (pa_Force opts \<or> (\<exists>ent. Lookup (be_stack be) (im_env (be_import be)) cache w name = Inr (Some ent))) \<and>
      io_each (ImageCopy (be_oci be)) (layer_copies opts (is_Type isrc) name) w = (Inr (), w')
    else w' = w"
proof -
  obtain l where l: "Stackerfile_Get sf name = Some l"
    using assms(1) by (auto simp: publish_layer_def io_simps split: option.splits)
  show ?thesis
  proof (cases "lay_BuildOnly l \<or> (pa_Images opts \<noteq> [] \<and> name \<notin> set (pa_Images opts))")
    case True
    then have "publish_layer be opts isrc cache sf name = io_ret ()" using l by (auto simp: publish_layer_def)
    moreover have "name \<notin> set (published opts sf)" using True l by (auto simp: published_def)
    ultimately show ?thesis using assms(1) by (simp add: io_simps)
  next
    case False
    then obtain hit where hit: "Lookup (be_stack be) (im_env (be_import be)) cache w name = Inr hit"
      "hit \<noteq> None \<or> pa_Force opts"
      "io_each (\<lambda>tag. io_each (publish_image (be_oci be) opts isrc name tag) (pa_LayerTypes opts)) (pa_Tags opts) w = (Inr u, w')"
      using assms(1) l by (auto simp: publish_layer_def io_simps split: if_splits)
    have "name \<in> set (published opts sf)" using False l name by (auto simp: published_def)
    then show ?thesis using hit publish_images_eq [OF ty, of "be_oci be" opts name w] by auto
  qed
qed


text \<open>Going through the layers: the copies of the published ones, one after the other.\<close>

lemma publish_layers_Inr:
  assumes "io_each (publish_layer be opts isrc cache sf) names w = (Inr (), w')"
    and ty: "is_Type isrc = DockerLayer \<or> is_Type isrc = OCILayer"
    and names: "set names \<subseteq> set (sf_FileOrder sf)"
  shows "io_each (\<lambda>name. io_each (ImageCopy (be_oci be)) (layer_copies opts (is_Type isrc) name))
      (filter (\<lambda>name. name \<in> set (published opts sf)) names) w = (Inr (), w') \<and>
    (\<forall>pre name post. filter (\<lambda>name. name \<in> set (published opts sf)) names = pre @ name # post \<longrightarrow> pa_Force opts \<or>
      (\<exists>v ent. io_each (\<lambda>name. io_each (ImageCopy (be_oci be)) (layer_copies opts (is_Type isrc) name)) pre w = (Inr (), v) \<and>
         Lookup (be_stack be) (im_env (be_import be)) cache v name = Inr (Some ent)))"
  using assms(1) names
proof (induction names arbitrary: w)
  case (Cons name names)
  let ?F = "\<lambda>name. name \<in> set (published opts sf)"
  let ?c = "\<lambda>name. io_each (ImageCopy (be_oci be)) (layer_copies opts (is_Type isrc) name)"
  obtain v where v: "publish_layer be opts isrc cache sf name w = (Inr (), v)"
    "io_each (publish_layer be opts isrc cache sf) names v = (Inr (), w')"
    using Cons.prems(1) by (auto simp: io_simps)
  note step = publish_layer_Inr [OF v(1) ty] and IH = Cons.IH [OF v(2)]
  show ?case
  proof (cases "?F name")
    case False
    then have "v = w" using step Cons.prems(2) by simp
    with False IH Cons.prems(2) show ?thesis by simp
  next
    case True
    then have run: "?c name w = (Inr (), v)" and hit: "pa_Force opts \<or>
        (\<exists>ent. Lookup (be_stack be) (im_env (be_import be)) cache w name = Inr (Some ent))"
      using step Cons.prems(2) by simp_all
    have "pa_Force opts \<or> (\<exists>u ent. io_each ?c pre w = (Inr (), u) \<and>
        Lookup (be_stack be) (im_env (be_import be)) cache u n = Inr (Some ent))"
      if split: "filter ?F (name # names) = pre @ n # post" for pre n post
    proof (cases pre)
      case Nil
      with split True hit show ?thesis by auto
    next
      case (Cons p pre')
      then have "p = name" "filter ?F names = pre' @ n # post" using split True by auto
      moreover have "io_each ?c (name # pre') w = io_each ?c pre' v" using run by (simp add: io_bind_run)
      ultimately show ?thesis using IH Cons.prems(2) Cons by auto
    qed
    moreover have "io_each ?c (filter ?F (name # names)) w = (Inr (), w')"
      using True run IH Cons.prems(2) by (simp add: io_bind_run)
    ultimately show ?thesis by blast
  qed
qed simp

lemma publish_file_parts:
  fixes w :: "'x world"
  assumes "publish_file be p file w = (Inr (), w')"
  shows "\<exists>sf isrc cache (v :: 'x world).
    map_of (pu_stackerfiles p) (filepath_Abs (w_cwd w) file) = Some sf \<and> NewImageSource (pa_Url (pu_opts p)) = Inr isrc \<and>
    io_bind (oc_OpenLayout (be_oci be) (sc_OCIDir (pa_Config (pu_opts p))))
      (\<lambda>_. OpenCache (im_env (be_import be)) (pa_Config (pu_opts p)) (pu_stackerfiles p)) w = (Inr cache, v) \<and>
    pa_Tags (pu_opts p) \<noteq> [] \<and>
    io_each (publish_layer be (pu_opts p) isrc cache sf) (sf_FileOrder sf) v = (Inr (), w')"
  using assms unfolding publish_file_def Let_def
  by (fastforce simp: io_simps split: option.splits if_splits)

text \<open>
  C8. When a file is published, the images copied are those of its layers that are not build-only
  and, if images were named, are among them: in the order of the file, and for each layer one copy
  for every tag and every layer type. Each of these layers is found in the cache when its turn comes,
  unless publishing is forced. With the option to only show what would be done nothing is copied.
\<close>

theorem publish_copies:
  fixes w :: "'x world"
  assumes "publish_file be p file w = (Inr (), w')"
  shows "\<exists>sf isrc cache (v :: 'x world).
    map_of (pu_stackerfiles p) (filepath_Abs (w_cwd w) file) = Some sf \<and> NewImageSource (pa_Url (pu_opts p)) = Inr isrc \<and>
    io_bind (oc_OpenLayout (be_oci be) (sc_OCIDir (pa_Config (pu_opts p))))
      (\<lambda>_. OpenCache (im_env (be_import be)) (pa_Config (pu_opts p)) (pu_stackerfiles p)) w = (Inr cache, v) \<and>
    io_each (ImageCopy (be_oci be)) (concat (map (layer_copies (pu_opts p) (is_Type isrc)) (published (pu_opts p) sf))) v = (Inr (), w') \<and>
    (\<forall>pre name post. published (pu_opts p) sf = pre @ name # post \<longrightarrow> pa_Force (pu_opts p) \<or>
      (\<exists>u ent. io_each (ImageCopy (be_oci be)) (concat (map (layer_copies (pu_opts p) (is_Type isrc)) pre)) v = (Inr (), u) \<and>
         Lookup (be_stack be) (im_env (be_import be)) cache u name = Inr (Some ent)))"
proof -
  obtain sf isrc cache v where parts: "map_of (pu_stackerfiles p) (filepath_Abs (w_cwd w) file) = Some sf"
    "NewImageSource (pa_Url (pu_opts p)) = Inr isrc"
    "io_bind (oc_OpenLayout (be_oci be) (sc_OCIDir (pa_Config (pu_opts p))))
      (\<lambda>_. OpenCache (im_env (be_import be)) (pa_Config (pu_opts p)) (pu_stackerfiles p)) w = (Inr cache, v)"
    "io_each (publish_layer be (pu_opts p) isrc cache sf) (sf_FileOrder sf) v = (Inr (), w')"
    using publish_file_parts [OF assms] by blast
  have "filter (\<lambda>name. name \<in> set (published (pu_opts p) sf)) (sf_FileOrder sf) = published (pu_opts p) sf"
    unfolding published_def by (rule filter_cong) auto
  with publish_layers_Inr [OF parts(4) NewImageSource_type [OF parts(2)] order_refl] parts(1-3)
  show ?thesis by (intro exI [of _ sf] exI [of _ isrc] exI [of _ cache] exI [of _ v]) (auto simp: io_each_concat)
qed


section \<open>Destinations\<close>

text \<open>
  In a registry the reference an image is published under determines the layer and the tag:
  two images have the same one only if they are of the same layer with the same tag, for layer names
  without a colon, which are the only ones a build accepts.
\<close>

theorem docker_destinations_unique:
  assumes "dest_url DockerLayer url name tag = Inr d" "dest_url DockerLayer url name' tag' = Inr d"
    and "CHR '':'' \<notin> set name" "CHR '':'' \<notin> set name'"
  shows "name = name' \<and> tag = tag'"
proof -
  have "name @ CHR '':'' # tag = name' @ CHR '':'' # tag'" 
  proof -
    have "dest_url DockerLayer url name tag = dest_url DockerLayer url name' tag'" using assms(1,2) by simp
    then show ?thesis by (simp add: dest_url_def)
  qed
  moreover have "str_cut '':'' (name @ CHR '':'' # tag) = Some (name, tag)" by (rule cut_at) fact
  moreover have "str_cut '':'' (name' @ CHR '':'' # tag') = Some (name', tag')" by (rule cut_at) fact
  ultimately have "Some (name, tag) = Some (name', tag')" by metis
  then show ?thesis by simp
qed

lemma docker_destinations_unique_witness:
  "dest_url DockerLayer ''docker://h/r/'' ''a'' ''1'' = Inr ''docker://h/r/a:1'' \<and> ''a'' = ''a'' \<and> ''1'' = ''1''"
proof -
  have "dest_url DockerLayer ''docker://h/r/'' ''a'' ''1'' = Inr ''docker://h/r/a:1''"
    by (simp add: dest_url_def strings_TrimRight_def)
  with docker_destinations_unique [OF this this] show ?thesis by simp
qed

text \<open>In an OCI layout it does not: layer \<open>a_b\<close> with tag \<open>c\<close> and layer \<open>a\<close> with tag \<open>b_c\<close> get one name.\<close>

lemma oci_destinations_collide: "dest_url OCILayer url ''a_b'' ''c'' = dest_url OCILayer url ''a'' ''b_c''"
  by (simp add: dest_url_def layer_kind_defs)

text \<open>Nor do the names keep the layer types apart from tags that end like one.\<close>

lemma type_names_collide:
  "LayerName \<lparr>lt_Type = ''squashfs'', lt_Verity = v\<rparr> ''a'' = LayerName \<lparr>lt_Type = ''tar'', lt_Verity = False\<rparr> ''a-squashfs''"
  by (simp add: LayerName_def)

section \<open>Made up substitutions\<close>

definition dummy :: "string \<Rightarrow> string" where
  "dummy name = name @ ''=dummy''"

text \<open>The names without a value, in the order in which the errors report them.\<close>

fun missing :: "string set \<Rightarrow> seg list \<Rightarrow> string list" where
  "missing known [] = []"
| "missing known (Txt t # segs) = missing known segs"
| "missing known (Ph k d # segs) =
     (if k \<in> known \<or> d \<noteq> None then missing known segs else k # missing (insert k known) segs)"

lemma missing_set: "set (missing known segs) = {k. Ph k None \<in> set segs} - known"
  by (induction known segs rule: missing.induct) auto

lemma eval_missing:
  "missing (dom (map_of subs)) segs = k # ks \<Longrightarrow>
     rmap (eval_seg subs) segs = Inl (Errorf ''no value for substitution %s'' [k])"
proof (induction segs)
  case (Cons sg segs)
  then show ?case by (cases sg) (auto split: if_splits option.splits)
qed simp

lemma eval_no_missing:
  "missing (dom (map_of subs)) segs = [] \<Longrightarrow> \<exists>ts. rmap (eval_seg subs) segs = Inr ts"
proof (induction segs)
  case (Cons sg segs)
  then show ?case by (cases sg) (auto split: if_splits option.splits)
qed simp


text \<open>More substitutions only make the text harder to be plain.\<close>

lemma txt_ok_mono:
  assumes "txt_ok H t" "set H' \<subseteq> set H"
  shows "txt_ok H' t"
  using assms(1)
proof (induction t)
  case (Cons c cs)
  have "d \<notin> set H'" if "d \<notin> set H" for d using that assms(2) by blast
  with Cons show ?case by (cases cs) auto
qed simp

lemma seg_ok_mono: "seg_ok H sg \<Longrightarrow> set H' \<subseteq> set H \<Longrightarrow> seg_ok H' sg"
  by (cases sg) (auto intro: txt_ok_mono split: option.splits)

definition encode :: "(string \<times> string) list \<Rightarrow> string list" where
  "encode subs = map (\<lambda>(k, v). k @ CHR ''='' # v) subs"

definition dummies :: "string list \<Rightarrow> (string \<times> string) list" where
  "dummies names = map (\<lambda>k. (k, ''dummy'')) names"

lemma encode_dummies: "encode (dummies names) = map dummy names"
  by (simp add: encode_def dummies_def dummy_def)

lemma substitute_fewer:
  assumes "subs_ok subs" "list_all (seg_ok (heads subs)) segs" "set subs' \<subseteq> set subs"
  shows "substitute (render_all segs) (encode subs') = rbind (rmap (eval_seg subs') segs) (\<lambda>ts. Inr (concat ts))"
proof -
  have "subs_ok subs'" using assms(1,3) by (auto simp: subs_ok_def list_all_iff)
  moreover have "set (heads subs') \<subseteq> set (heads subs)" using assms(3) by (auto simp: heads_def)
  then have "list_all (seg_ok (heads subs')) segs" using assms(2) seg_ok_mono by (fastforce simp: list_all_iff)
  ultimately show ?thesis unfolding encode_def by (rule substitute_spec)
qed

lemma NewStackerFiles_missing:
  assumes "env_Getwd env = Inr wd" "env_ReadFile env path = Inr content" "du_Scheme (dockerish path) = []"
    and "substitute content subs = Inl e"
  shows "NewStackerFiles (Suc n) env [path] vh subs = Inl e"
  using assms by (simp add: NewStackerfile_def read_stackerfile_def Let_def)

text \<open>
  Files of a known shape: whatever can be read is the text of its segments, which are plain for the
  substitutions at hand. \<open>unvalued\<close> are the names that some file uses without a default and that have no value.
\<close>

definition plain_files :: "sf_env \<Rightarrow> string \<Rightarrow> (string \<Rightarrow> seg list) \<Rightarrow> char list \<Rightarrow> bool" where
  "plain_files env wd content H =
     (\<forall>p raw q d. read_stackerfile env wd p = Inr (raw, q, d) \<longrightarrow> raw = render_all (content p) \<and> list_all (seg_ok H) (content p))"

definition unvalued :: "sf_env \<Rightarrow> string \<Rightarrow> (string \<Rightarrow> seg list) \<Rightarrow> (string \<times> string) list \<Rightarrow> string set" where
  "unvalued env wd content subs =
     {k. \<exists>p r. read_stackerfile env wd p = Inr r \<and> Ph k None \<in> set (content p)} - dom (map_of subs)"

text \<open>No other error reads like the one of a substitution without a value: it comes from the text of a file.\<close>

definition clear_errors :: "nat \<Rightarrow> sf_env \<Rightarrow> string \<Rightarrow> string list \<Rightarrow> string list \<Rightarrow> bool" where
  "clear_errors n env wd paths subs =
     (\<forall>e. NewStackerFiles n env paths False subs = Inl e \<and> missing_name e \<noteq> None \<longrightarrow>
        (\<exists>p raw q d. read_stackerfile env wd p = Inr (raw, q, d) \<and> substitute raw subs = Inl e))"

lemma substitution_error:
  assumes "subs_ok subs" "list_all (seg_ok (heads subs)) segs" "set subs' \<subseteq> set subs"
    and "substitute (render_all segs) (encode subs') = Inl e"
  shows "\<exists>k. e = Errorf ''no value for substitution %s'' [k] \<and> Ph k None \<in> set segs \<and> k \<notin> dom (map_of subs')"
proof -
  from substitute_fewer [OF assms(1-3)] assms(4) have e: "rmap (eval_seg subs') segs = Inl e"
    by (cases "rmap (eval_seg subs') segs") auto
  then have "missing (dom (map_of subs')) segs \<noteq> []" using eval_no_missing [of subs' segs] by auto
  then obtain k ks where k: "missing (dom (map_of subs')) segs = k # ks" by (cases "missing (dom (map_of subs')) segs") auto
  then have "k \<in> set (missing (dom (map_of subs')) segs)" by simp
  then have "Ph k None \<in> set segs" "k \<notin> dom (map_of subs')" by (auto simp: missing_set)
  with eval_missing [OF k] e show ?thesis by auto
qed

lemma missing_name_plain: "newline \<notin> set k \<Longrightarrow> missing_name (Errorf ''no value for substitution %s'' [k]) = Some k"
proof -
  assume "newline \<notin> set k"
  then have "takeWhile (\<lambda>c. c \<noteq> newline) k = k" by (auto simp: takeWhile_eq_all_conv)
  then show ?thesis using missing_name_eq [of k] by simp
qed

lemma dom_dummies [simp]: "dom (map_of (dummies ms)) = set ms"
  by (simp add: dummies_def dom_map_of_conv_image_fst image_image comp_def)

text \<open>Every round that fails for a name adds one that is not yet made up, so \<open>length names\<close> rounds are enough.\<close>

lemma retries_end:
  assumes plain: "plain_files env wd content (heads (us @ dummies names @ cfg))" and ok: "subs_ok (us @ dummies names @ cfg)"
    and names: "unvalued env wd content (us @ cfg) \<subseteq> set names" "\<forall>k \<in> set names. newline \<notin> set k"
    and clear: "\<And>ms. set ms \<subseteq> set names \<Longrightarrow> clear_errors n env wd paths (encode us @ map dummy ms @ encode cfg)"
    and "distinct made" "set made \<subseteq> unvalued env wd content (us @ cfg)" "length names < k + length made"
    and "pa_Substitute opts = encode us @ map dummy made" "Substitutions (pa_Config opts) = encode cfg"
  shows "\<exists>ms. distinct ms \<and> set ms \<subseteq> unvalued env wd content (us @ cfg) \<and>
    (case NewStackerFiles n env paths False (encode us @ map dummy ms @ encode cfg) of
       Inl e \<Rightarrow> missing_name e = None \<and> readStackerFiles k n env opts paths = Inl e
     | Inr sfm \<Rightarrow> readStackerFiles k n env opts paths = Inr (sfm, opts\<lparr>pa_Substitute := encode us @ map dummy ms\<rparr>))"
  using assms(6-)
proof (induction k arbitrary: made opts)
  case 0
  have "length made \<le> length names"
    using 0(1,2) names(1) by (metis card_length card_mono distinct_card finite_set order_trans)
  with 0(3) show ?case by simp
next
  case (Suc k)
  let ?new = "NewStackerFiles n env paths False (encode us @ map dummy made @ encode cfg)"
  have read: "readStackerFiles (Suc k) n env opts paths = (case ?new of Inr sfm \<Rightarrow> Inr (sfm, opts)
      | Inl e \<Rightarrow> (case missing_name e of None \<Rightarrow> Inl e
         | Some name \<Rightarrow> readStackerFiles k n env (opts\<lparr>pa_Substitute := pa_Substitute opts @ [name @ ''=dummy'']\<rparr>) paths))"
    using Suc.prems(4,5) by simp
  have same: "opts\<lparr>pa_Substitute := encode us @ map dummy made\<rparr> = opts" using Suc.prems(4) by simp
  show ?case
  proof (cases "\<exists>e nm. ?new = Inl e \<and> missing_name e = Some nm")
    case False
    then show ?thesis using read same Suc.prems(1,2) by (intro exI [of _ made]) (auto split: sum.splits option.splits)
  next
    case True
    then obtain e nm where e: "?new = Inl e" "missing_name e = Some nm" by blast
    let ?subs = "us @ dummies made @ cfg"
    have made: "set made \<subseteq> set names" using Suc.prems(2) names(1) by blast
    have subs: "encode us @ map dummy made @ encode cfg = encode ?subs"
      unfolding encode_dummies [symmetric] by (simp add: encode_def)
    have sub: "set ?subs \<subseteq> set (us @ dummies names @ cfg)" using made by (auto simp: dummies_def)
    from clear [OF made] e obtain p raw q d where p: "read_stackerfile env wd p = Inr (raw, q, d)" "substitute raw (encode ?subs) = Inl e"
      unfolding clear_errors_def subs by blast
    with plain have "raw = render_all (content p)" "list_all (seg_ok (heads (us @ dummies names @ cfg))) (content p)"
      unfolding plain_files_def by blast+
    from substitution_error [OF ok this(2) sub] p(2) this(1) obtain k' where
      k': "e = Errorf ''no value for substitution %s'' [k']" "Ph k' None \<in> set (content p)" "k' \<notin> dom (map_of ?subs)" by auto
    moreover have "dom (map_of ?subs) = dom (map_of (us @ cfg)) \<union> set made" by (simp add: Un_ac)
    ultimately have "k' \<notin> dom (map_of (us @ cfg))" and made': "k' \<notin> set made" by blast+
    with p(1) k'(2) have new: "k' \<in> unvalued env wd content (us @ cfg)" unfolding unvalued_def by blast
    with names have "newline \<notin> set k'" by blast
    with e(2) k'(1) have "nm = k'" by (simp add: missing_name_plain)
    then have step: "readStackerFiles (Suc k) n env opts paths =
        readStackerFiles k n env (opts\<lparr>pa_Substitute := pa_Substitute opts @ [dummy k']\<rparr>) paths"
      using read e by (simp add: dummy_def)
    let ?opts = "opts\<lparr>pa_Substitute := pa_Substitute opts @ [dummy k']\<rparr>"
    have "distinct (made @ [k'])" "set (made @ [k']) \<subseteq> unvalued env wd content (us @ cfg)" "length names < k + length (made @ [k'])"
      "pa_Substitute ?opts = encode us @ map dummy (made @ [k'])" "Substitutions (pa_Config ?opts) = encode cfg"
      using Suc.prems new made' by simp_all
    note IH = Suc.IH [OF this]
    have "?opts\<lparr>pa_Substitute := x\<rparr> = opts\<lparr>pa_Substitute := x\<rparr>" for x by simp
    with IH show ?thesis unfolding step by (simp only:)
  qed
qed

text \<open>The value of a placeholder: a name that occurs without a default is made up everywhere.\<close>

definition filled :: "(string \<times> string) list \<Rightarrow> string list \<Rightarrow> seg \<Rightarrow> string" where
  "filled subs made sg =
     (case sg of
        Txt t \<Rightarrow> t
      | Ph k d \<Rightarrow> (case map_of subs k of
            Some v \<Rightarrow> v
          | None \<Rightarrow> if k \<in> set made then ''dummy'' else (case d of Some x \<Rightarrow> x | None \<Rightarrow> [])))"

lemma eval_filled:
  assumes "set ms \<inter> dom (map_of (us @ cfg)) = {}" "eval_seg (us @ dummies ms @ cfg) sg = Inr t"
  shows "t = filled (us @ cfg) ms sg \<and> (\<forall>k. sg = Ph k None \<longrightarrow> k \<in> dom (map_of (us @ cfg)) \<union> set ms)"
proof (cases sg)
  case (Ph k d)
  have dm: "map_of (dummies ms) k = (if k \<in> set ms then Some ''dummy'' else None)"
    by (induction ms) (auto simp: dummies_def)
  have "map_of (us @ dummies ms @ cfg) k =
      (case map_of (us @ cfg) k of Some v \<Rightarrow> Some v | None \<Rightarrow> if k \<in> set ms then Some ''dummy'' else None)"
    using dm assms(1) by (auto simp: map_add_def split: option.splits)
  then show ?thesis using assms(2) Ph by (auto simp: filled_def split: option.splits if_splits)
qed (use assms(2) in \<open>simp add: filled_def\<close>)

lemma substitute_filled:
  assumes "subs_ok subs" "list_all (seg_ok (heads subs)) segs" "set (us @ dummies ms @ cfg) \<subseteq> set subs"
    and "set ms \<inter> dom (map_of (us @ cfg)) = {}" "substitute (render_all segs) (encode (us @ dummies ms @ cfg)) = Inr c"
  shows "c = concat (map (filled (us @ cfg) ms) segs) \<and> (\<forall>k. Ph k None \<in> set segs \<longrightarrow> k \<in> dom (map_of (us @ cfg)) \<union> set ms)"
proof -
  have "rbind (rmap (eval_seg (us @ dummies ms @ cfg)) segs) (\<lambda>ts. Inr (concat ts)) = Inr c"
    using substitute_fewer [OF assms(1-3)] assms(5) by simp
  then obtain ts where ts: "rmap (eval_seg (us @ dummies ms @ cfg)) segs = Inr ts" "c = concat ts"
    by (auto simp: res_simps)
  have "list_all2 (\<lambda>sg t. t = filled (us @ cfg) ms sg \<and> (\<forall>k. sg = Ph k None \<longrightarrow> k \<in> dom (map_of (us @ cfg)) \<union> set ms)) segs ts"
    using ts(1) eval_filled [OF assms(4)] unfolding rmap_Inr_iff by (rule list_all2_mono)
  then have "ts = map (filled (us @ cfg) ms) segs \<and> (\<forall>k. Ph k None \<in> set segs \<longrightarrow> k \<in> dom (map_of (us @ cfg)) \<union> set ms)"
    by (induction rule: list_all2_induct) auto
  with ts(2) show ?thesis by simp
qed

lemma NewStackerfile_text:
  assumes wd: "env_Getwd env = Inr wd" and "NewStackerfile env q vh subs = Inr sf"
  shows "\<exists>raw p d. read_stackerfile env wd q = Inr (raw, p, d) \<and> substitute raw subs = Inr (sf_AfterSubstitutions sf)"
proof -
  note def = assms(2) [unfolded NewStackerfile_def wd rbind.simps]
  obtain raw p d where read: "read_stackerfile env wd q = Inr (raw, p, d)"
    using def by (cases "read_stackerfile env wd q") auto
  obtain content where content: "substitute raw subs = Inr content"
    using def read by (cases "substitute raw subs") auto
  obtain ms where "env_yaml env content = Inr ms"
    using def read content by (cases "env_yaml env content") auto
  then have "sf_AfterSubstitutions sf = content" using def read content by (auto simp: res_simps)
  with read content show ?thesis by blast
qed

text \<open>Every file that was read has been read by \<^verbatim>\<open>NewStackerfile\<close>, from some path given or required.\<close>

lemma NewStackerFiles_entry:
  assumes cwd: "env_Getwd env = Inr cwd"
  shows "NewStackerFiles n env paths vh subs = Inr sfm \<Longrightarrow> (p, sf) \<in> set sfm \<Longrightarrow>
    \<exists>q. p = filepath_Abs cwd q \<and> NewStackerfile env q vh subs = Inr sf"
proof (induction n arbitrary: paths sfm p sf)
  case (Suc n)
  let ?good = "\<lambda>m. \<forall>(p, sf) \<in> set m. \<exists>q. p = filepath_Abs cwd q \<and> NewStackerfile env q vh subs = Inr sf"
  from Suc.prems(1) have "?good sfm"
    unfolding NewStackerFiles.simps rbind_Inr_iff
  proof (elim exE conjE)
    fix m u
    assume loop: "rfold (\<lambda>sfm path. rbind (NewStackerfile env path vh subs) (\<lambda>sf. rbind (env_Getwd env) (\<lambda>cwd.
         let absPath = filepath_Abs cwd path; sfm1 = (if map_of sfm absPath = None then map_put absPath sf sfm else sfm)
         in rbind (Prerequisites cwd sf) (\<lambda>prerequisites. rbind (NewStackerFiles n env prerequisites vh subs) (\<lambda>depStackerFiles.
            Inr (fold (\<lambda>(p, f). map_put p f) depStackerFiles sfm1)))))) [] paths = Inr m" and m: "Inr m = Inr sfm"
    from loop have "?good m"
    proof (rule rfold_invariant)
      fix s x s'
      assume s: "?good s" and "rbind (NewStackerfile env x vh subs) (\<lambda>sf. rbind (env_Getwd env) (\<lambda>cwd.
         let absPath = filepath_Abs cwd x; sfm1 = (if map_of s absPath = None then map_put absPath sf s else s)
         in rbind (Prerequisites cwd sf) (\<lambda>prerequisites. rbind (NewStackerFiles n env prerequisites vh subs) (\<lambda>depStackerFiles.
            Inr (fold (\<lambda>(p, f). map_put p f) depStackerFiles sfm1))))) = Inr s'"
      then obtain f ps deps where f: "NewStackerfile env x vh subs = Inr f" "NewStackerFiles n env ps vh subs = Inr deps"
        "s' = fold (\<lambda>(p, f). map_put p f) deps (if map_of s (filepath_Abs cwd x) = None then map_put (filepath_Abs cwd x) f s else s)"
        using cwd by (auto simp: res_simps Let_def)
      let ?s1 = "if map_of s (filepath_Abs cwd x) = None then map_put (filepath_Abs cwd x) f s else s"
      have "set s' \<subseteq> set deps \<union> insert (filepath_Abs cwd x, f) (set s)"
        using fold_put_set [of deps ?s1] map_put_set [of "filepath_Abs cwd x" f s] unfolding f(3) by (auto split: if_splits)
      moreover have "?good deps" using Suc.IH [OF f(2)] by blast
      ultimately show "?good s'" using s f(1) by blast
    qed simp
    then show "?good sfm" using m by simp
  qed
  with Suc.prems(2) show ?case by blast
qed simp


section \<open>A placeholder that is never filled\<close>

lemma substitute_one_same:
  assumes k: "name_ok k" and v: "dollar \<notin> set v" and u: "dollar \<notin> set u" and st: "sub_content st = ''${{'' @ u"
    and no: "key_match 2 k (''${{'' @ u) = None"
  shows "\<exists>us. substitute_one st (k @ CHR ''='' # v) = Inr (st\<lparr>sub_usage := us\<rparr>)"
proof -
  let ?c = "''${{'' @ u"
  have lit: "list_all literal_char k" using k by (simp add: name_ok_def)
  have hd: "hd k \<in> set [hd k]" by simp
  note fires = fires_matchers [OF k hd] and quiet = unsupported_quiet [OF k]
  have nw: "nowhere f ?c" if "fires [hd k] f" "f ?c = None" "f [] = None" for f
  proof -
    have "txt_ok [hd k] (''{{'' @ u)" using u by (intro txt_ok_plain) auto
    from nowhere_txt [OF that(1) this, of "[]"] that(2,3) show ?thesis by simp
  qed
  have "nowhere (starts (dollar # k)) ?c" "nowhere (starts (''${'' @ k @ ''}'')) ?c"
    by (rule nw [OF fires(1) quiet(1)], simp add: starts_def) (rule nw [OF fires(2) quiet(2)], simp add: starts_def)
  then have not: "\<not> strings_Contains ?c (dollar # k)" "\<not> strings_Contains ?c (dollar # CHR ''{'' # k @ [rbrace])"
    by (simp_all add: Contains_nowhere)
  have "nowhere (key_match 1 k) ?c"
    using nw [OF fires(3) [of 0], simplified] quiet(3) bad.match_nonempty by simp
  then have "re_FindAllStringIndex (key_re 1 k) ?c = []"
    by (intro bad.FindAll_none) (simp add: nowhere_iff)
  then have bad: "re_FindAllString (key_re 1 k) ?c = []" by (simp add: re_FindAllString_def)
  have rep: "re_ReplaceAllString (key_re 2 k) ?c v = ?c"
  proof -
    have "nowhere (key_match 2 k) ?c"
      using nw [of "key_match 2 k"] fires(3) [of 1] no kr.match_nonempty [of k] by (simp only: numeral_2_eq_2 One_nat_def)
    then have "\<And>j. j < length ?c \<Longrightarrow> key_match 2 k (drop j ?c) = None" unfolding nowhere_iff by (meson less_imp_le)
    then have "rep_all (key_match 2 k) v ?c = ?c" by (rule rep_all_none)
    then show ?thesis using kr.ReplaceAllString_eq [OF v] by simp
  qed
  show ?thesis
    by (rule exI [of _ "sub_usage st @ [length (re_FindAllString (key_re 2 k) ?c)]"])
      (simp add: substitute_one_def split_sub [OF k] st compile_bad [OF lit] compile_key [OF lit] Let_def
        not [simplified] bad [simplified] rep [simplified])
qed

lemma substitutes_same:
  assumes "subs_ok subs" "dollar \<notin> set u" "sub_content st = ''${{'' @ u"
    and "\<And>k. name_ok k \<Longrightarrow> key_match 2 k (''${{'' @ u) = None"
  shows "\<exists>us. rfold substitute_one st (encode subs) = Inr (st\<lparr>sub_usage := us\<rparr>)"
  using assms(1,3)
proof (induction subs arbitrary: st)
  case (Cons kv subs)
  obtain k v where kv: "kv = (k, v)" by force
  obtain us where us: "substitute_one st (k @ CHR ''='' # v) = Inr (st\<lparr>sub_usage := us\<rparr>)"
    using substitute_one_same [OF _ _ assms(2) Cons.prems(2) assms(4)] Cons.prems(1) kv by (auto simp: subs_ok_def)
  have "subs_ok subs" using Cons.prems(1) by (simp add: subs_ok_def)
  with Cons.IH [of "st\<lparr>sub_usage := us\<rparr>"] Cons.prems(2) us kv show ?case by (auto simp: encode_def)
next
  case Nil
  show ?case by (rule exI [of _ "sub_usage st"]) (simp add: encode_def)
qed


lemma key_not_there:
  assumes "name_ok k" "list_all literal_char (a @ b)" "CHR '':'' \<notin> set (a @ b)"
  shows "key_match 2 k (''${{'' @ a @ ''='' @ b @ ''}}'') = None"
proof (cases "prefix k (a @ ''='' @ b @ ''}}'')")
  case True
  have ab: "c \<noteq> CHR '':'' \<and> c \<noteq> rbrace" if "c \<in> set (a @ b)" for c
    using assms(2,3) that by (auto simp: list_all_iff literal_char_def)
  obtain z where z: "a @ ''='' @ b @ ''}}'' = k @ z" using True by (auto elim: prefixE)
  have neq: "CHR ''='' \<notin> set k" using assms(1) by (simp add: name_ok_def)
  have "prefix k a"
  proof -
    consider us where "a = k @ us" | us where "a @ us = k" "''='' @ b @ ''}}'' = us @ z"
      using z unfolding append_eq_append_conv2 by blast
    then show ?thesis
    proof cases
      case 2
      then have "us = []" using neq by (cases us) auto
      with 2 show ?thesis by simp
    qed simp
  qed
  then obtain y where y: "a = k @ y" by (auto elim: prefixE)
  have "ph_tail 2 (y @ ''='' @ b @ ''}}'') = None"
    using ab y by (cases y) (auto simp: ph_tail_def numeral_2_eq_2)
  then show ?thesis using y by (simp add: key_match_def numeral_2_eq_2)
qed (simp add: key_match_def numeral_2_eq_2)

lemma unfillable:
  assumes ok: "subs_ok subs" and ab: "list_all literal_char (a @ b)" "CHR '':'' \<notin> set (a @ b)"
  shows "substitute (''${{'' @ a @ ''='' @ b @ ''}}'') (encode subs) = Inl (Errorf ''no value for substitution %s'' [a @ ''='' @ b])"
proof -
  let ?u = "a @ ''='' @ b @ ''}}''" and ?m = "a @ ''='' @ b"
  let ?st = "\<lparr>sub_content = ''${{'' @ ?u, sub_usage = [], sub_unsupported = []\<rparr>"
  have chars: "c \<noteq> dollar \<and> c \<noteq> rbrace \<and> c \<noteq> CHR '':''" if "c \<in> set ?m" for c
    using ab that by (auto simp: list_all_iff literal_char_def)
  then have "dollar \<notin> set ?u" by auto
  from substitutes_same [OF ok this, of ?st] key_not_there [OF _ ab] obtain us where
    us: "rfold substitute_one ?st (encode subs) = Inr (?st\<lparr>sub_usage := us\<rparr>)" by auto
  have "rbrace \<notin> set ?m" using chars by blast
  then have "dropWhile (\<lambda>c. c \<noteq> rbrace) (?m @ ''}}'') = ''}}''" "takeWhile (\<lambda>c. c \<noteq> rbrace) (?m @ ''}}'') = ?m"
    by (auto simp: dropWhile_append takeWhile_append)
  then have "ph_match (''${{'' @ ?u) = Some (5 + length ?m)" by (simp add: ph_match_def)
  then obtain rest where "re_FindAllStringIndex placeholder_re (''${{'' @ ?u) = (0, 5 + length ?m) # rest"
    using phr.FindAll_first [of 0 "''${{'' @ ?u" "5 + length ?m"] by auto
  moreover have "take (5 + length ?m - 2 - (0 + 3)) (drop (0 + 3) (''${{'' @ ?u)) = ?m" by (simp add: numeral_3_eq_3)
  moreover have "strings_SplitN ?m '':'' 2 = [?m]" using chars by (simp add: numeral_2_eq_2 cut_char) blast
  ultimately have "subst_defaults (''${{'' @ ?u) = Inl (Errorf ''no value for substitution %s'' [?m])"
    by (subst subst_defaults.simps) (simp add: Let_def)
  with us show ?thesis by (simp add: substitute_def)
qed


text \<open>
  C37. A placeholder with an equals sign in its name, like \<open>${{a=b}}\<close>, makes publishing run for ever:
  whatever is substituted, the made up value \<open>a=b=dummy\<close> is one for the name \<open>a\<close>, so that every retry ends
  in the same error, until the stack is used up.
\<close>

theorem publish_never_ends:
  assumes "env_Getwd env = Inr wd" "env_ReadFile env path = Inr (''${{'' @ a @ ''='' @ b @ ''}}'')" "du_Scheme (dockerish path) = []"
    and subs: "pa_Substitute opts = encode us" "Substitutions (pa_Config opts) = encode cfg" "subs_ok (us @ cfg)"
    and a: "name_ok a" "newline \<notin> set a" and b: "list_all literal_char b" "CHR '':'' \<notin> set b" "newline \<notin> set b"
  shows "readStackerFiles k (Suc n) env opts [path] = Inl (Panic ''stack overflow'')"
  using subs
proof (induction k arbitrary: opts us)
  case (Suc k)
  let ?m = "a @ ''='' @ b" let ?e = "Errorf ''no value for substitution %s'' [?m]"
  have ab: "list_all literal_char (a @ b)" "CHR '':'' \<notin> set (a @ b)" using a b by (auto simp: name_ok_def)
  have "pa_Substitute opts @ Substitutions (pa_Config opts) = encode (us @ cfg)"
    unfolding Suc.prems(1,2) by (simp add: encode_def)
  with unfillable [OF Suc.prems(3) ab]
  have "substitute (''${{'' @ a @ ''='' @ b @ ''}}'') (pa_Substitute opts @ Substitutions (pa_Config opts)) = Inl ?e" by simp
  from NewStackerFiles_missing [OF assms(1-3) this]
  have err: "NewStackerFiles (Suc n) env [path] False (pa_Substitute opts @ Substitutions (pa_Config opts)) = Inl ?e" .
  have "takeWhile (\<lambda>c. c \<noteq> newline) ?m = ?m" using a(2) b(3) by (auto simp: takeWhile_eq_all_conv)
  then have "missing_name ?e = Some ?m" using missing_name_eq [of ?m] by simp
  with err have "readStackerFiles (Suc k) (Suc n) env opts [path] =
      readStackerFiles k (Suc n) env (opts\<lparr>pa_Substitute := pa_Substitute opts @ [?m @ ''=dummy'']\<rparr>) [path]" by simp
  also have "\<dots> = Inl (Panic ''stack overflow'')"
  proof (rule Suc.IH)
    show "pa_Substitute (opts\<lparr>pa_Substitute := pa_Substitute opts @ [?m @ ''=dummy'']\<rparr>) = encode (us @ [(a, b @ ''=dummy'')])"
      using Suc.prems(1) by (simp add: encode_def)
    show "Substitutions (pa_Config (opts\<lparr>pa_Substitute := pa_Substitute opts @ [?m @ ''=dummy'']\<rparr>)) = encode cfg"
      using Suc.prems(2) by simp
    have "dollar \<notin> set b" using b(1) by (auto simp: list_all_iff literal_char_def)
    then show "subs_ok ((us @ [(a, b @ ''=dummy'')]) @ cfg)" using Suc.prems(3) a(1) by (simp add: subs_ok_def)
  qed
  finally show ?case .
qed simp

section \<open>The same substitutions as a build\<close>

lemma encode_append: "encode (xs @ ys) = encode xs @ encode ys"
  by (simp add: encode_def)

lemma eval_seg_cong: "map_of subs = map_of subs' \<Longrightarrow> eval_seg subs sg = eval_seg subs' sg"
  by (cases sg) simp_all

lemma exists_encode:
  assumes "CHR ''='' \<notin> set k" "\<forall>(k', v) \<in> set subs. CHR ''='' \<notin> set k'"
  shows "substitutionExists k (encode subs) = None \<longleftrightarrow> k \<notin> fst ` set subs"
proof
  assume none: "substitutionExists k (encode subs) = None"
  show "k \<notin> fst ` set subs"
  proof
    assume "k \<in> fst ` set subs"
    then obtain v where "(k, v) \<in> set subs" by auto
    then have "k @ CHR ''='' # v \<in> set (encode subs)" by (auto simp: encode_def)
    with none have "\<not> strings_HasPrefix (k @ CHR ''='' # v) (k @ ''='')" by (simp add: substitutionExists_None)
    then show False by (simp add: strings_HasPrefix_def)
  qed
next
  assume "k \<notin> fst ` set subs"
  then show "substitutionExists k (encode subs) = None"
    using assms other_key_prefix [of k] by (force simp: substitutionExists_None encode_def)
qed

lemma map_of_unknown: "map_of (xs @ filter (\<lambda>(k, _). k \<notin> fst ` set xs) ys @ zs) = map_of (xs @ ys @ zs)"
proof
  fix k
  have new: "map_of (filter (\<lambda>(k, _). k \<notin> fst ` set xs) ys) k = (if k \<in> fst ` set xs then None else map_of ys k)"
    using map_of_filter_key [of "\<lambda>k. k \<notin> fst ` set xs" ys k] by simp
  show "map_of (xs @ filter (\<lambda>(k, _). k \<notin> fst ` set xs) ys @ zs) k = map_of (xs @ ys @ zs) k"
  proof (cases "map_of xs k")
    case None
    then have "k \<notin> fst ` set xs" by (simp add: map_of_eq_None_iff)
    then show ?thesis using None new by (simp add: map_add_def)
  qed (simp add: map_add_def)
qed



section \<open>Witnesses\<close>

text \<open>A registry that keeps the list of the copies made.\<close>

definition copy_oci :: "(string list, unit) oci_ops" where
  "copy_oci = build_oci\<lparr>oc_parse_ref := (\<lambda>s. Some (\<lambda>r. Inr \<lparr>ref_Transport = s, ref_Text = r\<rparr>)),
     oc_CopyImage := (\<lambda>d s _ w. (Inr (), w\<lparr>w_ext := w_ext w @ [ref_Text s @ '' to '' @ ref_Text d]\<rparr>))\<rparr>"

definition publish_env :: "(string list, string, unit, unit, nat, nat) build_env" where
  "publish_env = sample_build\<lparr>be_oci := copy_oci\<rparr>"

definition publish_sample :: PublishArgs where
  "publish_sample = \<lparr>pa_Config = sample_config, pa_ShowOnly = False, pa_SubstituteFile = [], pa_Substitute = [],
     pa_Tags = [''1''], pa_Url = ''docker://h/r'', pa_Username = [], pa_Password = [], pa_Force = True, pa_SkipTLS = False,
     pa_LayerTypes = [\<lparr>lt_Type = ''tar'', lt_Verity = False\<rparr>], pa_Images = []\<rparr>"

definition two_layers :: Stackerfile where
  "two_layers = sb_file\<lparr>sf_FileOrder := [''a'', ''b''],
     sf_internal := [(''a'', sample_layer), (''b'', sample_layer\<lparr>lay_BuildOnly := True\<rparr>)]\<rparr>"

definition two_publisher :: Publisher where
  "two_publisher = \<lparr>pu_stackerfiles = [(''/s.yaml'', two_layers)], pu_opts = publish_sample\<rparr>"

lemma publish_copies_witness:
  "\<exists>w'. publish_file publish_env two_publisher ''s.yaml'' sb_world = (Inr (), w') \<and> w_ext w' = [''/oci:a to //h/r/a:1''] \<and>
    (\<exists>sf (isrc :: ImageSource) v. map_of (pu_stackerfiles two_publisher) (filepath_Abs (w_cwd sb_world) ''s.yaml'') = Some sf \<and>
       io_each (ImageCopy (be_oci publish_env))
         (concat (map (layer_copies (pu_opts two_publisher) (is_Type isrc)) (published (pu_opts two_publisher) sf))) v = (Inr (), w'))"
proof -
  let ?run = "publish_file publish_env two_publisher ''s.yaml'' sb_world"
  have ok: "is_ok (fst ?run)" by code_simp
  then obtain w' where run: "?run = (Inr (), w')" by (cases ?run) (auto simp: is_ok_iff)
  have "w_ext (snd ?run) = [''/oci:a to //h/r/a:1'']" by code_simp
  then have "w_ext w' = [''/oci:a to //h/r/a:1'']" by (simp add: run)
  moreover obtain sf and isrc :: ImageSource and v where "map_of (pu_stackerfiles two_publisher) (filepath_Abs (w_cwd sb_world) ''s.yaml'') = Some sf"
    "io_each (ImageCopy (be_oci publish_env))
       (concat (map (layer_copies (pu_opts two_publisher) (is_Type isrc)) (published (pu_opts two_publisher) sf))) v = (Inr (), w')"
    using publish_copies [OF run] by auto
  ultimately show ?thesis
    by (intro exI [of _ w'] conjI run exI [of _ sf] exI [of _ isrc] exI [of _ v])
qed

definition sample_cfg :: "(string \<times> string) list" where
  "sample_cfg = [(''STACKER_ROOTFS_DIR'', ''/r''), (''STACKER_STACKER_DIR'', ''/s''), (''STACKER_OCI_DIR'', ''/oci''), (''STACKER_WORK_DIR'', ''/'')]"

lemma sample_cfg: "Substitutions sample_config = encode sample_cfg" "subs_ok sample_cfg"
  by (simp_all add: Substitutions_def sample_config_def sample_cfg_def encode_def subs_ok_def name_ok_def literal_char_def)

text \<open>Two files, which between them need two values.\<close>

definition two_texts :: "string \<Rightarrow> seg list" where
  "two_texts p = (if p = ''s.yaml'' then [Txt ''a '', Ph ''X'' None]
     else [Ph ''X'' (Some ''d''), Txt '' '', Ph ''Y'' None, Ph ''Z'' (Some ''z'')])"

definition two_env :: sf_env where
  "two_env = (sample_env [])\<lparr>env_ReadFile :=
     (\<lambda>p. if p \<in> set [''s.yaml'', ''t.yaml''] then Inr (render_all (two_texts p)) else Inl ENOENT)\<rparr>"

definition two_file :: "string \<Rightarrow> string \<Rightarrow> Stackerfile" where
  "two_file p c = \<lparr>sf_AfterSubstitutions = c, sf_internal = [], sf_FileOrder = [], sf_buildConfig = Some [],
     sf_path = p, sf_ReferenceDirectory = path_Dir p\<rparr>"

lemma two_paths:
  "du_Scheme (dockerish ''s.yaml'') = []" "du_Scheme (dockerish ''t.yaml'') = []"
  "filepath_Abs ''/w'' ''s.yaml'' = ''/w/s.yaml''" "filepath_Abs ''/w'' ''t.yaml'' = ''/w/t.yaml''"
  by (simp_all add: scheme_cut) code_simp+

lemma two_read: "read_stackerfile two_env ''/w'' p = Inr (raw, q, d) \<Longrightarrow>
    (p = ''s.yaml'' \<or> p = ''t.yaml'') \<and> raw = render_all (two_texts p)"
  by (auto simp: read_stackerfile_def two_env_def sample_env_def Let_def res_simps split: if_splits)

lemma two_NewStackerfile:
  assumes "p = ''s.yaml'' \<or> p = ''t.yaml''"
  shows "NewStackerfile two_env p False subs =
    rbind (substitute (render_all (two_texts p)) subs) (\<lambda>c. Inr (two_file (filepath_Abs ''/w'' p) c))"
  using assms two_paths
  by (auto simp: NewStackerfile_def read_stackerfile_def two_env_def sample_env_def Let_def section_step_def parseLayers_def
      check_directives_def two_file_def)

lemma two_files: "NewStackerFiles 2 two_env [''s.yaml'', ''t.yaml''] False subs =
    rbind (substitute (render_all (two_texts ''s.yaml'')) subs) (\<lambda>c.
    rbind (substitute (render_all (two_texts ''t.yaml'')) subs) (\<lambda>c'.
      Inr [(''/w/s.yaml'', two_file ''/w/s.yaml'' c), (''/w/t.yaml'', two_file ''/w/t.yaml'' c')]))"
proof -
  have wd: "env_Getwd two_env = Inr ''/w''" by (simp add: two_env_def sample_env_def)
  have no: "Prerequisites ''/w'' (two_file p c) = Inr []" for p c
    by (simp add: Prerequisites_def buildPrerequisites_def two_file_def)
  have order: "sf_FileOrder (two_file p c) = []" for p c by (simp add: two_file_def)
  have none: "NewStackerFiles (Suc 0) two_env [] False subs = Inr []"
    by (simp add: check_unique_def all_names_def)
  show ?thesis
    unfolding numeral_2_eq_2 NewStackerFiles.simps(2) [of "Suc 0"]
    by (simp add: two_NewStackerfile wd no none order two_paths Let_def rbind_assoc check_unique_def all_names_def
        del: NewStackerFiles.simps)
qed


lemma publish_never_ends_witness:
  "readStackerFiles 1000 1 ((sample_env [])\<lparr>env_ReadFile := (\<lambda>_. Inr ''${{a=b}}'')\<rparr>) publish_sample [''s.yaml''] =
    Inl (Panic ''stack overflow'')"
proof -
  have scheme: "du_Scheme (dockerish ''s.yaml'') = []" by (rule dockerish_no_scheme) (simp add: strings_Contains_def)
  have "pa_Substitute publish_sample = encode []" by (simp add: publish_sample_def encode_def)
  moreover have "Substitutions (pa_Config publish_sample) = encode sample_cfg" by (simp add: publish_sample_def sample_cfg(1))
  moreover have "name_ok ''a''" "list_all literal_char ''b''" by (simp_all add: name_ok_def literal_char_def)
  ultimately show ?thesis
    using publish_never_ends [of "(sample_env [])\<lparr>env_ReadFile := (\<lambda>_. Inr ''${{a=b}}'')\<rparr>" "''/w''" "''s.yaml''" "''a''" "''b''"
        publish_sample "[]" sample_cfg 1000 0, OF _ _ scheme] sample_cfg(2)
    by (simp add: sample_env_def)
qed

definition subst_env :: "(string list, string, unit, unit, nat, nat) build_env" where
  "subst_env = sample_build\<lparr>be_SubstituteMap := (\<lambda>_. Inr [(''A'', ''1''), (''B'', ''2'')])\<rparr>"


end
