(* ===== verification/Main_Props.thy ===== *)
theory Main_Props
  imports Stacker_Main Publish_Props
begin

text \<open>
  What is proved of the program and its commands: the directories of the configuration, starting
  again in a namespace, the checks of the host, cleaning up, the flags of a build, and what a chroot
  does not know.
\<close>

section \<open>The configuration\<close>

text \<open>The configuration that the flags make of what the file gives, but for the date of the build.\<close>

definition from_flags :: "cli_ctx \<Rightarrow> string \<Rightarrow> StackerConfig \<Rightarrow> StackerConfig" where
  "from_flags ctx cwd c = (absolute_dirs cwd (resolve_dirs ctx c))\<lparr>sc_StorageType := cx_String ctx ''storage-type''\<rparr>"

definition dated :: "int option \<Rightarrow> StackerConfig \<Rightarrow> StackerConfig" where
  "dated epoch c = (case epoch of None \<Rightarrow> c | Some t \<Rightarrow> c\<lparr>sc_SourceDateEpoch := Some t\<rparr>)"

lemma dated_dirs [simp]:
  "sc_WorkDir (dated t c) = sc_WorkDir c" "sc_StackerDir (dated t c) = sc_StackerDir c" "sc_OCIDir (dated t c) = sc_OCIDir c"
  "sc_RootFSDir (dated t c) = sc_RootFSDir c"
  by (simp_all add: dated_def split: option.splits)

lemma from_flags_dirs [simp]:
  "sc_StackerDir (from_flags ctx cwd c) = filepath_Abs cwd (sc_StackerDir (resolve_dirs ctx c))"
  "sc_OCIDir (from_flags ctx cwd c) = filepath_Abs cwd (sc_OCIDir (resolve_dirs ctx c))"
  "sc_RootFSDir (from_flags ctx cwd c) = filepath_Abs cwd (sc_RootFSDir (resolve_dirs ctx c))"
  by (simp_all add: from_flags_def absolute_dirs_def)

lemma configure_parts:
  fixes w :: "'x world"
  assumes "configure me ctx w = (Inr config, w')"
  shows "\<exists>c epoch (v :: 'x world).
    read_config me (cx_String ctx ''config'') (zero_config\<lparr>sc_Debug := cx_Bool ctx ''debug''\<rparr>) w = (Inr c, v) \<and> w_cwd v = w_cwd w \<and>
    CHR '':'' \<notin> set (sc_RootFSDir (resolve_dirs ctx c)) \<and>
    source_date_epoch (map_get [] (ho_env (be_host (mn_build me))) ''SOURCE_DATE_EPOCH'') = Inr epoch \<and>
    config = dated epoch (from_flags ctx (w_cwd w) c)"
proof -
  let ?c0 = "zero_config\<lparr>sc_Debug := cx_Bool ctx ''debug''\<rparr>"
  have nq: "\<not> (cx_Bool ctx ''debug'' \<and> cx_Bool ctx ''quiet'')"
    using assms by (auto simp: configure_def Let_def io_simps)
  obtain c v where c: "read_config me (cx_String ctx ''config'') ?c0 w = (Inr c, v)"
    and rest: "io_bind (io_res (validateRootsDirName (sc_RootFSDir (resolve_dirs ctx c)))) (\<lambda>_.
        io_bind io_get (\<lambda>w.
        io_bind (io_res (source_date_epoch (map_get [] (ho_env (be_host (mn_build me))) ''SOURCE_DATE_EPOCH''))) (\<lambda>epoch.
        let config = dated epoch (from_flags ctx (w_cwd w) c) in
        io_bind (check_owner (ho_Euid (be_host (mn_build me))) (CacheFile config)) (\<lambda>_.
        io_bind (io_if (cx_String ctx ''log-file'' \<noteq> []) (io_wrap ''failed to access %v'' []
          (os_WriteFile (cx_String ctx ''log-file'') [] 438))) (\<lambda>_. io_ret config))))) v = (Inr config, w')"
    using assms nq unfolding configure_def Let_def dated_def from_flags_def by (auto elim: io_bindE)
  have cwd: "w_cwd v = w_cwd w" using c by (auto simp: read_config_def io_simps split: sum.splits)
  from rest obtain epoch where "validateRootsDirName (sc_RootFSDir (resolve_dirs ctx c)) = Inr ()"
    "source_date_epoch (map_get [] (ho_env (be_host (mn_build me))) ''SOURCE_DATE_EPOCH'') = Inr epoch"
    "config = dated epoch (from_flags ctx (w_cwd v) c)"
    unfolding Let_def by (auto simp: io_simps)
  with c cwd show ?thesis by (intro exI [of _ c] exI [of _ epoch] exI [of _ v])
    (auto simp: validateRootsDirName_def split: if_splits)
qed

text \<open>
  C22. Where the directories of a run come from: a flag that is given wins over the configuration
  file, which wins over the default, and the default is below the working directory of the run where
  one is set; the path is then made absolute, so that changing the directory later cannot change it.
\<close>

theorem configured_dirs:
  fixes w :: "'x world"
  assumes "configure me ctx w = (Inr config, w')" "filepath_IsAbs (w_cwd w)"
  shows "\<exists>c (v :: 'x world).
    read_config me (cx_String ctx ''config'') (zero_config\<lparr>sc_Debug := cx_Bool ctx ''debug''\<rparr>) w = (Inr c, v) \<and>
    (\<forall>(flag, get) \<in> {(''stacker-dir'', sc_StackerDir), (''oci-dir'', sc_OCIDir), (''roots-dir'', sc_RootFSDir)}.
       get config = filepath_Abs (w_cwd w)
         (if cx_IsSet ctx flag then cx_String ctx flag
          else if get c \<noteq> [] then get c
          else if sc_WorkDir config \<noteq> [] then path_Join [sc_WorkDir config, cx_String ctx flag]
          else cx_String ctx flag) \<and>
       filepath_IsAbs (get config) \<and> (\<forall>cwd. filepath_IsAbs cwd \<longrightarrow> filepath_Abs cwd (get config) = get config))"
proof -
  obtain c epoch v where c: "read_config me (cx_String ctx ''config'') (zero_config\<lparr>sc_Debug := cx_Bool ctx ''debug''\<rparr>) w = (Inr c, v)"
    "config = dated epoch (from_flags ctx (w_cwd w) c)"
    using configure_parts [OF assms(1)] by blast
  have abs: "filepath_Abs cwd (filepath_Abs (w_cwd w) p) = filepath_Abs (w_cwd w) p" for cwd p
    using filepath_Abs_abs [OF assms(2), of p] filepath_Abs_idem [OF assms(2), of p] by (simp add: filepath_Abs_def)
  have work: "sc_WorkDir config = sc_WorkDir (resolve_dirs ctx c)"
    unfolding c(2) by (simp add: from_flags_def absolute_dirs_def)
  have dirs: "sc_StackerDir (resolve_dirs ctx c) = resolve_dir ctx (sc_WorkDir config) ''stacker-dir'' (sc_StackerDir c)"
    "sc_OCIDir (resolve_dirs ctx c) = resolve_dir ctx (sc_WorkDir config) ''oci-dir'' (sc_OCIDir c)"
    "sc_RootFSDir (resolve_dirs ctx c) = resolve_dir ctx (sc_WorkDir config) ''roots-dir'' (sc_RootFSDir c)"
    unfolding work by (simp_all add: resolve_dirs_def Let_def)
  show ?thesis
    using c abs dirs filepath_Abs_abs [OF assms(2)]
    by (intro exI [of _ c] exI [of _ v] conjI) (simp_all add: resolve_dir_def)
qed

text \<open>
  A colon, which overlayfs reads as a separator of directories, gets into the path of the root
  file systems only from the directory the program is started in, when the path given is relative: the
  check is made before the path is made absolute.
\<close>

theorem roots_dir_colon:
  assumes "configure me ctx w = (Inr config, w')" "CHR '':'' \<in> set (sc_RootFSDir config)"
  shows "CHR '':'' \<in> set (w_cwd w)"
proof -
  obtain c epoch where c: "CHR '':'' \<notin> set (sc_RootFSDir (resolve_dirs ctx c))" "config = dated epoch (from_flags ctx (w_cwd w) c)"
    using configure_parts [OF assms(1)] by blast
  let ?p = "sc_RootFSDir (resolve_dirs ctx c)"
  have "set (filepath_Abs (w_cwd w) ?p) \<subseteq> set (w_cwd w) \<union> set ?p \<union> {slash, CHR ''.''}"
    using path_Clean_chars [of ?p] path_Join_chars [of "[w_cwd w, ?p]"] by (auto simp: filepath_Abs_def)
  with assms(2) c show ?thesis by auto
qed


section \<open>The log\<close>

text \<open>A quiet run logs nothing below a fatal error, and a run without either flag no debug messages.\<close>

lemma quiet_log: "cx_Bool ctx ''quiet'' \<Longrightarrow> \<not> cx_Bool ctx ''debug'' \<Longrightarrow> l \<noteq> FatalLevel \<Longrightarrow> stacker_log (app_log err out ctx) l now msg = io_ret ()"
  by (rule ext) (cases l; simp add: app_log_def logLevel_def stacker_log_def FilterNonStackerLogs_def level_rank_def addStackerLogSentinel_def)

lemma debug_log: "\<not> cx_Bool ctx ''debug'' \<Longrightarrow> stacker_log (app_log err out ctx) DebugLevel now msg = io_ret ()"
  by (rule ext) (simp add: app_log_def logLevel_def stacker_log_def FilterNonStackerLogs_def level_rank_def addStackerLogSentinel_def)

section \<open>Starting again\<close>

lemma reexec_args_eq: "1 < length osArgs \<Longrightarrow> reexec_args binary osArgs = binary # ''--internal-userns'' # tl osArgs"
proof (cases osArgs)
  case (Cons a as)
  assume "1 < length osArgs"
  with Cons obtain b bs where "as = b # bs" by (cases as) auto
  with Cons show ?thesis by (simp add: reexec_args_def numeral_2_eq_2)
qed simp

text \<open>
  C38. The program starts itself again at most once: what it starts is its own binary with the flag
  \<open>--internal-userns\<close> put before the arguments it was given, and with that flag it starts nothing. Where
  it starts nothing, the command runs with the configuration made; where it does, its status is that of
  what it started.
\<close>

theorem started_again_once:
  fixes w :: "'x world"
  assumes "app_Before me ctx osArgs w = (Inr (config, st), w')"
  shows "case st of
      None \<Rightarrow> configure me ctx w = (Inr config, w') \<and>
        (cx_Bool ctx ''internal-userns'' \<or> shouldSkipInternalUserns ctx \<or> length osArgs \<le> 1)
    | Some status \<Rightarrow> \<not> cx_Bool ctx ''internal-userns'' \<and>
        (\<exists>(v :: 'x world) binary r. configure me ctx w = (Inr config, v) \<and> os_Readlink ''/proc/self/exe'' v = (Inr binary, v) \<and>
           MaybeRunInNamespace (be_host (mn_build me)) (binary # ''--internal-userns'' # tl osArgs) v = (r, w') \<and>
           status = stackerResult me r)"
proof -
  obtain v where v: "configure me ctx w = (Inr config, v)"
    and rest: "(if \<not> cx_Bool ctx ''internal-userns'' \<and> \<not> shouldSkipInternalUserns ctx \<and> length osArgs > 1 then
         io_bind (os_Readlink ''/proc/self/exe'') (\<lambda>binary.
         io_bind (io_try (MaybeRunInNamespace (be_host (mn_build me)) (reexec_args binary osArgs))) (\<lambda>r.
           io_ret (config, Some (stackerResult me r))))
       else io_ret (config, None)) v = (Inr (config, st), w')"
    using assms by (auto simp: app_Before_def io_simps split: if_splits)
  show ?thesis
  proof (cases "\<not> cx_Bool ctx ''internal-userns'' \<and> \<not> shouldSkipInternalUserns ctx \<and> length osArgs > 1")
    case True
    then obtain binary r where "os_Readlink ''/proc/self/exe'' v = (Inr binary, v)"
      "MaybeRunInNamespace (be_host (mn_build me)) (reexec_args binary osArgs) v = (r, w')" "st = Some (stackerResult me r)"
      using rest by (auto simp: io_simps)
    with True v reexec_args_eq [of osArgs] show ?thesis by auto
  next
    case False
    then show ?thesis using rest v by (auto simp: io_simps)
  qed
qed

section \<open>Checking the host\<close>

lemma nfs_name: "fstype_name ty @ ''('' @ fmt_x ty @ '')'' = ''NFS(6969)'' \<longleftrightarrow> ty = 0x6969"
proof
  assume eq: "fstype_name ty @ ''('' @ fmt_x ty @ '')'' = ''NFS(6969)''"
  have no: "CHR ''('' \<notin> set (fstype_name ty)"
  proof -
    have "\<forall>(t, n) \<in> set fstypeMap. CHR ''('' \<notin> set n" unfolding fstypeMap_def by simp
    then show ?thesis by (auto simp: fstype_name_def dest!: map_of_SomeD split: option.splits)
  qed
  have "takeWhile (\<lambda>c. c \<noteq> CHR ''('') (fstype_name ty @ ''('' @ fmt_x ty @ '')'') = fstype_name ty"
    using no by (induction "fstype_name ty") (auto simp: takeWhile_append)
  moreover have "takeWhile (\<lambda>c. c \<noteq> CHR ''('') ''NFS(6969)'' = ''NFS''" by simp
  ultimately have "fstype_name ty = ''NFS''" unfolding eq by argo
  then have "map_of fstypeMap ty = Some ''NFS''"
    by (cases "map_of fstypeMap ty") (simp_all add: fstype_name_def)
  then have "(ty, ''NFS'') \<in> set fstypeMap" by (rule map_of_SomeD)
  moreover have "list_all (\<lambda>(t, n). n = ''NFS'' \<longrightarrow> t = 0x6969) fstypeMap" by code_simp
  ultimately show "ty = 0x6969" by (auto simp only: list_all_iff)
next
  assume "ty = 0x6969"
  moreover have "fstype_name 0x6969 = ''NFS''" by code_simp
  moreover have "fmt_x 0x6969 = ''6969''"
    by (simp add: fmt_x_def) (subst digits.simps, simp, subst digits.simps, simp, subst digits.simps, simp, subst digits.simps, simp add: digit_char_def)
  ultimately show "fstype_name ty @ ''('' @ fmt_x ty @ '')'' = ''NFS(6969)''" by simp
qed

lemma checkForCap_Inr: "checkForCap tool f cap v = (Inr u, v') \<longleftrightarrow> (\<exists>caps. tl_XattrList tool f v = (Inr caps, v') \<and> cap \<in> set caps)"
proof -
  obtain r u' where r: "tl_XattrList tool f v = (r, u')" by force
  then show ?thesis by (cases r) (auto simp: checkForCap_def io_bind_def io_try_def io_err_def io_ret_def)
qed

text \<open>
  A host that \<^verbatim>\<open>stacker check\<close> accepts can be built on: the directory of the root file systems is
  reached without symbolic links, is not on NFS (whatever the names of the table of file systems look
  like), \<open>newuidmap\<close> can be executed and has the setuid bit or capabilities, and the checks of the overlay
  storage, the only type there is, succeed.
\<close>

theorem check_accepts:
  fixes w :: "'x world"
  assumes "doCheck tool oc tmpdir config w = (Inr (), w')"
  shows "\<exists>(v :: 'x world) v' v'' ty f n. filepath_EvalSymlinks (sc_RootFSDir config) v = (Inr (sc_RootFSDir config), v) \<and>
    sy_Statfs_Type oc (sc_RootFSDir config) v = (Inr ty, v') \<and> ty \<noteq> 0x6969 \<and>
    tl_LookPath tool ''newuidmap'' = Inr f \<and> os_Stat f v' = (Inr n, v') \<and> (\<exists>i \<in> {0, 3, 6}. mode_bit (node_Mode n) i) \<and>
    (mode_bit (node_Mode n) 23 \<and> v'' = v' \<or> (\<exists>caps. tl_XattrList tool f v' = (Inr caps, v'') \<and> ''security.capability'' \<in> set caps)) \<and>
    sc_StorageType config = ''overlay'' \<and> overlay_Check oc tmpdir config v'' = (Inr (), w')"
proof -
  obtain v ty v' where v: "filepath_EvalSymlinks (sc_RootFSDir config) v = (Inr (sc_RootFSDir config), v)"
    "sy_Statfs_Type oc (sc_RootFSDir config) v = (Inr ty, v')" "fstype_name ty @ ''('' @ fmt_x ty @ '')'' \<noteq> ''NFS(6969)''"
    and rest: "io_bind (verifyNewUIDMap tool) (\<lambda>_. if sc_StorageType config = ''overlay'' then overlay_Check oc tmpdir config
       else io_err (Errorf ''invalid storage type %v'' [sc_StorageType config])) v' = (Inr (), w')"
    using assms unfolding doCheck_def MountInfo_def
    by (auto simp: io_simps filepath_EvalSymlinks_def simp del: if_False if_True split: if_split_asm)
  obtain v'' where v'': "verifyNewUIDMap tool v' = (Inr (), v'')" "sc_StorageType config = ''overlay''"
    "overlay_Check oc tmpdir config v'' = (Inr (), w')"
    using rest by (auto simp: io_simps split: if_split_asm)
  obtain f n where f: "tl_LookPath tool ''newuidmap'' = Inr f" "os_Stat f v' = (Inr n, v')" "\<exists>i \<in> {0, 3, 6}. mode_bit (node_Mode n) i"
    "mode_bit (node_Mode n) 23 \<and> v'' = v' \<or> (\<exists>caps. tl_XattrList tool f v' = (Inr caps, v'') \<and> ''security.capability'' \<in> set caps)"
    using v''(1) unfolding verifyNewUIDMap_def
    by (auto simp: io_simps checkForCap_Inr split: if_split_asm)
  have "ty \<noteq> 0x6969" using v(3) nfs_name by blast
  with v f v'' show ?thesis by blast
qed


section \<open>Commands\<close>

text \<open>
  C39. What \<^verbatim>\<open>stacker clean\<close> removes, when it succeeds: once the root file systems have been cleaned,
  everything in the OCI directory and everything in stacker's directory, themselves included, and nothing
  else; when no symbolic link lies on their paths, these are the directories of the configuration.
\<close>

theorem clean_removes_exactly:
  fixes w :: "'x world"
  assumes "doClean be config w = (Inr (), w')"
  shows "\<exists>(v :: 'x world) oci stk. clean_roots be config w = (Inr False, v) \<and>
    w' = v\<lparr>w_fs := filter (\<lambda>(k, _). \<not> under oci k \<and> \<not> under stk k) (w_fs v)\<rparr> \<and>
    (straight v (sc_OCIDir config) \<longrightarrow> oci = filepath_Abs (w_cwd v) (sc_OCIDir config)) \<and>
    (straight v (sc_StackerDir config) \<longrightarrow> stk = filepath_Abs (w_cwd v) (sc_StackerDir config))"
proof -
  obtain v where v: "clean_roots be config w = (Inr False, v)" and w':
    "w' = v\<lparr>w_fs := remove_under (w_key (v\<lparr>w_fs := remove_under (w_key v (sc_OCIDir config)) (w_fs v)\<rparr>) (sc_StackerDir config))
       (remove_under (w_key v (sc_OCIDir config)) (w_fs v))\<rparr>"
    using assms by (auto simp: doClean_def Let_def io_simps split: if_splits)
  let ?oci = "w_key v (sc_OCIDir config)"
  let ?stk = "w_key (v\<lparr>w_fs := remove_under ?oci (w_fs v)\<rparr>) (sc_StackerDir config)"
  have "remove_under ?stk (remove_under ?oci (w_fs v)) = filter (\<lambda>(k, _). \<not> under ?oci k \<and> \<not> under ?stk k) (w_fs v)"
    by (auto simp: remove_under_def intro!: filter_cong)
  moreover have "straight v (sc_StackerDir config) \<longrightarrow> ?stk = filepath_Abs (w_cwd v) (sc_StackerDir config)"
    using w_key_straight [OF straight_remove, of v "sc_StackerDir config" ?oci] by auto
  ultimately show ?thesis using v w' w_key_straight [of v "sc_OCIDir config"]
    by (intro exI [of _ v] exI [of _ ?oci] exI [of _ ?stk]) auto
qed

text \<open>
  Flags that \<^verbatim>\<open>stacker build\<close> accepts make arguments for the build: the layer types asked for, in
  their order, at least one of them, each a valid one, so that a build never looks for the first of no
  layer types; and after a failure the command asked for is run, or the shell.
\<close>

theorem accepted_build_flags:
  assumes "beforeBuild ctx w = (Inr ctx', w')"
  shows "\<exists>args. newBuildArgs config ctx' = Inr args \<and> map lt_Type (ba_LayerTypes args) = cx_StringSlice ctx ''layer-type'' \<and>
    ba_LayerTypes args \<noteq> [] \<and> list_all valid_layer_type (ba_LayerTypes args) \<and>
    ba_OnRunFailure args = (if cx_Bool ctx ''shell-fail'' then DefaultShell else cx_String ctx ''on-run-failure'')"
proof -
  let ?lts = "cx_StringSlice ctx ''layer-type''"
  have ctx': "validateBuildFailureFlags ctx = Inr ctx'" "validateLayerTypeFlags ctx' = Inr ()"
    using assms by (auto simp: beforeBuild_def io_simps)
  have fail: "cx_String ctx' ''on-run-failure'' = (if cx_Bool ctx ''shell-fail'' then DefaultShell else cx_String ctx ''on-run-failure'')"
    and same: "cx_StringSlice ctx' = cx_StringSlice ctx"
    using ctx'(1) by (auto simp: validateBuildFailureFlags_def cx_Set_def Let_def split: if_splits)
  have lts: "?lts \<noteq> []" "\<forall>t \<in> set ?lts. t \<in> {''tar'', ''squashfs'', ''erofs''}"
    using ctx'(2) same by (auto simp: validateLayerTypeFlags_def Let_def res_simps split: if_splits)
  define verity where "verity = (\<not> cx_Bool ctx' ''no-verity'')"
  have "NewLayerTypes ?lts verity = Inr (map (\<lambda>t. \<lparr>lt_Type = t, lt_Verity = (t \<noteq> ''tar'' \<and> verity)\<rparr>) ?lts)"
    unfolding NewLayerTypes_def using lts(2) by (intro rmap_total) (auto simp: NewLayerType_def)
  with lts fail same show ?thesis
    by (auto simp: newBuildArgs_def verity_def comp_def list_all_iff valid_layer_type_def)
qed

text \<open>The directories of the configuration, as names and values.\<close>

definition directory_subs :: "StackerConfig \<Rightarrow> (string \<times> string) list" where
  "directory_subs config =
     [(''STACKER_ROOTFS_DIR'', sc_RootFSDir config), (''STACKER_STACKER_DIR'', sc_StackerDir config),
      (''STACKER_OCI_DIR'', sc_OCIDir config), (''STACKER_WORK_DIR'', sc_WorkDir config)]"

lemma Substitutions_encode: "Substitutions config = encode (directory_subs config)"
  by (simp add: Substitutions_def encode_def directory_subs_def)

text \<open>
  C40. A chroot does not know the directories of the configuration, which a build substitutes in a
  stacker file: for a file that uses one of them \<^verbatim>\<open>stacker chroot\<close> fails, after taking its locks, while
  the same text with the same substitutions is one that a build can read.
\<close>

theorem chroot_without_directories:
  fixes w :: "'x world"
  assumes storage: "NewStorage (be_oci be) (be_lock be) (ho_tmpdir (be_host be)) config w = (Inr (o', locks), v)"
    and there: "os_Stat path v = (Inr n, v)" "os_ReadFile path v = (Inr (render_all segs), v)" "du_Scheme (dockerish path) = []"
    and uses: "missing (dom (map_of us)) segs = [d]" "d \<in> fst ` set (directory_subs config)"
    and ok: "subs_ok (us @ directory_subs config)" "list_all (seg_ok (heads (us @ directory_subs config))) segs"
  shows "fst (doChroot be config path (encode us) args w) = Inl (Errorf ''no value for substitution %s'' [d]) \<and>
    is_ok (substitute (render_all segs) (encode us @ Substitutions config))"
proof
  let ?e = "Errorf ''no value for substitution %s'' [d]" and ?cfg = "directory_subs config"
  have "substitute (render_all segs) (encode us) = rbind (rmap (eval_seg us) segs) (\<lambda>ts. Inr (concat ts))"
    by (rule substitute_fewer [OF ok]) auto
  then have "substitute (render_all segs) (encode us) = Inl ?e" by (simp add: eval_missing [OF uses(1)])
  then have "NewStackerfile (files_in (be_files be) v) path False (encode us) = Inl ?e"
    using there by (simp add: NewStackerfile_def read_stackerfile_def files_in_def Let_def)
  then show "fst (doChroot be config path (encode us) args w) = Inl ?e"
    using storage there(1)
    by (simp add: doChroot_def with_storage_def io_bind_def io_try_def io_get_def io_res_def io_defer_def Let_def split: prod.splits)
  have "set (missing (dom (map_of (us @ ?cfg))) segs) = {}"
    using uses missing_set [of "dom (map_of us)" segs] by (auto simp: missing_set dom_map_of_conv_image_fst)
  then have "missing (dom (map_of (us @ ?cfg))) segs = []" by (simp only: set_empty)
  then obtain ts where "rmap (eval_seg (us @ ?cfg)) segs = Inr ts" using eval_no_missing by blast
  then show "is_ok (substitute (render_all segs) (encode us @ Substitutions config))"
    using substitute_fewer [OF ok order_refl] by (simp add: Substitutions_encode encode_append)
qed


section \<open>The status of the program\<close>

lemma try_run: "m w = (r, u) \<Longrightarrow> io_bind (io_try m) f w = f r u"
  by (simp add: io_bind_def io_try_def io_ret_def)

text \<open>The statuses that a command ends the program with itself.\<close>

definition own_status :: "int set \<Rightarrow> ('x, int option) io \<Rightarrow> bool" where
  "own_status S m = (\<forall>w code w'. m w = (Inr (Some code), w') \<longrightarrow> code \<in> S)"

lemma own_status_intros:
  "own_status S (io_ret None)" "code \<in> S \<Longrightarrow> own_status S (io_ret (Some code))" "own_status S (action m')" "own_status S (io_err e)"
  "(\<And>x. own_status S (f x)) \<Longrightarrow> own_status S (io_bind m f)" "own_status S c \<Longrightarrow> own_status S (WithStack c)"
  by (fastforce simp: own_status_def action_def WithStack_def io_simps)+

lemma internal_go_status: "internal_go n oc tool tmpdir config args = Some m \<Longrightarrow> own_status {50, 52} m"
  by (auto simp: internal_go_def Let_def doTestsuiteCheckOverlay_def doCheckAAProfile_def
      intro!: own_status_intros split: if_split_asm sum.split)

lemma command_status: "command me config name ctx = Some m \<Longrightarrow> own_status {50, 52} m"
  unfolding command_def Let_def by (auto intro!: own_status_intros dest: internal_go_status split: if_split_asm)

text \<open>
  C21. Status 0 means done: when the program ends with 0, and a program that was run and failed never
  counts as 0, then the configuration was accepted, and either the command ran in this process to its
  end without an error, or the copy of the program that was started did, or no command was named and
  the library printed its help.
\<close>

theorem exit_zero_means_done:
  fixes w :: "'x world"
  assumes "stacker_main me skipembed osArgs w = (Inr 0, w')" "\<forall>e. mn_ExitCode me e \<noteq> Some 0" "mn_Parse me osArgs = Inr (app, name, ctx)"
  shows "\<exists>config (v :: 'x world). configure me app w = (Inr config, v) \<and>
    (case command me config name ctx of
       Some m \<Rightarrow> m v = (Inr None, w') \<or>
         (\<exists>binary. MaybeRunInNamespace (be_host (mn_build me)) (reexec_args binary osArgs) v = (Inr (), w'))
     | None \<Rightarrow> mn_Help me name = 0 \<or>
         (\<exists>binary. MaybeRunInNamespace (be_host (mn_build me)) (reexec_args binary osArgs) v = (Inr (), w')))"
proof -
  have failed: "stackerResult me (Inl e) \<noteq> 0" for e using assms(2) by (auto simp: stackerResult_def split: option.splits)
  have result: "stackerResult me r = 0 \<Longrightarrow> r = Inr ()" for r :: "unit res" using failed by (cases r) auto
  obtain config st u where before: "app_Before me app osArgs w = (Inr (config, st), u)"
    and rest: "(case st of Some code \<Rightarrow> io_ret code
       | None \<Rightarrow> (case command me config name ctx of None \<Rightarrow> io_ret (mn_Help me name)
           | Some m \<Rightarrow> io_bind (io_try m) (\<lambda>r. case r of Inl e \<Rightarrow> io_ret (stackerResult me (Inl e))
               | Inr (Some code) \<Rightarrow> io_ret code | Inr None \<Rightarrow> io_ret (stackerResult me (Inr ()))))) u = (Inr 0, w')"
  proof -
    obtain r u where r: "app_Before me app osArgs w = (r, u)" by force
    with assms failed obtain config st where "r = Inr (config, st)"
      by (cases r) (auto simp: stacker_main_def hasEmbedded_def io_bind_def io_try_def io_ret_def)
    with r assms that show thesis
      by (cases st) (simp_all add: stacker_main_def hasEmbedded_def try_run [of "app_Before me app osArgs" w, OF r])
  qed
  obtain v where v: "configure me app w = (Inr config, v)"
    and start: "st = None \<and> u = v \<or> (\<exists>binary r. MaybeRunInNamespace (be_host (mn_build me)) (reexec_args binary osArgs) v = (r, u) \<and>
      st = Some (stackerResult me r))"
    using before by (auto simp: app_Before_def io_simps split: if_split_asm)
  show ?thesis
  proof (cases st)
    case None
    with start have u: "u = v" by simp
    show ?thesis
    proof (cases "command me config name ctx")
      case None
      with rest \<open>st = None\<close> have "mn_Help me name = 0" by (simp add: io_simps)
      with v None show ?thesis by (intro exI [of _ config] exI [of _ v]) simp
    next
      case (Some m)
      obtain r u' where r: "m v = (r, u')" by force
      have "m v = (Inr None, w')"
      proof (cases r)
        case (Inl e)
        then show ?thesis using rest failed [of e] r u Some \<open>st = None\<close> by (simp add: try_run [of m v, OF r] io_ret_def)
      next
        case (Inr out)
        then show ?thesis using rest r u Some \<open>st = None\<close> command_status [OF Some]
          by (cases out) (fastforce simp: try_run [of m v, OF r] io_ret_def own_status_def)+
      qed
      with v Some show ?thesis by (intro exI [of _ config] exI [of _ v]) simp
    qed
  next
    case (Some code)
    with start obtain binary r where "MaybeRunInNamespace (be_host (mn_build me)) (reexec_args binary osArgs) v = (r, u)"
      "code = stackerResult me r" by auto
    with rest Some result [of r] have "MaybeRunInNamespace (be_host (mn_build me)) (reexec_args binary osArgs) v = (Inr (), w')"
      by (simp add: io_simps)
    with v show ?thesis by (intro exI [of _ config] exI [of _ v]) (auto split: option.splits)
  qed
qed


section \<open>Witnesses\<close>

definition sample_ctx :: cli_ctx where
  "sample_ctx = \<lparr>cx_Bool = (\<lambda>_. False), cx_String = map_get [] [(''config'', ''/c''), (''stacker-dir'', ''.stacker''), (''oci-dir'', ''oci''),
     (''roots-dir'', ''roots''), (''storage-type'', ''overlay'')], cx_StringSlice = (\<lambda>_. [''tar'']), cx_IsSet = (\<lambda>_. False), cx_Args = [''gc'']\<rparr>"

definition sample_tools :: "string list tool_ops" where
  "sample_tools = \<lparr>tl_Uname = Inr (''Linux'', ''6'', ''1''), tl_LookPath = (\<lambda>_. Inr ''/m''), tl_XattrList = (\<lambda>_. io_ret [''security.capability'']), tl_Gettid = 1,
     tl_Mount = (\<lambda>_ _ _. io_ret ()), tl_Umount = (\<lambda>_. io_ret ()), tl_ListReferences = (\<lambda>_. io_ret []),
     tl_FromDescriptor = (\<lambda>_ _. io_err (Ext [])), tl_HumanBytes = (\<lambda>_. []), tl_MarshalIndent = (\<lambda>_. Inr []), tl_MediaTypeImageConfig = []\<rparr>"

definition sample_main :: "(string list, string, unit, unit, nat, nat, Stackerfile lgraph, nat) main_env" where
  "sample_main = \<lparr>mn_build = sample_build\<lparr>be_host := sample_host\<lparr>ho_env := [(''STACKER_REAL_UID'', ''0'')]\<rparr>\<rparr>, mn_dag = lg_ops,
     mn_convert = \<lparr>ce_parse = (\<lambda>_. Inr []), ce_shquot = concat, ce_yaml_layers = (\<lambda>_. Inr []), ce_yaml_subs = (\<lambda>_. Inr []), ce_GOARCH = []\<rparr>,
     mn_tools = sample_tools, mn_config = (\<lambda>_ c. Inr c), mn_HomeDir = Inr ''/root'', mn_depth = 1,
     mn_Parse = (\<lambda>_. Inr (sample_ctx, ''gc'', sample_ctx)), mn_Help = (\<lambda>_. 3), mn_ExitCode = (\<lambda>_. None)\<rparr>"

definition main_world :: "string \<Rightarrow> string list world" where
  "main_world cwd = \<lparr>w_fs = [(''/proc'', Dir), (''/proc/self'', Dir), (''/proc/self/exe'', Symlink ''/stacker''), (''/m'', File [] 493 (0, 0)), (''/tmp'', Dir)],
     w_cwd = cwd, w_ext = []\<rparr>"


definition sample_from :: "string \<Rightarrow> StackerConfig" where
  "sample_from cwd = zero_config\<lparr>sc_StackerDir := cwd @ ''/.stacker'', sc_OCIDir := cwd @ ''/oci'', sc_RootFSDir := cwd @ ''/roots'', sc_StorageType := ''overlay''\<rparr>"

lemma main_steps:
  "read_config sample_main ''/c'' zero_config (main_world cwd) = (Inr zero_config, main_world cwd)" (is ?A)
  "check_owner 0 ''/w/.stacker/build.cache'' (main_world ''/w'') = (Inr (), main_world ''/w'')" (is ?B)
  "check_owner 0 ''/a:b/.stacker/build.cache'' (main_world ''/a:b'') = (Inr (), main_world ''/a:b'')" (is ?C)
  by code_simp+
lemma main_from:
  "from_flags sample_ctx ''/w'' zero_config = sample_from ''/w''"
  "from_flags sample_ctx ''/a:b'' zero_config = sample_from ''/a:b''"
  by code_simp+
lemma main_cache: "CacheFile (sample_from ''/w'') = ''/w/.stacker/build.cache''" "CacheFile (sample_from ''/a:b'') = ''/a:b/.stacker/build.cache''"
  by code_simp+
lemma main_configure:
  assumes "cwd \<in> {''/w'', ''/a:b''}"
  shows "configure sample_main sample_ctx (main_world cwd) = (Inr (sample_from cwd), main_world cwd)"
proof -
  have flags: "cx_Bool sample_ctx f = False" "cx_String sample_ctx ''config'' = ''/c''" "cx_String sample_ctx ''log-file'' = []" for f
    by (simp_all add: sample_ctx_def map_get_def)
  have dirs: "validateRootsDirName (sc_RootFSDir (resolve_dirs sample_ctx zero_config)) = Inr ()" by code_simp
  have env: "map_get [] (ho_env (be_host (mn_build sample_main))) ''SOURCE_DATE_EPOCH'' = []" "ho_Euid (be_host (mn_build sample_main)) = 0"
    by code_simp+
  have z: "zero_config\<lparr>sc_Debug := False\<rparr> = zero_config" by (simp add: zero_config_def)
  have flg: "(absolute_dirs cwd (resolve_dirs sample_ctx zero_config))\<lparr>sc_StorageType := cx_String sample_ctx ''storage-type''\<rparr> = sample_from cwd"
    using main_from assms by (auto simp: from_flags_def)
  have cwd: "w_cwd (main_world cwd) = cwd" by (simp add: main_world_def)
  have own: "check_owner 0 (CacheFile (sample_from cwd)) (main_world cwd) = (Inr (), main_world cwd)"
    using main_cache main_steps assms by auto
  have none: "source_date_epoch [] = Inr None" by (simp add: source_date_epoch_def)
  show ?thesis
    unfolding configure_def Let_def flags env
    by (simp only: z none io_bind_def main_steps dirs io_res_def io_get_def cwd none flg own prod.case sum.case option.case io_if_def io_ret_def if_False simp_thms)
qed

lemma main_exe: "os_Readlink ''/proc/self/exe'' (main_world ''/w'') = (Inr ''/stacker'', main_world ''/w'')" by code_simp
lemma main_start: "MaybeRunInNamespace (be_host (mn_build sample_main)) [''/stacker'', ''--internal-userns'', ''gc''] (main_world ''/w'') = (Inr (), main_world ''/w'')"
 by code_simp
lemma main_before: "app_Before sample_main sample_ctx [''stacker'', ''gc''] (main_world ''/w'') = (Inr (sample_from ''/w'', Some 0), main_world ''/w'')"
proof -
  have "\<not> cx_Bool sample_ctx f" "\<not> shouldSkipInternalUserns sample_ctx" for f
    by (simp_all add: sample_ctx_def shouldSkipInternalUserns_def cx_Arg_def)
  moreover have "reexec_args ''/stacker'' [''stacker'', ''gc''] = [''/stacker'', ''--internal-userns'', ''gc'']" by code_simp
  moreover have "stackerResult sample_main (Inr ()) = 0" by (simp add: stackerResult_def)
  ultimately show ?thesis
    by (simp add: app_Before_def main_configure io_bind_def io_try_def main_exe main_start io_ret_def)
qed

lemma roots_dir_colon_witness:
  "configure sample_main sample_ctx (main_world ''/a:b'') = (Inr (sample_from ''/a:b''), main_world ''/a:b'') \<and>
   sc_RootFSDir (sample_from ''/a:b'') = ''/a:b/roots'' \<and> CHR '':'' \<in> set (w_cwd (main_world ''/a:b''))"
proof -
  have run: "configure sample_main sample_ctx (main_world ''/a:b'') = (Inr (sample_from ''/a:b''), main_world ''/a:b'')"
    by (rule main_configure) simp
  moreover have "sc_RootFSDir (sample_from ''/a:b'') = ''/a:b/roots''" by (simp add: sample_from_def)
  moreover from this have "CHR '':'' \<in> set (w_cwd (main_world ''/a:b''))" by (intro roots_dir_colon [OF run]) simp
  ultimately show ?thesis by blast
qed

lemma configured_dirs_witness:
  "sc_OCIDir (sample_from ''/w'') = filepath_Abs (w_cwd (main_world ''/w'')) ''oci'' \<and> filepath_IsAbs (sc_OCIDir (sample_from ''/w''))"
proof -
  have run: "configure sample_main sample_ctx (main_world ''/w'') = (Inr (sample_from ''/w''), main_world ''/w'')"
    by (rule main_configure) simp
  have "filepath_IsAbs (w_cwd (main_world ''/w''))" by code_simp
  with configured_dirs [OF run] have "filepath_IsAbs (sc_OCIDir (sample_from ''/w''))" by blast
  moreover have "sc_OCIDir (sample_from ''/w'') = filepath_Abs (w_cwd (main_world ''/w'')) ''oci''" by code_simp
  ultimately show ?thesis by blast
qed

lemma started_again_once_witness:
  "app_Before sample_main sample_ctx [''stacker'', ''gc''] (main_world ''/w'') = (Inr (sample_from ''/w'', Some 0), main_world ''/w'') \<and>
    (\<exists>binary v r. MaybeRunInNamespace (be_host (mn_build sample_main)) [binary, ''--internal-userns'', ''gc''] v = (r, main_world ''/w''))"
  using main_before started_again_once [OF main_before] by auto

lemma exit_zero_means_done_witness:
  "stacker_main sample_main True [''stacker'', ''gc''] (main_world ''/w'') = (Inr 0, main_world ''/w'') \<and>
   (\<exists>config v. configure sample_main sample_ctx (main_world ''/w'') = (Inr config, v))"
proof -
  have parse: "mn_Parse sample_main [''stacker'', ''gc''] = Inr (sample_ctx, ''gc'', sample_ctx)" by (simp add: sample_main_def)
  have code: "\<forall>e. mn_ExitCode sample_main e \<noteq> Some 0" by (simp add: sample_main_def)
  have run: "stacker_main sample_main True [''stacker'', ''gc''] (main_world ''/w'') = (Inr 0, main_world ''/w'')"
    unfolding stacker_main_def hasEmbedded_def parse
    by (simp add: io_bind_def io_try_def main_before io_ret_def)
  show ?thesis using run exit_zero_means_done [OF run code parse] by blast
qed

lemma check_accepts_witness:
  "\<exists>w'. doCheck sample_tools build_oci ''/tmp'' sample_config (main_world ''/'') = (Inr (), w') \<and>
    (\<exists>f n (v :: string list world). tl_LookPath sample_tools ''newuidmap'' = Inr f \<and> os_Stat f v = (Inr n, v) \<and>
       (\<exists>i \<in> {0, 3, 6}. mode_bit (node_Mode n) i))"
proof -
  let ?run = "doCheck sample_tools build_oci ''/tmp'' sample_config (main_world ''/'')"
  have "is_ok (fst ?run)" by code_simp
  then obtain w' where run: "?run = (Inr (), w')" by (cases ?run) (auto simp: is_ok_iff)
  from run check_accepts [OF run] show ?thesis by blast
qed

definition clean_world :: "string list world" where
  "clean_world = build_world\<lparr>w_fs := w_fs build_world @ [(''/oci'', Dir), (''/oci/index.json'', File ''x'' 420 (0, 0)), (''/s'', Dir),
     (''/s/build.cache'', File ''y'' 420 (0, 0)), (''/s2'', Dir)]\<rparr>"

lemma clean_removes_exactly_witness:
  "\<exists>w'. doClean sample_build sample_config clean_world = (Inr (), w') \<and> w_fs w' = [(''/s.yaml'', File [] 420 (0, 0)), (''/tmp'', Dir), (''/s2'', Dir)] \<and>
     (\<exists>(v :: string list world) oci stk. w_fs w' = filter (\<lambda>(k, _). \<not> under oci k \<and> \<not> under stk k) (w_fs v))"
proof -
  let ?run = "doClean sample_build sample_config clean_world"
  have "is_ok (fst ?run)" by code_simp
  then obtain w' where run: "?run = (Inr (), w')" by (cases ?run) (auto simp: is_ok_iff)
  have "w_fs (snd ?run) = [(''/s.yaml'', File [] 420 (0, 0)), (''/tmp'', Dir), (''/s2'', Dir)]" by code_simp
  moreover from clean_removes_exactly [OF run] obtain v oci stk where
    "w' = v\<lparr>w_fs := filter (\<lambda>(k, _). \<not> under oci k \<and> \<not> under stk k) (w_fs v)\<rparr>" by blast
  then have "\<exists>(v :: string list world) oci stk. w_fs w' = filter (\<lambda>(k, _). \<not> under oci k \<and> \<not> under stk k) (w_fs v)" by auto
  ultimately show ?thesis using run by simp
qed

lemma accepted_build_flags_witness:
  "\<exists>args. newBuildArgs sample_config sample_ctx = Inr args \<and> map lt_Type (ba_LayerTypes args) = [''tar'']"
proof -
  have run: "beforeBuild sample_ctx (main_world ''/w'') = (Inr sample_ctx, main_world ''/w'')"
    by (simp add: beforeBuild_def validateBuildFailureFlags_def validateLayerTypeFlags_def sample_ctx_def io_simps)
  show ?thesis using accepted_build_flags [OF run, of sample_config] by (auto simp: sample_ctx_def)
qed

lemma chroot_without_directories_witness:
  "fst (doChroot sample_build sample_config ''/s.yaml'' [] [''a''] (start_world ''${{STACKER_OCI_DIR}}'')) =
     Inl (Errorf ''no value for substitution %s'' [''STACKER_OCI_DIR'']) \<and>
   is_ok (substitute ''${{STACKER_OCI_DIR}}'' (Substitutions sample_config))"
proof -
  let ?segs = "[Ph ''STACKER_OCI_DIR'' None]" and ?text = "''${{STACKER_OCI_DIR}}''"
  have storage: "NewStorage (be_oci sample_build) (be_lock sample_build) (ho_tmpdir (be_host sample_build)) sample_config (start_world ?text) =
      (Inr (NewOverlay sample_config, \<lparr>sl_stackerDir = Some 3, sl_rootsDir = Some 3\<rparr>), locked_world ?text)"
    using locked_storage by (simp add: sample_build_def sample_host_def)
  have stat: "os_Stat ''/s.yaml'' (locked_world ?text) = (Inr (File ''${{STACKER_OCI_DIR}}'' 420 (0, 0)), (locked_world ?text))" by code_simp
  have read: "os_ReadFile ''/s.yaml'' (locked_world ?text) = (Inr (render_all ?segs), (locked_world ?text))" by code_simp
  have scheme: "du_Scheme (dockerish ''/s.yaml'') = []" by (rule dockerish_no_scheme) (simp add: strings_Contains_def)
  have ok: "missing (dom (map_of [])) ?segs = [''STACKER_OCI_DIR'']" "''STACKER_OCI_DIR'' \<in> fst ` set (directory_subs sample_config)"
    "subs_ok ([] @ directory_subs sample_config)" "list_all (seg_ok (heads ([] @ directory_subs sample_config))) ?segs"
    by (simp_all add: directory_subs_def sample_config_def subs_ok_def name_ok_def literal_char_def)
  show ?thesis using chroot_without_directories [OF storage stat read scheme ok, of "[''a'']"]
    by (simp add: encode_def render_all_def)
qed

end
